(* ===== verification/Prelude.thy ===== *)
theory Prelude
  imports Main "HOL-Library.Word"
begin

text \<open>
  Shared vocabulary of the development: the C integer types of the x86-64 ABI as machine words, a
  byte-addressed memory with little-endian cells, C strings, and the collections the component
  proofs draw on.

  The interface \<open>cell_memory\<close> states what the components rely on when they read and write a cell of
  a fixed size (read-over-write at the same address, and framing at a disjoint one).  It is
  interpreted on the two cell sizes the program uses: 8 bytes (registers on the stack) and 4 bytes
  (a C \<open>int\<close>).
\<close>

unbundle bit_operations_syntax

named_theorems mem_simps \<open>reading a cell of a memory that was written\<close>
named_theorems layout_simps \<open>offsets of structure fields\<close>

section \<open>Tables of named constants\<close>

text \<open>Lookup in a table of \<open>#define\<close>s, evaluated from the front.\<close>

fun assoc :: "('a \<times> 'b) list \<Rightarrow> 'a \<Rightarrow> 'b option" where
  "assoc [] n = None"
| "assoc ((k, v) # rows) n = (if k = n then Some v else assoc rows n)"

lemma assoc_member: "assoc xs n = Some k \<Longrightarrow> (n, k) \<in> set xs"
  by (induction xs n rule: assoc.induct) (auto split: if_splits)

lemma assoc_map_of: "assoc rows = map_of rows"
proof
  fix n show "assoc rows n = map_of rows n"
    by (induction rows n rule: assoc.induct) auto
qed

section \<open>C integers\<close>

type_synonym u8 = "8 word"
type_synonym u16 = "16 word"
type_synonym u32 = "32 word"
type_synonym u64 = "64 word"

text \<open>
  A C \<open>int\<close> is the 32-bit word that represents it; \<open>sint\<close> reads its value.  A conversion between
  integer types of different width is \<open>ucast\<close> (from an unsigned type, or a truncation) or \<open>scast\<close>
  (from a signed type).
\<close>

type_synonym c_int = "32 word"

text \<open>A fault ends the execution: the model has no value to go on with.\<close>

datatype fault =
    Builtin_trap               \<comment> \<open>\<open>__builtin_trap()\<close>\<close>
  | Null_deref                 \<comment> \<open>a C lvalue at the null pointer\<close>
  | Array_bounds               \<comment> \<open>an element past the end of an array\<close>
  | Strcpy_overflow            \<comment> \<open>\<open>strcpy\<close> past the end of its destination\<close>
  | Memcpy_range               \<comment> \<open>\<open>memcpy\<close> of a negative length\<close>
  | Stack_misaligned           \<comment> \<open>a C function entered with a stack the ABI forbids\<close>
  | Wild_return                \<comment> \<open>a callee returns elsewhere than to its caller\<close>
  | Fell_off                   \<comment> \<open>the control runs past the last instruction\<close>
  | Wild_jump                  \<comment> \<open>a jump to an address where no symbol is\<close>
  | Unresolved_symbol string   \<comment> \<open>a branch to a symbol nothing defines\<close>

lemma not_sless_0_msb: "\<not> (w <s 0) \<longleftrightarrow> 0 \<le> sint (w :: 'a::len word)"
  by (auto simp: word_sless_alt)

lemma sless_0_iff: "w <s 0 \<longleftrightarrow> sint (w :: 'a::len word) < 0"
  by (simp add: word_sless_alt)

lemma ucast_scast_id: "ucast (scast (w :: c_int) :: u64) = w"
  by (rule bit_word_eqI) (simp add: bit_simps)

lemma sint_scast_int: "sint (scast (w :: c_int) :: u64) = sint w"
  by (simp add: sint_up_scast is_up)

lemma sint_nonneg_uint: "0 \<le> sint w \<Longrightarrow> sint w = uint (w :: 'a::len word)"
  using sint_lt [of w] by (simp add: uint_sint take_bit_int_eq_self power_strict_increasing
      order_less_le_trans [OF _ power_increasing])

text \<open>The signed value of a word in terms of its unsigned one.\<close>

lemma mod_shift:
  assumes "0 \<le> u" and "u < 2 * n"
  shows "(u + n) mod (2 * n) = (if u < n then u + n else u - (n :: int))"
proof (cases "u < n")
  case True
  then show ?thesis using assms by simp
next
  case False
  have "(u + n) mod (2 * n) = ((u - n) + 2 * n) mod (2 * n)" by (simp add: add.commute)
  also have "\<dots> = u - n" using False assms by (simp only: mod_add_self2) simp
  finally show ?thesis using False by simp
qed

lemma uint_nonneg: "0 \<le> uint (w :: 'a::len word)"
  by (rule unsigned_greater_eq)

lemma uint_int_lt: "uint (w :: c_int) < 2 ^ 32"
  using unsigned_less [of w] by simp

lemma uint_long_lt: "uint (w :: u64) < 2 ^ 64"
  using unsigned_less [of w] by simp

lemma sint_int_cases: "sint (w :: c_int) = (if uint w < 2 ^ 31 then uint w else uint w - 2 ^ 32)"
proof -
  have "uint w < 2 * 2 ^ 31" using uint_int_lt [of w] by simp
  moreover have "sint w = (uint w + 2 ^ 31) mod (2 * 2 ^ 31) - 2 ^ 31"
    by (simp add: sint_uint signed_take_bit_eq_take_bit_shift take_bit_eq_mod)
  ultimately show ?thesis by (simp only: mod_shift unsigned_greater_eq) simp
qed

lemma sint_long_cases: "sint (w :: u64) = (if uint w < 2 ^ 63 then uint w else uint w - 2 ^ 64)"
proof -
  have "uint w < 2 * 2 ^ 63" using uint_long_lt [of w] by simp
  moreover have "sint w = (uint w + 2 ^ 63) mod (2 * 2 ^ 63) - 2 ^ 63"
    by (simp add: sint_uint signed_take_bit_eq_take_bit_shift take_bit_eq_mod)
  ultimately show ?thesis by (simp only: mod_shift unsigned_greater_eq) simp
qed

lemma sless_0_int: "(w :: c_int) <s 0 \<longleftrightarrow> 2 ^ 31 \<le> uint w"
  using uint_int_lt [of w] by (auto simp: sless_0_iff sint_int_cases)

lemma sless_0_long: "(w :: u64) <s 0 \<longleftrightarrow> 2 ^ 63 \<le> uint w"
  using uint_long_lt [of w] by (auto simp: sless_0_iff sint_long_cases)

lemma uint_uminus_int: "w \<noteq> 0 \<Longrightarrow> uint (- w :: c_int) = 2 ^ 32 - uint w"
  using uint_int_lt [of w]
  by (simp add: uint_word_ariths zmod_zminus1_eq_if unsigned_eq_0_iff mod_pos_pos_trivial)

lemma scast_nonneg: "0 \<le> sint (w :: c_int) \<Longrightarrow> (scast w :: u64) = ucast w"
  by (simp add: scast_eq sint_nonneg_uint)

lemma unwrap_64_32:
  assumes "0 \<le> a" "a < 2 ^ 64" "0 \<le> u" "u < 2 ^ 32"
    and "(if a < 2 ^ 63 then a else a - 2 ^ 64) = (if u < 2 ^ 31 then u else u - (2 ^ 32 :: int))"
  shows "a = (if 2 ^ 31 \<le> u then u + (2 ^ 64 - 2 ^ 32) else u)"
  using assms by (simp split: if_splits)

lemma uint_scast_int:
  "uint (scast (w :: c_int) :: u64) = (if w <s 0 then uint w + (2 ^ 64 - 2 ^ 32) else uint w)"
  unfolding sless_0_int
proof (rule unwrap_64_32)
  show "(if uint (scast w :: u64) < 2 ^ 63 then uint (scast w :: u64)
      else uint (scast w :: u64) - 2 ^ 64) = (if uint w < 2 ^ 31 then uint w else uint w - 2 ^ 32)"
    using sint_scast_int [of w] by (simp only: sint_int_cases sint_long_cases)
qed (rule uint_nonneg uint_long_lt uint_int_lt)+

section \<open>Little-endian bytes\<close>

definition le_bytes :: "nat \<Rightarrow> 'a::len word \<Rightarrow> u8 list" where
  "le_bytes n w = map (\<lambda>i. ucast (drop_bit (8 * i) w)) [0..<n]"

fun le_word :: "u8 list \<Rightarrow> 'a::len word" where
  "le_word [] = 0"
| "le_word (b # bs) = ucast b OR push_bit 8 (le_word bs)"

lemma length_le_bytes [simp]: "length (le_bytes n w) = n"
  by (simp add: le_bytes_def)

lemma bit_le_word:
  "bit (le_word bs :: 'a::len word) i \<longleftrightarrow>
     i < LENGTH('a) \<and> i div 8 < length bs \<and> bit (bs ! (i div 8)) (i mod 8)"
proof (induction bs arbitrary: i)
  case Nil
  then show ?case by simp
next
  case (Cons b bs)
  show ?case
  proof (cases "i < 8")
    case True
    then show ?thesis by (auto simp: bit_simps)
  next
    case False
    then have "i div 8 = Suc ((i - 8) div 8)" and "(i - 8) mod 8 = i mod 8"
      by (simp_all add: le_div_geq le_mod_geq)
    moreover have "\<not> bit b i"
      using False by (auto dest: bit_imp_le_length)
    ultimately show ?thesis
      using False Cons.IH[of "i - 8"] by (auto simp: bit_simps)
  qed
qed

text \<open>Decoding the bytes of a word gives it back, whatever its width in bytes.\<close>

lemma le_word_le_bytes:
  assumes "LENGTH('a::len) \<le> 8 * n"
  shows "le_word (le_bytes n w) = (w :: 'a word)"
proof (rule bit_word_eqI)
  fix i
  assume i: "i < LENGTH('a)"
  then have "i div 8 < n" using assms by auto
  moreover have "8 * (i div 8) + i mod 8 = i" by simp
  moreover have "i mod 8 < 8" by simp
  ultimately show "bit (le_word (le_bytes n w) :: 'a word) i = bit w i"
    using i by (simp add: bit_le_word le_bytes_def bit_simps)
qed

section \<open>Byte-addressed memory\<close>

type_synonym memory = "u64 \<Rightarrow> u8"

text \<open>
  The bytes of a region are stored at once; an address belongs to the region at \<open>a\<close> of \<open>n\<close> bytes
  when its distance from \<open>a\<close>, which wraps around the address space, is below \<open>n\<close>.
\<close>

definition load_bytes :: "memory \<Rightarrow> u64 \<Rightarrow> nat \<Rightarrow> u8 list" where
  "load_bytes m a n = map (\<lambda>i. m (a + of_nat i)) [0..<n]"

definition store_bytes :: "memory \<Rightarrow> u64 \<Rightarrow> u8 list \<Rightarrow> memory" where
  "store_bytes m a bs = (\<lambda>x. if unat (x - a) < length bs then bs ! unat (x - a) else m x)"

abbreviation in_region :: "u64 \<Rightarrow> nat \<Rightarrow> u64 \<Rightarrow> bool" where
  "in_region a n x \<equiv> unat (x - a) < n"

text \<open>Two regions are disjoint when neither start lies in the other region.\<close>

definition disjoint_regions :: "u64 \<Rightarrow> nat \<Rightarrow> u64 \<Rightarrow> nat \<Rightarrow> bool" where
  "disjoint_regions a n b k \<longleftrightarrow> n \<le> unat (b - a) \<and> k \<le> unat (a - b)"

lemma disjoint_regions_sym: "disjoint_regions a n b k \<longleftrightarrow> disjoint_regions b k a n"
  by (auto simp: disjoint_regions_def)

lemma length_load_bytes [simp]: "length (load_bytes m a n) = n"
  by (simp add: load_bytes_def)

lemma nth_load_bytes [simp]: "i < n \<Longrightarrow> load_bytes m a n ! i = m (a + of_nat i)"
  by (simp add: load_bytes_def)

lemma store_bytes_Nil [simp]: "store_bytes m a [] = m"
  by (simp add: store_bytes_def)

lemma store_bytes_outside: "\<not> in_region a (length bs) x \<Longrightarrow> store_bytes m a bs x = m x"
  by (simp add: store_bytes_def)

lemma unat_of_nat_lt: "i < n \<Longrightarrow> n \<le> 2 ^ 64 \<Longrightarrow> unat (of_nat i :: u64) = i"
  by (simp add: unsigned_of_nat take_bit_nat_eq_self)

lemma load_store_same:
  assumes "length bs \<le> 2 ^ 64"
  shows "load_bytes (store_bytes m a bs) a (length bs) = bs"
  by (rule nth_equalityI) (use assms in \<open>simp_all add: store_bytes_def unat_of_nat_lt\<close>)

lemma disjoint_outside:
  assumes "disjoint_regions a n b k" and "i < k"
  shows "\<not> in_region a n (b + of_nat i)"
proof -
  have split: "b + of_nat i - a = (b - a) + of_nat i" by simp
  have k: "k \<le> unat (a - b)" and n: "n \<le> unat (b - a)"
    using assms(1) by (simp_all add: disjoint_regions_def)
  have bound: "unat (a - b) < 2 ^ 64"
    using unsigned_less [of "a - b"] by simp
  have i: "unat (of_nat i :: u64) = i"
    using assms(2) k bound by (intro unat_of_nat_lt [of _ k]) auto
  have "a \<noteq> b" using assms(2) k by auto
  moreover have "unat a < 2 ^ 64" and "unat b < 2 ^ 64"
    using unsigned_less [of a] unsigned_less [of b] by simp_all
  ultimately have "unat (b - a) = 2 ^ 64 - unat (a - b)"
    using word_unat_eq_iff [of a b] by (auto simp: unat_sub_if')
  then have "unat (b - a) + i < 2 ^ 64"
    using assms(2) k bound by linarith
  then have "unat ((b - a) + of_nat i) = unat (b - a) + i"
    using i by (simp add: unat_add_lem [THEN iffD1])
  then show ?thesis using n unfolding split by simp
qed

lemma load_store_disjoint:
  assumes "disjoint_regions a (length bs) b n"
  shows "load_bytes (store_bytes m a bs) b n = load_bytes m b n"
  by (rule nth_equalityI) (simp_all add: store_bytes_outside disjoint_outside [OF assms])

lemma load_bytes_cong:
  "(\<And>i. i < n \<Longrightarrow> m (a + of_nat i) = m' (a + of_nat i)) \<Longrightarrow> load_bytes m a n = load_bytes m' a n"
  by (rule nth_equalityI) simp_all

lemma in_region_1: "in_region a (Suc 0) x \<longleftrightarrow> x = a"
  by (simp add: unat_eq_zero)

lemma of_nat_64_eq: "i < 2 ^ 64 \<Longrightarrow> j < 2 ^ 64 \<Longrightarrow> of_nat i = (of_nat j :: u64) \<longleftrightarrow> i = j"
  using unat_of_nat_lt [of i "2 ^ 64"] unat_of_nat_lt [of j "2 ^ 64"]
  by (metis order_refl)

lemma store_bytes_single: "store_bytes m a [b] = m(a := b)"
  by (rule ext) (simp add: store_bytes_def unat_eq_zero)

lemma store_bytes_Cons: "store_bytes m a (b # bs) = (store_bytes m (a + 1) bs)(a := b)"
proof (rule ext, goal_cases)
  case (1 x)
  show ?case
  proof (cases "x = a")
    case True
    then show ?thesis by (simp add: store_bytes_def)
  next
    case False
    define d where "d = x - a"
    have "d \<noteq> 0" using False by (simp add: d_def)
    then have suc: "unat d = Suc (unat (d - 1))"
      by (simp add: unat_minus_one unat_gt_0)
    have next_byte: "x - (a + 1) = d - 1" by (simp add: d_def)
    show ?thesis
      unfolding store_bytes_def fun_upd_other [OF False] next_byte d_def [symmetric] suc
      by simp
  qed
qed

section \<open>Cells: the interface of a fixed-size object in memory\<close>

locale cell_memory =
  fixes ld :: "memory \<Rightarrow> u64 \<Rightarrow> 'v"
    and st :: "memory \<Rightarrow> u64 \<Rightarrow> 'v \<Rightarrow> memory"
    and sz :: nat
  assumes ld_st_same: "ld (st m a v) a = v"
    and ld_frame: "(\<And>i. i < sz \<Longrightarrow> m (b + of_nat i) = m' (b + of_nat i)) \<Longrightarrow> ld m b = ld m' b"
    and st_outside: "\<not> in_region a sz x \<Longrightarrow> st m a v x = m x"
begin

lemma ld_st_disjoint:
  assumes "disjoint_regions a sz b sz"
  shows "ld (st m a v) b = ld m b"
  by (rule ld_frame) (simp add: st_outside disjoint_outside [OF assms])

lemma ld_other_region:
  assumes "\<And>x. \<not> in_region a n x \<Longrightarrow> m' x = m x" and "disjoint_regions a n b sz"
  shows "ld m' b = ld m b"
  by (rule ld_frame) (simp add: assms(1) disjoint_outside [OF assms(2)])

text \<open>Two fields of one structure.\<close>

lemma ld_st_field:
  "sz \<le> unat (j - i) \<Longrightarrow> sz \<le> unat (i - j) \<Longrightarrow> ld (st m (base + i) v) (base + j) = ld m (base + j)"
  by (rule ld_st_disjoint) (simp add: disjoint_regions_def)

text \<open>The same at fixed offsets below a common base, as the cells of a stack frame are.\<close>

lemma ld_st_below_base:
  "sz \<le> unat (i - j) \<Longrightarrow> sz \<le> unat (j - i) \<Longrightarrow> ld (st m (base - i) v) (base - j) = ld m (base - j)"
  by (rule ld_st_disjoint) (simp add: disjoint_regions_def)

lemma ld_st_at_base:
  "sz \<le> unat (- j) \<Longrightarrow> sz \<le> unat j \<Longrightarrow> ld (st m (base - j) v) base = ld m base"
  by (rule ld_st_disjoint) (simp add: disjoint_regions_def)

lemma ld_st_above_base:
  "sz \<le> unat (i + j) \<Longrightarrow> sz \<le> unat (- i - j) \<Longrightarrow>
   ld (st m (base - i) v) (base + j) = ld m (base + j)"
  by (rule ld_st_disjoint) (simp add: disjoint_regions_def algebra_simps)

end

definition load64 :: "memory \<Rightarrow> u64 \<Rightarrow> u64" where
  "load64 m a = le_word (load_bytes m a 8)"

definition store64 :: "memory \<Rightarrow> u64 \<Rightarrow> u64 \<Rightarrow> memory" where
  "store64 m a v = store_bytes m a (le_bytes 8 v)"

definition load32 :: "memory \<Rightarrow> u64 \<Rightarrow> c_int" where
  "load32 m a = le_word (load_bytes m a 4)"

definition store32 :: "memory \<Rightarrow> u64 \<Rightarrow> c_int \<Rightarrow> memory" where
  "store32 m a v = store_bytes m a (le_bytes 4 v)"

interpretation q: cell_memory load64 store64 8
proof
  fix m :: memory and a v :: u64
  show "load64 (store64 m a v) a = v"
    using load_store_same [of "le_bytes 8 v" m a]
    by (simp add: load64_def store64_def le_word_le_bytes)
qed (simp_all add: load64_def store64_def store_bytes_outside cong: load_bytes_cong)

interpretation d: cell_memory load32 store32 4
proof
  fix m :: memory and a :: u64 and v :: c_int
  show "load32 (store32 m a v) a = v"
    using load_store_same [of "le_bytes 4 v" m a]
    by (simp add: load32_def store32_def le_word_le_bytes)
qed (simp_all add: load32_def store32_def store_bytes_outside cong: load_bytes_cong)

lemmas cell_simps = q.ld_st_same d.ld_st_same q.ld_st_below_base d.ld_st_below_base
  q.ld_st_at_base d.ld_st_at_base q.ld_st_above_base d.ld_st_above_base

declare cell_simps [mem_simps]

section \<open>C strings\<close>

text \<open>
  \<open>c_string m p n\<close> reads the NUL-terminated string at \<open>p\<close> as \<open>strcpy\<close> does, giving up when none of
  the first \<open>n\<close> bytes is the terminator.  The value is the string without its terminator.
\<close>

fun c_string :: "memory \<Rightarrow> u64 \<Rightarrow> nat \<Rightarrow> u8 list option" where
  "c_string m p 0 = None"
| "c_string m p (Suc n) =
     (if m p = 0 then Some []
      else case c_string m (p + 1) n of None \<Rightarrow> None | Some s \<Rightarrow> Some (m p # s))"

text \<open>\<open>strncpy (dst, src, n)\<close> writes exactly \<open>n\<close> bytes: the string, cut at \<open>n\<close>, then zeros.\<close>

definition strncpy_bytes :: "nat \<Rightarrow> u8 list \<Rightarrow> u8 list" where
  "strncpy_bytes n s = take n (s @ replicate n 0)"

lemma length_strncpy_bytes [simp]: "length (strncpy_bytes n s) = n"
  by (simp add: strncpy_bytes_def)

lemma c_string_Some:
  "c_string m p n = Some s \<Longrightarrow>
     length s < n \<and> 0 \<notin> set s \<and> (\<forall>i < length s. m (p + of_nat i) = s ! i) \<and>
     m (p + of_nat (length s)) = 0"
proof (induction m p n arbitrary: s rule: c_string.induct)
  case (2 m p n)
  show ?case
  proof (cases "m p = 0")
    case True
    with "2.prems" show ?thesis by auto
  next
    case False
    with "2.prems" obtain t where t: "c_string m (p + 1) n = Some t" and s: "s = m p # t"
      by (auto split: option.splits)
    from "2.IH" [OF False t] False s show ?thesis
      by (simp add: All_less_Suc2 add.assoc [symmetric])
  qed
qed simp

lemma c_string_intro:
  "0 \<notin> set s \<Longrightarrow> length s < n \<Longrightarrow> (\<And>i. i < length s \<Longrightarrow> m (p + of_nat i) = s ! i) \<Longrightarrow>
   m (p + of_nat (length s)) = 0 \<Longrightarrow> c_string m p n = Some s"
proof (induction s arbitrary: p n)
  case Nil
  then show ?case by (cases n) auto
next
  case (Cons b s)
  from Cons.prems(2) obtain k where n: "n = Suc k" by (cases n) auto
  have "c_string m (p + 1) k = Some s"
  proof (rule Cons.IH)
    show "m (p + 1 + of_nat i) = s ! i" if "i < length s" for i
      using Cons.prems(3) [of "Suc i"] that by (simp add: add.assoc [symmetric])
  qed (use Cons.prems n in \<open>simp_all add: add.assoc [symmetric]\<close>)
  moreover have "m p = b"
    using Cons.prems(3) [of 0] by simp
  ultimately show ?case
    using Cons.prems(1) n by auto
qed

lemma load_pair:
  "load32 (store32 (store32 m p a) (p + 4) b) p = a"
  "load32 (store32 (store32 m p a) (p + 4) b) (p + 4) = b"
  using d.ld_st_field [of 0 4 "store32 m p a" p b] by (simp_all add: d.ld_st_same)

end
