(* ===== verification/Errno.thy ===== *)
theory Errno
  imports Prelude
begin

text \<open>
  The errno translation of \<open>src/conversion/errno.c\<close>, with the Linux numbers of
  \<open>include/conversion/duct_errno.h\<close>.

  The names on the right of the table come from the host's \<open><sys/errno.h>\<close>, which is not part of the
  repository: \<open>he\<close>, the map of errno names to numbers of that header, is a parameter.  Two headers
  the program is built against are given as instances, the one of macOS and the one of Linux.
\<close>

unbundle bit_operations_syntax

type_synonym errno_header = "string \<Rightarrow> nat"

section \<open>The Linux numbers\<close>

definition LINUX_EPERM :: nat where [simp]: "LINUX_EPERM = 1"
definition LINUX_ENOENT :: nat where [simp]: "LINUX_ENOENT = 2"
definition LINUX_ESRCH :: nat where [simp]: "LINUX_ESRCH = 3"
definition LINUX_EINTR :: nat where [simp]: "LINUX_EINTR = 4"
definition LINUX_EIO :: nat where [simp]: "LINUX_EIO = 5"
definition LINUX_ENXIO :: nat where [simp]: "LINUX_ENXIO = 6"
definition LINUX_ENOEXEC :: nat where [simp]: "LINUX_ENOEXEC = 8"
definition LINUX_EBADF :: nat where [simp]: "LINUX_EBADF = 9"
definition LINUX_ECHILD :: nat where [simp]: "LINUX_ECHILD = 10"
definition LINUX_EAGAIN :: nat where [simp]: "LINUX_EAGAIN = 11"
definition LINUX_ENOMEM :: nat where [simp]: "LINUX_ENOMEM = 12"
definition LINUX_EACCES :: nat where [simp]: "LINUX_EACCES = 13"
definition LINUX_EFAULT :: nat where [simp]: "LINUX_EFAULT = 14"
definition LINUX_ENOTBLK :: nat where [simp]: "LINUX_ENOTBLK = 15"
definition LINUX_EBUSY :: nat where [simp]: "LINUX_EBUSY = 16"
definition LINUX_EEXIST :: nat where [simp]: "LINUX_EEXIST = 17"
definition LINUX_EXDEV :: nat where [simp]: "LINUX_EXDEV = 18"
definition LINUX_ENODEV :: nat where [simp]: "LINUX_ENODEV = 19"
definition LINUX_ENOTDIR :: nat where [simp]: "LINUX_ENOTDIR = 20"
definition LINUX_EISDIR :: nat where [simp]: "LINUX_EISDIR = 21"
definition LINUX_EINVAL :: nat where [simp]: "LINUX_EINVAL = 22"
definition LINUX_ENFILE :: nat where [simp]: "LINUX_ENFILE = 23"
definition LINUX_EMFILE :: nat where [simp]: "LINUX_EMFILE = 24"
definition LINUX_ENOTTY :: nat where [simp]: "LINUX_ENOTTY = 25"
definition LINUX_ETXTBSY :: nat where [simp]: "LINUX_ETXTBSY = 26"
definition LINUX_EFBIG :: nat where [simp]: "LINUX_EFBIG = 27"
definition LINUX_ENOSPC :: nat where [simp]: "LINUX_ENOSPC = 28"
definition LINUX_ESPIPE :: nat where [simp]: "LINUX_ESPIPE = 29"
definition LINUX_EROFS :: nat where [simp]: "LINUX_EROFS = 30"
definition LINUX_EMLINK :: nat where [simp]: "LINUX_EMLINK = 31"
definition LINUX_EPIPE :: nat where [simp]: "LINUX_EPIPE = 32"
definition LINUX_EDOM :: nat where [simp]: "LINUX_EDOM = 33"
definition LINUX_ERANGE :: nat where [simp]: "LINUX_ERANGE = 34"
definition LINUX_EDEADLK :: nat where [simp]: "LINUX_EDEADLK = 35"
definition LINUX_ENAMETOOLONG :: nat where [simp]: "LINUX_ENAMETOOLONG = 36"
definition LINUX_ENOLCK :: nat where [simp]: "LINUX_ENOLCK = 37"
definition LINUX_ENOSYS :: nat where [simp]: "LINUX_ENOSYS = 38"
definition LINUX_ENOTEMPTY :: nat where [simp]: "LINUX_ENOTEMPTY = 39"
definition LINUX_ELOOP :: nat where [simp]: "LINUX_ELOOP = 40"
definition LINUX_ENOMSG :: nat where [simp]: "LINUX_ENOMSG = 42"
definition LINUX_EIDRM :: nat where [simp]: "LINUX_EIDRM = 43"
definition LINUX_ECHRNG :: nat where [simp]: "LINUX_ECHRNG = 44"
definition LINUX_ELNRNG :: nat where [simp]: "LINUX_ELNRNG = 48"
definition LINUX_EUNATCH :: nat where [simp]: "LINUX_EUNATCH = 49"
definition LINUX_ENOCSI :: nat where [simp]: "LINUX_ENOCSI = 50"
definition LINUX_EBADE :: nat where [simp]: "LINUX_EBADE = 52"
definition LINUX_EBADR :: nat where [simp]: "LINUX_EBADR = 53"
definition LINUX_EXFULL :: nat where [simp]: "LINUX_EXFULL = 54"
definition LINUX_ENOANO :: nat where [simp]: "LINUX_ENOANO = 55"
definition LINUX_EBADRQC :: nat where [simp]: "LINUX_EBADRQC = 56"
definition LINUX_EBADSLT :: nat where [simp]: "LINUX_EBADSLT = 57"
definition LINUX_EBFONT :: nat where [simp]: "LINUX_EBFONT = 59"
definition LINUX_ENOSTR :: nat where [simp]: "LINUX_ENOSTR = 60"
definition LINUX_ENODATA :: nat where [simp]: "LINUX_ENODATA = 61"
definition LINUX_ETIME :: nat where [simp]: "LINUX_ETIME = 62"
definition LINUX_ENOSR :: nat where [simp]: "LINUX_ENOSR = 63"
definition LINUX_ENONET :: nat where [simp]: "LINUX_ENONET = 64"
definition LINUX_ENOPKG :: nat where [simp]: "LINUX_ENOPKG = 65"
definition LINUX_EREMOTE :: nat where [simp]: "LINUX_EREMOTE = 66"
definition LINUX_ENOLINK :: nat where [simp]: "LINUX_ENOLINK = 67"
definition LINUX_EADV :: nat where [simp]: "LINUX_EADV = 68"
definition LINUX_ESRMNT :: nat where [simp]: "LINUX_ESRMNT = 69"
definition LINUX_ECOMM :: nat where [simp]: "LINUX_ECOMM = 70"
definition LINUX_EPROTO :: nat where [simp]: "LINUX_EPROTO = 71"
definition LINUX_EMULTIHOP :: nat where [simp]: "LINUX_EMULTIHOP = 72"
definition LINUX_EDOTDOT :: nat where [simp]: "LINUX_EDOTDOT = 73"
definition LINUX_EBADMSG :: nat where [simp]: "LINUX_EBADMSG = 74"
definition LINUX_EOVERFLOW :: nat where [simp]: "LINUX_EOVERFLOW = 75"
definition LINUX_ENOTUNIQ :: nat where [simp]: "LINUX_ENOTUNIQ = 76"
definition LINUX_EBADFD :: nat where [simp]: "LINUX_EBADFD = 77"
definition LINUX_EREMCHG :: nat where [simp]: "LINUX_EREMCHG = 78"
definition LINUX_ELIBACC :: nat where [simp]: "LINUX_ELIBACC = 79"
definition LINUX_ELIBBAD :: nat where [simp]: "LINUX_ELIBBAD = 80"
definition LINUX_ELIBSCN :: nat where [simp]: "LINUX_ELIBSCN = 81"
definition LINUX_ELIBMAX :: nat where [simp]: "LINUX_ELIBMAX = 82"
definition LINUX_ELIBEXEC :: nat where [simp]: "LINUX_ELIBEXEC = 83"
definition LINUX_EILSEQ :: nat where [simp]: "LINUX_EILSEQ = 84"
definition LINUX_ERESTART :: nat where [simp]: "LINUX_ERESTART = 85"
definition LINUX_ESTRPIPE :: nat where [simp]: "LINUX_ESTRPIPE = 86"
definition LINUX_EUSERS :: nat where [simp]: "LINUX_EUSERS = 87"
definition LINUX_ENOTSOCK :: nat where [simp]: "LINUX_ENOTSOCK = 88"
definition LINUX_EDESTADDRREQ :: nat where [simp]: "LINUX_EDESTADDRREQ = 89"
definition LINUX_EMSGSIZE :: nat where [simp]: "LINUX_EMSGSIZE = 90"
definition LINUX_EPROTOTYPE :: nat where [simp]: "LINUX_EPROTOTYPE = 91"
definition LINUX_ENOPROTOOPT :: nat where [simp]: "LINUX_ENOPROTOOPT = 92"
definition LINUX_EPROTONOSUPPORT :: nat where [simp]: "LINUX_EPROTONOSUPPORT = 93"
definition LINUX_ESOCKTNOSUPPORT :: nat where [simp]: "LINUX_ESOCKTNOSUPPORT = 94"
definition LINUX_EOPNOTSUPP :: nat where [simp]: "LINUX_EOPNOTSUPP = 95"
definition LINUX_EPFNOSUPPORT :: nat where [simp]: "LINUX_EPFNOSUPPORT = 96"
definition LINUX_EAFNOSUPPORT :: nat where [simp]: "LINUX_EAFNOSUPPORT = 97"
definition LINUX_EADDRINUSE :: nat where [simp]: "LINUX_EADDRINUSE = 98"
definition LINUX_EADDRNOTAVAIL :: nat where [simp]: "LINUX_EADDRNOTAVAIL = 99"
definition LINUX_ENETDOWN :: nat where [simp]: "LINUX_ENETDOWN = 100"
definition LINUX_ENETUNREACH :: nat where [simp]: "LINUX_ENETUNREACH = 101"
definition LINUX_ENETRESET :: nat where [simp]: "LINUX_ENETRESET = 102"
definition LINUX_ECONNABORTED :: nat where [simp]: "LINUX_ECONNABORTED = 103"
definition LINUX_ECONNRESET :: nat where [simp]: "LINUX_ECONNRESET = 104"
definition LINUX_ENOBUFS :: nat where [simp]: "LINUX_ENOBUFS = 105"
definition LINUX_EISCONN :: nat where [simp]: "LINUX_EISCONN = 106"
definition LINUX_ENOTCONN :: nat where [simp]: "LINUX_ENOTCONN = 107"
definition LINUX_ESHUTDOWN :: nat where [simp]: "LINUX_ESHUTDOWN = 108"
definition LINUX_ETOOMANYREFS :: nat where [simp]: "LINUX_ETOOMANYREFS = 109"
definition LINUX_ETIMEDOUT :: nat where [simp]: "LINUX_ETIMEDOUT = 110"
definition LINUX_ECONNREFUSED :: nat where [simp]: "LINUX_ECONNREFUSED = 111"
definition LINUX_EHOSTDOWN :: nat where [simp]: "LINUX_EHOSTDOWN = 112"
definition LINUX_EHOSTUNREACH :: nat where [simp]: "LINUX_EHOSTUNREACH = 113"
definition LINUX_EALREADY :: nat where [simp]: "LINUX_EALREADY = 114"
definition LINUX_EINPROGRESS :: nat where [simp]: "LINUX_EINPROGRESS = 115"
definition LINUX_ESTALE :: nat where [simp]: "LINUX_ESTALE = 116"
definition LINUX_EUCLEAN :: nat where [simp]: "LINUX_EUCLEAN = 117"
definition LINUX_ENOTNAM :: nat where [simp]: "LINUX_ENOTNAM = 118"
definition LINUX_ENAVAIL :: nat where [simp]: "LINUX_ENAVAIL = 119"
definition LINUX_EISNAM :: nat where [simp]: "LINUX_EISNAM = 120"
definition LINUX_EREMOTEIO :: nat where [simp]: "LINUX_EREMOTEIO = 121"
definition LINUX_EDQUOT :: nat where [simp]: "LINUX_EDQUOT = 122"
definition LINUX_ENOMEDIUM :: nat where [simp]: "LINUX_ENOMEDIUM = 123"
definition LINUX_EMEDIUMTYPE :: nat where [simp]: "LINUX_EMEDIUMTYPE = 124"
definition LINUX_ECANCELED :: nat where [simp]: "LINUX_ECANCELED = 125"
definition LINUX_ENOKEY :: nat where [simp]: "LINUX_ENOKEY = 126"
definition LINUX_EKEYEXPIRED :: nat where [simp]: "LINUX_EKEYEXPIRED = 127"
definition LINUX_EKEYREVOKED :: nat where [simp]: "LINUX_EKEYREVOKED = 128"
definition LINUX_EKEYREJECTED :: nat where [simp]: "LINUX_EKEYREJECTED = 129"
definition LINUX_EOWNERDEAD :: nat where [simp]: "LINUX_EOWNERDEAD = 130"
definition LINUX_ENOTRECOVERABLE :: nat where [simp]: "LINUX_ENOTRECOVERABLE = 131"
definition LINUX_ERFKILL :: nat where [simp]: "LINUX_ERFKILL = 132"
definition LINUX_EHWPOISON :: nat where [simp]: "LINUX_EHWPOISON = 133"

text \<open>\<open>LINUX_ENOTSUP\<close> is defined by a name of the host's header, not by a number.\<close>

definition LINUX_ENOTSUP :: "errno_header \<Rightarrow> nat" where [simp]: "LINUX_ENOTSUP he = he ''EOPNOTSUPP''"

section \<open>The table\<close>

text \<open>The designated initialisers of the array, in the order of the source.\<close>

definition table_before_ENOTSUP :: "(nat \<times> string) list" where
  "table_before_ENOTSUP = [
    (LINUX_EPERM, ''EPERM''), (LINUX_ENOENT, ''ENOENT''), (LINUX_ESRCH, ''ESRCH''),
    (LINUX_EINTR, ''EINTR''), (LINUX_EIO, ''EIO''), (LINUX_ENXIO, ''ENXIO''),
    (LINUX_ENOEXEC, ''ENOEXEC''), (LINUX_EBADF, ''EBADF''), (LINUX_ECHILD, ''ECHILD''),
    (LINUX_EDEADLK, ''EDEADLK''), (LINUX_ENOMEM, ''ENOMEM''), (LINUX_EACCES, ''EACCES''),
    (LINUX_EFAULT, ''EFAULT''), (LINUX_ENOTBLK, ''ENOTBLK''), (LINUX_EBUSY, ''EBUSY''),
    (LINUX_EEXIST, ''EEXIST''), (LINUX_EXDEV, ''EXDEV''), (LINUX_ENODEV, ''ENODEV''),
    (LINUX_ENOTDIR, ''ENOTDIR''), (LINUX_EISDIR, ''EISDIR''), (LINUX_EINVAL, ''EINVAL''),
    (LINUX_ENFILE, ''ENFILE''), (LINUX_EMFILE, ''EMFILE''), (LINUX_ENOTTY, ''ENOTTY''),
    (LINUX_ETXTBSY, ''ETXTBSY''), (LINUX_EFBIG, ''EFBIG''), (LINUX_ENOSPC, ''ENOSPC''),
    (LINUX_ESPIPE, ''ESPIPE''), (LINUX_EROFS, ''EROFS''), (LINUX_EMLINK, ''EMLINK''),
    (LINUX_EPIPE, ''EPIPE''), (LINUX_EDOM, ''EDOM''), (LINUX_ERANGE, ''ERANGE''),
    (LINUX_EAGAIN, ''EAGAIN''), (LINUX_EINPROGRESS, ''EINPROGRESS''),
    (LINUX_EALREADY, ''EALREADY''), (LINUX_ENOTSOCK, ''ENOTSOCK''),
    (LINUX_EDESTADDRREQ, ''EDESTADDRREQ''), (LINUX_EMSGSIZE, ''EMSGSIZE''),
    (LINUX_EPROTOTYPE, ''EPROTOTYPE''), (LINUX_ENOPROTOOPT, ''ENOPROTOOPT''),
    (LINUX_EPROTONOSUPPORT, ''EPROTONOSUPPORT''), (LINUX_ESOCKTNOSUPPORT, ''ESOCKTNOSUPPORT'')]"

definition table_after_ENOTSUP :: "(nat \<times> string) list" where
  "table_after_ENOTSUP = [
    (LINUX_EPFNOSUPPORT, ''EPFNOSUPPORT''), (LINUX_EAFNOSUPPORT, ''EAFNOSUPPORT''),
    (LINUX_EADDRINUSE, ''EADDRINUSE''), (LINUX_EADDRNOTAVAIL, ''EADDRNOTAVAIL''),
    (LINUX_ENETDOWN, ''ENETDOWN''), (LINUX_ENETUNREACH, ''ENETUNREACH''),
    (LINUX_ENETRESET, ''ENETRESET''), (LINUX_ECONNABORTED, ''ECONNABORTED''),
    (LINUX_ECONNRESET, ''ECONNRESET''), (LINUX_ENOBUFS, ''ENOBUFS''),
    (LINUX_EISCONN, ''EISCONN''), (LINUX_ENOTCONN, ''ENOTCONN''),
    (LINUX_ESHUTDOWN, ''ESHUTDOWN''), (LINUX_ETOOMANYREFS, ''ETOOMANYREFS''),
    (LINUX_ETIMEDOUT, ''ETIMEDOUT''), (LINUX_ECONNREFUSED, ''ECONNREFUSED''),
    (LINUX_ELOOP, ''ELOOP''), (LINUX_ENAMETOOLONG, ''ENAMETOOLONG''),
    (LINUX_EHOSTDOWN, ''EHOSTDOWN''), (LINUX_EHOSTUNREACH, ''EHOSTUNREACH''),
    (LINUX_ENOTEMPTY, ''ENOTEMPTY''), (LINUX_EUSERS, ''EUSERS''), (LINUX_EDQUOT, ''EDQUOT''),
    (LINUX_ESTALE, ''ESTALE''), (LINUX_EREMOTE, ''EREMOTE''), (LINUX_ENOLCK, ''ENOLCK''),
    (LINUX_ENOSYS, ''ENOSYS''), (LINUX_EOVERFLOW, ''EOVERFLOW''),
    (LINUX_ECANCELED, ''ECANCELED''), (LINUX_EIDRM, ''EIDRM''), (LINUX_ENOMSG, ''ENOMSG''),
    (LINUX_EILSEQ, ''EILSEQ''), (LINUX_EBADMSG, ''EBADMSG''), (LINUX_EMULTIHOP, ''EMULTIHOP''),
    (LINUX_ENODATA, ''ENODATA''), (LINUX_ENOLINK, ''ENOLINK''), (LINUX_ENOSR, ''ENOSR''),
    (LINUX_ENOSTR, ''ENOSTR''), (LINUX_EPROTO, ''EPROTO''), (LINUX_ETIME, ''ETIME''),
    (LINUX_EOPNOTSUPP, ''EOPNOTSUPP'')]"

definition linux_to_darwin_init :: "errno_header \<Rightarrow> (nat \<times> string) list" where
  "linux_to_darwin_init he =
     table_before_ENOTSUP @ [(LINUX_ENOTSUP he, ''ENOTSUP'')] @ table_after_ENOTSUP"

definition length_of_translation_array :: nat where
  "length_of_translation_array = 512"

text \<open>
  Elements without an initialiser are 0; of two initialisers for one element the later one wins.
\<close>

fun initialise :: "errno_header \<Rightarrow> (nat \<times> string) list \<Rightarrow> c_int list \<Rightarrow> c_int list" where
  "initialise he [] t = t"
| "initialise he ((i, n) # inits) t = initialise he inits (t[i := of_nat (he n)])"

definition linux_to_darwin :: "errno_header \<Rightarrow> c_int list" where
  "linux_to_darwin he =
     initialise he (linux_to_darwin_init he) (replicate length_of_translation_array 0)"

section \<open>The translation\<close>

text \<open>
  \<open>v < length_of_translation_array\<close> compares an \<open>int\<close> with a \<open>size_t\<close>: \<open>v\<close> is converted, so a
  negative \<open>v\<close> (which \<open>v = -v\<close> leaves for the least \<open>int\<close>) is a huge unsigned value.
\<close>

definition errno_linux_to_bsd :: "errno_header \<Rightarrow> c_int \<Rightarrow> c_int" where
  "errno_linux_to_bsd he err =
     (let v = (if err <s 0 then - err else err) in
      if (scast v :: u64) < of_nat length_of_translation_array
         \<and> linux_to_darwin he ! unat v \<noteq> 0
      then (let v' = linux_to_darwin he ! unat v in if err <s 0 then - v' else v')
      else err)"

section \<open>The headers of the two hosts\<close>

definition darwin_errno_h :: "(string \<times> nat) list" where
  "darwin_errno_h = [
    (''EPERM'', 1), (''ENOENT'', 2), (''ESRCH'', 3), (''EINTR'', 4), (''EIO'', 5),
    (''ENXIO'', 6), (''ENOEXEC'', 8), (''EBADF'', 9), (''ECHILD'', 10), (''EDEADLK'', 11),
    (''ENOMEM'', 12), (''EACCES'', 13), (''EFAULT'', 14), (''ENOTBLK'', 15), (''EBUSY'', 16),
    (''EEXIST'', 17), (''EXDEV'', 18), (''ENODEV'', 19), (''ENOTDIR'', 20), (''EISDIR'', 21),
    (''EINVAL'', 22), (''ENFILE'', 23), (''EMFILE'', 24), (''ENOTTY'', 25), (''ETXTBSY'', 26),
    (''EFBIG'', 27), (''ENOSPC'', 28), (''ESPIPE'', 29), (''EROFS'', 30), (''EMLINK'', 31),
    (''EPIPE'', 32), (''EDOM'', 33), (''ERANGE'', 34), (''EAGAIN'', 35), (''EINPROGRESS'', 36),
    (''EALREADY'', 37), (''ENOTSOCK'', 38), (''EDESTADDRREQ'', 39), (''EMSGSIZE'', 40),
    (''EPROTOTYPE'', 41), (''ENOPROTOOPT'', 42), (''EPROTONOSUPPORT'', 43),
    (''ESOCKTNOSUPPORT'', 44), (''ENOTSUP'', 45), (''EPFNOSUPPORT'', 46),
    (''EAFNOSUPPORT'', 47), (''EADDRINUSE'', 48), (''EADDRNOTAVAIL'', 49), (''ENETDOWN'', 50),
    (''ENETUNREACH'', 51), (''ENETRESET'', 52), (''ECONNABORTED'', 53), (''ECONNRESET'', 54),
    (''ENOBUFS'', 55), (''EISCONN'', 56), (''ENOTCONN'', 57), (''ESHUTDOWN'', 58),
    (''ETOOMANYREFS'', 59), (''ETIMEDOUT'', 60), (''ECONNREFUSED'', 61), (''ELOOP'', 62),
    (''ENAMETOOLONG'', 63), (''EHOSTDOWN'', 64), (''EHOSTUNREACH'', 65), (''ENOTEMPTY'', 66),
    (''EUSERS'', 68), (''EDQUOT'', 69), (''ESTALE'', 70), (''EREMOTE'', 71), (''ENOLCK'', 77),
    (''ENOSYS'', 78), (''EOVERFLOW'', 84), (''ECANCELED'', 89), (''EIDRM'', 90),
    (''ENOMSG'', 91), (''EILSEQ'', 92), (''EBADMSG'', 94), (''EMULTIHOP'', 95),
    (''ENODATA'', 96), (''ENOLINK'', 97), (''ENOSR'', 98), (''ENOSTR'', 99), (''EPROTO'', 100),
    (''ETIME'', 101), (''EOPNOTSUPP'', 102)]"

definition linux_errno_h :: "(string \<times> nat) list" where
  "linux_errno_h = [
    (''EPERM'', 1), (''ENOENT'', 2), (''ESRCH'', 3), (''EINTR'', 4), (''EIO'', 5),
    (''ENXIO'', 6), (''ENOEXEC'', 8), (''EBADF'', 9), (''ECHILD'', 10), (''EDEADLK'', 35),
    (''ENOMEM'', 12), (''EACCES'', 13), (''EFAULT'', 14), (''ENOTBLK'', 15), (''EBUSY'', 16),
    (''EEXIST'', 17), (''EXDEV'', 18), (''ENODEV'', 19), (''ENOTDIR'', 20), (''EISDIR'', 21),
    (''EINVAL'', 22), (''ENFILE'', 23), (''EMFILE'', 24), (''ENOTTY'', 25), (''ETXTBSY'', 26),
    (''EFBIG'', 27), (''ENOSPC'', 28), (''ESPIPE'', 29), (''EROFS'', 30), (''EMLINK'', 31),
    (''EPIPE'', 32), (''EDOM'', 33), (''ERANGE'', 34), (''EAGAIN'', 11),
    (''EINPROGRESS'', 115), (''EALREADY'', 114), (''ENOTSOCK'', 88), (''EDESTADDRREQ'', 89),
    (''EMSGSIZE'', 90), (''EPROTOTYPE'', 91), (''ENOPROTOOPT'', 92), (''EPROTONOSUPPORT'', 93),
    (''ESOCKTNOSUPPORT'', 94), (''ENOTSUP'', 95), (''EPFNOSUPPORT'', 96),
    (''EAFNOSUPPORT'', 97), (''EADDRINUSE'', 98), (''EADDRNOTAVAIL'', 99), (''ENETDOWN'', 100),
    (''ENETUNREACH'', 101), (''ENETRESET'', 102), (''ECONNABORTED'', 103),
    (''ECONNRESET'', 104), (''ENOBUFS'', 105), (''EISCONN'', 106), (''ENOTCONN'', 107),
    (''ESHUTDOWN'', 108), (''ETOOMANYREFS'', 109), (''ETIMEDOUT'', 110),
    (''ECONNREFUSED'', 111), (''ELOOP'', 40), (''ENAMETOOLONG'', 36), (''EHOSTDOWN'', 112),
    (''EHOSTUNREACH'', 113), (''ENOTEMPTY'', 39), (''EUSERS'', 87), (''EDQUOT'', 122),
    (''ESTALE'', 116), (''EREMOTE'', 66), (''ENOLCK'', 37), (''ENOSYS'', 38),
    (''EOVERFLOW'', 75), (''ECANCELED'', 125), (''EIDRM'', 43), (''ENOMSG'', 42),
    (''EILSEQ'', 84), (''EBADMSG'', 74), (''EMULTIHOP'', 72), (''ENODATA'', 61),
    (''ENOLINK'', 67), (''ENOSR'', 63), (''ENOSTR'', 60), (''EPROTO'', 71), (''ETIME'', 62),
    (''EOPNOTSUPP'', 95)]"

definition header_lookup :: "(string \<times> nat) list \<Rightarrow> errno_header" where
  "header_lookup h n = (case assoc h n of Some v \<Rightarrow> v | None \<Rightarrow> 0)"

definition darwin_errno :: errno_header where
  "darwin_errno = header_lookup darwin_errno_h"

definition linux_errno :: errno_header where
  "linux_errno = header_lookup linux_errno_h"
section \<open>The contents of the table\<close>

definition table_rows :: "(nat \<times> string) list" where
  "table_rows = table_before_ENOTSUP @ table_after_ENOTSUP"

lemmas table_defs = table_rows_def table_before_ENOTSUP_def table_after_ENOTSUP_def

lemma length_initialise [simp]: "length (initialise he inits t) = length t"
  by (induction he inits t rule: initialise.induct) simp_all

lemma length_linux_to_darwin [simp]: "length (linux_to_darwin he) = 512"
  by (simp add: linux_to_darwin_def length_of_translation_array_def)

text \<open>The last initialiser of an element decides its value.\<close>

lemma nth_initialise:
  "k < length t \<Longrightarrow>
   initialise he inits t ! k =
     (case map_of (rev inits) k of None \<Rightarrow> t ! k | Some n \<Rightarrow> of_nat (he n))"
  by (induction he inits t rule: initialise.induct)
    (auto simp: map_add_def nth_list_update split: option.splits)

lemma nth_linux_to_darwin:
  assumes "k < 512"
  shows "linux_to_darwin he ! k =
    (case map_of (rev table_after_ENOTSUP) k of
       Some n \<Rightarrow> of_nat (he n)
     | None \<Rightarrow> if k = LINUX_ENOTSUP he then of_nat (he ''ENOTSUP'')
         else (case map_of (rev table_before_ENOTSUP) k of
                 Some n \<Rightarrow> of_nat (he n) | None \<Rightarrow> 0))"
  using assms
  by (simp add: linux_to_darwin_def nth_initialise length_of_translation_array_def
      linux_to_darwin_init_def map_add_def split: option.splits)

lemma distinct_table_rows: "distinct (map fst table_rows)"
  by (simp add: table_defs)

lemma table_rows_range: "(c, n) \<in> set table_rows \<Longrightarrow> 0 < c \<and> c < 512"
  by (auto simp: table_defs)

lemma table_rows_names: "(c, n) \<in> set table_rows \<Longrightarrow> n \<noteq> ''ENOTSUP''"
  by (auto simp: table_defs)

lemma map_of_rev_distinct:
  "distinct (map fst xs) \<Longrightarrow> (k, v) \<in> set xs \<Longrightarrow> map_of (rev xs) k = Some v"
  by (simp add: rev_map [symmetric])

text \<open>
  Each row of the table is what the array holds at its index, provided the row of \<open>LINUX_ENOTSUP\<close>,
  whose index the host's header chooses, does not come after a row with the same index.
\<close>

definition enotsup_index_free :: "errno_header \<Rightarrow> bool" where
  "enotsup_index_free he \<longleftrightarrow> LINUX_ENOTSUP he \<notin> set (map fst table_before_ENOTSUP)"

lemma nth_table_row:
  assumes row: "(c, n) \<in> set table_rows" and free: "enotsup_index_free he"
  shows "linux_to_darwin he ! c = of_nat (he n)"
proof (cases "(c, n) \<in> set table_after_ENOTSUP")
  case True
  then have "map_of (rev table_after_ENOTSUP) c = Some n"
    using distinct_table_rows by (intro map_of_rev_distinct) (simp_all add: table_rows_def)
  then show ?thesis
    using table_rows_range [OF row] by (simp add: nth_linux_to_darwin)
next
  case False
  then have before: "(c, n) \<in> set table_before_ENOTSUP"
    using row by (simp add: table_rows_def)
  then have "map_of (rev table_before_ENOTSUP) c = Some n"
    using distinct_table_rows by (intro map_of_rev_distinct) (simp_all add: table_rows_def)
  moreover have "map_of (rev table_after_ENOTSUP) c = None"
    using before distinct_table_rows
    by (force simp: table_rows_def map_of_eq_None_iff)
  moreover have "c \<noteq> LINUX_ENOTSUP he"
    using before free by (force simp: enotsup_index_free_def)
  ultimately show ?thesis
    using table_rows_range [OF row] by (simp add: nth_linux_to_darwin)
qed

text \<open>Every nonzero element comes from a row.\<close>

lemma nth_linux_to_darwin_nonzero:
  assumes "k < 512" and "linux_to_darwin he ! k \<noteq> 0"
  obtains n where "linux_to_darwin he ! k = of_nat (he n)"
    and "(k, n) \<in> set table_rows \<or> k = LINUX_ENOTSUP he \<and> n = ''ENOTSUP''"
proof -
  have "\<exists>n. linux_to_darwin he ! k = of_nat (he n) \<and>
      ((k, n) \<in> set table_rows \<or> k = LINUX_ENOTSUP he \<and> n = ''ENOTSUP'')"
    using assms
    by (auto simp: nth_linux_to_darwin table_rows_def dest!: map_of_SomeD
        split: option.splits if_splits)
  with that show ?thesis by blast
qed

section \<open>The value of the translation\<close>

text \<open>The index the code computes: the absolute value, unless the argument is the least \<open>int\<close>.\<close>

lemma errno_in_range:
  "(scast (v :: c_int) :: u64) < of_nat length_of_translation_array \<longleftrightarrow> uint v < 512"
  using uint_int_lt [of v]
  by (simp add: length_of_translation_array_def word_less_def uint_scast_int sless_0_int)

lemma errno_positive:
  "\<not> (e <s 0) \<Longrightarrow> errno_linux_to_bsd he e =
     (if uint e < 512 \<and> linux_to_darwin he ! unat e \<noteq> 0 then linux_to_darwin he ! unat e else e)"
  by (simp add: errno_linux_to_bsd_def errno_in_range Let_def)

lemma errno_negative:
  "e <s 0 \<Longrightarrow> errno_linux_to_bsd he e =
     (if uint (- e) < 512 \<and> linux_to_darwin he ! unat (- e) \<noteq> 0
      then - (linux_to_darwin he ! unat (- e)) else e)"
  by (simp add: errno_linux_to_bsd_def errno_in_range Let_def)

lemma uminus_sless_0:
  "e \<noteq> 0 \<Longrightarrow> (- e :: c_int) <s 0 \<longleftrightarrow> \<not> (e <s 0) \<or> uint e = 2 ^ 31"
  by (auto simp: sless_0_int uint_uminus_int)

lemma nth_linux_to_darwin_0: "he ''EOPNOTSUPP'' \<noteq> 0 \<Longrightarrow> linux_to_darwin he ! 0 = 0"
  by (simp add: nth_linux_to_darwin table_defs)

lemma errno_of_0: "he ''EOPNOTSUPP'' \<noteq> 0 \<Longrightarrow> errno_linux_to_bsd he 0 = 0"
  by (simp add: errno_positive nth_linux_to_darwin_0)

lemma uint_of_nat_int: "n < 2 ^ 32 \<Longrightarrow> uint (of_nat n :: c_int) = int n"
  by (simp add: unsigned_of_nat take_bit_nat_eq_self)

text \<open>
  One row: both the positive number and its negation, the form in which the
  kernel returns it, are translated, the sign being kept.
\<close>

lemma errno_row:
  assumes row: "(c, n) \<in> set table_rows" and free: "enotsup_index_free he"
    and pos: "0 < he n" "he n < 2 ^ 31"
  shows "errno_linux_to_bsd he (of_nat c) = of_nat (he n)"
    and "errno_linux_to_bsd he (- of_nat c) = - of_nat (he n)"
proof -
  have c: "0 < c" "c < 512" using table_rows_range [OF row] by auto
  then have u: "uint (of_nat c :: c_int) = int c" by (intro uint_of_nat_int) simp
  then have un: "unat (of_nat c :: c_int) = c" by (simp add: unat_eq_nat_uint)
  have nz: "(of_nat c :: c_int) \<noteq> 0" using u c by auto
  have v: "(of_nat (he n) :: c_int) \<noteq> 0" using uint_of_nat_int [of "he n"] pos by auto
  note entry = nth_table_row [OF row free]
  show "errno_linux_to_bsd he (of_nat c) = of_nat (he n)"
    using c u un v entry by (simp add: errno_positive sless_0_int)
  show "errno_linux_to_bsd he (- of_nat c) = - of_nat (he n)"
  proof (subst errno_negative)
    show "(- of_nat c :: c_int) <s 0"
      using c u by (subst uminus_sless_0 [OF nz]) (simp add: sless_0_int)
  qed (use c u un v entry in simp)
qed

text \<open>The translation is odd: it commutes with the change of sign, on every \<open>int\<close>.\<close>

lemma errno_uminus:
  assumes "he ''EOPNOTSUPP'' \<noteq> 0"
  shows "errno_linux_to_bsd he (- e) = - errno_linux_to_bsd he e"
proof -
  consider "e = 0" | "uint e = 2 ^ 31" | "e \<noteq> 0" "uint e \<noteq> 2 ^ 31" by blast
  then show ?thesis
  proof cases
    case 1
    then show ?thesis using errno_of_0 [of he, OF assms] by simp
  next
    case 2
    then have "e \<noteq> 0" by auto
    then have u: "uint (- e) = uint e" using 2 by (simp add: uint_uminus_int)
    then have "- e = e" by (simp only: word_uint_eq_iff)
    moreover have "errno_linux_to_bsd he e = e"
      using 2 u by (simp add: errno_negative sless_0_int)
    ultimately show ?thesis by (simp only:)
  next
    case 3
    then show ?thesis
      by (cases "e <s 0") (simp_all add: errno_positive errno_negative uminus_sless_0)
  qed
qed

text \<open>An error is never translated to the number 0, and 0 never to an error.\<close>

lemma errno_eq_0_iff:
  assumes "he ''EOPNOTSUPP'' \<noteq> 0"
  shows "errno_linux_to_bsd he e = 0 \<longleftrightarrow> e = 0"
  using errno_of_0 [of he, OF assms] by (cases "e <s 0") (auto simp: errno_positive errno_negative)

section \<open>The translation on a Linux host\<close>

text \<open>
  The system calls translate errors in the Linux build only, where \<open><errno.h>\<close> is the header of the
  Linux host: every row of the table then maps a number to itself.
\<close>

lemma linux_errno_h_rows:
  "linux_errno_h = map prod.swap table_before_ENOTSUP @ [(''ENOTSUP'', 95)]
     @ map prod.swap table_after_ENOTSUP"
  by (simp add: linux_errno_h_def table_before_ENOTSUP_def table_after_ENOTSUP_def)

lemma distinct_table_names: "distinct (map snd table_rows)"
  by code_simp

lemma distinct_linux_names: "distinct (map fst linux_errno_h)"
proof -
  have "(a, ''ENOTSUP'') \<notin> set table_rows" for a
    using table_rows_names by blast
  then have "''ENOTSUP'' \<notin> snd ` set table_rows" by force
  then show ?thesis
    using distinct_table_names by (auto simp: linux_errno_h_rows table_rows_def comp_def)
qed

lemma linux_errno_row:
  assumes "(n, c) \<in> set linux_errno_h"
  shows "linux_errno n = c"
  using assms distinct_linux_names by (simp add: linux_errno_def header_lookup_def assoc_map_of)

lemma linux_rows_identity: "(c, n) \<in> set table_rows \<Longrightarrow> linux_errno n = c"
  by (rule linux_errno_row) (force simp: linux_errno_h_rows table_rows_def)

lemma linux_enotsup: "linux_errno ''EOPNOTSUPP'' = 95" "linux_errno ''ENOTSUP'' = 95"
  by (rule linux_errno_row, simp add: linux_errno_h_def)+

lemma nth_linux_to_darwin_linux:
  assumes "k < 512" and "linux_to_darwin linux_errno ! k \<noteq> 0"
  shows "linux_to_darwin linux_errno ! k = of_nat k"
proof -
  obtain n where n: "linux_to_darwin linux_errno ! k = of_nat (linux_errno n)"
    "(k, n) \<in> set table_rows \<or> k = LINUX_ENOTSUP linux_errno \<and> n = ''ENOTSUP''"
    using nth_linux_to_darwin_nonzero [OF assms] by blast
  from n(2) have "linux_errno n = k"
    using linux_rows_identity [of k n] by (elim disjE) (simp_all only: LINUX_ENOTSUP_def linux_enotsup)
  with n(1) show ?thesis by (simp only:)
qed

lemma if_hit_pos:
  "(if uint v < 512 \<and> linux_to_darwin linux_errno ! unat v \<noteq> 0
    then linux_to_darwin linux_errno ! unat v else v) = v"
proof (cases "uint v < 512 \<and> linux_to_darwin linux_errno ! unat v \<noteq> 0")
  case True
  then have "int (unat v) < 512" by (simp only: of_nat_unat)
  then have "unat v < 512" by linarith
  then have "linux_to_darwin linux_errno ! unat v = of_nat (unat v)"
    using True by (intro nth_linux_to_darwin_linux) (simp_all only: simp_thms)
  then have "linux_to_darwin linux_errno ! unat v = v" by (simp only: of_nat_unat ucast_id)
  then show ?thesis by (simp only: if_cancel)
next
  case False
  then show ?thesis by (simp only: if_False)
qed

lemma if_hit:
  assumes "e = - v"
  shows "(if uint v < 512 \<and> linux_to_darwin linux_errno ! unat v \<noteq> 0
    then - (linux_to_darwin linux_errno ! unat v) else e) = - v"
  using if_hit_pos [of v] assms by (metis (full_types))

lemma errno_linux_identity: "errno_linux_to_bsd linux_errno e = e"
proof (cases "e <s 0")
  case True
  have "(if uint (- e) < 512 \<and> linux_to_darwin linux_errno ! unat (- e) \<noteq> 0
      then - (linux_to_darwin linux_errno ! unat (- e)) else e) = - (- e)"
    by (rule if_hit) simp
  then show ?thesis unfolding errno_negative [OF True] by simp
next
  case False
  have "(if uint e < 512 \<and> linux_to_darwin linux_errno ! unat e \<noteq> 0
      then linux_to_darwin linux_errno ! unat e else e) = e"
    by (rule if_hit_pos)
  then show ?thesis unfolding errno_positive [OF False] .
qed

section \<open>Properties\<close>

text \<open>
  C21: Every error number of the table is translated to the host's number of the error of the same
  name, also in the negated form in which the Linux kernel returns it, and the sign is kept.
\<close>

theorem errno_rows_translated:
  assumes "(c, n) \<in> set table_rows" and "enotsup_index_free he" and "0 < he n" and "he n < 2 ^ 31"
  shows "errno_linux_to_bsd he (of_nat c) = of_nat (he n) \<and>
     errno_linux_to_bsd he (- of_nat c) = - of_nat (he n)"
  using errno_row [OF assms] by simp

text \<open>
  The translation is an odd function on every \<open>int\<close>, the least one included, and it sends 0 and
  nothing else to 0, so a failure is never taken for a success.
\<close>

lemma errno_sign_and_zero:
  assumes "he ''EOPNOTSUPP'' \<noteq> 0"
  shows "errno_linux_to_bsd he (- e) = - errno_linux_to_bsd he e \<and>
     (errno_linux_to_bsd he e = 0 \<longleftrightarrow> e = 0)"
  using errno_uminus [of he, OF assms] errno_eq_0_iff [of he, OF assms] by blast

text \<open>
  C22: On the Linux host, the only one for which the program translates errors, the translation is the
  identity: a Darwin program sees the Linux number.
\<close>

theorem errno_identity_on_linux: "errno_linux_to_bsd linux_errno e = e"
  by (rule errno_linux_identity)

section \<open>Witnesses\<close>

lemma darwin_enotsup_free: "enotsup_index_free darwin_errno"
  by (simp add: enotsup_index_free_def LINUX_ENOTSUP_def darwin_errno_def header_lookup_def
      darwin_errno_h_def table_before_ENOTSUP_def)

lemma darwin_errno_values: "darwin_errno ''EAGAIN'' = 35" "darwin_errno ''EOPNOTSUPP'' = 102"
  by (simp_all add: darwin_errno_def header_lookup_def darwin_errno_h_def)

theorem errno_rows_translated_witness:
  "errno_linux_to_bsd darwin_errno 11 = 35 \<and> errno_linux_to_bsd darwin_errno (- 11) = - 35"
proof -
  have "(11, ''EAGAIN'') \<in> set table_rows" by (simp add: table_defs)
  then show ?thesis
    using errno_rows_translated [of 11 "''EAGAIN''" darwin_errno] darwin_enotsup_free
    by (simp add: darwin_errno_values)
qed

end
