(* ===== verification/Network_Conversion.thy ===== *)
theory Network_Conversion
  imports Prelude
begin

text \<open>
  The socket conversions of \<open>src/conversion/network/duct.c\<close>: address families and message flags
  between their BSD and Linux numbers (\<open>include/conversion/network/duct.h\<close>).

  The BSD numbers of the families are those of the host's \<open><sys/socket.h>\<close>, a parameter \<open>pf\<close>; the
  BSD numbers of the flags are in the repository.  The interface \<open>flag_translation\<close> is a table of
  pairs of single-bit masks; both directions of the flag conversion are instances of it.
\<close>

unbundle bit_operations_syntax

section \<open>Address families\<close>

definition LINUX_PF_LOCAL :: c_int where "LINUX_PF_LOCAL = 1"
definition LINUX_PF_INET :: c_int where "LINUX_PF_INET = 2"
definition LINUX_PF_IPX :: c_int where "LINUX_PF_IPX = 4"
definition LINUX_PF_INET6 :: c_int where "LINUX_PF_INET6 = 10"

datatype pf_name = PF_LOCAL | PF_INET | PF_IPX | PF_INET6

type_synonym socket_header = "pf_name \<Rightarrow> c_int"

definition sfamily_linux_to_bsd :: "socket_header \<Rightarrow> c_int \<Rightarrow> c_int" where
  "sfamily_linux_to_bsd pf family =
     (if family = LINUX_PF_LOCAL then pf PF_LOCAL
      else if family = LINUX_PF_INET then pf PF_INET
      else if family = LINUX_PF_IPX then pf PF_IPX
      else if family = LINUX_PF_INET6 then pf PF_INET6
      else family)"

definition sfamily_bsd_to_linux :: "socket_header \<Rightarrow> c_int \<Rightarrow> c_int" where
  "sfamily_bsd_to_linux pf family =
     (if family = pf PF_LOCAL then LINUX_PF_LOCAL
      else if family = pf PF_INET then LINUX_PF_INET
      else if family = pf PF_IPX then LINUX_PF_IPX
      else if family = pf PF_INET6 then LINUX_PF_INET6
      else family)"

text \<open>The \<open>case\<close> labels of a C \<open>switch\<close> are distinct, or the program does not compile.\<close>

definition distinct_families :: "socket_header \<Rightarrow> bool" where
  "distinct_families pf \<longleftrightarrow> distinct [pf PF_LOCAL, pf PF_INET, pf PF_IPX, pf PF_INET6]"

definition linux_families :: "c_int list" where
  "linux_families = [LINUX_PF_LOCAL, LINUX_PF_INET, LINUX_PF_IPX, LINUX_PF_INET6]"

definition bsd_families :: "socket_header \<Rightarrow> c_int list" where
  "bsd_families pf = [pf PF_LOCAL, pf PF_INET, pf PF_IPX, pf PF_INET6]"

text \<open>The headers of the two hosts.\<close>

fun darwin_socket_h :: socket_header where
  "darwin_socket_h PF_LOCAL = 1"
| "darwin_socket_h PF_INET = 2"
| "darwin_socket_h PF_IPX = 23"
| "darwin_socket_h PF_INET6 = 30"

fun linux_socket_h :: socket_header where
  "linux_socket_h PF_LOCAL = 1"
| "linux_socket_h PF_INET = 2"
| "linux_socket_h PF_IPX = 4"
| "linux_socket_h PF_INET6 = 10"

lemmas linux_pf_defs = LINUX_PF_LOCAL_def LINUX_PF_INET_def LINUX_PF_IPX_def LINUX_PF_INET6_def

lemmas family_defs = linux_pf_defs sfamily_linux_to_bsd_def sfamily_bsd_to_linux_def
  linux_families_def bsd_families_def

text \<open>The two conversions are inverse on the families the tables name.\<close>

lemma distinct_families_eq: "distinct_families pf \<Longrightarrow> pf x = pf y \<longleftrightarrow> x = y"
  by (cases x; cases y) (auto simp: distinct_families_def)

lemma sfamily_bsd_linux_bsd:
  assumes "distinct_families pf" and "f \<in> set (bsd_families pf)"
  shows "sfamily_linux_to_bsd pf (sfamily_bsd_to_linux pf f) = f"
proof -
  from assms(2) consider "f = pf PF_LOCAL" | "f = pf PF_INET" | "f = pf PF_IPX" | "f = pf PF_INET6"
    by (auto simp: bsd_families_def)
  then show ?thesis
    by cases (simp_all add: family_defs distinct_families_eq [OF assms(1)])
qed

lemma sfamily_linux_bsd_linux_named:
  assumes "distinct_families pf" and "f \<in> set linux_families"
  shows "sfamily_bsd_to_linux pf (sfamily_linux_to_bsd pf f) = f"
proof -
  from assms(2) consider "f = LINUX_PF_LOCAL" | "f = LINUX_PF_INET" | "f = LINUX_PF_IPX"
    | "f = LINUX_PF_INET6"
    by (auto simp: linux_families_def)
  then show ?thesis
    by cases (simp_all add: family_defs distinct_families_eq [OF assms(1)])
qed

text \<open>
  A family the table does not name passes through both ways; whether it comes back depends on
  whether its number is one of the BSD numbers of the table.
\<close>

lemma sfamily_linux_bsd_linux_iff:
  assumes "distinct_families pf"
  shows "sfamily_bsd_to_linux pf (sfamily_linux_to_bsd pf f) = f
     \<longleftrightarrow> f \<in> set linux_families \<or> f \<notin> set (bsd_families pf)"
proof (cases "f \<in> set linux_families")
  case True
  then show ?thesis using sfamily_linux_bsd_linux_named [OF assms] by simp
next
  case False
  then have "sfamily_linux_to_bsd pf f = f" by (simp add: family_defs)
  with False show ?thesis
    by (auto simp: sfamily_bsd_to_linux_def bsd_families_def linux_families_def)
qed

section \<open>Message flags\<close>

definition LINUX_MSG_OOB :: c_int where "LINUX_MSG_OOB = 0x01"
definition LINUX_MSG_PEEK :: c_int where "LINUX_MSG_PEEK = 0x02"
definition LINUX_MSG_DONTROUTE :: c_int where "LINUX_MSG_DONTROUTE = 0x04"
definition LINUX_MSG_CTRUNC :: c_int where "LINUX_MSG_CTRUNC = 0x08"
definition LINUX_MSG_TRUNC :: c_int where "LINUX_MSG_TRUNC = 0x20"
definition LINUX_MSG_DONTWAIT :: c_int where "LINUX_MSG_DONTWAIT = 0x40"
definition LINUX_MSG_EOR :: c_int where "LINUX_MSG_EOR = 0x80"
definition LINUX_MSG_WAITALL :: c_int where "LINUX_MSG_WAITALL = 0x100"
definition BSD_MSG_OOB :: c_int where "BSD_MSG_OOB = 0x1"
definition BSD_MSG_PEEK :: c_int where "BSD_MSG_PEEK = 0x2"
definition BSD_MSG_DONTROUTE :: c_int where "BSD_MSG_DONTROUTE = 0x4"
definition BSD_MSG_EOR :: c_int where "BSD_MSG_EOR = 0x8"
definition BSD_MSG_TRUNC :: c_int where "BSD_MSG_TRUNC = 0x10"
definition BSD_MSG_CTRUNC :: c_int where "BSD_MSG_CTRUNC = 0x20"
definition BSD_MSG_WAITALL :: c_int where "BSD_MSG_WAITALL = 0x40"
definition BSD_MSG_DONTWAIT :: c_int where "BSD_MSG_DONTWAIT = 0x80"

text \<open>Flags of the header that only one of the systems has.\<close>

definition LINUX_MSG_PROXY :: c_int where "LINUX_MSG_PROXY = 0x10"
definition LINUX_MSG_FIN :: c_int where "LINUX_MSG_FIN = 0x200"
definition LINUX_MSG_SYN :: c_int where "LINUX_MSG_SYN = 0x400"
definition LINUX_MSG_CONFIRM :: c_int where "LINUX_MSG_CONFIRM = 0x800"
definition LINUX_MSG_RST :: c_int where "LINUX_MSG_RST = 0x1000"
definition LINUX_MSG_ERRQUEUE :: c_int where "LINUX_MSG_ERRQUEUE = 0x2000"
definition LINUX_MSG_NOSIGNAL :: c_int where "LINUX_MSG_NOSIGNAL = 0x4000"
definition LINUX_MSG_MORE :: c_int where "LINUX_MSG_MORE = 0x8000"
definition LINUX_MSG_WAITFORONE :: c_int where "LINUX_MSG_WAITFORONE = 0x10000"
definition LINUX_MSG_FASTOPEN :: c_int where "LINUX_MSG_FASTOPEN = 0x20000000"
definition LINUX_MSG_CMSG_CLOEXEC :: c_int where "LINUX_MSG_CMSG_CLOEXEC = 0x40000000"
definition BSD_MSG_EOF :: c_int where "BSD_MSG_EOF = 0x100"
definition BSD_MSG_WAITSTREAM :: c_int where "BSD_MSG_WAITSTREAM = 0x200"
definition BSD_MSG_FLUSH :: c_int where "BSD_MSG_FLUSH = 0x400"
definition BSD_MSG_HOLD :: c_int where "BSD_MSG_HOLD = 0x800"
definition BSD_MSG_SEND :: c_int where "BSD_MSG_SEND = 0x1000"
definition BSD_MSG_HAVEMORE :: c_int where "BSD_MSG_HAVEMORE = 0x2000"
definition BSD_MSG_RCVMORE :: c_int where "BSD_MSG_RCVMORE = 0x4000"
definition BSD_MSG_NEEDSA :: c_int where "BSD_MSG_NEEDSA = 0x10000"

lemmas msg_defs = LINUX_MSG_OOB_def LINUX_MSG_PEEK_def LINUX_MSG_DONTROUTE_def LINUX_MSG_CTRUNC_def
  LINUX_MSG_TRUNC_def LINUX_MSG_DONTWAIT_def LINUX_MSG_EOR_def LINUX_MSG_WAITALL_def
  BSD_MSG_OOB_def BSD_MSG_PEEK_def BSD_MSG_DONTROUTE_def BSD_MSG_EOR_def BSD_MSG_TRUNC_def
  BSD_MSG_CTRUNC_def BSD_MSG_WAITALL_def BSD_MSG_DONTWAIT_def

text \<open>One statement \<open>if (flags & from) oflags |= to;\<close> of the two functions.\<close>

definition move_flag :: "c_int \<Rightarrow> c_int \<Rightarrow> c_int \<Rightarrow> c_int \<Rightarrow> c_int" where
  "move_flag flags from_mask to_mask oflags =
     (if flags AND from_mask \<noteq> 0 then oflags OR to_mask else oflags)"

definition msgflags_bsd_to_linux :: "c_int \<Rightarrow> c_int" where
  "msgflags_bsd_to_linux flags =
     (let oflags = 0;
          oflags = move_flag flags BSD_MSG_OOB LINUX_MSG_OOB oflags;
          oflags = move_flag flags BSD_MSG_PEEK LINUX_MSG_PEEK oflags;
          oflags = move_flag flags BSD_MSG_DONTROUTE LINUX_MSG_DONTROUTE oflags;
          oflags = move_flag flags BSD_MSG_EOR LINUX_MSG_EOR oflags;
          oflags = move_flag flags BSD_MSG_TRUNC LINUX_MSG_TRUNC oflags;
          oflags = move_flag flags BSD_MSG_CTRUNC LINUX_MSG_CTRUNC oflags;
          oflags = move_flag flags BSD_MSG_WAITALL LINUX_MSG_WAITALL oflags;
          oflags = move_flag flags BSD_MSG_DONTWAIT LINUX_MSG_DONTWAIT oflags
      in oflags)"

definition msgflags_linux_to_bsd :: "c_int \<Rightarrow> c_int" where
  "msgflags_linux_to_bsd flags =
     (let oflags = 0;
          oflags = move_flag flags LINUX_MSG_OOB BSD_MSG_OOB oflags;
          oflags = move_flag flags LINUX_MSG_PEEK BSD_MSG_PEEK oflags;
          oflags = move_flag flags LINUX_MSG_DONTROUTE BSD_MSG_DONTROUTE oflags;
          oflags = move_flag flags LINUX_MSG_EOR BSD_MSG_EOR oflags;
          oflags = move_flag flags LINUX_MSG_TRUNC BSD_MSG_TRUNC oflags;
          oflags = move_flag flags LINUX_MSG_CTRUNC BSD_MSG_CTRUNC oflags;
          oflags = move_flag flags LINUX_MSG_WAITALL BSD_MSG_WAITALL oflags;
          oflags = move_flag flags LINUX_MSG_DONTWAIT BSD_MSG_DONTWAIT oflags
      in oflags)"

section \<open>Tables of single-bit masks\<close>

text \<open>A row \<open>(i, j)\<close> moves bit \<open>i\<close> of the argument to bit \<open>j\<close> of the result.\<close>

definition translate_bits :: "(nat \<times> nat) list \<Rightarrow> c_int \<Rightarrow> c_int" where
  "translate_bits tbl flags =
     fold (\<lambda>(i, j) oflags. move_flag flags (2 ^ i) (2 ^ j) oflags) tbl 0"

definition swap_rows :: "(nat \<times> nat) list \<Rightarrow> (nat \<times> nat) list" where
  "swap_rows tbl = map (\<lambda>(i, j). (j, i)) tbl"

definition row_mask :: "(nat \<times> nat) list \<Rightarrow> c_int" where
  "row_mask tbl = fold (\<lambda>(i, j) w. w OR 2 ^ i) tbl 0"

lemma and_power_nonzero: "(flags :: c_int) AND 2 ^ i \<noteq> 0 \<longleftrightarrow> bit flags i"
  by (metis and_exp_eq_0_iff_not_bit)

lemma bit_move_flag:
  "bit (move_flag flags (2 ^ i) (2 ^ j) w) n \<longleftrightarrow>
     bit w n \<or> (bit flags i \<and> n = j \<and> n < 32)"
  by (auto simp: move_flag_def and_power_nonzero bit_simps)

lemma bit_fold_move:
  "bit (fold (\<lambda>(i, j). move_flag flags (2 ^ i) (2 ^ j)) tbl w) n \<longleftrightarrow>
     bit w n \<or> (n < 32 \<and> (\<exists>i. (i, n) \<in> set tbl \<and> bit flags i))"
proof (induction tbl arbitrary: w)
  case (Cons row tbl)
  obtain i j where row: "row = (i, j)" by fastforce
  have "bit (fold (\<lambda>(i, j). move_flag flags (2 ^ i) (2 ^ j)) (row # tbl) w) n \<longleftrightarrow>
      (bit w n \<or> (bit flags i \<and> n = j \<and> n < 32)) \<or>
      (n < 32 \<and> (\<exists>i. (i, n) \<in> set tbl \<and> bit flags i))"
    by (simp only: row fold_Cons o_apply prod.case Cons.IH bit_move_flag)
  then show ?case by (simp only: row set_simps insert_iff prod.inject) blast
qed simp

lemma bit_fold_or:
  "bit (fold (\<lambda>(i, j) w. w OR 2 ^ i) tbl (w :: c_int)) n \<longleftrightarrow>
     bit w n \<or> (n < 32 \<and> (\<exists>j. (n, j) \<in> set tbl))"
proof (induction tbl arbitrary: w)
  case (Cons row tbl)
  obtain i j where row: "row = (i, j)" by fastforce
  have "bit (w OR 2 ^ i) n \<longleftrightarrow> bit w n \<or> (n = i \<and> n < 32)"
    by (auto simp: bit_simps)
  then have "bit (fold (\<lambda>(i, j) w. w OR 2 ^ i) (row # tbl) w) n \<longleftrightarrow>
      (bit w n \<or> (n = i \<and> n < 32)) \<or> (n < 32 \<and> (\<exists>j. (n, j) \<in> set tbl))"
    by (simp only: row fold_Cons o_apply prod.case Cons.IH)
  then show ?case by (simp only: row set_simps insert_iff prod.inject) blast
qed simp

lemma bit_translate_bits:
  "bit (translate_bits tbl flags) n \<longleftrightarrow> n < 32 \<and> (\<exists>i. (i, n) \<in> set tbl \<and> bit flags i)"
  by (simp add: translate_bits_def bit_fold_move)

lemma bit_row_mask: "bit (row_mask tbl) n \<longleftrightarrow> n < 32 \<and> (\<exists>j. (n, j) \<in> set tbl)"
  by (simp add: row_mask_def bit_fold_or)

locale flag_translation =
  fixes to_flags :: "c_int \<Rightarrow> c_int" and from_flags :: "c_int \<Rightarrow> c_int"
    and tbl :: "(nat \<times> nat) list"
  assumes to_flags_table: "to_flags = translate_bits tbl"
    and from_flags_table: "from_flags = translate_bits (swap_rows tbl)"
    and sources_distinct: "distinct (map fst tbl)"
    and targets_distinct: "distinct (map snd tbl)"
    and rows_in_word: "(i, j) \<in> set tbl \<Longrightarrow> i < 32 \<and> j < 32"
begin

lemma there_and_back: "from_flags (to_flags flags) = flags AND row_mask tbl"
proof (rule bit_word_eqI)
  fix n
  have unique: "i = i'" if "(i, j) \<in> set tbl" and "(i', j) \<in> set tbl" for i i' j
    using that targets_distinct inj_onD [of snd "set tbl" "(i, j)" "(i', j)"]
    by (simp add: distinct_map)
  show "bit (from_flags (to_flags flags)) n = bit (flags AND row_mask tbl) n"
    by (auto simp: to_flags_table from_flags_table bit_translate_bits bit_row_mask swap_rows_def
        bit_and_iff dest: unique rows_in_word)
qed

lemma to_flags_or: "to_flags (a OR b) = to_flags a OR to_flags b"
  by (rule bit_word_eqI) (auto simp: to_flags_table bit_translate_bits bit_or_iff)

lemma to_flags_within: "to_flags flags AND row_mask (swap_rows tbl) = to_flags flags"
  by (rule bit_word_eqI)
    (auto simp: to_flags_table bit_translate_bits bit_row_mask swap_rows_def bit_and_iff)

lemma to_flags_ignores_others: "to_flags (flags AND row_mask tbl) = to_flags flags"
  by (rule bit_word_eqI)
    (auto simp: to_flags_table bit_translate_bits bit_row_mask bit_and_iff dest: rows_in_word)

end

definition msg_rows :: "(nat \<times> nat) list" where
  "msg_rows = [(0, 0), (1, 1), (2, 2), (3, 7), (4, 5), (5, 3), (6, 8), (7, 6)]"

lemma msgflags_bsd_to_linux_rows: "msgflags_bsd_to_linux = translate_bits msg_rows"
  by (rule ext) (simp add: msgflags_bsd_to_linux_def translate_bits_def msg_rows_def msg_defs Let_def)

lemma msgflags_linux_to_bsd_rows: "msgflags_linux_to_bsd = translate_bits (swap_rows msg_rows)"
  by (rule ext)
    (simp add: msgflags_linux_to_bsd_def translate_bits_def msg_rows_def swap_rows_def msg_defs Let_def)

text \<open>A flag that the other system does not have is dropped, although its bit may be another flag there.\<close>

lemma other_flags_dropped:
  "map msgflags_linux_to_bsd [LINUX_MSG_PROXY, LINUX_MSG_FIN, LINUX_MSG_SYN, LINUX_MSG_CONFIRM, LINUX_MSG_RST,
     LINUX_MSG_ERRQUEUE, LINUX_MSG_NOSIGNAL, LINUX_MSG_MORE, LINUX_MSG_WAITFORONE, LINUX_MSG_FASTOPEN,
     LINUX_MSG_CMSG_CLOEXEC] = replicate 11 0"
  "map msgflags_bsd_to_linux [BSD_MSG_EOF, BSD_MSG_WAITSTREAM, BSD_MSG_FLUSH, BSD_MSG_HOLD, BSD_MSG_SEND,
     BSD_MSG_HAVEMORE, BSD_MSG_RCVMORE, BSD_MSG_NEEDSA] = replicate 8 0"
  by code_simp+

interpretation b2l: flag_translation msgflags_bsd_to_linux msgflags_linux_to_bsd msg_rows
  by unfold_locales (auto simp: msgflags_bsd_to_linux_rows msgflags_linux_to_bsd_rows msg_rows_def)

interpretation l2b: flag_translation msgflags_linux_to_bsd msgflags_bsd_to_linux
    "swap_rows msg_rows"
  by unfold_locales
    (auto simp: msgflags_bsd_to_linux_rows msgflags_linux_to_bsd_rows msg_rows_def swap_rows_def)

text \<open>The flags both systems have, as masks on either side.\<close>

lemma row_mask_bsd: "row_mask msg_rows = 0xFF"
  by (simp add: row_mask_def msg_rows_def)

lemma row_mask_linux: "row_mask (swap_rows msg_rows) = 0x1EF"
  by (simp add: row_mask_def msg_rows_def swap_rows_def)

section \<open>Properties\<close>

text \<open>
  C23: Round trips of the message flags: converting there and back keeps exactly the flags both systems
  have, in each direction; a flag without a counterpart is dropped, and no other bit appears.
\<close>

theorem msgflags_round_trips:
  "msgflags_linux_to_bsd (msgflags_bsd_to_linux f) = f AND 0xFF \<and>
   msgflags_bsd_to_linux (msgflags_linux_to_bsd f) = f AND 0x1EF"
  using b2l.there_and_back [of f] l2b.there_and_back [of f]
  by (simp add: row_mask_bsd row_mask_linux)

text \<open>
  Converting flags is a homomorphism of the bitwise \<open>or\<close>, looks at the named flags only, and gives
  named flags only.
\<close>

lemma msgflags_structure:
  "msgflags_bsd_to_linux (f OR g) = msgflags_bsd_to_linux f OR msgflags_bsd_to_linux g \<and>
   msgflags_bsd_to_linux (f AND 0xFF) = msgflags_bsd_to_linux f \<and>
   msgflags_bsd_to_linux f AND 0x1EF = msgflags_bsd_to_linux f"
  using b2l.to_flags_or [of f g] b2l.to_flags_ignores_others [of f] b2l.to_flags_within [of f]
  by (simp add: row_mask_bsd row_mask_linux)

text \<open>
  Round trips of the address families: a family the table names survives BSD to Linux to BSD, and a
  Linux number survives the other round trip exactly when the table names it or it is not the BSD
  number of another family.
\<close>

lemma sfamily_round_trips:
  assumes "distinct_families pf"
  shows "(\<forall>f \<in> set (bsd_families pf). sfamily_linux_to_bsd pf (sfamily_bsd_to_linux pf f) = f) \<and>
     (\<forall>f. sfamily_bsd_to_linux pf (sfamily_linux_to_bsd pf f) = f
       \<longleftrightarrow> f \<in> set linux_families \<or> f \<notin> set (bsd_families pf))"
  using sfamily_bsd_linux_bsd [OF assms] sfamily_linux_bsd_linux_iff [OF assms] by blast

lemma distinct_darwin_families: "distinct_families darwin_socket_h"
  by (simp add: distinct_families_def)

lemma distinct_linux_socket_families: "distinct_families linux_socket_h"
  by (simp add: distinct_families_def)

end
