(* ===== verification/Linux_Generic.thy ===== *)
theory Linux_Generic
  imports Prelude
begin

text \<open>
  The Linux system call numbers of the architectures without a table of their own,
  \<open>include/linux_premigration/linux-syscalls/linux-generic.h\<close>, as ARM64 configures it
  (\<open>linux-arm64.h\<close>).  Which numbers the header defines depends on the macros of the architecture, so the
  model is the list of its \<open>#define\<close>s, each with the condition of the \<open>#if\<close>s around it, and an
  interpreter for it.  The uses of \<open>__SYSCALL\<close> and \<open>__SC_COMP\<close> between the \<open>#define\<close>s expand to nothing.

  Names are written without the leading underscores: \<open>''NR_write''\<close> is \<open>__NR_write\<close>.
\<close>

section \<open>Conditional definitions\<close>

datatype condition =
    Always
  | Defined string            \<comment> \<open>a macro of the architecture\<close>
  | Number_defined string     \<comment> \<open>a number this header defines\<close>
  | Bits nat                  \<comment> \<open>\<open>__BITS_PER_LONG\<close>\<close>
  | Neg condition
  | Conj condition condition
  | Disj condition condition

datatype number = Number nat | Same string

type_synonym nr_define = "condition \<times> string \<times> number"

record configuration =
  macros :: "string list"
  bits_per_long :: nat

fun holds :: "configuration \<Rightarrow> (string \<times> nat) list \<Rightarrow> condition \<Rightarrow> bool" where
  "holds cfg nrs Always \<longleftrightarrow> True"
| "holds cfg nrs (Defined m) \<longleftrightarrow> m \<in> set (macros cfg)"
| "holds cfg nrs (Number_defined n) \<longleftrightarrow> assoc nrs n \<noteq> None"
| "holds cfg nrs (Bits b) \<longleftrightarrow> bits_per_long cfg = b"
| "holds cfg nrs (Neg c) \<longleftrightarrow> \<not> holds cfg nrs c"
| "holds cfg nrs (Conj c d) \<longleftrightarrow> holds cfg nrs c \<and> holds cfg nrs d"
| "holds cfg nrs (Disj c d) \<longleftrightarrow> holds cfg nrs c \<or> holds cfg nrs d"

text \<open>The definitions in force after the header, the latest first.\<close>

fun preprocess :: "configuration \<Rightarrow> (string \<times> nat) list \<Rightarrow> nr_define list \<Rightarrow> (string \<times> nat) list" where
  "preprocess cfg nrs [] = nrs"
| "preprocess cfg nrs ((c, n, v) # rows) =
     preprocess cfg
       (if holds cfg nrs c then
          case v of
            Number k \<Rightarrow> (n, k) # nrs
          | Same m \<Rightarrow> (case assoc nrs m of None \<Rightarrow> nrs | Some k \<Rightarrow> (n, k) # nrs)
        else nrs) rows"

abbreviation time32 :: condition where
  "time32 \<equiv> Disj (Defined ''__ARCH_WANT_TIME32_SYSCALLS'') (Neg (Bits 32))"

abbreviation new_stat :: condition where
  "new_stat \<equiv> Disj (Defined ''__ARCH_WANT_NEW_STAT'') (Defined ''__ARCH_WANT_STAT64'')"

abbreviation native_64 :: condition where
  "native_64 \<equiv> Conj (Bits 64) (Neg (Defined ''__SYSCALL_COMPAT''))"

section \<open>The header\<close>

definition generic_nr_1 :: "nr_define list" where
  "generic_nr_1 = [
    (Always, ''NR_io_setup'', Number 0), (Always, ''NR_io_destroy'', Number 1),
    (Always, ''NR_io_submit'', Number 2), (Always, ''NR_io_cancel'', Number 3),
    (time32, ''NR_io_getevents'', Number 4), (Always, ''NR_setxattr'', Number 5),
    (Always, ''NR_lsetxattr'', Number 6), (Always, ''NR_fsetxattr'', Number 7),
    (Always, ''NR_getxattr'', Number 8), (Always, ''NR_lgetxattr'', Number 9),
    (Always, ''NR_fgetxattr'', Number 10), (Always, ''NR_listxattr'', Number 11),
    (Always, ''NR_llistxattr'', Number 12), (Always, ''NR_flistxattr'', Number 13),
    (Always, ''NR_removexattr'', Number 14), (Always, ''NR_lremovexattr'', Number 15),
    (Always, ''NR_fremovexattr'', Number 16), (Always, ''NR_getcwd'', Number 17),
    (Always, ''NR_lookup_dcookie'', Number 18), (Always, ''NR_eventfd2'', Number 19),
    (Always, ''NR_epoll_create1'', Number 20), (Always, ''NR_epoll_ctl'', Number 21),
    (Always, ''NR_epoll_pwait'', Number 22), (Always, ''NR_dup'', Number 23),
    (Always, ''NR_dup3'', Number 24), (Always, ''NR3264_fcntl'', Number 25),
    (Always, ''NR_inotify_init1'', Number 26), (Always, ''NR_inotify_add_watch'', Number 27),
    (Always, ''NR_inotify_rm_watch'', Number 28), (Always, ''NR_ioctl'', Number 29),
    (Always, ''NR_ioprio_set'', Number 30), (Always, ''NR_ioprio_get'', Number 31),
    (Always, ''NR_flock'', Number 32), (Always, ''NR_mknodat'', Number 33),
    (Always, ''NR_mkdirat'', Number 34), (Always, ''NR_unlinkat'', Number 35),
    (Always, ''NR_symlinkat'', Number 36), (Always, ''NR_linkat'', Number 37),
    (Defined ''__ARCH_WANT_RENAMEAT'', ''NR_renameat'', Number 38),
    (Always, ''NR_umount2'', Number 39), (Always, ''NR_mount'', Number 40),
    (Always, ''NR_pivot_root'', Number 41), (Always, ''NR_nfsservctl'', Number 42),
    (Always, ''NR3264_statfs'', Number 43), (Always, ''NR3264_fstatfs'', Number 44),
    (Always, ''NR3264_truncate'', Number 45), (Always, ''NR3264_ftruncate'', Number 46),
    (Always, ''NR_fallocate'', Number 47), (Always, ''NR_faccessat'', Number 48),
    (Always, ''NR_chdir'', Number 49), (Always, ''NR_fchdir'', Number 50),
    (Always, ''NR_chroot'', Number 51), (Always, ''NR_fchmod'', Number 52),
    (Always, ''NR_fchmodat'', Number 53), (Always, ''NR_fchownat'', Number 54),
    (Always, ''NR_fchown'', Number 55)]"

definition generic_nr_2 :: "nr_define list" where
  "generic_nr_2 = [
    (Always, ''NR_openat'', Number 56), (Always, ''NR_close'', Number 57),
    (Always, ''NR_vhangup'', Number 58), (Always, ''NR_pipe2'', Number 59),
    (Always, ''NR_quotactl'', Number 60), (Always, ''NR_getdents64'', Number 61),
    (Always, ''NR3264_lseek'', Number 62), (Always, ''NR_read'', Number 63),
    (Always, ''NR_write'', Number 64), (Always, ''NR_readv'', Number 65),
    (Always, ''NR_writev'', Number 66), (Always, ''NR_pread64'', Number 67),
    (Always, ''NR_pwrite64'', Number 68), (Always, ''NR_preadv'', Number 69),
    (Always, ''NR_pwritev'', Number 70), (Always, ''NR3264_sendfile'', Number 71),
    (time32, ''NR_pselect6'', Number 72), (time32, ''NR_ppoll'', Number 73),
    (Always, ''NR_signalfd4'', Number 74), (Always, ''NR_vmsplice'', Number 75),
    (Always, ''NR_splice'', Number 76), (Always, ''NR_tee'', Number 77),
    (Always, ''NR_readlinkat'', Number 78), (new_stat, ''NR3264_fstatat'', Number 79),
    (new_stat, ''NR3264_fstat'', Number 80), (Always, ''NR_sync'', Number 81),
    (Always, ''NR_fsync'', Number 82), (Always, ''NR_fdatasync'', Number 83),
    (Defined ''__ARCH_WANT_SYNC_FILE_RANGE2'', ''NR_sync_file_range2'', Number 84),
    (Neg (Defined ''__ARCH_WANT_SYNC_FILE_RANGE2''), ''NR_sync_file_range'', Number 84),
    (Always, ''NR_timerfd_create'', Number 85), (time32, ''NR_timerfd_settime'', Number 86),
    (time32, ''NR_timerfd_gettime'', Number 87), (time32, ''NR_utimensat'', Number 88),
    (Always, ''NR_acct'', Number 89), (Always, ''NR_capget'', Number 90),
    (Always, ''NR_capset'', Number 91), (Always, ''NR_personality'', Number 92),
    (Always, ''NR_exit'', Number 93), (Always, ''NR_exit_group'', Number 94),
    (Always, ''NR_waitid'', Number 95), (Always, ''NR_set_tid_address'', Number 96),
    (Always, ''NR_unshare'', Number 97), (time32, ''NR_futex'', Number 98),
    (Always, ''NR_set_robust_list'', Number 99), (Always, ''NR_get_robust_list'', Number 100)]"

definition generic_nr_3 :: "nr_define list" where
  "generic_nr_3 = [
    (time32, ''NR_nanosleep'', Number 101), (Always, ''NR_getitimer'', Number 102),
    (Always, ''NR_setitimer'', Number 103), (Always, ''NR_kexec_load'', Number 104),
    (Always, ''NR_init_module'', Number 105), (Always, ''NR_delete_module'', Number 106),
    (Always, ''NR_timer_create'', Number 107), (time32, ''NR_timer_gettime'', Number 108),
    (Always, ''NR_timer_getoverrun'', Number 109), (time32, ''NR_timer_settime'', Number 110),
    (Always, ''NR_timer_delete'', Number 111), (time32, ''NR_clock_settime'', Number 112),
    (time32, ''NR_clock_gettime'', Number 113), (time32, ''NR_clock_getres'', Number 114),
    (time32, ''NR_clock_nanosleep'', Number 115), (Always, ''NR_syslog'', Number 116),
    (Always, ''NR_ptrace'', Number 117), (Always, ''NR_sched_setparam'', Number 118),
    (Always, ''NR_sched_setscheduler'', Number 119),
    (Always, ''NR_sched_getscheduler'', Number 120), (Always, ''NR_sched_getparam'', Number 121),
    (Always, ''NR_sched_setaffinity'', Number 122),
    (Always, ''NR_sched_getaffinity'', Number 123), (Always, ''NR_sched_yield'', Number 124),
    (Always, ''NR_sched_get_priority_max'', Number 125),
    (Always, ''NR_sched_get_priority_min'', Number 126),
    (time32, ''NR_sched_rr_get_interval'', Number 127),
    (Always, ''NR_restart_syscall'', Number 128), (Always, ''NR_kill'', Number 129),
    (Always, ''NR_tkill'', Number 130), (Always, ''NR_tgkill'', Number 131),
    (Always, ''NR_sigaltstack'', Number 132), (Always, ''NR_rt_sigsuspend'', Number 133),
    (Always, ''NR_rt_sigaction'', Number 134), (Always, ''NR_rt_sigprocmask'', Number 135),
    (Always, ''NR_rt_sigpending'', Number 136), (time32, ''NR_rt_sigtimedwait'', Number 137),
    (Always, ''NR_rt_sigqueueinfo'', Number 138), (Always, ''NR_rt_sigreturn'', Number 139),
    (Always, ''NR_setpriority'', Number 140), (Always, ''NR_getpriority'', Number 141),
    (Always, ''NR_reboot'', Number 142), (Always, ''NR_setregid'', Number 143),
    (Always, ''NR_setgid'', Number 144), (Always, ''NR_setreuid'', Number 145),
    (Always, ''NR_setuid'', Number 146), (Always, ''NR_setresuid'', Number 147),
    (Always, ''NR_getresuid'', Number 148), (Always, ''NR_setresgid'', Number 149),
    (Always, ''NR_getresgid'', Number 150), (Always, ''NR_setfsuid'', Number 151),
    (Always, ''NR_setfsgid'', Number 152), (Always, ''NR_times'', Number 153),
    (Always, ''NR_setpgid'', Number 154), (Always, ''NR_getpgid'', Number 155),
    (Always, ''NR_getsid'', Number 156), (Always, ''NR_setsid'', Number 157),
    (Always, ''NR_getgroups'', Number 158)]"

definition generic_nr_4 :: "nr_define list" where
  "generic_nr_4 = [
    (Always, ''NR_setgroups'', Number 159), (Always, ''NR_uname'', Number 160),
    (Always, ''NR_sethostname'', Number 161), (Always, ''NR_setdomainname'', Number 162),
    (Defined ''__ARCH_WANT_SET_GET_RLIMIT'', ''NR_getrlimit'', Number 163),
    (Defined ''__ARCH_WANT_SET_GET_RLIMIT'', ''NR_setrlimit'', Number 164),
    (Always, ''NR_getrusage'', Number 165), (Always, ''NR_umask'', Number 166),
    (Always, ''NR_prctl'', Number 167), (Always, ''NR_getcpu'', Number 168),
    (time32, ''NR_gettimeofday'', Number 169), (time32, ''NR_settimeofday'', Number 170),
    (time32, ''NR_adjtimex'', Number 171), (Always, ''NR_getpid'', Number 172),
    (Always, ''NR_getppid'', Number 173), (Always, ''NR_getuid'', Number 174),
    (Always, ''NR_geteuid'', Number 175), (Always, ''NR_getgid'', Number 176),
    (Always, ''NR_getegid'', Number 177), (Always, ''NR_gettid'', Number 178),
    (Always, ''NR_sysinfo'', Number 179), (Always, ''NR_mq_open'', Number 180),
    (Always, ''NR_mq_unlink'', Number 181), (time32, ''NR_mq_timedsend'', Number 182),
    (time32, ''NR_mq_timedreceive'', Number 183), (Always, ''NR_mq_notify'', Number 184),
    (Always, ''NR_mq_getsetattr'', Number 185), (Always, ''NR_msgget'', Number 186),
    (Always, ''NR_msgctl'', Number 187), (Always, ''NR_msgrcv'', Number 188),
    (Always, ''NR_msgsnd'', Number 189), (Always, ''NR_semget'', Number 190),
    (Always, ''NR_semctl'', Number 191), (time32, ''NR_semtimedop'', Number 192),
    (Always, ''NR_semop'', Number 193), (Always, ''NR_shmget'', Number 194),
    (Always, ''NR_shmctl'', Number 195), (Always, ''NR_shmat'', Number 196),
    (Always, ''NR_shmdt'', Number 197), (Always, ''NR_socket'', Number 198),
    (Always, ''NR_socketpair'', Number 199), (Always, ''NR_bind'', Number 200),
    (Always, ''NR_listen'', Number 201), (Always, ''NR_accept'', Number 202),
    (Always, ''NR_connect'', Number 203), (Always, ''NR_getsockname'', Number 204),
    (Always, ''NR_getpeername'', Number 205), (Always, ''NR_sendto'', Number 206),
    (Always, ''NR_recvfrom'', Number 207), (Always, ''NR_setsockopt'', Number 208),
    (Always, ''NR_getsockopt'', Number 209), (Always, ''NR_shutdown'', Number 210),
    (Always, ''NR_sendmsg'', Number 211), (Always, ''NR_recvmsg'', Number 212),
    (Always, ''NR_readahead'', Number 213), (Always, ''NR_brk'', Number 214),
    (Always, ''NR_munmap'', Number 215), (Always, ''NR_mremap'', Number 216),
    (Always, ''NR_add_key'', Number 217)]"

definition generic_nr_5 :: "nr_define list" where
  "generic_nr_5 = [
    (Always, ''NR_request_key'', Number 218), (Always, ''NR_keyctl'', Number 219),
    (Always, ''NR_clone'', Number 220), (Always, ''NR_execve'', Number 221),
    (Always, ''NR3264_mmap'', Number 222), (Always, ''NR3264_fadvise64'', Number 223),
    (Neg (Defined ''__ARCH_NOMMU''), ''NR_swapon'', Number 224),
    (Neg (Defined ''__ARCH_NOMMU''), ''NR_swapoff'', Number 225),
    (Neg (Defined ''__ARCH_NOMMU''), ''NR_mprotect'', Number 226),
    (Neg (Defined ''__ARCH_NOMMU''), ''NR_msync'', Number 227),
    (Neg (Defined ''__ARCH_NOMMU''), ''NR_mlock'', Number 228),
    (Neg (Defined ''__ARCH_NOMMU''), ''NR_munlock'', Number 229),
    (Neg (Defined ''__ARCH_NOMMU''), ''NR_mlockall'', Number 230),
    (Neg (Defined ''__ARCH_NOMMU''), ''NR_munlockall'', Number 231),
    (Neg (Defined ''__ARCH_NOMMU''), ''NR_mincore'', Number 232),
    (Neg (Defined ''__ARCH_NOMMU''), ''NR_madvise'', Number 233),
    (Neg (Defined ''__ARCH_NOMMU''), ''NR_remap_file_pages'', Number 234),
    (Neg (Defined ''__ARCH_NOMMU''), ''NR_mbind'', Number 235),
    (Neg (Defined ''__ARCH_NOMMU''), ''NR_get_mempolicy'', Number 236),
    (Neg (Defined ''__ARCH_NOMMU''), ''NR_set_mempolicy'', Number 237),
    (Neg (Defined ''__ARCH_NOMMU''), ''NR_migrate_pages'', Number 238),
    (Neg (Defined ''__ARCH_NOMMU''), ''NR_move_pages'', Number 239),
    (Always, ''NR_rt_tgsigqueueinfo'', Number 240), (Always, ''NR_perf_event_open'', Number 241),
    (Always, ''NR_accept4'', Number 242), (time32, ''NR_recvmmsg'', Number 243),
    (Always, ''NR_arch_specific_syscall'', Number 244), (time32, ''NR_wait4'', Number 260),
    (Always, ''NR_prlimit64'', Number 261), (Always, ''NR_fanotify_init'', Number 262),
    (Always, ''NR_fanotify_mark'', Number 263), (Always, ''NR_name_to_handle_at'', Number 264),
    (Always, ''NR_open_by_handle_at'', Number 265), (time32, ''NR_clock_adjtime'', Number 266),
    (Always, ''NR_syncfs'', Number 267), (Always, ''NR_setns'', Number 268),
    (Always, ''NR_sendmmsg'', Number 269), (Always, ''NR_process_vm_readv'', Number 270),
    (Always, ''NR_process_vm_writev'', Number 271), (Always, ''NR_kcmp'', Number 272),
    (Always, ''NR_finit_module'', Number 273), (Always, ''NR_sched_setattr'', Number 274),
    (Always, ''NR_sched_getattr'', Number 275), (Always, ''NR_renameat2'', Number 276),
    (Always, ''NR_seccomp'', Number 277), (Always, ''NR_getrandom'', Number 278),
    (Always, ''NR_memfd_create'', Number 279), (Always, ''NR_bpf'', Number 280),
    (Always, ''NR_execveat'', Number 281), (Always, ''NR_userfaultfd'', Number 282),
    (Always, ''NR_membarrier'', Number 283), (Always, ''NR_mlock2'', Number 284),
    (Always, ''NR_copy_file_range'', Number 285), (Always, ''NR_preadv2'', Number 286),
    (Always, ''NR_pwritev2'', Number 287), (Always, ''NR_pkey_mprotect'', Number 288),
    (Always, ''NR_pkey_alloc'', Number 289), (Always, ''NR_pkey_free'', Number 290),
    (Always, ''NR_statx'', Number 291), (time32, ''NR_io_pgetevents'', Number 292),
    (Always, ''NR_rseq'', Number 293), (Always, ''NR_kexec_file_load'', Number 294)]"

definition generic_nr_6 :: "nr_define list" where
  "generic_nr_6 = [
    (Bits 32, ''NR_clock_gettime64'', Number 403), (Bits 32, ''NR_clock_settime64'', Number 404),
    (Bits 32, ''NR_clock_adjtime64'', Number 405),
    (Bits 32, ''NR_clock_getres_time64'', Number 406),
    (Bits 32, ''NR_clock_nanosleep_time64'', Number 407),
    (Bits 32, ''NR_timer_gettime64'', Number 408), (Bits 32, ''NR_timer_settime64'', Number 409),
    (Bits 32, ''NR_timerfd_gettime64'', Number 410),
    (Bits 32, ''NR_timerfd_settime64'', Number 411),
    (Bits 32, ''NR_utimensat_time64'', Number 412),
    (Bits 32, ''NR_pselect6_time64'', Number 413), (Bits 32, ''NR_ppoll_time64'', Number 414),
    (Bits 32, ''NR_io_pgetevents_time64'', Number 416),
    (Bits 32, ''NR_recvmmsg_time64'', Number 417),
    (Bits 32, ''NR_mq_timedsend_time64'', Number 418),
    (Bits 32, ''NR_mq_timedreceive_time64'', Number 419),
    (Bits 32, ''NR_semtimedop_time64'', Number 420),
    (Bits 32, ''NR_rt_sigtimedwait_time64'', Number 421),
    (Bits 32, ''NR_futex_time64'', Number 422),
    (Bits 32, ''NR_sched_rr_get_interval_time64'', Number 423),
    (Always, ''NR_pidfd_send_signal'', Number 424), (Always, ''NR_io_uring_setup'', Number 425),
    (Always, ''NR_io_uring_enter'', Number 426), (Always, ''NR_io_uring_register'', Number 427),
    (Always, ''NR_open_tree'', Number 428), (Always, ''NR_move_mount'', Number 429),
    (Always, ''NR_fsopen'', Number 430), (Always, ''NR_fsconfig'', Number 431),
    (Always, ''NR_fsmount'', Number 432), (Always, ''NR_fspick'', Number 433),
    (Always, ''NR_pidfd_open'', Number 434),
    (Defined ''__ARCH_WANT_SYS_CLONE3'', ''NR_clone3'', Number 435),
    (Always, ''NR_syscalls'', Number 436), (native_64, ''NR_fcntl'', Same ''NR3264_fcntl''),
    (native_64, ''NR_statfs'', Same ''NR3264_statfs''),
    (native_64, ''NR_fstatfs'', Same ''NR3264_fstatfs''),
    (native_64, ''NR_truncate'', Same ''NR3264_truncate''),
    (native_64, ''NR_ftruncate'', Same ''NR3264_ftruncate''),
    (native_64, ''NR_lseek'', Same ''NR3264_lseek''),
    (native_64, ''NR_sendfile'', Same ''NR3264_sendfile''),
    (Conj native_64 new_stat, ''NR_newfstatat'', Same ''NR3264_fstatat''),
    (Conj native_64 new_stat, ''NR_fstat'', Same ''NR3264_fstat''),
    (native_64, ''NR_mmap'', Same ''NR3264_mmap''),
    (native_64, ''NR_fadvise64'', Same ''NR3264_fadvise64''),
    (Conj native_64 (Number_defined ''NR3264_stat''), ''NR_stat'', Same ''NR3264_stat''),
    (Conj native_64 (Number_defined ''NR3264_stat''), ''NR_lstat'', Same ''NR3264_lstat''),
    (Neg native_64, ''NR_fcntl64'', Same ''NR3264_fcntl''),
    (Neg native_64, ''NR_statfs64'', Same ''NR3264_statfs''),
    (Neg native_64, ''NR_fstatfs64'', Same ''NR3264_fstatfs''),
    (Neg native_64, ''NR_truncate64'', Same ''NR3264_truncate''),
    (Neg native_64, ''NR_ftruncate64'', Same ''NR3264_ftruncate''),
    (Neg native_64, ''NR_llseek'', Same ''NR3264_lseek''),
    (Neg native_64, ''NR_sendfile64'', Same ''NR3264_sendfile''),
    (Conj (Neg native_64) new_stat, ''NR_fstatat64'', Same ''NR3264_fstatat''),
    (Conj (Neg native_64) new_stat, ''NR_fstat64'', Same ''NR3264_fstat''),
    (Neg native_64, ''NR_mmap2'', Same ''NR3264_mmap''),
    (Neg native_64, ''NR_fadvise64_64'', Same ''NR3264_fadvise64''),
    (Conj (Neg native_64) (Number_defined ''NR3264_stat''), ''NR_stat64'', Same ''NR3264_stat''),
    (Conj (Neg native_64) (Number_defined ''NR3264_stat''), ''NR_lstat64'', Same ''NR3264_lstat'')]"

definition generic_nr :: "nr_define list" where
  "generic_nr = generic_nr_1 @ generic_nr_2 @ generic_nr_3 @ generic_nr_4 @ generic_nr_5 @ generic_nr_6"

lemmas generic_nr_defs = generic_nr_def generic_nr_1_def generic_nr_2_def generic_nr_3_def generic_nr_4_def generic_nr_5_def generic_nr_6_def

definition arm64_configuration :: configuration where
  "arm64_configuration =
     \<lparr>macros = [''__ARCH_WANT_RENAMEAT'', ''__ARCH_WANT_NEW_STAT'', ''__ARCH_WANT_SET_GET_RLIMIT'',
       ''__ARCH_WANT_TIME32_SYSCALLS'', ''__ARCH_WANT_SYS_CLONE3''],
      bits_per_long = 64\<rparr>"

definition generic_numbers :: "configuration \<Rightarrow> (string \<times> nat) list" where
  "generic_numbers cfg = preprocess cfg [] generic_nr"

section \<open>Looking up a number\<close>

lemma preprocess_append: "preprocess cfg nrs (xs @ ys) = preprocess cfg (preprocess cfg nrs xs) ys"
  by (induction cfg nrs xs rule: preprocess.induct) simp_all

text \<open>A part of the header that does not define \<open>n\<close> leaves its number as it is.\<close>

lemma assoc_preprocess_other:
  "list_all (\<lambda>(c, m, v). m \<noteq> n) rows \<Longrightarrow> assoc (preprocess cfg nrs rows) n = assoc nrs n"
  by (induction cfg nrs rows rule: preprocess.induct) (auto split: number.splits option.splits)

lemma assoc_preprocess_free:
  assumes "list_all (\<lambda>(c, m, v). m \<notin> names) rows" and "n \<in> names"
  shows "assoc (preprocess cfg nrs rows) n = assoc nrs n"
  by (rule assoc_preprocess_other) (use assms in \<open>auto elim!: list.pred_mono_strong\<close>)

text \<open>A bound on all numbers.\<close>

fun numbers_below :: "nat \<Rightarrow> nr_define list \<Rightarrow> bool" where
  "numbers_below b [] \<longleftrightarrow> True"
| "numbers_below b ((c, n, Number k) # rows) \<longleftrightarrow> k < b \<and> numbers_below b rows"
| "numbers_below b ((c, n, Same m) # rows) \<longleftrightarrow> numbers_below b rows"

lemma numbers_below_append: "numbers_below b (xs @ ys) \<longleftrightarrow> numbers_below b xs \<and> numbers_below b ys"
  by (induction b xs rule: numbers_below.induct) auto

abbreviation all_below :: "nat \<Rightarrow> (string \<times> nat) list \<Rightarrow> bool" where
  "all_below b \<equiv> list_all (\<lambda>(n, k). k < b)"

lemma all_below_assoc: "all_below b nrs \<Longrightarrow> assoc nrs n = Some k \<Longrightarrow> k < b"
  by (induction nrs n rule: assoc.induct) (auto split: if_splits)

lemma preprocess_below: "numbers_below b rows \<Longrightarrow> all_below b nrs \<Longrightarrow> all_below b (preprocess cfg nrs rows)"
proof (induction cfg nrs rows rule: preprocess.induct)
  case (2 cfg nrs c n v rows)
  let ?nrs = "if holds cfg nrs c then case v of Number k \<Rightarrow> (n, k) # nrs
      | Same m \<Rightarrow> (case assoc nrs m of None \<Rightarrow> nrs | Some k \<Rightarrow> (n, k) # nrs) else nrs"
  have "numbers_below b rows" using "2.prems"(1) by (cases v) auto
  moreover have "all_below b ?nrs"
    using "2.prems" by (cases v) (auto split: option.splits dest: all_below_assoc)
  ultimately show ?case using "2.IH" by simp
qed simp

lemma generic_numbers_below: "assoc (generic_numbers cfg) n = Some k \<Longrightarrow> k < 437"
proof -
  have "numbers_below 437 generic_nr_1" "numbers_below 437 generic_nr_2" "numbers_below 437 generic_nr_3"
    "numbers_below 437 generic_nr_4" "numbers_below 437 generic_nr_5" "numbers_below 437 generic_nr_6"
    by (simp_all add: generic_nr_defs)
  then have "numbers_below 437 generic_nr" by (simp add: generic_nr_def numbers_below_append)
  then have "all_below 437 (generic_numbers cfg)"
    unfolding generic_numbers_def by (rule preprocess_below) simp
  then show "assoc (generic_numbers cfg) n = Some k \<Longrightarrow> k < 437" by (rule all_below_assoc)
qed

text \<open>A number that no condition guards.\<close>

fun gives :: "string \<Rightarrow> nat \<Rightarrow> nr_define list \<Rightarrow> bool" where
  "gives n k [] \<longleftrightarrow> False"
| "gives n k ((c, m, v) # rows) \<longleftrightarrow>
     (if m = n then c = Always \<and> v = Number k \<and> list_all (\<lambda>(c, m, v). m \<noteq> n) rows
      else gives n k rows)"

lemma assoc_preprocess_gives:
  "gives n k rows \<Longrightarrow> assoc (preprocess cfg nrs rows) n = Some k"
  by (induction n k rows arbitrary: nrs rule: gives.induct) (auto simp: assoc_preprocess_other split: if_splits)

lemma generic_numbers_used:
  "assoc (generic_numbers cfg) ''NR_write'' = Some 64"
  "assoc (generic_numbers cfg) ''NR_pipe2'' = Some 59"
  "assoc (generic_numbers cfg) ''NR_recvfrom'' = Some 207"
  "assoc (generic_numbers cfg) ''NR_pipe'' = None"
  "assoc (generic_numbers cfg) ''NR_socketcall'' = None"
proof -
  note parts = generic_numbers_def generic_nr_def preprocess_append
  have "gives ''NR_write'' 64 generic_nr_2" "gives ''NR_pipe2'' 59 generic_nr_2"
    "gives ''NR_recvfrom'' 207 generic_nr_4"
    by (simp_all add: generic_nr_defs)
  note found = this [THEN assoc_preprocess_gives]
  have free: "list_all (\<lambda>(c, m, v). m \<notin> {''NR_write'', ''NR_pipe2'', ''NR_recvfrom'', ''NR_pipe'', ''NR_socketcall''}) generic_nr_1"
    "list_all (\<lambda>(c, m, v). m \<notin> {''NR_write'', ''NR_pipe2'', ''NR_recvfrom'', ''NR_pipe'', ''NR_socketcall''}) generic_nr_3"
    "list_all (\<lambda>(c, m, v). m \<notin> {''NR_write'', ''NR_pipe2'', ''NR_recvfrom'', ''NR_pipe'', ''NR_socketcall''}) generic_nr_5"
    "list_all (\<lambda>(c, m, v). m \<notin> {''NR_write'', ''NR_pipe2'', ''NR_recvfrom'', ''NR_pipe'', ''NR_socketcall''}) generic_nr_6"
    "list_all (\<lambda>(c, m, v). m \<notin> {''NR_recvfrom'', ''NR_pipe'', ''NR_socketcall''}) generic_nr_2"
    "list_all (\<lambda>(c, m, v). m \<notin> {''NR_write'', ''NR_pipe2'', ''NR_pipe'', ''NR_socketcall''}) generic_nr_4"
    by (simp_all add: generic_nr_defs)
  note other = free [THEN assoc_preprocess_free]
  show "assoc (generic_numbers cfg) ''NR_write'' = Some 64"
    "assoc (generic_numbers cfg) ''NR_pipe2'' = Some 59"
    "assoc (generic_numbers cfg) ''NR_recvfrom'' = Some 207"
    "assoc (generic_numbers cfg) ''NR_pipe'' = None"
    "assoc (generic_numbers cfg) ''NR_socketcall'' = None"
    by (simp_all add: parts other found)
qed

end
