(* ===== verification/Kernel_Interface.thy ===== *)
theory Kernel_Interface
  imports Errno Network_Conversion Sysnums
begin

text \<open>
  The world a system call runs in, the structures of \<open>include/xnu_syscall/\<close> that carry its arguments
  and results, and the way down to the host: the \<open>LINUX_SYSCALL\<close> macros of \<open>include/common/base.h\<close>
  and the functions of \<open>src/common/base.c\<close>.

  What is not in the repository is collected in the record \<open>env\<close>: the Linux kernel, the libc of
  macOS, the host's headers, and the address the C compiler gives to a local array.
\<close>

unbundle bit_operations_syntax

section \<open>Structures\<close>

datatype darling_syscall_retarg_type =
    RETARG_TYPE_INVALID
  | RETARG_TYPE_NONE
  | RETARG_TYPE_INT_T
  | RETARG_TYPE_UINT_T
  | RETARG_TYPE_OFF_T
  | RETARG_TYPE_ADDR_T
  | RETARG_TYPE_SIZE_T
  | RETARG_TYPE_SSIZE_T
  | RETARG_TYPE_UINT64_T

datatype darling_syscall_type =
    SYSCALL_TYPE_INVALID
  | SYSCALL_TYPE_UNIX
  | SYSCALL_TYPE_MACH
  | SYSCALL_TYPE_MACHDEP

text \<open>\<open>arg\<close> is an array of 9 elements.\<close>

record darling_syscall_args =
  sysnum :: c_int
  arg :: "u64 list"

record darling_syscall_retarg =
  syscall_type :: darling_syscall_type
  result_type :: darling_syscall_retarg_type
  result0 :: c_int
  result1 :: c_int

text \<open>\<open>arch_specific_regs\<close> is a pointer to the saved registers.\<close>

record darling_syscall_args_builder =
  args :: darling_syscall_args
  indirect_syscall :: bool
  arch_specific_regs :: u64
  arg_count :: int

text \<open>\<open>*((int64_t *) &result[0])\<close>: the two elements of \<open>result\<close> as one 64-bit object.\<close>

definition set_result64 :: "u64 \<Rightarrow> darling_syscall_retarg \<Rightarrow> darling_syscall_retarg" where
  "set_result64 v ret = ret\<lparr>result0 := ucast v, result1 := ucast (drop_bit 32 v)\<rparr>"

definition get_result64 :: "darling_syscall_retarg \<Rightarrow> u64" where
  "get_result64 ret = ucast (result0 ret) OR push_bit 32 (ucast (result1 ret))"

lemma result64_round_trip: "get_result64 (set_result64 v ret) = v"
  by (rule bit_word_eqI) (auto simp: get_result64_def set_result64_def bit_simps)

section \<open>The world\<close>

text \<open>What the program prints, and where.\<close>

datatype message =
    In_handle_x86_64_syscall
  | In_syscall_unix
  | In_syscall_mach
  | In_syscall_machdep
  | Diag_not_supported
  | Unknown_class c_int
  | Unimplemented string c_int
  | Out_of_range string c_int
  | Unimplemented_syscall c_int
  | Unimplemented_machdep_trap c_int
  | In_cerror_nocancel c_int
  | In_cerror c_int

text \<open>\<open>darling_errno\<close> is thread-local; the model follows one thread.\<close>

record 'k world =
  kstate :: 'k
  mem :: memory
  console :: "message list"
  darling_errno :: c_int

definition say :: "message \<Rightarrow> 'k world \<Rightarrow> 'k world" where
  "say msg w = w\<lparr>console := console w @ [msg]\<rparr>"

lemma say_simps [simp]:
  "kstate (say msg w) = kstate w" "mem (say msg w) = mem w"
  "darling_errno (say msg w) = darling_errno w" "console (say msg w) = console w @ [msg]"
  by (simp_all add: say_def)

section \<open>The host\<close>

datatype platform = Linux | Apple

datatype libc_fn = Libc_write | Libc_pipe | Libc_recvfrom

text \<open>
  The kernel takes the number and the six argument registers; a libc call also yields the value of
  \<open>errno\<close> after it.
\<close>

type_synonym 'k kernel = "c_int \<Rightarrow> u64 list \<Rightarrow> 'k \<Rightarrow> memory \<Rightarrow> u64 \<times> 'k \<times> memory"
type_synonym 'k libc = "libc_fn \<Rightarrow> u64 list \<Rightarrow> 'k \<Rightarrow> memory \<Rightarrow> u64 \<times> c_int \<times> 'k \<times> memory"

record 'k env =
  platform :: platform
  errno_h :: errno_header
  socket_h :: socket_header
  kernel :: "'k kernel"
  libc :: "'k libc"
  pipe_fd :: u64          \<comment> \<open>address of \<open>int fd[2]\<close> in \<open>sys_pipe\<close>\<close>

text \<open>The number of an error of the host's \<open><errno.h>\<close>, as an \<open>int\<close>.\<close>

definition host_errno :: "'k env \<Rightarrow> string \<Rightarrow> c_int" where
  "host_errno e n = of_nat (errno_h e n)"

section \<open>System calls of the host\<close>

definition linux_syscall ::
  "'k env \<Rightarrow> u64 \<Rightarrow> u64 \<Rightarrow> u64 \<Rightarrow> u64 \<Rightarrow> u64 \<Rightarrow> u64 \<Rightarrow> c_int \<Rightarrow> 'k world \<Rightarrow> u64 \<times> 'k world" where
  "linux_syscall e a1 a2 a3 a4 a5 a6 nr w =
     (case kernel e nr [a1, a2, a3, a4, a5, a6] (kstate w) (mem w) of
        (r, k, m) \<Rightarrow> (r, w\<lparr>kstate := k, mem := m\<rparr>))"

definition LINUX_SYSCALL0 where
  "LINUX_SYSCALL0 e nr = linux_syscall e 0 0 0 0 0 0 nr"
definition LINUX_SYSCALL1 where
  "LINUX_SYSCALL1 e nr a1 = linux_syscall e a1 0 0 0 0 0 nr"
definition LINUX_SYSCALL2 where
  "LINUX_SYSCALL2 e nr a1 a2 = linux_syscall e a1 a2 0 0 0 0 nr"
definition LINUX_SYSCALL3 where
  "LINUX_SYSCALL3 e nr a1 a2 a3 = linux_syscall e a1 a2 a3 0 0 0 nr"
definition LINUX_SYSCALL4 where
  "LINUX_SYSCALL4 e nr a1 a2 a3 a4 = linux_syscall e a1 a2 a3 a4 0 0 nr"
definition LINUX_SYSCALL5 where
  "LINUX_SYSCALL5 e nr a1 a2 a3 a4 a5 = linux_syscall e a1 a2 a3 a4 a5 0 nr"
definition LINUX_SYSCALL6 where
  "LINUX_SYSCALL6 e nr a1 a2 a3 a4 a5 a6 = linux_syscall e a1 a2 a3 a4 a5 a6 nr"

lemmas LINUX_SYSCALL_defs = LINUX_SYSCALL0_def LINUX_SYSCALL1_def LINUX_SYSCALL2_def
  LINUX_SYSCALL3_def LINUX_SYSCALL4_def LINUX_SYSCALL5_def LINUX_SYSCALL6_def

text \<open>
  The macro with a variable number of arguments, the number of the call included: the count of the arguments
  is the ninth element of a list that they push to the right, and it selects one of the macros above.
\<close>

definition SYSCALL_NARGS :: "'a list \<Rightarrow> nat option" where
  "SYSCALL_NARGS va = (map (\<lambda>_. None) va @ map Some [7, 6, 5, 4, 3, 2, 1, 0]) ! 8"

definition LINUX_SYSCALL ::
  "'k env \<Rightarrow> u64 list \<Rightarrow> ('k world \<Rightarrow> u64 \<times> 'k world) option" where
  "LINUX_SYSCALL e va =
     (let nr = ucast (va ! 0) in
      case SYSCALL_NARGS va of
        None \<Rightarrow> None
      | Some n \<Rightarrow>
          if n = 0 then Some (LINUX_SYSCALL0 e nr)
          else if n = 1 then Some (LINUX_SYSCALL1 e nr (va ! 1))
          else if n = 2 then Some (LINUX_SYSCALL2 e nr (va ! 1) (va ! 2))
          else if n = 3 then Some (LINUX_SYSCALL3 e nr (va ! 1) (va ! 2) (va ! 3))
          else if n = 4 then Some (LINUX_SYSCALL4 e nr (va ! 1) (va ! 2) (va ! 3) (va ! 4))
          else if n = 5 then Some (LINUX_SYSCALL5 e nr (va ! 1) (va ! 2) (va ! 3) (va ! 4) (va ! 5))
          else if n = 6 then Some (LINUX_SYSCALL6 e nr (va ! 1) (va ! 2) (va ! 3) (va ! 4) (va ! 5) (va ! 6))
          else None)"

text \<open>Whatever the count, the arguments that are missing are 0.\<close>

lemma LINUX_SYSCALL_padded:
  assumes "length as \<le> 6"
  defines "a \<equiv> \<lambda>i. (as @ replicate 6 0) ! i"
  shows "LINUX_SYSCALL e (nr # as) = Some (linux_syscall e (a 0) (a 1) (a 2) (a 3) (a 4) (a 5) (ucast nr))"
proof -
  consider "as = []" | a1 where "as = [a1]" | a1 a2 where "as = [a1, a2]" | a1 a2 a3 where "as = [a1, a2, a3]"
    | a1 a2 a3 a4 where "as = [a1, a2, a3, a4]" | a1 a2 a3 a4 a5 where "as = [a1, a2, a3, a4, a5]"
    | a1 a2 a3 a4 a5 a6 where "as = [a1, a2, a3, a4, a5, a6]"
    using assms(1) by (auto simp: le_Suc_eq length_Suc_conv numeral_eq_Suc)
  then show ?thesis
    by cases (simp_all add: LINUX_SYSCALL_def SYSCALL_NARGS_def a_def LINUX_SYSCALL_defs numeral_eq_Suc)
qed

text \<open>\<open>__NR_<name>\<close>, when the header of the architecture defines it.\<close>

definition NR :: "string \<Rightarrow> c_int option" where
  "NR n = map_option of_nat (linux_nr X86_64 n)"

lemma NR_used [simp]:
  "NR ''write'' = Some 1" "NR ''pipe'' = Some 22" "NR ''recvfrom'' = Some 45"
  "NR ''socketcall'' = None"
  by (simp_all add: NR_def linux_nr_used linux_nr_socketcall)

definition libc_call ::
  "'k env \<Rightarrow> libc_fn \<Rightarrow> u64 list \<Rightarrow> 'k world \<Rightarrow> u64 \<times> c_int \<times> 'k world" where
  "libc_call e f as w =
     (case libc e f as (kstate w) (mem w) of
        (r, err, k, m) \<Rightarrow> (r, err, w\<lparr>kstate := k, mem := m\<rparr>))"

text \<open>\<open>src/common/base.c\<close>: the result of \<open>__linux_syscall\<close> is cut to an \<open>int\<close>.\<close>

definition emul_linux_syscall ::
  "'k env \<Rightarrow> c_int \<Rightarrow> u64 \<Rightarrow> u64 \<Rightarrow> u64 \<Rightarrow> u64 \<Rightarrow> u64 \<Rightarrow> u64 \<Rightarrow> 'k world \<Rightarrow> c_int \<times> 'k world" where
  "emul_linux_syscall e nr a1 a2 a3 a4 a5 a6 w =
     (case linux_syscall e a1 a2 a3 a4 a5 a6 nr w of (r, w') \<Rightarrow> (ucast r, w'))"

definition unknown_syscall :: "'k env \<Rightarrow> c_int \<Rightarrow> 'k world \<Rightarrow> u64 \<times> 'k world" where
  "unknown_syscall e nr w = (scast (- host_errno e ''ENOSYS''), say (Unimplemented_syscall nr) w)"

definition unknown_syscall_machdep :: "'k env \<Rightarrow> c_int \<Rightarrow> 'k world \<Rightarrow> u64 \<times> 'k world" where
  "unknown_syscall_machdep e nr w =
     (scast (- host_errno e ''ENOSYS''), say (Unimplemented_machdep_trap nr) w)"

section \<open>An example host\<close>

text \<open>
  A Linux host on which the worked examples run: \<open>write\<close> takes every byte, unless the descriptor is
  9 (\<open>EBADF\<close>); \<open>pipe\<close> gives the descriptors 5 and 6; anything else is \<open>ENOSYS\<close>.  Its kernel state
  is the list of the calls it got.
\<close>

definition example_kernel :: "(c_int \<times> u64 list) list kernel" where
  "example_kernel nr as k m =
     (if nr = 1 then if as ! 0 = 9 then (- 9, k @ [(nr, as)], m) else (as ! 2, k @ [(nr, as)], m)
      else if nr = 22 then (0, k @ [(nr, as)], store32 (store32 m (as ! 0) 5) (as ! 0 + 4) 6)
      else (- 38, k @ [(nr, as)], m))"

definition example_libc :: "(c_int \<times> u64 list) list libc" where
  "example_libc f as k m =
     (case f of
        Libc_write \<Rightarrow> if as ! 0 = 9 then (- 1, 9, k, m) else (as ! 2, 0, k, m)
      | Libc_pipe \<Rightarrow> (0, 0, k, store32 (store32 m (as ! 0) 5) (as ! 0 + 4) 6)
      | Libc_recvfrom \<Rightarrow> (0, 0, k, m))"

definition example_host :: "(c_int \<times> u64 list) list env" where
  "example_host =
     \<lparr>platform = Linux, errno_h = linux_errno, socket_h = linux_socket_h,
      kernel = example_kernel, libc = example_libc, pipe_fd = 0x7FE0\<rparr>"

definition example_mac :: "(c_int \<times> u64 list) list env" where
  "example_mac = example_host\<lparr>platform := Apple, errno_h := darwin_errno, socket_h := darwin_socket_h\<rparr>"

definition example_world :: "(c_int \<times> u64 list) list world" where
  "example_world = \<lparr>kstate = [], mem = (\<lambda>_. 0), console = [], darling_errno = 0\<rparr>"

lemma example_enosys: "host_errno example_host ''ENOSYS'' = 38" "host_errno example_mac ''ENOSYS'' = 78"
  by code_simp+

end
