(* ===== verification/Vchroot.thy ===== *)
theory Vchroot
  imports Kernel_Interface
begin

text \<open>
  The translation of paths, \<open>src/linux_premigration/vchroot_userspace.c\<close>, which in this version of the
  program consists of stubs, and the working directory of a thread, \<open>common/bsdthread/per_thread_wd.h\<close>.
  Nothing calls the static functions, and nothing writes the static variables, which are constants here.
\<close>

unbundle bit_operations_syntax

section \<open>Constants of \<open>conversion/common_at.h\<close>\<close>

definition LINUX_AT_INVALID :: c_int where "LINUX_AT_INVALID = 0x1"
definition LINUX_AT_FDCWD :: c_int where "LINUX_AT_FDCWD = - 100"
definition LINUX_AT_SYMLINK_NOFOLLOW :: c_int where "LINUX_AT_SYMLINK_NOFOLLOW = 0x100"
definition LINUX_AT_REMOVEDIR :: c_int where "LINUX_AT_REMOVEDIR = 0x200"
definition LINUX_AT_SYMLINK_FOLLOW :: c_int where "LINUX_AT_SYMLINK_FOLLOW = 0x400"
definition LINUX_AT_EMPTY_PATH :: c_int where "LINUX_AT_EMPTY_PATH = 0x1000"
definition BSD_AT_FDCWD :: c_int where "BSD_AT_FDCWD = - 2"
definition BSD_AT_SYMLINK_NOFOLLOW :: c_int where "BSD_AT_SYMLINK_NOFOLLOW = 0x20"
definition BSD_AT_REMOVEDIR :: c_int where "BSD_AT_REMOVEDIR = 0x80"
definition BSD_AT_SYMLINK_FOLLOW :: c_int where "BSD_AT_SYMLINK_FOLLOW = 0x40"
definition BSD_AT_EACCESS :: c_int where "BSD_AT_EACCESS = 0x10"
definition BSD_AT_REMOVEDIR_DATALESS :: c_int where "BSD_AT_REMOVEDIR_DATALESS = 0x100"
definition BSD_AT_REALDEV :: c_int where "BSD_AT_REALDEV = 0x200"
definition BSD_AT_FDONLY :: c_int where "BSD_AT_FDONLY = 0x400"

section \<open>The functions\<close>

definition VCHROOT_FOLLOW :: u32 where "VCHROOT_FOLLOW = 1"

text \<open>\<open>path\<close> is a \<open>char[4096]\<close>; the model keeps the string in it.\<close>

record vchroot_expand_args =
  expand_path :: "u8 list"
  expand_flags :: u32
  expand_dfd :: c_int

record vchroot_unexpand_args =
  unexpand_path :: "u8 list"

text \<open>\<open>path\<close> points to a buffer of \<open>maxlen\<close> bytes.\<close>

record vchroot_fdpath_args =
  fdpath_fd :: c_int
  fdpath_path :: u64
  fdpath_maxlen :: u32

text \<open>The three functions are stubs that report success and change nothing.\<close>

definition vchroot_expand :: "vchroot_expand_args \<Rightarrow> c_int \<times> vchroot_expand_args" where
  "vchroot_expand vc = (0, vc)"

definition vchroot_unexpand :: "vchroot_unexpand_args \<Rightarrow> c_int \<times> vchroot_unexpand_args" where
  "vchroot_unexpand vc = (0, vc)"

definition vchroot_fdpath :: "vchroot_fdpath_args \<Rightarrow> memory \<Rightarrow> c_int \<times> memory" where
  "vchroot_fdpath vc m = (0, m)"

definition get_perthread_wd :: c_int where
  "get_perthread_wd = LINUX_AT_FDCWD"

text \<open>\<open>set_perthread_wd\<close> has no effect: its body is commented out.\<close>

definition set_perthread_wd :: "c_int \<Rightarrow> 'k world \<Rightarrow> 'k world" where
  "set_perthread_wd fd w = w"

section \<open>The static functions\<close>

definition LINUX_S_IFMT :: u32 where "LINUX_S_IFMT = 0xF000"
definition LINUX_S_IFLNK :: u32 where "LINUX_S_IFLNK = 0xA000"
definition prefix_path :: "u8 list" where "prefix_path = replicate 4096 0"
definition prefix_path_len :: c_int where "prefix_path_len = - 1"
definition EXIT_PATH :: string where "EXIT_PATH = ''/Volumes/SystemRoot''"
definition MAX_SYMLINK_DEPTH :: c_int where "MAX_SYMLINK_DEPTH = 10"

record vchroot_context =
  current_root :: u64
  current_root_len :: c_int
  current_path :: "u8 list"
  current_path_len :: c_int
  symlink_depth :: c_int
  unknown_component :: bool
  follow :: bool

definition init_vchroot_path :: "'k world \<Rightarrow> 'k world" where
  "init_vchroot_path w = w"

definition vchroot_run :: "u64 \<Rightarrow> vchroot_context \<Rightarrow> 'k world \<Rightarrow> c_int \<times> vchroot_context \<times> 'k world" where
  "vchroot_run input_path ctxt w = (0, ctxt, w)"

definition next_component :: "u64 \<Rightarrow> u64 \<Rightarrow> 'k world \<Rightarrow> bool \<times> 'k world" where
  "next_component from_path end_ptr w = (True, w)"

end
