(* ===== verification/Sockaddr.thy ===== *)
theory Sockaddr
  imports Vchroot
begin

text \<open>
  The socket address fix-up of \<open>src/xnu_syscall/bsd/helper/network/duct.c\<close>: a \<open>sockaddr\<close> in memory
  is rewritten in place between its BSD and Linux layouts, its path translated by \<open>Vchroot\<close>.

  \<open>struct sockaddr_fixup\<close> is 106 bytes: two bytes that are either the Linux family (a little-endian
  16-bit number) or the BSD length and the BSD family (one byte each), and \<open>char sun_path[104]\<close>.
\<close>

unbundle bit_operations_syntax

section \<open>The structure in memory\<close>

definition sizeof_sockaddr_fixup :: nat where "sizeof_sockaddr_fixup = 106"
definition sizeof_sun_path :: nat where "sizeof_sun_path = 104"
definition PATH_SIZE :: nat where "PATH_SIZE = 4096"

lemmas sizeof_defs [simp] = sizeof_sockaddr_fixup_def sizeof_sun_path_def PATH_SIZE_def

definition linux_family :: "memory \<Rightarrow> u64 \<Rightarrow> u16" where
  "linux_family m p = le_word (load_bytes m p 2)"

definition set_linux_family :: "memory \<Rightarrow> u64 \<Rightarrow> u16 \<Rightarrow> memory" where
  "set_linux_family m p v = store_bytes m p (le_bytes 2 v)"

definition bsd_length :: "memory \<Rightarrow> u64 \<Rightarrow> u8" where
  "bsd_length m p = m p"

definition set_bsd_length :: "memory \<Rightarrow> u64 \<Rightarrow> u8 \<Rightarrow> memory" where
  "set_bsd_length m p v = store_bytes m p [v]"

definition bsd_family :: "memory \<Rightarrow> u64 \<Rightarrow> u8" where
  "bsd_family m p = m (p + 1)"

definition set_bsd_family :: "memory \<Rightarrow> u64 \<Rightarrow> u8 \<Rightarrow> memory" where
  "set_bsd_family m p v = store_bytes m (p + 1) [v]"

definition sun_path :: "u64 \<Rightarrow> u64" where
  "sun_path p = p + 2"

definition memcpy :: "memory \<Rightarrow> u64 \<Rightarrow> u64 \<Rightarrow> nat \<Rightarrow> memory" where
  "memcpy m dst src n = store_bytes m dst (load_bytes m src n)"

text \<open>
  The common end of the two conversions: \<open>strncpy (out->sun_path, vc.path, sizeof (out->sun_path) - 1)\<close>
  and \<open>out->sun_path[sizeof (out->sun_path) - 1] = '\0'\<close>.
\<close>

definition set_sun_path :: "memory \<Rightarrow> u64 \<Rightarrow> u8 list \<Rightarrow> memory" where
  "set_sun_path m out s =
     store_bytes (store_bytes m (sun_path out) (strncpy_bytes (sizeof_sun_path - 1) s))
       (sun_path out + of_nat (sizeof_sun_path - 1)) [0]"

definition strlen :: "memory \<Rightarrow> u64 \<Rightarrow> nat \<Rightarrow> nat" where
  "strlen m p n = (case c_string m p n of Some s \<Rightarrow> length s | None \<Rightarrow> n)"

section \<open>The conversions\<close>

definition sockaddr_fixup_size_from_bsd :: "'k env \<Rightarrow> u64 \<Rightarrow> c_int \<Rightarrow> memory \<Rightarrow> u64" where
  "sockaddr_fixup_size_from_bsd e bsd_sockaddr bsd_sockaddr_len m =
     (if ucast (bsd_family m bsd_sockaddr) = socket_h e PF_LOCAL
      then of_nat sizeof_sockaddr_fixup else scast bsd_sockaddr_len)"

definition sockaddr_fixup_from_bsd ::
  "'k env \<Rightarrow> u64 \<Rightarrow> u64 \<Rightarrow> c_int \<Rightarrow> memory \<Rightarrow> fault + c_int \<times> memory" where
  "sockaddr_fixup_from_bsd e out bsd_sockaddr bsd_sockaddr_len m =
     (if bsd_sockaddr_len <s 0 then Inl Memcpy_range
      else
        let m = memcpy m out bsd_sockaddr (unat bsd_sockaddr_len);
            m = set_linux_family m out
                  (ucast (sfamily_bsd_to_linux (socket_h e) (ucast (bsd_family m out))))
        in if ucast (linux_family m out) = LINUX_PF_LOCAL
           then (case c_string m (sun_path out) PATH_SIZE of
                   None \<Rightarrow> Inl Strcpy_overflow
                 | Some s \<Rightarrow>
                     (case vchroot_expand \<lparr>expand_path = s, expand_flags = VCHROOT_FOLLOW,
                                            expand_dfd = get_perthread_wd\<rparr> of
                        (ret, vc) \<Rightarrow>
                          if ret <s 0 then Inr (errno_linux_to_bsd (errno_h e) ret, m)
                          else
                            let m = set_sun_path m out (expand_path vc)
                            in Inr (of_nat (sizeof_sockaddr_fixup - sizeof_sun_path
                                      + strlen m (sun_path out) sizeof_sun_path), m)))
           else Inr (bsd_sockaddr_len, m))"

definition sockaddr_fixup_from_linux ::
  "'k env \<Rightarrow> u64 \<Rightarrow> u64 \<Rightarrow> c_int \<Rightarrow> memory \<Rightarrow> fault + c_int \<times> memory" where
  "sockaddr_fixup_from_linux e out linux_sockaddr linux_sockaddr_len m =
     (if linux_sockaddr_len <s 0 then Inl Memcpy_range
      else
        let m = memcpy m out linux_sockaddr (unat linux_sockaddr_len);
            m = set_bsd_family m out
                  (ucast (sfamily_linux_to_bsd (socket_h e) (ucast (linux_family m out))));
            finish = (\<lambda>ret m. (ret, if ret <s 0 then m else set_bsd_length m out (ucast ret)))
        in if ucast (bsd_family m out) = socket_h e PF_LOCAL
           then (case c_string m (sun_path out) PATH_SIZE of
                   None \<Rightarrow> Inl Strcpy_overflow
                 | Some s \<Rightarrow>
                     (case vchroot_unexpand \<lparr>unexpand_path = s\<rparr> of
                        (ret, vc) \<Rightarrow>
                          if ret <s 0 then Inr (errno_linux_to_bsd (errno_h e) ret, m)
                          else
                            let m = set_sun_path m out (unexpand_path vc)
                            in Inr (finish (of_nat (sizeof_sockaddr_fixup - sizeof_sun_path
                                      + strlen m (sun_path out) sizeof_sun_path + 1)) m)))
           else Inr (finish linux_sockaddr_len m))"

section \<open>Facts on the structure\<close>

lemma memcpy_same: "memcpy m p p n = m"
proof
  fix x
  show "memcpy m p p n x = m x"
    by (cases "in_region p n x") (simp_all add: memcpy_def store_bytes_def)
qed

lemma memcpy_at:
  "i < n \<Longrightarrow> n \<le> 2 ^ 64 \<Longrightarrow> memcpy m dst src n (dst + of_nat i) = m (src + of_nat i)"
  by (simp add: memcpy_def store_bytes_def unat_of_nat_lt)

lemma byte_int_byte [simp]: "ucast (ucast (b :: u8) :: c_int) = b"
  by (rule bit_word_eqI) (simp add: bit_simps)

lemma linux_family_alt: "linux_family m p = ucast (m p) OR push_bit 8 (ucast (m (p + 1)))"
  by (simp add: linux_family_def load_bytes_def upt_rec)

lemma set_linux_family_alt:
  "set_linux_family m p v = (m(p + 1 := ucast (drop_bit 8 v)))(p := ucast v)"
  by (simp add: set_linux_family_def le_bytes_def upt_rec store_bytes_Cons)

lemma set_bsd_length_alt: "set_bsd_length m p v = m(p := v)"
  by (simp add: set_bsd_length_def store_bytes_single)

lemma set_bsd_family_alt: "set_bsd_family m p v = m(p + 1 := v)"
  by (simp add: set_bsd_family_def store_bytes_single)

lemmas family_alts = linux_family_alt set_linux_family_alt set_bsd_length_alt set_bsd_family_alt
  bsd_family_def bsd_length_def

lemma nth_strncpy_bytes:
  "i < n \<Longrightarrow> strncpy_bytes n s ! i = (if i < length s then s ! i else 0)"
  by (simp add: strncpy_bytes_def nth_append)

lemma set_sun_path_alt:
  "set_sun_path m out s =
     (store_bytes m (sun_path out) (strncpy_bytes 103 s))(sun_path out + 103 := 0)"
  by (simp add: set_sun_path_def store_bytes_single)

lemma set_sun_path_at:
  assumes "i < 104"
  shows "set_sun_path m out s (sun_path out + of_nat i)
    = (if i < length s \<and> i < 103 then s ! i else 0)"
proof (cases "i = 103")
  case True
  then show ?thesis by (simp add: set_sun_path_alt)
next
  case False
  then have "(of_nat i :: u64) \<noteq> of_nat 103"
    using assms by (subst of_nat_64_eq) simp_all
  then have "(of_nat i :: u64) \<noteq> 103" by simp
  moreover have "unat (of_nat i :: u64) = i"
    using assms by (intro unat_of_nat_lt [of _ 104]) simp_all
  ultimately show ?thesis
    using assms False by (simp add: set_sun_path_alt store_bytes_def nth_strncpy_bytes)
qed

lemma set_sun_path_outside:
  assumes "\<not> in_region (sun_path out) 104 x"
  shows "set_sun_path m out s x = m x"
proof -
  have "x \<noteq> sun_path out + 103" using assms by auto
  then show ?thesis
    using assms by (simp add: set_sun_path_alt store_bytes_def)
qed

lemma c_string_set_sun_path:
  assumes "0 \<notin> set s" and "103 < n"
  shows "c_string (set_sun_path m out s) (sun_path out) n = Some (take 103 s)"
proof (rule c_string_intro)
  let ?l = "length (take 103 s)"
  show "set_sun_path m out s (sun_path out + of_nat (length (take 103 s))) = 0"
    using set_sun_path_at [of ?l m out s] by auto
  show "set_sun_path m out s (sun_path out + of_nat i) = take 103 s ! i"
    if "i < length (take 103 s)" for i
    using set_sun_path_at [of i m out s] that by simp
qed (use assms in \<open>auto dest: in_set_takeD\<close>)

lemma strlen_set_sun_path:
  "0 \<notin> set s \<Longrightarrow> strlen (set_sun_path m out s) (sun_path out) 104 = min (length s) 103"
  by (simp add: strlen_def c_string_set_sun_path min.commute)

section \<open>What the conversions do\<close>

text \<open>A byte written outside a string does not change the string.\<close>

lemma c_string_frame:
  "(\<And>i. i < n \<Longrightarrow> m (p + of_nat i) = m' (p + of_nat i)) \<Longrightarrow> c_string m p n = c_string m' p n"
proof (induction m p n rule: c_string.induct)
  case (2 m p n)
  have p: "m p = m' p" using "2.prems" [of 0] by simp
  have rest: "c_string m (p + 1) n = c_string m' (p + 1) n" if "m p \<noteq> 0"
  proof (rule "2.IH" [OF that])
    show "m (p + 1 + of_nat i) = m' (p + 1 + of_nat i)" if "i < n" for i
      using "2.prems" [of "Suc i"] that by (simp add: add.assoc)
  qed
  show ?case
  proof (cases "m p = 0")
    case True
    then show ?thesis using p by simp
  next
    case False
    with p have "m' p \<noteq> 0" by simp
    then show ?thesis using False by (simp add: rest p split: option.split)
  qed
qed simp

lemma c_string_upd_outside:
  assumes "\<not> in_region p n x" and "n \<le> 2 ^ 64"
  shows "c_string (m(x := v)) p n = c_string m p n"
proof (rule c_string_frame)
  fix i assume i: "i < n"
  have "p + of_nat i \<noteq> x"
  proof
    assume "p + of_nat i = x"
    then have "x - p = of_nat i" by auto
    then have "unat (x - p) = i" using i assms(2) by (simp only: unat_of_nat_lt)
    then show False using i assms(1) by simp
  qed
  then show "(m(x := v)) (p + of_nat i) = m (p + of_nat i)" by simp
qed

lemma before_path: "\<not> in_region (sun_path p) 4096 p" "\<not> in_region (sun_path p) 4096 (p + 1)"
proof -
  have "p - sun_path p = 18446744073709551614" and "p + 1 - sun_path p = 18446744073709551615"
    by (simp_all add: sun_path_def)
  then show "\<not> in_region (sun_path p) 4096 p" "\<not> in_region (sun_path p) 4096 (p + 1)"
    by (simp_all only:) simp_all
qed

lemma c_string_path_upd [simp]:
  "c_string (m(p := v)) (sun_path p) 4096 = c_string m (sun_path p) 4096"
  "c_string (m(p + 1 := v)) (sun_path p) 4096 = c_string m (sun_path p) 4096"
  by (simp_all add: c_string_upd_outside before_path)

text \<open>The header bytes are outside the path as well.\<close>

lemma header_not_path:
  "\<not> in_region (sun_path p) 104 p" "\<not> in_region (sun_path p) 104 (p + 1)"
  using before_path [of p] by auto

lemma set_sun_path_header [simp]:
  "set_sun_path m p s p = m p" "set_sun_path m p s (p + 1) = m (p + 1)"
  by (simp_all add: set_sun_path_outside header_not_path)


text \<open>\<open>sys_recvfrom\<close> converts the address in place.\<close>

lemma sockaddr_from_linux_other_family:
  fixes p :: u64
  defines "fam \<equiv> \<lambda>e m. sfamily_linux_to_bsd (socket_h e) (ucast (linux_family m p))"
  assumes "\<not> len <s 0" and "ucast (ucast (fam e m) :: u8) \<noteq> socket_h e PF_LOCAL"
  shows "sockaddr_fixup_from_linux e p p len m
    = Inr (len, m(p + 1 := ucast (fam e m), p := ucast len))"
  using assms(2,3)
  by (simp add: sockaddr_fixup_from_linux_def memcpy_same family_alts fam_def Let_def)

lemma of_nat_byte: "ucast (of_nat n :: c_int) = (of_nat n :: u8)"
  by (rule bit_word_eqI) (simp add: bit_simps)

lemma small_length_nonneg:
  assumes "n < 2 ^ 31"
  shows "\<not> (of_nat n :: c_int) <s 0"
proof -
  have "take_bit 32 n = n" using assms by (intro take_bit_nat_eq_self) simp
  then have "uint (of_nat n :: c_int) = int n" by (simp add: unsigned_of_nat)
  then show ?thesis using assms by (simp only: sless_0_int not_le) simp
qed

lemma sockaddr_from_linux_local:
  assumes "\<not> len <s 0" and "ucast (linux_family m p) = LINUX_PF_LOCAL"
    and "ucast (ucast (socket_h e PF_LOCAL) :: u8) = socket_h e PF_LOCAL"
    and "c_string m (sun_path p) PATH_SIZE = Some s"
  shows "sockaddr_fixup_from_linux e p p len m
    = Inr (of_nat (3 + min (length s) 103),
        (set_sun_path (m(p + 1 := ucast (socket_h e PF_LOCAL))) p s)
          (p := of_nat (3 + min (length s) 103)))"
proof -
  have fam: "sfamily_linux_to_bsd (socket_h e) (ucast (linux_family m p)) = socket_h e PF_LOCAL"
    by (simp add: assms(2) sfamily_linux_to_bsd_def)
  have "0 \<notin> set s" using c_string_Some [OF assms(4)] by simp
  then have len: "strlen (set_sun_path m' p s) (sun_path p) 104 = min (length s) 103" for m'
    by (rule strlen_set_sun_path)
  have nonneg: "\<not> (of_nat (3 + min (length s) 103) :: c_int) <s 0"
    by (rule small_length_nonneg) simp
  have byte: "ucast (of_nat (3 + min (length s) 103) :: c_int) = (of_nat (3 + min (length s) 103) :: u8)"
    by (rule of_nat_byte)
  have sum: "106 - 104 + min (length s) 103 + 1 = 3 + min (length s) (103 :: nat)" by simp
  have zero: "\<not> (0 :: c_int) <s 0" by (simp add: sless_0_iff)
  show ?thesis
    using assms(1,4)
    by (simp only: sockaddr_fixup_from_linux_def memcpy_same fam set_bsd_family_alt
          bsd_family_def fun_upd_same assms(3) Let_def if_False if_True PATH_SIZE_def c_string_path_upd
          option.case vchroot_unexpand_def prod.case vchroot_unexpand_args.simps
          sizeof_sockaddr_fixup_def sizeof_sun_path_def len sum nonneg set_bsd_length_alt byte
          zero simp_thms)
qed

text \<open>The structure in memory, byte by byte.\<close>

lemma path_not_header:
  assumes "i < 104"
  shows "sun_path p + of_nat i \<noteq> p" and "sun_path p + of_nat i \<noteq> p + 1"
proof -
  have "in_region (sun_path p) 104 (sun_path p + of_nat i)"
    using assms by (simp add: unat_of_nat_lt [of i 104])
  then show "sun_path p + of_nat i \<noteq> p" and "sun_path p + of_nat i \<noteq> p + 1"
    using header_not_path [of p] by metis+
qed

lemma outside_structure:
  assumes "\<not> in_region p 106 x"
  shows "x \<noteq> p" and "x \<noteq> p + 1" and "\<not> in_region (sun_path p) 104 x"
proof -
  show "x \<noteq> p" and "x \<noteq> p + 1" using assms by auto
  have "(2 :: u64) \<le> x - p" using assms by (simp add: word_le_nat_alt)
  moreover have "x - sun_path p = (x - p) - 2" by (simp add: sun_path_def)
  ultimately have "unat (x - sun_path p) = unat (x - p) - 2"
    using unat_sub [of 2 "x - p"] by (simp only:) simp
  with assms show "\<not> in_region (sun_path p) 104 x" by simp
qed

definition sockaddr_un_at :: "memory \<Rightarrow> u64 \<Rightarrow> u8 \<Rightarrow> u8 \<Rightarrow> u8 list \<Rightarrow> bool" where
  "sockaddr_un_at m p b0 b1 s \<longleftrightarrow> m p = b0 \<and> m (p + 1) = b1 \<and>
     list_all (\<lambda>i. m (sun_path p + of_nat i) = (if i < length s then s ! i else 0)) [0..<104]"

lemma sockaddr_un_written:
  "sockaddr_un_at ((set_sun_path (m(p + 1 := b1)) p s)(p := b0)) p b0 b1 (take 103 s)"
  by (auto simp: sockaddr_un_at_def list_all_iff set_sun_path_at path_not_header)

lemma sockaddr_un_written_outside:
  "\<not> in_region p 106 x \<Longrightarrow> ((set_sun_path (m(p + 1 := b1)) p s)(p := b0)) x = m x"
  by (simp add: outside_structure set_sun_path_outside)

lemma unat_int_lt: "unat (w :: c_int) < 2 ^ 32"
proof -
  have "unat w < 2 ^ LENGTH(32)" by (rule unsigned_less)
  then show ?thesis by simp
qed

lemma memcpy_header:
  assumes "2 \<le> unat (len :: c_int)"
  shows "memcpy m p src (unat len) p = m src"
    and "memcpy m p src (unat len) (p + 1) = m (src + 1)"
proof -
  have "unat len \<le> 2 ^ 64" using unat_int_lt [of len] by simp
  then show "memcpy m p src (unat len) p = m src"
    and "memcpy m p src (unat len) (p + 1) = m (src + 1)"
    using assms memcpy_at [of 0 "unat len" m p src] memcpy_at [of 1 "unat len" m p src]
    by simp_all
qed

lemma c_string_memcpy:
  assumes "2 \<le> unat (len :: c_int)" and "c_string m (sun_path src) (unat len - 2) = Some s"
    and "length s < 4096"
  shows "c_string (memcpy m p src (unat len)) (sun_path p) 4096 = Some s"
proof (rule c_string_intro)
  have str: "length s < unat len - 2" "\<And>i. i < length s \<Longrightarrow> m (sun_path src + of_nat i) = s ! i"
    "m (sun_path src + of_nat (length s)) = 0"
    using c_string_Some [OF assms(2)] by auto
  have copied: "memcpy m p src (unat len) (sun_path p + of_nat i) = m (sun_path src + of_nat i)"
    if "i \<le> length s" for i
  proof -
    have "i + 2 < unat len" using str(1) that by simp
    moreover have "unat len \<le> 2 ^ 64" using unat_int_lt [of len] by simp
    ultimately show ?thesis
      using memcpy_at [of "i + 2" "unat len" m p src] by (simp add: sun_path_def ac_simps)
  qed
  show "memcpy m p src (unat len) (sun_path p + of_nat (length s)) = 0"
    using copied str(3) by simp
  show "memcpy m p src (unat len) (sun_path p + of_nat i) = s ! i" if "i < length s" for i
    using copied [of i] str(2) [OF that] that by simp
  show "0 \<notin> set s" using c_string_Some [OF assms(2)] by simp
qed (rule assms(3))

lemma linux_family_local:
  "linux_family ((m(p + 1 := 0))(p := 1)) p = 1"
  by (simp add: linux_family_alt)

lemma sockaddr_from_bsd_local:
  assumes "\<not> len <s 0" and "2 \<le> unat len" and "ucast (bsd_family m src) = socket_h e PF_LOCAL"
    and "c_string m (sun_path src) (unat len - 2) = Some s" and "length s < 4096"
  shows "sockaddr_fixup_from_bsd e p src len m
    = Inr (of_nat (2 + min (length s) 103),
        set_sun_path ((memcpy m p src (unat len))(p + 1 := 0, p := 1)) p s)"
proof -
  let ?m = "memcpy m p src (unat len)"
  have fam: "sfamily_bsd_to_linux (socket_h e) (ucast (bsd_family ?m p)) = LINUX_PF_LOCAL"
    using assms(3) by (simp add: bsd_family_def memcpy_header assms(2) sfamily_bsd_to_linux_def)
  have set: "set_linux_family ?m p (ucast LINUX_PF_LOCAL) = ?m(p + 1 := 0, p := 1)"
    by (simp add: set_linux_family_alt LINUX_PF_LOCAL_def)
  have local: "ucast (1 :: u16) = LINUX_PF_LOCAL" by (simp add: LINUX_PF_LOCAL_def)
  have "0 \<notin> set s" using c_string_Some [OF assms(4)] by simp
  then have len: "strlen (set_sun_path m' p s) (sun_path p) 104 = min (length s) 103" for m'
    by (rule strlen_set_sun_path)
  have sum: "106 - 104 + min (length s) 103 = 2 + min (length s) (103 :: nat)" by simp
  have zero: "\<not> (0 :: c_int) <s 0" by (simp add: sless_0_iff)
  show ?thesis
    using assms(1) c_string_memcpy [OF assms(2,4,5)]
    by (simp only: sockaddr_fixup_from_bsd_def fam set linux_family_local local Let_def if_False
          if_True PATH_SIZE_def c_string_path_upd option.case vchroot_expand_def prod.case
          vchroot_expand_args.simps sizeof_sockaddr_fixup_def sizeof_sun_path_def len sum zero
          simp_thms)
qed

lemma linux_family_written:
  "linux_family ((m(p + 1 := ucast (drop_bit 8 fam)))(p := ucast fam)) p = fam"
  by (rule bit_word_eqI) (auto simp: linux_family_alt bit_simps)

lemma sockaddr_from_bsd_other_family:
  assumes "\<not> len <s 0" and "2 \<le> unat len"
    and fam: "fam = sfamily_bsd_to_linux (socket_h e) (ucast (bsd_family m src))"
    and "ucast (ucast fam :: u16) \<noteq> LINUX_PF_LOCAL"
  shows "sockaddr_fixup_from_bsd e p src len m
    = Inr (len, (memcpy m p src (unat len))
        (p + 1 := ucast (drop_bit 8 (ucast fam :: u16)), p := ucast (ucast fam :: u16)))"
proof -
  have "sfamily_bsd_to_linux (socket_h e) (ucast (bsd_family (memcpy m p src (unat len)) p)) = fam"
    by (simp add: fam bsd_family_def memcpy_header assms(2))
  then show ?thesis
    using assms(1,4)
    by (simp add: sockaddr_fixup_from_bsd_def set_linux_family_alt linux_family_written Let_def)
qed

text \<open>The family of an address that is not a path, through the two tables; \<open>PF_LOCAL\<close> is 1 on every host.\<close>

lemma family_numbers:
  assumes "distinct_families pf" and "pf PF_LOCAL = 1" and "f \<noteq> 1"
  shows "sfamily_bsd_to_linux pf f \<noteq> 1"
    and "sfamily_linux_to_bsd pf (sfamily_bsd_to_linux pf f) \<noteq> 1"
    and "sfamily_linux_to_bsd pf (sfamily_bsd_to_linux pf f) = f
      \<longleftrightarrow> f \<in> set (bsd_families pf) \<or> f \<notin> set linux_families"
proof -
  have local: "pf x \<noteq> 1" if "x \<noteq> PF_LOCAL" for x
    using that distinct_families_eq [OF assms(1), of x PF_LOCAL] assms(2) by simp
  show "sfamily_bsd_to_linux pf f \<noteq> 1"
    and "sfamily_linux_to_bsd pf (sfamily_bsd_to_linux pf f) \<noteq> 1"
    using assms(2,3) local by (simp_all add: family_defs)
  show "sfamily_linux_to_bsd pf (sfamily_bsd_to_linux pf f) = f
      \<longleftrightarrow> f \<in> set (bsd_families pf) \<or> f \<notin> set linux_families"
  proof (cases "f \<in> set (bsd_families pf)")
    case True
    then show ?thesis using sfamily_bsd_linux_bsd [OF assms(1)] by simp
  next
    case False
    then have "sfamily_bsd_to_linux pf f = f" by (simp add: family_defs)
    with False show ?thesis
      by (auto simp: sfamily_linux_to_bsd_def bsd_families_def linux_families_def)
  qed
qed

lemma family_bytes:
  assumes "\<And>x. ucast (ucast (pf x) :: u8) = pf x" and "ucast (ucast f :: u8) = f"
  shows "ucast (ucast (sfamily_bsd_to_linux pf f) :: u16) = sfamily_bsd_to_linux pf f"
    and "ucast (ucast (sfamily_linux_to_bsd pf (sfamily_bsd_to_linux pf f)) :: u8)
      = sfamily_linux_to_bsd pf (sfamily_bsd_to_linux pf f)"
proof -
  have byte: "ucast (ucast (sfamily_bsd_to_linux pf f) :: u8) = sfamily_bsd_to_linux pf f"
    using assms(2) by (simp add: sfamily_bsd_to_linux_def linux_pf_defs)
  then show "ucast (ucast (sfamily_linux_to_bsd pf (sfamily_bsd_to_linux pf f)) :: u8)
      = sfamily_linux_to_bsd pf (sfamily_bsd_to_linux pf f)"
    using assms(1) by (simp add: sfamily_linux_to_bsd_def)
  have "ucast (ucast (ucast b :: c_int) :: u16) = (ucast b :: c_int)" for b :: u8
    by (rule bit_word_eqI) (auto simp: bit_simps dest: bit_imp_le_length)
  from this [of "ucast (sfamily_bsd_to_linux pf f)"]
  show "ucast (ucast (sfamily_bsd_to_linux pf f) :: u16) = sfamily_bsd_to_linux pf f" by (simp only: byte)
qed

section \<open>Properties\<close>

text \<open>
  C18: Round trip of a socket address of two bytes or more that is not a path, of whatever family: \<open>sockaddr_fixup_from_bsd\<close>
  into a buffer and \<open>sockaddr_fixup_from_linux\<close> in that buffer give back the bytes of the original but
  for the first two.  The length byte is the length; the family byte went through both tables, and it
  comes back exactly when the header names it or it is not a Linux number of the table: where \<open>PF_INET6\<close>
  is 30, family 10 comes back as 30.
\<close>

theorem sockaddr_round_trip:
  assumes "distinct_families (socket_h e)" and "socket_h e PF_LOCAL = 1"
    and "\<And>x. ucast (ucast (socket_h e x) :: u8) = socket_h e x"
    and "\<not> len <s 0" and "2 \<le> unat len" and "ucast (bsd_family m src) \<noteq> socket_h e PF_LOCAL"
  shows "\<exists>m' b. sockaddr_fixup_from_bsd e p src len m = Inr (len, m') \<and>
     sockaddr_fixup_from_linux e p p len m' =
       Inr (len, (memcpy m p src (unat len))(p := ucast len, p + 1 := b)) \<and>
     ucast b = sfamily_linux_to_bsd (socket_h e) (sfamily_bsd_to_linux (socket_h e) (ucast (bsd_family m src))) \<and>
     (b = bsd_family m src \<longleftrightarrow>
        ucast (bsd_family m src) \<in> set (bsd_families (socket_h e)) \<or>
        (ucast (bsd_family m src) :: c_int) \<notin> set linux_families)"
proof -
  define f :: c_int where "f = ucast (bsd_family m src)"
  define fam where "fam = sfamily_bsd_to_linux (socket_h e) f"
  define g where "g = sfamily_linux_to_bsd (socket_h e) fam"
  have f: "ucast (ucast f :: u8) = f" "f \<noteq> 1" using assms(2,6) by (simp_all add: f_def)
  note numbers = family_numbers [OF assms(1,2) f(2)] family_bytes [OF assms(3) f(1)]
  have wide: "ucast (ucast fam :: u16) = fam" and byte: "ucast (ucast g :: u8) = g"
    using numbers(4,5) by (simp_all add: fam_def g_def)
  have not_local: "ucast (ucast fam :: u16) \<noteq> LINUX_PF_LOCAL"
    unfolding wide using numbers(1) by (simp add: fam_def LINUX_PF_LOCAL_def)
  let ?m1 = "(memcpy m p src (unat len))
      (p + 1 := ucast (drop_bit 8 (ucast fam :: u16)), p := ucast (ucast fam :: u16))"
  have there: "sockaddr_fixup_from_bsd e p src len m = Inr (len, ?m1)"
    by (rule sockaddr_from_bsd_other_family [OF assms(4,5) _ not_local]) (simp add: fam_def f_def)
  have again: "sfamily_linux_to_bsd (socket_h e) (ucast (linux_family ?m1 p)) = g"
    by (simp only: linux_family_written wide g_def)
  have "ucast (ucast g :: u8) \<noteq> socket_h e PF_LOCAL"
    unfolding byte using numbers(2) by (simp add: fam_def g_def assms(2))
  then have "sockaddr_fixup_from_linux e p p len ?m1 = Inr (len, ?m1(p + 1 := ucast g, p := ucast len))"
    using sockaddr_from_linux_other_family [OF assms(4), of e ?m1 p]
    by (simp only: again simp_thms)
  moreover have "?m1(p + 1 := ucast g, p := ucast len) = (memcpy m p src (unat len))(p := ucast len, p + 1 := ucast g)"
    by (rule ext) simp
  moreover have "ucast g = bsd_family m src \<longleftrightarrow> g = f"
    using byte by (metis byte_int_byte f_def)
  ultimately show ?thesis
    using there byte numbers(3) by (auto simp: f_def fam_def g_def)
qed

text \<open>
  C19: Round trip of a path address: for a path that fits the structure, converting from BSD and
  back leaves the family, the path, zeros after it, and the length of the BSD address.
\<close>

theorem sockaddr_unix_round_trip:
  assumes "\<not> len <s 0" and "2 \<le> unat len" and fam: "ucast (bsd_family m src) = socket_h e PF_LOCAL"
    and path: "c_string m (sun_path src) (unat len - 2) = Some s" and fits: "length s \<le> 103"
  shows "\<exists>m' m''. sockaddr_fixup_from_bsd e p src len m = Inr (of_nat (2 + length s), m') \<and>
     sockaddr_fixup_from_linux e p p (of_nat (2 + length s)) m' =
       Inr (of_nat (3 + length s), m'') \<and>
     sockaddr_un_at m'' p (of_nat (3 + length s)) (bsd_family m src) s \<and>
     (\<forall>x. \<not> in_region p 106 x \<longrightarrow> m'' x = m' x)"
proof (intro exI conjI allI impI)
  let ?m = "(memcpy m p src (unat len))(p + 1 := 0, p := 1)"
  let ?m1 = "set_sun_path ?m p s"
  let ?m2 = "(set_sun_path (?m1(p + 1 := ucast (socket_h e PF_LOCAL))) p s)(p := of_nat (3 + length s))"
  have min: "min (length s) 103 = length s" using fits by simp
  have byte: "ucast (socket_h e PF_LOCAL) = bsd_family m src"
    by (simp add: fam [symmetric])
  show "sockaddr_fixup_from_bsd e p src len m = Inr (of_nat (2 + length s), ?m1)"
    using sockaddr_from_bsd_local [OF assms(1,2) fam path, of p] fits by (simp add: min)
  have "linux_family ?m1 p = linux_family ?m p" by (simp add: linux_family_alt)
  then have "ucast (linux_family ?m1 p) = LINUX_PF_LOCAL"
    unfolding linux_family_local LINUX_PF_LOCAL_def by simp
  moreover have "c_string ?m1 (sun_path p) PATH_SIZE = Some s"
    using c_string_set_sun_path [of s 4096 ?m p] c_string_Some [OF path] fits by simp
  moreover have "\<not> (of_nat (2 + length s) :: c_int) <s 0"
    using fits by (intro small_length_nonneg) simp
  ultimately show "sockaddr_fixup_from_linux e p p (of_nat (2 + length s)) ?m1 =
      Inr (of_nat (3 + length s), ?m2)"
    using sockaddr_from_linux_local [of "of_nat (2 + length s)" ?m1 p e s] byte fam
    by (simp only: min simp_thms)
  show "sockaddr_un_at ?m2 p (of_nat (3 + length s)) (bsd_family m src) s"
    using sockaddr_un_written [where m = ?m1 and s = s] fits by (simp add: byte)
  show "?m2 x = ?m1 x" if "\<not> in_region p 106 x" for x
    using that by (rule sockaddr_un_written_outside)
qed

text \<open>
  C20: The effect of \<open>sockaddr_fixup_from_linux\<close> on a path address in place, as \<open>sys_recvfrom\<close> uses it:
  the length it returns, the header, and all 104 path bytes, whatever length the caller gave; a
  caller's buffer that is shorter is overrun.
\<close>

theorem sockaddr_from_linux_writes_whole_path:
  assumes "\<not> len <s 0" and "linux_family m p = 1"
    and "socket_h e PF_LOCAL = ucast (b :: u8)"
    and path: "c_string m (sun_path p) PATH_SIZE = Some s"
  shows "\<exists>m'. sockaddr_fixup_from_linux e p p len m = Inr (of_nat (3 + min (length s) 103), m') \<and>
     sockaddr_un_at m' p (of_nat (3 + min (length s) 103)) b (take 103 s) \<and>
     (\<forall>x. \<not> in_region p 106 x \<longrightarrow> m' x = m x)"
proof (intro exI conjI allI impI)
  let ?n = "3 + min (length s) 103"
  let ?m = "(set_sun_path (m(p + 1 := b)) p s)(p := of_nat ?n)"
  have byte: "ucast (socket_h e PF_LOCAL) = b" "ucast b = socket_h e PF_LOCAL"
    by (simp_all add: assms(3))
  have local: "ucast (linux_family m p) = LINUX_PF_LOCAL"
    by (simp add: assms(2) LINUX_PF_LOCAL_def)
  show "sockaddr_fixup_from_linux e p p len m = Inr (of_nat ?n, ?m)"
    using sockaddr_from_linux_local [OF assms(1) local _ path, of e] by (simp only: byte)
  show "sockaddr_un_at ?m p (of_nat ?n) b (take 103 s)"
    by (rule sockaddr_un_written)
  show "?m x = m x" if "\<not> in_region p 106 x" for x
    using that by (rule sockaddr_un_written_outside)
qed

section \<open>Witnesses\<close>

text \<open>
  Four addresses: at \<open>0x100\<close> a BSD \<open>sockaddr_in\<close>, at \<open>0x200\<close> a BSD path address of \<open>/a\<close>, at \<open>0x300\<close> the
  Linux path address of \<open>/\<close>, at \<open>0x400\<close> an address of family 10.
\<close>

definition example_sockaddrs :: memory where
  "example_sockaddrs =
     (\<lambda>_. 0)(0x101 := 2, 0x201 := 1, 0x202 := 0x2F, 0x203 := 0x61, 0x300 := 1, 0x302 := 0x2F, 0x401 := 10)"

lemma example_socket_h: "socket_h example_host = linux_socket_h"
  by (simp add: example_host_def)

theorem sockaddr_round_trip_witness:
  "(\<exists>m'. sockaddr_fixup_from_bsd example_host 0x1000 0x100 16 example_sockaddrs = Inr (16, m') \<and>
      sockaddr_fixup_from_linux example_host 0x1000 0x1000 16 m' =
        Inr (16, (memcpy example_sockaddrs 0x1000 0x100 16)(0x1000 := 16, 0x1001 := 2))) \<and>
   (\<exists>m'. sockaddr_fixup_from_bsd (example_host\<lparr>socket_h := darwin_socket_h\<rparr>) 0x1000 0x400 16 example_sockaddrs
        = Inr (16, m') \<and>
      sockaddr_fixup_from_linux (example_host\<lparr>socket_h := darwin_socket_h\<rparr>) 0x1000 0x1000 16 m' =
        Inr (16, (memcpy example_sockaddrs 0x1000 0x400 16)(0x1000 := 16, 0x1001 := 30)))"
proof -
  have bytes: "ucast (ucast (linux_socket_h x) :: u8) = linux_socket_h x"
    "ucast (ucast (darwin_socket_h x) :: u8) = darwin_socket_h x" for x
    by (cases x; simp)+
  have families: "bsd_family example_sockaddrs 0x100 = 2" "bsd_family example_sockaddrs 0x400 = 10"
    by (simp_all add: bsd_family_def example_sockaddrs_def)
  have inet6: "sfamily_linux_to_bsd darwin_socket_h (sfamily_bsd_to_linux darwin_socket_h 10) = 30"
    "sfamily_linux_to_bsd linux_socket_h (sfamily_bsd_to_linux linux_socket_h 2) = 2" by code_simp+
  have "b = c" if "(ucast b :: c_int) = ucast c" for b c :: u8 using that by (metis byte_int_byte)
  from this [of _ 30] this [of _ 2]
  have byte: "ucast b = (30 :: c_int) \<longleftrightarrow> b = 30" "ucast b = (2 :: c_int) \<longleftrightarrow> b = 2" for b :: u8 by auto
  note trip = sockaddr_round_trip [where len = 16 and m = example_sockaddrs and p = "0x1000"]
  have "socket_h (example_host\<lparr>socket_h := darwin_socket_h\<rparr>) = darwin_socket_h" by simp
  note simps = this example_socket_h sless_0_int families bytes inet6 byte
    distinct_linux_socket_families distinct_darwin_families
  show ?thesis
    using trip [where e = example_host and src = "0x100"]
      trip [where e = "example_host\<lparr>socket_h := darwin_socket_h\<rparr>" and src = "0x400"]
    by (simp add: simps) blast
qed

theorem sockaddr_unix_round_trip_witness:
  "\<exists>m' m''. sockaddr_fixup_from_bsd example_host 0x1000 0x200 6 example_sockaddrs = Inr (4, m') \<and>
     sockaddr_fixup_from_linux example_host 0x1000 0x1000 4 m' = Inr (5, m'') \<and>
     sockaddr_un_at m'' 0x1000 5 1 [0x2F, 0x61]"
proof -
  have "c_string example_sockaddrs (sun_path 0x200) 4 = Some [0x2F, 0x61]"
  proof (rule c_string_intro)
    fix i assume "i < length [0x2F, 0x61 :: u8]"
    then have "i = 0 \<or> i = 1" by auto
    then show "example_sockaddrs (sun_path 0x200 + of_nat i) = [0x2F, 0x61] ! i"
      by (auto simp: example_sockaddrs_def sun_path_def)
  qed (simp_all add: example_sockaddrs_def sun_path_def)
  then show ?thesis
    using sockaddr_unix_round_trip [where e = example_host and len = 6 and m = example_sockaddrs
        and src = "0x200" and p = "0x1000" and s = "[0x2F, 0x61]"]
    by (auto simp: example_socket_h sless_0_int bsd_family_def example_sockaddrs_def)
qed

theorem sockaddr_from_linux_writes_whole_path_witness:
  "\<exists>m'. sockaddr_fixup_from_linux example_host 0x300 0x300 4 example_sockaddrs = Inr (4, m') \<and>
     sockaddr_un_at m' 0x300 4 1 [0x2F]"
proof -
  have "c_string example_sockaddrs (sun_path 0x300) PATH_SIZE = Some [0x2F]"
    by (rule c_string_intro) (simp_all add: example_sockaddrs_def sun_path_def)
  then show ?thesis
    using sockaddr_from_linux_writes_whole_path [where e = example_host and len = 4
        and m = example_sockaddrs and p = "0x300" and s = "[0x2F]" and b = 1]
    by (auto simp: example_socket_h sless_0_int linux_family_alt example_sockaddrs_def)
qed

end
