(* ===== verification/Syscalls.thy ===== *)
theory Syscalls
  imports Sockaddr
begin

text \<open>
  The system calls of \<open>src/xnu_syscall/bsd/impl/\<close>: \<open>sys_syscall\<close> (\<open>misc/syscall.c\<close>), \<open>sys_write\<close>
  (\<open>unistd/write.c\<close>), \<open>sys_pipe\<close> (\<open>unistd/pipe.c\<close>) and \<open>sys_recvfrom\<close> (\<open>network/recvfrom.c\<close>).  The two
  branches of \<open>#if defined (__linux__)\<close> are the two values of \<open>platform\<close>; \<open>CANCELATION_POINT\<close> is
  empty (\<open>helper/bsdthread/cancelable.h\<close>).

  A system call returns an error number and fills \<open>retargs\<close>.
\<close>

unbundle bit_operations_syntax

type_synonym 'k outcome = "fault + c_int \<times> darling_syscall_retarg \<times> 'k world"

type_synonym 'k syscall_function =
  "'k env \<Rightarrow> darling_syscall_args \<Rightarrow> darling_syscall_retarg \<Rightarrow> 'k world \<Rightarrow> 'k outcome"

section \<open>misc/syscall.c\<close>

definition sys_syscall :: "'k syscall_function" where
  "sys_syscall e a ret w = Inr (host_errno e ''ENOSYS'', ret, w)"

section \<open>unistd/write.c\<close>

definition sys_write_nocancel :: "'k syscall_function" where
  "sys_write_nocancel e a ret w =
     (let ret = ret\<lparr>result_type := RETARG_TYPE_SSIZE_T\<rparr>;
          fd = ucast (arg a ! 0) :: c_int;
          buf = arg a ! 1;
          len = ucast (arg a ! 2) :: c_int
      in case platform e of
           Linux \<Rightarrow>
             (case LINUX_SYSCALL3 e (the (NR ''write'')) (scast fd) buf (scast len) w of
                (r, w) \<Rightarrow>
                  if r <s 0 then Inr (errno_linux_to_bsd (errno_h e) (ucast r), ret, w)
                  else Inr (0, set_result64 r ret, w))
         | Apple \<Rightarrow>
             (case libc_call e Libc_write [scast fd, buf, scast len] w of
                (r, errno, w) \<Rightarrow>
                  if r <s 0 then Inr (errno, ret, w)
                  else Inr (0, set_result64 r ret, w)))"

definition sys_write :: "'k syscall_function" where
  "sys_write e a ret w = sys_write_nocancel e a ret w"

section \<open>unistd/pipe.c\<close>

definition sys_pipe :: "'k syscall_function" where
  "sys_pipe e a ret w =
     (let ret = ret\<lparr>result_type := RETARG_TYPE_INT_T\<rparr>;
          fd = pipe_fd e;
          success = (\<lambda>w. Inr (0, ret\<lparr>result0 := load32 (mem w) fd,
                                    result1 := load32 (mem w) (fd + 4)\<rparr>, w))
      in case platform e of
           Linux \<Rightarrow>
             (case (case NR ''pipe'' of
                      Some nr \<Rightarrow> LINUX_SYSCALL1 e nr fd w
                    | None \<Rightarrow> LINUX_SYSCALL2 e (the (NR ''pipe2'')) fd 0 w) of
                (r, w) \<Rightarrow>
                  let err = ucast r :: c_int in
                  if err <s 0 then Inr (errno_linux_to_bsd (errno_h e) err, ret, w) else success w)
         | Apple \<Rightarrow>
             (case libc_call e Libc_pipe [fd] w of
                (r, errno, w) \<Rightarrow>
                  let err = ucast r :: c_int in
                  if err <s 0 then Inr (errno, ret, w) else success w))"

section \<open>network/recvfrom.c\<close>

text \<open>
  \<open>__NR_socketcall\<close> is not defined on x86-64 (\<open>linux_nr_socketcall\<close>), so the call is
  \<open>__NR_recvfrom\<close>.  As in the code, the converted flags are computed and the flags of the caller
  are passed.
\<close>

definition sys_recvfrom_nocancel :: "'k syscall_function" where
  "sys_recvfrom_nocancel e a ret w =
     (let ret = ret\<lparr>result_type := RETARG_TYPE_INT_T\<rparr>;
          fd = ucast (arg a ! 0) :: c_int;
          buf = arg a ! 1;
          len = arg a ! 2;
          flags = ucast (arg a ! 3) :: c_int;
          from = arg a ! 4;
          socklen = arg a ! 5
      in case platform e of
           Linux \<Rightarrow>
             (let linux_flags = msgflags_bsd_to_linux flags in
              case LINUX_SYSCALL6 e (the (NR ''recvfrom'')) (scast fd) buf len (scast flags)
                     from socklen w of
                (r, w) \<Rightarrow>
                  let r = ucast r :: c_int in
                  if r <s 0 then Inr (errno_linux_to_bsd (errno_h e) r, ret, w)
                  else if from \<noteq> 0 then
                    if socklen = 0 then Inl Null_deref
                    else
                      (case sockaddr_fixup_from_linux e from from (load32 (mem w) socklen) (mem w) of
                         Inl f \<Rightarrow> Inl f
                       | Inr (n, m) \<Rightarrow>
                           let m = store32 m socklen n;
                               r = (if n <s 0 then load32 m socklen else r)
                           in Inr (0, ret\<lparr>result0 := r\<rparr>, w\<lparr>mem := m\<rparr>))
                  else Inr (0, ret\<lparr>result0 := r\<rparr>, w))
         | Apple \<Rightarrow>
             (case libc_call e Libc_recvfrom [scast fd, buf, len, scast flags, from, socklen] w of
                (r, errno, w) \<Rightarrow>
                  if r <s 0 then Inr (errno, ret, w)
                  else Inr (0, ret\<lparr>result0 := ucast r\<rparr>, w)))"

definition sys_recvfrom :: "'k syscall_function" where
  "sys_recvfrom e a ret w = sys_recvfrom_nocancel e a ret w"

lemmas syscall_defs = sys_syscall_def sys_write_def sys_write_nocancel_def sys_pipe_def
  sys_recvfrom_def sys_recvfrom_nocancel_def

section \<open>What every system call of the table promises\<close>

text \<open>
  The dispatcher and the bridge rely on this much of a system call: it reads only the arguments its
  table entry declares, it never reaches \<open>__builtin_trap\<close> or leaves an array, it does not change the
  kind of the call, and when it leaves with a result it has said which kind of result.
\<close>

definition reports_result :: "c_int \<Rightarrow> bool" where
  "reports_result err \<longleftrightarrow> err = 0 \<or> err = - 1 \<or> err = - 2"

fun keeps_promise :: "darling_syscall_retarg \<Rightarrow> 'k outcome \<Rightarrow> bool" where
  "keeps_promise ret (Inl f) \<longleftrightarrow> f \<noteq> Builtin_trap \<and> f \<noteq> Array_bounds"
| "keeps_promise ret (Inr (err, ret', w)) \<longleftrightarrow>
     syscall_type ret' = syscall_type ret \<and>
     (reports_result err \<longrightarrow> result_type ret' \<noteq> RETARG_TYPE_INVALID)"

locale system_call =
  fixes f :: "'k syscall_function" and n :: nat and host_ok :: "'k env \<Rightarrow> bool"
  assumes reads_declared:
      "take n (arg a) = take n (arg b) \<Longrightarrow> length (arg a) = 9 \<Longrightarrow> length (arg b) = 9 \<Longrightarrow>
       f e a ret w = f e b ret w"
    and promise: "host_ok e \<Longrightarrow> keeps_promise ret (f e a ret w)"
    and few: "n \<le> 9"
begin

lemma weaken_host: "(\<And>e. host_ok' e \<Longrightarrow> host_ok e) \<Longrightarrow> system_call f n host_ok'"
  using reads_declared promise few by unfold_locales blast+

end

definition enosys_is_error :: "'k env \<Rightarrow> bool" where
  "enosys_is_error e \<longleftrightarrow> \<not> reports_result (host_errno e ''ENOSYS'')"

lemma nth_take_eq:
  assumes "take n xs = take n ys" and "i < n"
  shows "xs ! i = ys ! i"
  by (metis assms nth_take)

lemma sockaddr_no_trap: "sockaddr_fixup_from_linux e p q len m = Inl f \<Longrightarrow> f \<noteq> Builtin_trap \<and> f \<noteq> Array_bounds"
  by (auto simp: sockaddr_fixup_from_linux_def vchroot_unexpand_def Let_def
      split: option.splits if_splits)

interpretation call_nosys: system_call sys_syscall 0 enosys_is_error
  by unfold_locales (simp_all add: sys_syscall_def enosys_is_error_def)

lemma set_result64_fields [simp]:
  "syscall_type (set_result64 v ret) = syscall_type ret"
  "result_type (set_result64 v ret) = result_type ret"
  by (simp_all add: set_result64_def)

interpretation call_write: system_call sys_write 3 "\<lambda>_. True"
proof
  fix a b :: darling_syscall_args and e :: "'a env" and ret and w :: "'a world"
  assume "take 3 (arg a) = take 3 (arg b)"
  then have "arg a ! 0 = arg b ! 0" "arg a ! 1 = arg b ! 1" "arg a ! 2 = arg b ! 2"
    by (auto elim: nth_take_eq)
  then show "sys_write e a ret w = sys_write e b ret w"
    by (simp only: sys_write_def sys_write_nocancel_def)
next
  fix a :: darling_syscall_args and e :: "'a env" and ret and w :: "'a world"
  show "keeps_promise ret (sys_write e a ret w)"
    by (simp add: sys_write_def sys_write_nocancel_def Let_def split: platform.split prod.split)
qed simp

interpretation call_pipe: system_call sys_pipe 0 "\<lambda>_. True"
proof
  fix a :: darling_syscall_args and e :: "'a env" and ret and w :: "'a world"
  show "keeps_promise ret (sys_pipe e a ret w)"
    by (simp add: sys_pipe_def Let_def split: platform.split prod.split)
qed (simp_all add: sys_pipe_def)

interpretation call_recvfrom: system_call sys_recvfrom 6 "\<lambda>_. True"
proof
  fix a b :: darling_syscall_args and e :: "'a env" and ret and w :: "'a world"
  assume "take 6 (arg a) = take 6 (arg b)"
  then have "arg a ! 0 = arg b ! 0" "arg a ! 1 = arg b ! 1" "arg a ! 2 = arg b ! 2"
    "arg a ! 3 = arg b ! 3" "arg a ! 4 = arg b ! 4" "arg a ! 5 = arg b ! 5"
    by (auto elim: nth_take_eq)
  then show "sys_recvfrom e a ret w = sys_recvfrom e b ret w"
    by (simp only: sys_recvfrom_def sys_recvfrom_nocancel_def)
next
  fix a :: darling_syscall_args and e :: "'a env" and ret and w :: "'a world"
  show "keeps_promise ret (sys_recvfrom e a ret w)"
    by (auto simp: sys_recvfrom_def sys_recvfrom_nocancel_def Let_def
        split: platform.split prod.split sum.split dest: sockaddr_no_trap)
qed simp

end
