(* ===== verification/Dispatch.thy ===== *)
theory Dispatch
  imports Syscalls
begin

text \<open>
  The dispatcher, \<open>src/xnu_syscall/syscall.c\<close>, and its table, \<open>src/xnu_syscall/syscall_table.c\<close>.

  \<open>builder->construct_full_arguments\<close> is the argument \<open>construct\<close> of \<open>darling_common_syscall_unix\<close>;
  the C bridge stores \<open>darling_x86_64_syscall_full_args_init\<close> there.  The interface \<open>args_constructor\<close>
  is what the dispatcher relies on from that function pointer; the C bridge interprets it.
\<close>

unbundle bit_operations_syntax

section \<open>The table\<close>

record 'k darling_syscall_metadata =
  func :: "'k syscall_function option"
  metadata_arg_count :: int

definition DARLING_SYSCALLTABLE_UNIX_MAXSIZE :: nat where
  "DARLING_SYSCALLTABLE_UNIX_MAXSIZE = 600"

definition unix_syscall_table :: "'k darling_syscall_metadata list" where
  "unix_syscall_table =
     (replicate DARLING_SYSCALLTABLE_UNIX_MAXSIZE \<lparr>func = None, metadata_arg_count = 0\<rparr>)
       [0 := \<lparr>func = Some sys_syscall, metadata_arg_count = 0\<rparr>,
        4 := \<lparr>func = Some sys_write, metadata_arg_count = 3\<rparr>,
        29 := \<lparr>func = Some sys_recvfrom, metadata_arg_count = 6\<rparr>,
        42 := \<lparr>func = Some sys_pipe, metadata_arg_count = 0\<rparr>]"

text \<open>The other two tables have no entry.\<close>

definition machdep_syscall_table :: "'k darling_syscall_metadata list" where
  "machdep_syscall_table = replicate 10 \<lparr>func = None, metadata_arg_count = 0\<rparr>"

definition mach_syscall_table :: "'k darling_syscall_metadata list" where
  "mach_syscall_table = replicate 128 \<lparr>func = None, metadata_arg_count = 0\<rparr>"

lemma length_unix_syscall_table [simp]: "length unix_syscall_table = 600"
  by (simp add: unix_syscall_table_def DARLING_SYSCALLTABLE_UNIX_MAXSIZE_def)

lemma func_unix_syscall_table:
  "i < 600 \<Longrightarrow> func (unix_syscall_table ! i) =
     (if i = 0 then Some sys_syscall else if i = 4 then Some sys_write
      else if i = 29 then Some sys_recvfrom else if i = 42 then Some sys_pipe else None)"
  by (simp add: unix_syscall_table_def DARLING_SYSCALLTABLE_UNIX_MAXSIZE_def nth_list_update)

lemma arg_count_unix_syscall_table:
  "i < 600 \<Longrightarrow> metadata_arg_count (unix_syscall_table ! i) =
     (if i = 4 then 3 else if i = 29 then 6 else 0)"
  by (simp add: unix_syscall_table_def DARLING_SYSCALLTABLE_UNIX_MAXSIZE_def nth_list_update)

section \<open>The functions of \<open>syscall.c\<close>\<close>

definition UNIX_SYSNUM_INDIRECT_SYSCALL :: c_int where "UNIX_SYSNUM_INDIRECT_SYSCALL = 0"

definition darling_sysnum_unimplemented ::
  "'k env \<Rightarrow> string \<Rightarrow> c_int \<Rightarrow> 'k world \<Rightarrow> c_int \<times> 'k world" where
  "darling_sysnum_unimplemented e kind nr w =
     (host_errno e ''ENOSYS'', say (Unimplemented kind nr) w)"

definition darling_sysnum_out_of_range ::
  "'k env \<Rightarrow> string \<Rightarrow> c_int \<Rightarrow> 'k world \<Rightarrow> c_int \<times> 'k world" where
  "darling_sysnum_out_of_range e kind nr w =
     (host_errno e ''ENOSYS'', say (Out_of_range kind nr) w)"

type_synonym 'k constructor =
  "darling_syscall_args_builder \<Rightarrow> 'k world \<Rightarrow> fault + darling_syscall_args_builder"

definition darling_common_syscall_unix ::
  "'k constructor \<Rightarrow> 'k env \<Rightarrow> darling_syscall_args_builder \<Rightarrow> darling_syscall_retarg \<Rightarrow> 'k world
     \<Rightarrow> 'k outcome" where
  "darling_common_syscall_unix construct e builder ret w =
     (let w = say In_syscall_unix w;
          ret = ret\<lparr>syscall_type := SYSCALL_TYPE_UNIX, result0 := 0, result1 := 0\<rparr>;
          nr = sysnum (args builder);
          indirect = (nr = UNIX_SYSNUM_INDIRECT_SYSCALL);
          nr = (if indirect then ucast (arg (args builder) ! 0) else nr);
          builder = builder\<lparr>indirect_syscall := indirect\<rparr>
      in if nr <s 0 \<or> int DARLING_SYSCALLTABLE_UNIX_MAXSIZE \<le> sint nr then
           (case darling_sysnum_out_of_range e ''unix'' nr w of (err, w) \<Rightarrow> Inr (err, ret, w))
         else
           let metadata = unix_syscall_table ! nat (sint nr) in
           case func metadata of
             None \<Rightarrow> (case darling_sysnum_unimplemented e ''unix'' nr w of
                        (err, w) \<Rightarrow> Inr (err, ret, w))
           | Some f \<Rightarrow>
               (case construct (builder\<lparr>arg_count := metadata_arg_count metadata\<rparr>) w of
                  Inl flt \<Rightarrow> Inl flt
                | Inr builder \<Rightarrow> f e (args builder) ret w))"

definition darling_common_syscall_mach ::
  "darling_syscall_args_builder \<Rightarrow> darling_syscall_retarg \<Rightarrow> 'k world \<Rightarrow> 'k outcome" where
  "darling_common_syscall_mach builder ret w = Inr (0, ret, say In_syscall_mach w)"

definition darling_common_syscall_machdep ::
  "darling_syscall_args_builder \<Rightarrow> darling_syscall_retarg \<Rightarrow> 'k world \<Rightarrow> 'k outcome" where
  "darling_common_syscall_machdep builder ret w = Inr (0, ret, say In_syscall_machdep w)"

definition darling_common_syscall_diag ::
  "darling_syscall_args_builder \<Rightarrow> darling_syscall_retarg \<Rightarrow> 'k world \<Rightarrow> 'k outcome" where
  "darling_common_syscall_diag builder ret w = Inr (0, ret, say Diag_not_supported w)"

section \<open>The interface of the arguments constructor\<close>

text \<open>
  Two builders hold the same request when they agree on the number, the six register arguments and
  the saved registers; they may differ in what the C bridge leaves uninitialised.
\<close>

definition same_request ::
  "darling_syscall_args_builder \<Rightarrow> darling_syscall_args_builder \<Rightarrow> bool" where
  "same_request b c \<longleftrightarrow>
     sysnum (args b) = sysnum (args c) \<and> take 6 (arg (args b)) = take 6 (arg (args c)) \<and>
     length (arg (args b)) = 9 \<and> length (arg (args c)) = 9 \<and>
     arch_specific_regs b = arch_specific_regs c"

locale args_constructor =
  fixes construct :: "'k constructor"
  assumes total: "length (arg (args b)) = 9 \<Longrightarrow> 0 \<le> arg_count b \<Longrightarrow> arg_count b \<le> 9 \<Longrightarrow>
      \<exists>b'. construct b w = Inr b' \<and> length (arg (args b')) = 9"
    and determined: "same_request b c \<Longrightarrow> indirect_syscall b = indirect_syscall c \<Longrightarrow>
      arg_count b = arg_count c \<Longrightarrow> 0 \<le> arg_count b \<Longrightarrow> arg_count b \<le> 9 \<Longrightarrow>
      construct b w = Inr b' \<Longrightarrow> construct c w = Inr c' \<Longrightarrow>
      take (nat (arg_count b)) (arg (args b')) = take (nat (arg_count b)) (arg (args c'))"

text \<open>Every entry of the table is a system call that keeps the promise.\<close>

lemma table_entry:
  fixes f :: "'k syscall_function"
  assumes "i < 600" and "func (unix_syscall_table ! i) = Some f"
  shows "system_call f (nat (metadata_arg_count (unix_syscall_table ! i :: 'k darling_syscall_metadata)))
    enosys_is_error"
proof -
  from assms consider "i = 0" "f = sys_syscall" | "i = 4" "f = sys_write" | "i = 29" "f = sys_recvfrom"
    | "i = 42" "f = sys_pipe"
    by (auto simp: func_unix_syscall_table split: if_splits)
  then show ?thesis
  proof cases
    case 1
    then show ?thesis
      using call_nosys.system_call_axioms by (simp add: arg_count_unix_syscall_table)
  next
    case 2
    then show ?thesis
      using call_write.weaken_host by (simp add: arg_count_unix_syscall_table)
  next
    case 3
    then show ?thesis
      using call_recvfrom.weaken_host by (simp add: arg_count_unix_syscall_table)
  next
    case 4
    then show ?thesis
      using call_pipe.weaken_host by (simp add: arg_count_unix_syscall_table)
  qed
qed

section \<open>The dispatcher, case by case\<close>

text \<open>
  The number the dispatcher looks up, and what it does with the call: the shape of
  \<open>darling_common_syscall_unix\<close> that the proofs use.
\<close>

definition requested :: "darling_syscall_args_builder \<Rightarrow> c_int" where
  "requested b =
     (if sysnum (args b) = UNIX_SYSNUM_INDIRECT_SYSCALL then ucast (arg (args b) ! 0)
      else sysnum (args b))"

definition in_table :: "c_int \<Rightarrow> bool" where
  "in_table nr \<longleftrightarrow> 0 \<le> sint nr \<and> sint nr < 600"

definition entry :: "c_int \<Rightarrow> 'k darling_syscall_metadata" where
  "entry nr = unix_syscall_table ! nat (sint nr)"

definition declared_args :: "c_int \<Rightarrow> int" where
  "declared_args nr = (if nr = 4 then 3 else if nr = 29 then 6 else 0)"

definition prepared :: "darling_syscall_args_builder \<Rightarrow> darling_syscall_args_builder" where
  "prepared b = b\<lparr>indirect_syscall := (sysnum (args b) = UNIX_SYSNUM_INDIRECT_SYSCALL),
     arg_count := declared_args (requested b)\<rparr>"

definition unix_retarg :: "darling_syscall_retarg_type \<Rightarrow> darling_syscall_retarg" where
  "unix_retarg t =
     \<lparr>syscall_type = SYSCALL_TYPE_UNIX, result_type = t, result0 = 0, result1 = 0\<rparr>"

lemma sint_inject: "sint v = sint w \<longleftrightarrow> v = (w :: 'a::len word)"
  by (metis signed_word_eqI)

lemma table_index:
  assumes "in_table nr"
  shows "nat (sint nr) < 600"
    and "sint nr \<le> 0 \<longleftrightarrow> nr = 0" "nat (sint nr) = 4 \<longleftrightarrow> nr = 4"
      "nat (sint nr) = 29 \<longleftrightarrow> nr = 29" "nat (sint nr) = 42 \<longleftrightarrow> nr = 42"
proof -
  have "sint (0 :: c_int) = 0" "sint (4 :: c_int) = 4" "sint (29 :: c_int) = 29" "sint (42 :: c_int) = 42"
    by simp_all
  then show "nat (sint nr) < 600"
    and "sint nr \<le> 0 \<longleftrightarrow> nr = 0" "nat (sint nr) = 4 \<longleftrightarrow> nr = 4"
      "nat (sint nr) = 29 \<longleftrightarrow> nr = 29" "nat (sint nr) = 42 \<longleftrightarrow> nr = 42"
    using assms sint_inject [of nr 0] sint_inject [of nr 4] sint_inject [of nr 29] sint_inject [of nr 42]
    by (auto simp: in_table_def)
qed

lemma entry_arg_count: "in_table nr \<Longrightarrow> metadata_arg_count (entry nr) = declared_args nr"
  by (simp add: entry_def declared_args_def arg_count_unix_syscall_table table_index)

lemma entry_func:
  "in_table nr \<Longrightarrow> func (entry nr) =
     (if nr = 0 then Some sys_syscall else if nr = 4 then Some sys_write
      else if nr = 29 then Some sys_recvfrom else if nr = 42 then Some sys_pipe else None)"
  by (simp add: entry_def func_unix_syscall_table table_index)

lemma declared_args_bounds: "0 \<le> declared_args nr" "declared_args nr \<le> 9"
  by (simp_all add: declared_args_def)

lemma unix_retarg_eq:
  "ret\<lparr>syscall_type := SYSCALL_TYPE_UNIX, result0 := 0, result1 := 0\<rparr> = unix_retarg (result_type ret)"
  by (simp add: unix_retarg_def)

lemma dispatch_out_of_range:
  "\<not> in_table (requested b) \<Longrightarrow>
   darling_common_syscall_unix construct e b ret w
     = Inr (host_errno e ''ENOSYS'', unix_retarg (result_type ret),
         say (Out_of_range ''unix'' (requested b)) (say In_syscall_unix w))"
  by (auto simp: darling_common_syscall_unix_def requested_def in_table_def Let_def sless_0_iff
      darling_sysnum_out_of_range_def DARLING_SYSCALLTABLE_UNIX_MAXSIZE_def unix_retarg_def)

lemma dispatch_unimplemented:
  "in_table (requested b) \<Longrightarrow> func (entry (requested b) :: 'k darling_syscall_metadata) = None \<Longrightarrow>
   darling_common_syscall_unix construct e b ret (w :: 'k world)
     = Inr (host_errno e ''ENOSYS'', unix_retarg (result_type ret),
         say (Unimplemented ''unix'' (requested b)) (say In_syscall_unix w))"
  by (auto simp: darling_common_syscall_unix_def requested_def in_table_def Let_def sless_0_iff
      darling_sysnum_unimplemented_def DARLING_SYSCALLTABLE_UNIX_MAXSIZE_def unix_retarg_def entry_def)

lemma dispatch_entry:
  fixes w :: "'k world"
  assumes nr: "in_table (requested b)" and f: "func (entry (requested b)) = Some f"
  shows "darling_common_syscall_unix construct e b ret w
     = (case construct (prepared b) (say In_syscall_unix w) of
          Inl flt \<Rightarrow> Inl flt
        | Inr b' \<Rightarrow> f e (args b') (unix_retarg (result_type ret)) (say In_syscall_unix w))"
proof -
  have "\<not> (requested b <s 0 \<or> int DARLING_SYSCALLTABLE_UNIX_MAXSIZE \<le> sint (requested b))"
    using nr by (simp add: in_table_def sless_0_iff DARLING_SYSCALLTABLE_UNIX_MAXSIZE_def)
  then show ?thesis
    using entry_arg_count [OF nr, where ?'a = 'k] f
    by (simp add: darling_common_syscall_unix_def requested_def [symmetric] Let_def unix_retarg_eq
        entry_def [symmetric] prepared_def)
qed

lemma requested_0: "requested b = 0 \<longleftrightarrow> sysnum (args b) = 0 \<and> (ucast (arg (args b) ! 0) :: c_int) = 0"
  by (auto simp: requested_def UNIX_SYSNUM_INDIRECT_SYSCALL_def)

context args_constructor
begin

lemma prepared_total:
  "length (arg (args b)) = 9 \<Longrightarrow>
   \<exists>b'. construct (prepared b) w = Inr b' \<and> length (arg (args b')) = 9"
  by (rule total) (simp_all add: prepared_def declared_args_bounds)

lemma dispatch_keeps_promise:
  fixes b :: darling_syscall_args_builder
  assumes "length (arg (args b)) = 9" and "enosys_is_error e"
  shows "keeps_promise (unix_retarg t) (darling_common_syscall_unix construct e b ret w)"
proof (cases "in_table (requested b)")
  case False
  then show ?thesis
    using assms(2) by (simp add: dispatch_out_of_range unix_retarg_def enosys_is_error_def)
next
  case nr: True
  show ?thesis
  proof (cases "func (entry (requested b) :: 'k darling_syscall_metadata)")
    case None
    then show ?thesis
      using assms(2) nr by (simp add: dispatch_unimplemented unix_retarg_def enosys_is_error_def)
  next
    case (Some f)
    obtain b' where b': "construct (prepared b) (say In_syscall_unix w) = Inr b'"
      using prepared_total [OF assms(1)] by blast
    have "system_call f (nat (declared_args (requested b))) enosys_is_error"
      using table_entry [of "nat (sint (requested b))" f] nr Some entry_arg_count [OF nr, where ?'a = 'k]
      by (simp add: entry_def table_index)
    then have "keeps_promise (unix_retarg (result_type ret))
        (f e (args b') (unix_retarg (result_type ret)) (say In_syscall_unix w))"
      using assms(2) by (rule system_call.promise)
    moreover have "keeps_promise (unix_retarg t) r" if "keeps_promise (unix_retarg t') r" for t t' r
      using that by (cases r) (auto simp: unix_retarg_def)
    ultimately show ?thesis
      by (simp add: dispatch_entry [OF nr Some] b')
  qed
qed

lemma dispatch_determined:
  fixes b c :: darling_syscall_args_builder
  assumes same: "same_request b c" and "result_type ret = result_type ret'"
  shows "darling_common_syscall_unix construct e b ret w
    = darling_common_syscall_unix construct e c ret' w"
proof -
  have "arg (args b) ! 0 = arg (args c) ! 0"
    using same nth_take_eq [of 6 _ _ 0] by (auto simp: same_request_def)
  then have req: "requested c = requested b"
    using same by (simp add: same_request_def requested_def)
  show ?thesis
  proof (cases "in_table (requested b)")
    case False
    then show ?thesis using assms(2) by (simp add: dispatch_out_of_range req)
  next
    case nr: True
    show ?thesis
    proof (cases "func (entry (requested b) :: 'k darling_syscall_metadata)")
      case None
      then show ?thesis using nr assms(2) by (simp add: dispatch_unimplemented req)
    next
      case (Some f)
      let ?w = "say In_syscall_unix w"
      have prep: "same_request (prepared b) (prepared c)"
        "indirect_syscall (prepared b) = indirect_syscall (prepared c)"
        "arg_count (prepared b) = declared_args (requested b)"
        "arg_count (prepared c) = declared_args (requested b)"
        using same by (auto simp: same_request_def prepared_def req)
      obtain b' c' where b': "construct (prepared b) ?w = Inr b'" "length (arg (args b')) = 9"
        and c': "construct (prepared c) ?w = Inr c'" "length (arg (args c')) = 9"
        using prepared_total [of b ?w] prepared_total [of c ?w] same
        by (auto simp: same_request_def)
      have "take (nat (declared_args (requested b))) (arg (args b'))
          = take (nat (declared_args (requested b))) (arg (args c'))"
        using determined [OF prep(1,2) _ _ _ b'(1) c'(1)] prep(3,4) declared_args_bounds by simp
      moreover have "system_call f (nat (declared_args (requested b))) enosys_is_error"
        using table_entry [of "nat (sint (requested b))" f] nr Some entry_arg_count [OF nr, where ?'a = 'k]
        by (simp add: entry_def table_index)
      ultimately have "f e (args b') r ?w = f e (args c') r ?w" for r
        using b'(2) c'(2) by (intro system_call.reads_declared)
      then show ?thesis
        using nr Some by (simp add: dispatch_entry req b'(1) c'(1) assms(2))
    qed
  qed
qed

end

section \<open>Properties\<close>

text \<open>
  C17: Every number of \<open>sys/syscall.h\<close> is an index of the table, and the entries with a function are those
  of the names \<open>syscall\<close>, \<open>write\<close>, \<open>recvfrom\<close> and \<open>pipe\<close>: the table agrees with the header.
\<close>

theorem table_agrees_with_header:
  assumes "(n, k) \<in> set darwin_sysnum"
  shows "k < length (unix_syscall_table :: 'k darling_syscall_metadata list) \<and>
     (func (unix_syscall_table ! k :: 'k darling_syscall_metadata) \<noteq> None \<longleftrightarrow>
       n \<in> {''syscall'', ''write'', ''recvfrom'', ''pipe''})"
proof -
  have k: "k < 600"
    using rows_between_bounds [OF darwin_sysnum_rows assms] by (simp add: SYS_MAXSYSCALL_def)
  have "n \<in> {''syscall'', ''write'', ''recvfrom'', ''pipe''} \<longleftrightarrow> k \<in> {0, 4, 29, 42}"
    using darwin_sysnum_implemented assms by (auto simp: list_all_iff agrees_def implemented_names_def)
  then show ?thesis using k by (auto simp: func_unix_syscall_table)
qed

theorem table_agrees_with_header_witness:
  "func (unix_syscall_table ! 42 :: unit darling_syscall_metadata) \<noteq> None"
proof -
  have "(''pipe'', 42) \<in> set darwin_sysnum"
    using darwin_sysnum_used(5) by (auto simp: assoc_map_of dest: map_of_SomeD)
  from table_agrees_with_header [OF this, where ?'k = unit] show ?thesis by simp
qed

end
