(* ===== verification/Cbridge.thy ===== *)
theory Cbridge
  imports Dispatch
begin

text \<open>
  The C bridge, \<open>src/xnu_syscall/syscall_cbridge.c\<close>, and the numbers it decodes
  (\<open>include/mach/i386/syscall_sw.h\<close>).

  The registers that the assembly bridge saved are a \<open>darling_register_x86_64_t\<close> in memory, which the
  functions read and write through a pointer; \<open>rsp_off\<close> and the like are the offsets of its fields
  (\<open>include/xnu_syscall/syscall_cbridge.h\<close>).
\<close>

unbundle bit_operations_syntax

section \<open>Numbers and classes\<close>

definition SYSCALL_CLASS_SHIFT :: nat where "SYSCALL_CLASS_SHIFT = 24"
definition SYSCALL_CLASS_MASK :: c_int where
  "SYSCALL_CLASS_MASK = push_bit SYSCALL_CLASS_SHIFT 0xFF"
definition SYSCALL_NUMBER_MASK :: c_int where "SYSCALL_NUMBER_MASK = NOT SYSCALL_CLASS_MASK"

definition SYSCALL_CLASS_NONE :: c_int where "SYSCALL_CLASS_NONE = 0"
definition SYSCALL_CLASS_MACH :: c_int where "SYSCALL_CLASS_MACH = 1"
definition SYSCALL_CLASS_UNIX :: c_int where "SYSCALL_CLASS_UNIX = 2"
definition SYSCALL_CLASS_MDEP :: c_int where "SYSCALL_CLASS_MDEP = 3"
definition SYSCALL_CLASS_DIAG :: c_int where "SYSCALL_CLASS_DIAG = 4"
definition SYSCALL_CLASS_IPC :: c_int where "SYSCALL_CLASS_IPC = 5"

definition SYSCALL_CONSTRUCT_MACH :: "c_int \<Rightarrow> c_int" where
  "SYSCALL_CONSTRUCT_MACH syscall_number =
     (push_bit SYSCALL_CLASS_SHIFT SYSCALL_CLASS_MACH) OR (SYSCALL_NUMBER_MASK AND syscall_number)"

definition SYSCALL_CONSTRUCT_UNIX :: "c_int \<Rightarrow> c_int" where
  "SYSCALL_CONSTRUCT_UNIX syscall_number =
     (push_bit SYSCALL_CLASS_SHIFT SYSCALL_CLASS_UNIX) OR (SYSCALL_NUMBER_MASK AND syscall_number)"

definition SYSCALL_CONSTRUCT_MDEP :: "c_int \<Rightarrow> c_int" where
  "SYSCALL_CONSTRUCT_MDEP syscall_number =
     (push_bit SYSCALL_CLASS_SHIFT SYSCALL_CLASS_MDEP) OR (SYSCALL_NUMBER_MASK AND syscall_number)"

definition SYSCALL_CONSTRUCT_DIAG :: "c_int \<Rightarrow> c_int" where
  "SYSCALL_CONSTRUCT_DIAG syscall_number =
     (push_bit SYSCALL_CLASS_SHIFT SYSCALL_CLASS_DIAG) OR (SYSCALL_NUMBER_MASK AND syscall_number)"

lemmas class_defs = SYSCALL_CLASS_SHIFT_def SYSCALL_CLASS_MASK_def SYSCALL_NUMBER_MASK_def
  SYSCALL_CLASS_NONE_def SYSCALL_CLASS_MACH_def SYSCALL_CLASS_UNIX_def SYSCALL_CLASS_MDEP_def
  SYSCALL_CLASS_DIAG_def SYSCALL_CLASS_IPC_def

lemmas construct_defs = SYSCALL_CONSTRUCT_MACH_def SYSCALL_CONSTRUCT_UNIX_def
  SYSCALL_CONSTRUCT_MDEP_def SYSCALL_CONSTRUCT_DIAG_def

definition get_sysnum :: "u64 \<Rightarrow> c_int" where
  "get_sysnum r = SYSCALL_NUMBER_MASK AND ucast r"

text \<open>The value of \<open>class_mask\<close>: \<open>>>\<close> on an \<open>int\<close> keeps the sign.\<close>

definition class_of :: "u64 \<Rightarrow> c_int" where
  "class_of rax = signed_drop_bit SYSCALL_CLASS_SHIFT (SYSCALL_CLASS_MASK AND ucast rax)"

section \<open>The saved registers\<close>

definition rax_off :: u64 where "rax_off = 0"
definition rdi_off :: u64 where "rdi_off = 8"
definition rsi_off :: u64 where "rsi_off = 16"
definition rdx_off :: u64 where "rdx_off = 24"
definition rcx_off :: u64 where "rcx_off = 32"
definition r8_off :: u64 where "r8_off = 40"
definition r9_off :: u64 where "r9_off = 48"
definition r10_off :: u64 where "r10_off = 56"
definition r11_off :: u64 where "r11_off = 64"
definition rflag_off :: u64 where "rflag_off = 72"
definition rbp_off :: u64 where "rbp_off = 80"
definition rsp_off :: u64 where "rsp_off = 88"

lemmas reg_offs [layout_simps] = rax_off_def rdi_off_def rsi_off_def rdx_off_def rcx_off_def
  r8_off_def r9_off_def r10_off_def r11_off_def rflag_off_def rbp_off_def rsp_off_def

definition reg :: "memory \<Rightarrow> u64 \<Rightarrow> u64 \<Rightarrow> u64" where
  "reg m regs off = load64 m (regs + off)"

definition set_reg :: "u64 \<Rightarrow> u64 \<Rightarrow> u64 \<Rightarrow> 'k world \<Rightarrow> 'k world" where
  "set_reg regs off v w = w\<lparr>mem := store64 (mem w) (regs + off) v\<rparr>"

definition X86_64_FLAG_CARRY :: u64 where "X86_64_FLAG_CARRY = 1"
definition PUSH_RSP_SIZE :: u64 where "PUSH_RSP_SIZE = 8"
definition PUSH_RETURN_ADDRESS_SIZE :: u64 where "PUSH_RETURN_ADDRESS_SIZE = 8"
definition ERESTART :: c_int where "ERESTART = - 1"
definition EJUSTRETURN :: c_int where "EJUSTRETURN = - 2"

section \<open>The arguments\<close>

definition darling_x86_64_syscall_partial_args_init ::
  "darling_syscall_args_builder \<Rightarrow> 'k world \<Rightarrow> darling_syscall_args_builder" where
  "darling_x86_64_syscall_partial_args_init builder w =
     (let m = mem w; regs = arch_specific_regs builder; a = arg (args builder) in
      builder\<lparr>args :=
        \<lparr>sysnum = get_sysnum (reg m regs rax_off),
         arg = a[0 := reg m regs rdi_off, 1 := reg m regs rsi_off, 2 := reg m regs rdx_off,
                 3 := reg m regs r10_off, 4 := reg m regs r8_off, 5 := reg m regs r9_off]\<rparr>\<rparr>)"

text \<open>\<open>for (int i=0; starting_param+i < param_size; i++, rsp_ptr++)\<close>\<close>

function stack_args_loop ::
  "memory \<Rightarrow> nat \<Rightarrow> nat \<Rightarrow> nat \<Rightarrow> nat \<Rightarrow> u64 \<Rightarrow> u64 list \<Rightarrow> fault + u64 list" where
  "stack_args_loop m starting_param starting_arg param_size i rsp_ptr a =
     (if starting_param + i < param_size then
        if starting_arg + i < length a then
          stack_args_loop m starting_param starting_arg param_size (i + 1) (rsp_ptr + 8)
            (a[starting_arg + i := load64 m rsp_ptr])
        else Inl Array_bounds
      else Inr a)"
  by pat_completeness auto
termination
  by (relation "measure (\<lambda>(m, sp, sa, n, i, p, a). n - (sp + i))") auto

declare stack_args_loop.simps [simp del]

definition darling_x86_64_syscall_full_args_init :: "'k constructor" where
  "darling_x86_64_syscall_full_args_init builder w =
     (let m = mem w;
          regs = arch_specific_regs builder;
          a = arg (args builder);
          param_size = arg_count builder;
          indirect = indirect_syscall builder;
          nr = (if indirect then ucast (reg m regs rdi_off) else sysnum (args builder));
          a = (if indirect
               then a[0 := reg m regs rsi_off, 1 := reg m regs rdx_off, 2 := reg m regs r10_off,
                      3 := reg m regs r8_off, 4 := reg m regs r9_off]
               else a);
          param_size = (if indirect then param_size + 1 else param_size)
      in if 6 < param_size then
           let max_params = int (length a) + (if indirect then 1 else 0) in
           if max_params < param_size then Inl Builtin_trap
           else
             let rsp_ptr = reg m regs rsp_off + (PUSH_RETURN_ADDRESS_SIZE + PUSH_RSP_SIZE) * 2;
                 starting_param = 6;
                 starting_arg = (if indirect then 5 else 6)
             in case stack_args_loop m starting_param starting_arg (nat param_size) 0 rsp_ptr a of
                  Inl f \<Rightarrow> Inl f
                | Inr a \<Rightarrow> Inr (builder\<lparr>args := \<lparr>sysnum = nr, arg = a\<rparr>\<rparr>)
         else Inr (builder\<lparr>args := \<lparr>sysnum = nr, arg = a\<rparr>\<rparr>))"

section \<open>The results\<close>

definition darling_x86_64_syscall_set_return_values ::
  "darling_syscall_retarg \<Rightarrow> u64 \<Rightarrow> c_int \<Rightarrow> 'k world \<Rightarrow> fault + 'k world" where
  "darling_x86_64_syscall_set_return_values ret regs error w =
     (if syscall_type ret = SYSCALL_TYPE_UNIX then
        if error \<noteq> 0 \<and> error \<noteq> ERESTART \<and> error \<noteq> EJUSTRETURN then
          let w = set_reg regs rax_off (scast error) w
          in Inr (set_reg regs rflag_off (reg (mem w) regs rflag_off OR X86_64_FLAG_CARRY) w)
        else
          (case result_type ret of
             RETARG_TYPE_INT_T \<Rightarrow>
               Inr (set_reg regs rdx_off (scast (result1 ret))
                 (set_reg regs rax_off (scast (result0 ret)) w))
           | RETARG_TYPE_UINT_T \<Rightarrow>
               Inr (set_reg regs rdx_off (ucast (result1 ret))
                 (set_reg regs rax_off (ucast (result0 ret)) w))
           | RETARG_TYPE_NONE \<Rightarrow> Inr w
           | RETARG_TYPE_INVALID \<Rightarrow> Inl Builtin_trap
           | _ \<Rightarrow>
               Inr (set_reg regs rdx_off 0 (set_reg regs rax_off (get_result64 ret) w)))
      else Inr w)"

section \<open>The handler\<close>

text \<open>
  \<open>locals\<close> holds the uninitialised automatic variables \<open>builder\<close> and \<open>retargs\<close> with whatever the
  stack contains; the array \<open>builder.args.arg\<close> has 9 elements.  The values of the registers that
  the function prints are not part of the message.
\<close>

type_synonym locals = "darling_syscall_args_builder \<times> darling_syscall_retarg"

definition valid_locals :: "locals \<Rightarrow> bool" where
  "valid_locals loc \<longleftrightarrow> length (arg (args (fst loc))) = 9"

definition darling_handle_x86_64_syscall ::
  "'k env \<Rightarrow> locals \<Rightarrow> u64 \<Rightarrow> 'k world \<Rightarrow> fault + c_int \<times> 'k world" where
  "darling_handle_x86_64_syscall e loc regs w =
     (let w = say In_handle_x86_64_syscall w;
          w = set_reg regs rflag_off (reg (mem w) regs rflag_off AND NOT X86_64_FLAG_CARRY) w;
          builder = (fst loc)\<lparr>arch_specific_regs := regs\<rparr>;
          builder = darling_x86_64_syscall_partial_args_init builder w;
          retargs = (snd loc)\<lparr>syscall_type := SYSCALL_TYPE_INVALID,
                              result_type := RETARG_TYPE_INVALID\<rparr>;
          class_mask = class_of (reg (mem w) regs rax_off);
          outcome =
            (if class_mask = SYSCALL_CLASS_MACH then darling_common_syscall_mach builder retargs w
             else if class_mask = SYSCALL_CLASS_UNIX then
               darling_common_syscall_unix darling_x86_64_syscall_full_args_init e builder retargs w
             else if class_mask = SYSCALL_CLASS_MDEP then
               darling_common_syscall_machdep builder retargs w
             else if class_mask = SYSCALL_CLASS_DIAG then
               darling_common_syscall_diag builder retargs w
             else Inr (0, retargs, say (Unknown_class class_mask) w))
      in case outcome of
           Inl f \<Rightarrow> Inl f
         | Inr (error, retargs, w) \<Rightarrow>
             (case darling_x86_64_syscall_set_return_values retargs regs error w of
                Inl f \<Rightarrow> Inl f
              | Inr w \<Rightarrow> Inr (error, w)))"

section \<open>Decoding\<close>

lemma mask_values:
  "SYSCALL_CLASS_MASK = 0xFF000000" "SYSCALL_NUMBER_MASK = 0xFFFFFF"
  by (simp_all add: class_defs)

lemma number_mask_bits: "bit SYSCALL_NUMBER_MASK i \<longleftrightarrow> i < 24"
proof -
  have eq: "SYSCALL_NUMBER_MASK = mask 24" by (simp add: mask_values mask_eq_exp_minus_1)
  show ?thesis unfolding eq bit_mask_iff by auto
qed

lemma bit_get_sysnum: "bit (get_sysnum r) i \<longleftrightarrow> i < 24 \<and> bit r i"
  by (auto simp: get_sysnum_def bit_simps number_mask_bits)

lemma bit_class_of:
  "bit (class_of r) i \<longleftrightarrow> i < 32 \<and> bit r (if i < 8 then i + 24 else 31)"
proof -
  have mask: "bit SYSCALL_CLASS_MASK j \<longleftrightarrow> 24 \<le> j \<and> j < 32" for j
    using number_mask_bits [of j] bit_imp_le_length [of SYSCALL_CLASS_MASK j]
    by (auto simp: SYSCALL_NUMBER_MASK_def bit_simps)
  show ?thesis
    by (cases "i < 8"; cases "i < 32")
      (simp_all add: class_of_def SYSCALL_CLASS_SHIFT_def bit_simps mask min_def add.commute,
        simp_all add: eval_nat_numeral)
qed

lemma get_sysnum_nonneg: "0 \<le> sint (get_sysnum r)"
proof -
  have "\<not> bit (get_sysnum r) 31" by (simp add: bit_get_sysnum)
  then show ?thesis by (simp add: bit_last_iff [symmetric] flip: not_less)
qed

section \<open>The arguments a call passes\<close>

text \<open>
  The abstract view of a request: argument \<open>k\<close> of the user's call, in a register or on the stack
  above the return address and the two words the stub and the bridge pushed.
\<close>

definition user_arg :: "memory \<Rightarrow> u64 \<Rightarrow> nat \<Rightarrow> u64" where
  "user_arg m regs k =
     (if k = 0 then reg m regs rdi_off else if k = 1 then reg m regs rsi_off
      else if k = 2 then reg m regs rdx_off else if k = 3 then reg m regs r10_off
      else if k = 4 then reg m regs r8_off else if k = 5 then reg m regs r9_off
      else load64 m (reg m regs rsp_off + 32 + 8 * of_nat (k - 6)))"

lemma stack_args_loop_result:
  assumes "starting_arg + (param_size - starting_param) \<le> length a"
    and "i \<le> param_size - starting_param"
  shows "\<exists>a'. stack_args_loop m starting_param starting_arg param_size i rsp_ptr a = Inr a' \<and>
     length a' = length a \<and>
     (\<forall>j < length a. a' ! j =
        (if starting_arg + i \<le> j \<and> j < starting_arg + (param_size - starting_param)
         then load64 m (rsp_ptr + 8 * of_nat (j - (starting_arg + i))) else a ! j))"
  using assms
proof (induction m starting_param starting_arg param_size i rsp_ptr a rule: stack_args_loop.induct)
  case (1 m starting_param starting_arg param_size i rsp_ptr a)
  show ?case
  proof (cases "starting_param + i < param_size")
    case False
    then show ?thesis by (auto simp: stack_args_loop.simps)
  next
    case True
    then have inside: "starting_arg + i < length a" using "1.prems"(1) by linarith
    let ?a = "a[starting_arg + i := load64 m rsp_ptr]"
    have more: "i + 1 \<le> param_size - starting_param" using True by linarith
    obtain a' where a': "stack_args_loop m starting_param starting_arg param_size (i + 1)
        (rsp_ptr + 8) ?a = Inr a'" "length a' = length a"
      and nth: "\<And>j. j < length a \<Longrightarrow> a' ! j =
        (if starting_arg + (i + 1) \<le> j \<and> j < starting_arg + (param_size - starting_param)
         then load64 m (rsp_ptr + 8 + 8 * of_nat (j - (starting_arg + (i + 1)))) else ?a ! j)"
      using "1.IH" [OF True inside _ more] "1.prems"(1) by (simp only: length_list_update) blast
    have "stack_args_loop m starting_param starting_arg param_size i rsp_ptr a = Inr a'"
      using True inside a'(1) by (simp add: stack_args_loop.simps)
    moreover have "a' ! j = (if starting_arg + i \<le> j \<and> j < starting_arg + (param_size - starting_param)
        then load64 m (rsp_ptr + 8 * of_nat (j - (starting_arg + i))) else a ! j)"
      if j: "j < length a" for j
    proof (cases "starting_arg + i < j")
      case True
      then have "j - (starting_arg + i) = Suc (j - (starting_arg + (i + 1)))" by simp
      then have "(8 :: u64) * of_nat (j - (starting_arg + i))
          = 8 + 8 * of_nat (j - (starting_arg + (i + 1)))" by (simp only: of_nat_Suc) simp
      then have ptr: "rsp_ptr + 8 * of_nat (j - (starting_arg + i))
          = rsp_ptr + 8 + 8 * of_nat (j - (starting_arg + (i + 1)))" by (simp only: add.assoc)
      have here: "starting_arg + (i + 1) \<le> j" "starting_arg + i \<le> j" "starting_arg + i \<noteq> j"
        using True by simp_all
      show ?thesis
        by (simp only: nth [OF j] ptr here nth_list_update_neq simp_thms)
    next
      case False
      then show ?thesis using nth [OF j] True inside by (cases "j = starting_arg + i") auto
    qed
    ultimately show ?thesis using a'(2) by auto
  qed
qed

lemma stack_args_from_start:
  assumes "starting_arg + (param_size - starting_param) \<le> 9" and "length a = 9"
  obtains a' where "stack_args_loop m starting_param starting_arg param_size 0 rsp_ptr a = Inr a'"
    and "length a' = 9"
    and "\<And>j. j < 9 \<Longrightarrow> a' ! j =
        (if starting_arg \<le> j \<and> j < starting_arg + (param_size - starting_param)
         then load64 m (rsp_ptr + 8 * of_nat (j - starting_arg)) else a ! j)"
  using stack_args_loop_result [of starting_arg param_size starting_param a 0 m rsp_ptr] assms
  by auto

lemmas push_size = PUSH_RETURN_ADDRESS_SIZE_def PUSH_RSP_SIZE_def

lemma user_arg_stack: "6 \<le> k \<Longrightarrow> user_arg m regs k = load64 m (reg m regs rsp_off + 32 + 8 * of_nat (k - 6))"
  by (simp add: user_arg_def)

lemma full_args_direct:
  fixes w :: "'k world"
  assumes "length (arg (args b)) = 9" and "0 \<le> arg_count b" "arg_count b \<le> 9"
    and direct: "\<not> indirect_syscall b"
  shows "\<exists>a. darling_x86_64_syscall_full_args_init b w
       = Inr (b\<lparr>args := \<lparr>sysnum = sysnum (args b), arg = a\<rparr>\<rparr>) \<and> length a = 9 \<and>
     (\<forall>j < 9. a ! j = (if 6 \<le> j \<and> j < nat (arg_count b)
        then user_arg (mem w) (arch_specific_regs b) j else arg (args b) ! j))"
proof (cases "6 < arg_count b")
  case False
  then have "(if 6 \<le> j \<and> j < nat (arg_count b) then x else y) = y" for j and x y :: u64 by auto
  then show ?thesis
    using False assms(1) direct
    by (intro exI [of _ "arg (args b)"])
      (simp add: darling_x86_64_syscall_full_args_init_def Let_def)
next
  case True
  let ?p = "reg (mem w) (arch_specific_regs b) rsp_off + 32"
  have bound: "6 + (nat (arg_count b) - 6) \<le> 9" using assms(3) by simp
  obtain a where a: "stack_args_loop (mem w) 6 6 (nat (arg_count b)) 0 ?p (arg (args b)) = Inr a"
    "length a = 9"
    and nth: "\<And>j. j < 9 \<Longrightarrow> a ! j = (if 6 \<le> j \<and> j < 6 + (nat (arg_count b) - 6)
         then load64 (mem w) (?p + 8 * of_nat (j - 6)) else arg (args b) ! j)"
    by (rule stack_args_from_start [OF bound assms(1), of "mem w" ?p]) (rule that)
  have "6 + (nat (arg_count b) - 6) = nat (arg_count b)" using True by simp
  then have "a ! j = (if 6 \<le> j \<and> j < nat (arg_count b)
      then user_arg (mem w) (arch_specific_regs b) j else arg (args b) ! j)" if "j < 9" for j
    using nth [OF that] user_arg_stack [of j "mem w" "arch_specific_regs b"]
    by (simp only: add_0_right) simp
  moreover have "darling_x86_64_syscall_full_args_init b w
      = Inr (b\<lparr>args := \<lparr>sysnum = sysnum (args b), arg = a\<rparr>\<rparr>)"
    using True assms direct a
    by (simp add: darling_x86_64_syscall_full_args_init_def Let_def push_size)
  ultimately show ?thesis using a(2) by blast
qed

lemma full_args_indirect:
  fixes w :: "'k world"
  assumes "length (arg (args b)) = 9" and "0 \<le> arg_count b" "arg_count b \<le> 9"
    and indirect: "indirect_syscall b"
  shows "\<exists>a. darling_x86_64_syscall_full_args_init b w
       = Inr (b\<lparr>args := \<lparr>sysnum = ucast (user_arg (mem w) (arch_specific_regs b) 0), arg = a\<rparr>\<rparr>) \<and>
     length a = 9 \<and>
     (\<forall>j < 9. a ! j = (if j < 5 \<or> j < nat (arg_count b)
        then user_arg (mem w) (arch_specific_regs b) (j + 1) else arg (args b) ! j))"
proof -
  let ?m = "mem w" and ?r = "arch_specific_regs b"
  let ?a = "(arg (args b))[0 := reg ?m ?r rsi_off, 1 := reg ?m ?r rdx_off, 2 := reg ?m ?r r10_off,
    3 := reg ?m ?r r8_off, 4 := reg ?m ?r r9_off]"
  have start: "?a ! j = (if j < 5 then user_arg ?m ?r (j + 1) else arg (args b) ! j)" if "j < 9" for j
  proof -
    have "j = 0 \<or> j = 1 \<or> j = 2 \<or> j = 3 \<or> j = 4 \<or> 5 \<le> j" by linarith
    then show ?thesis using assms(1) by (auto simp: user_arg_def)
  qed
  show ?thesis
  proof (cases "6 < arg_count b + 1")
    case False
    have "(if j < 5 \<or> j < nat (arg_count b) then x else y) = (if j < 5 then x else y)"
      for j and x y :: u64 using False by auto
    moreover have "darling_x86_64_syscall_full_args_init b w
        = Inr (b\<lparr>args := \<lparr>sysnum = ucast (user_arg ?m ?r 0), arg = ?a\<rparr>\<rparr>)"
      using False indirect
      by (simp add: darling_x86_64_syscall_full_args_init_def Let_def user_arg_def)
    ultimately show ?thesis
      using assms(1) start by (intro exI [of _ ?a]) simp
  next
    case True
    let ?p = "reg ?m ?r rsp_off + 32" and ?n = "nat (arg_count b + 1)"
    have bound: "5 + (?n - 6) \<le> 9" using assms(3) by simp
    have nine: "length ?a = 9" using assms(1) by simp
    obtain a where a: "stack_args_loop ?m 6 5 ?n 0 ?p ?a = Inr a" "length a = 9"
      and nth: "\<And>j. j < 9 \<Longrightarrow> a ! j = (if 5 \<le> j \<and> j < 5 + (?n - 6)
           then load64 ?m (?p + 8 * of_nat (j - 5)) else ?a ! j)"
      by (rule stack_args_from_start [OF bound nine, of ?m ?p]) (rule that)
    have "5 + (?n - 6) = nat (arg_count b)" using True by simp
    then have "a ! j = (if j < 5 \<or> j < nat (arg_count b)
        then user_arg ?m ?r (j + 1) else arg (args b) ! j)" if "j < 9" for j
      using nth [OF that] start [OF that] user_arg_stack [of "j + 1" ?m ?r] True
      by (cases "5 \<le> j") (simp_all only: add_0_right, simp_all)
    moreover have "darling_x86_64_syscall_full_args_init b w
        = Inr (b\<lparr>args := \<lparr>sysnum = ucast (user_arg ?m ?r 0), arg = a\<rparr>\<rparr>)"
      using True assms indirect a
      by (simp add: darling_x86_64_syscall_full_args_init_def Let_def push_size user_arg_def)
    ultimately show ?thesis using a(2) by blast
  qed
qed

section \<open>The constructor keeps its interface\<close>

lemma full_args_at:
  fixes w :: "'k world"
  assumes "length (arg (args b)) = 9" "0 \<le> arg_count b" "arg_count b \<le> 9"
    and "darling_x86_64_syscall_full_args_init b w = Inr b'" and "j < 9"
  shows "arg (args b') ! j =
     (let k = (if indirect_syscall b then j + 1 else j) in
      if (if indirect_syscall b then j < 5 \<or> j < nat (arg_count b) else 6 \<le> j \<and> j < nat (arg_count b))
      then user_arg (mem w) (arch_specific_regs b) k else arg (args b) ! j)"
    and "length (arg (args b')) = 9"
proof (atomize (full), cases "indirect_syscall b")
  case True
  then show "arg (args b') ! j = (let k = (if indirect_syscall b then j + 1 else j) in
      if (if indirect_syscall b then j < 5 \<or> j < nat (arg_count b) else 6 \<le> j \<and> j < nat (arg_count b))
      then user_arg (mem w) (arch_specific_regs b) k else arg (args b) ! j) \<and>
      length (arg (args b')) = 9"
    using full_args_indirect [OF assms(1-3) True, of w] assms(4,5) by (auto simp: Let_def)
next
  case False
  then show "arg (args b') ! j = (let k = (if indirect_syscall b then j + 1 else j) in
      if (if indirect_syscall b then j < 5 \<or> j < nat (arg_count b) else 6 \<le> j \<and> j < nat (arg_count b))
      then user_arg (mem w) (arch_specific_regs b) k else arg (args b) ! j) \<and>
      length (arg (args b')) = 9"
    using full_args_direct [OF assms(1-3) False, of w] assms(4,5) by (auto simp: Let_def)
qed

lemma full_args_total:
  assumes "length (arg (args b)) = 9" "0 \<le> arg_count b" "arg_count b \<le> 9"
  shows "\<exists>b'. darling_x86_64_syscall_full_args_init b w = Inr b' \<and> length (arg (args b')) = 9"
  using full_args_direct [OF assms, of w] full_args_indirect [OF assms, of w]
  by (cases "indirect_syscall b") auto

interpretation full_args: args_constructor darling_x86_64_syscall_full_args_init
proof
  fix b c b' c' and w :: "'a world"
  assume same: "same_request b c" "indirect_syscall b = indirect_syscall c" "arg_count b = arg_count c"
    and n: "0 \<le> arg_count b" "arg_count b \<le> 9"
    and b': "darling_x86_64_syscall_full_args_init b w = Inr b'"
    and c': "darling_x86_64_syscall_full_args_init c w = Inr c'"
  have len: "length (arg (args b)) = 9" "length (arg (args c)) = 9"
    and regs: "arch_specific_regs c = arch_specific_regs b"
    and six: "take 6 (arg (args b)) = take 6 (arg (args c))"
    using same(1) by (simp_all add: same_request_def)
  show "take (nat (arg_count b)) (arg (args b')) = take (nat (arg_count b)) (arg (args c'))"
  proof (rule nth_equalityI)
    have lens: "length (arg (args b')) = 9" "length (arg (args c')) = 9"
      using full_args_at(2) [OF len(1) n b', of 0]
        full_args_at(2) [OF len(2) _ _ c', of 0] n same(3) by simp_all
    then show "length (take (nat (arg_count b)) (arg (args b')))
        = length (take (nat (arg_count b)) (arg (args c')))" by simp
    fix j assume "j < length (take (nat (arg_count b)) (arg (args b')))"
    then have j: "j < nat (arg_count b)" "j < 9" using lens n by simp_all
    have old: "arg (args b) ! j = arg (args c) ! j" if "j < 6"
      using nth_take_eq [OF six that] .
    have "arg (args b') ! j = arg (args c') ! j"
      using full_args_at(1) [OF len(1) n b' j(2)] full_args_at(1) [OF len(2) _ _ c' j(2)]
        n same(2,3) regs old j(1) by (auto simp: Let_def)
    then show "take (nat (arg_count b)) (arg (args b')) ! j
        = take (nat (arg_count b)) (arg (args c')) ! j" using j(1) by simp
  qed
qed (rule full_args_total)

section \<open>The saved registers in memory\<close>

lemma set_reg_simps [simp]:
  "kstate (set_reg p off v w) = kstate w" "console (set_reg p off v w) = console w"
  "darling_errno (set_reg p off v w) = darling_errno w"
  "reg (mem (set_reg p off v w)) p off = v"
  by (simp_all add: set_reg_def reg_def q.ld_st_same)

lemma reg_set_reg_other:
  "8 \<le> unat (j - i) \<Longrightarrow> 8 \<le> unat (i - j) \<Longrightarrow> reg (mem (set_reg p i v w)) p j = reg (mem w) p j"
  by (simp add: set_reg_def reg_def q.ld_st_field)

lemma mem_set_reg_outside: "\<not> in_region (p + off) 8 x \<Longrightarrow> mem (set_reg p off v w) x = mem w x"
  by (simp add: set_reg_def q.st_outside)

lemma ERRORS: "error \<noteq> 0 \<and> error \<noteq> ERESTART \<and> error \<noteq> EJUSTRETURN \<longleftrightarrow> \<not> reports_result error"
  by (simp add: reports_result_def ERESTART_def EJUSTRETURN_def)

lemma return_values_not_unix:
  "syscall_type ret \<noteq> SYSCALL_TYPE_UNIX \<Longrightarrow>
   darling_x86_64_syscall_set_return_values ret p err w = Inr w"
  by (simp add: darling_x86_64_syscall_set_return_values_def)

lemma return_values_error:
  "syscall_type ret = SYSCALL_TYPE_UNIX \<Longrightarrow> \<not> reports_result err \<Longrightarrow>
   darling_x86_64_syscall_set_return_values ret p err w =
     Inr (set_reg p rflag_off (reg (mem w) p rflag_off OR 1) (set_reg p rax_off (scast err) w))"
  by (simp add: darling_x86_64_syscall_set_return_values_def ERRORS Let_def X86_64_FLAG_CARRY_def
      reg_set_reg_other layout_simps)

lemma return_values_result:
  assumes "syscall_type ret = SYSCALL_TYPE_UNIX" and "reports_result err"
    and "darling_x86_64_syscall_set_return_values ret p err w = Inr w'"
  obtains "w' = w" | a d where "w' = set_reg p rdx_off d (set_reg p rax_off a w)"
  using assms
  by (auto simp: darling_x86_64_syscall_set_return_values_def ERRORS
      split: darling_syscall_retarg_type.splits)

lemma return_values_total:
  "reports_result err \<longrightarrow> result_type ret \<noteq> RETARG_TYPE_INVALID \<Longrightarrow>
   \<exists>w'. darling_x86_64_syscall_set_return_values ret p err w = Inr w'"
  by (auto simp: darling_x86_64_syscall_set_return_values_def ERRORS Let_def
      split: darling_syscall_retarg_type.split)

section \<open>The builder the handler makes\<close>

definition handler_builder :: "locals \<Rightarrow> u64 \<Rightarrow> 'k world \<Rightarrow> darling_syscall_args_builder" where
  "handler_builder loc p w =
     darling_x86_64_syscall_partial_args_init ((fst loc)\<lparr>arch_specific_regs := p\<rparr>) w"

definition handler_retargs :: "locals \<Rightarrow> darling_syscall_retarg" where
  "handler_retargs loc =
     (snd loc)\<lparr>syscall_type := SYSCALL_TYPE_INVALID, result_type := RETARG_TYPE_INVALID\<rparr>"

lemma handler_builder_fields:
  assumes "valid_locals loc"
  shows "sysnum (args (handler_builder loc p w)) = get_sysnum (reg (mem w) p rax_off)"
    and "arch_specific_regs (handler_builder loc p w) = p"
    and "length (arg (args (handler_builder loc p w))) = 9"
    and "j < 6 \<Longrightarrow> arg (args (handler_builder loc p w)) ! j = user_arg (mem w) p j"
proof -
  have len: "length (arg (args (fst loc))) = 9" using assms by (simp add: valid_locals_def)
  then show "sysnum (args (handler_builder loc p w)) = get_sysnum (reg (mem w) p rax_off)"
    and "arch_specific_regs (handler_builder loc p w) = p"
    and "length (arg (args (handler_builder loc p w))) = 9"
    by (simp_all add: handler_builder_def darling_x86_64_syscall_partial_args_init_def Let_def)
  assume "j < 6"
  then have "j = 0 \<or> j = 1 \<or> j = 2 \<or> j = 3 \<or> j = 4 \<or> j = 5" by linarith
  then show "arg (args (handler_builder loc p w)) ! j = user_arg (mem w) p j"
    using len
    by (auto simp: handler_builder_def darling_x86_64_syscall_partial_args_init_def Let_def user_arg_def)
qed

lemma handler_builder_same:
  assumes "valid_locals loc" and "valid_locals loc'"
  shows "same_request (handler_builder loc p w) (handler_builder loc' p w)"
proof -
  have "take 6 (arg (args (handler_builder loc p w))) = take 6 (arg (args (handler_builder loc' p w)))"
    by (rule nth_equalityI) (simp_all add: handler_builder_fields assms)
  then show ?thesis
    by (simp add: same_request_def handler_builder_fields assms)
qed

text \<open>The number a request asks for, from the registers.\<close>

definition requested_number :: "memory \<Rightarrow> u64 \<Rightarrow> c_int" where
  "requested_number m p =
     (if get_sysnum (reg m p rax_off) = 0 then ucast (reg m p rdi_off)
      else get_sysnum (reg m p rax_off))"

lemma requested_handler_builder:
  "valid_locals loc \<Longrightarrow> requested (handler_builder loc p w) = requested_number (mem w) p"
  using handler_builder_fields(4) [of loc 0 p w]
  by (simp add: handler_builder_fields requested_def requested_number_def UNIX_SYSNUM_INDIRECT_SYSCALL_def user_arg_def)

section \<open>The handler, class by class\<close>

definition entered :: "u64 \<Rightarrow> 'k world \<Rightarrow> 'k world" where
  "entered p w =
     set_reg p rflag_off (reg (mem w) p rflag_off AND NOT X86_64_FLAG_CARRY)
       (say In_handle_x86_64_syscall w)"

definition finish ::
  "u64 \<Rightarrow> 'k outcome \<Rightarrow> fault + c_int \<times> 'k world" where
  "finish p outcome =
     (case outcome of
        Inl f \<Rightarrow> Inl f
      | Inr (error, ret, w) \<Rightarrow>
          (case darling_x86_64_syscall_set_return_values ret p error w of
             Inl f \<Rightarrow> Inl f
           | Inr w \<Rightarrow> Inr (error, w)))"

lemma entered_simps [simp]:
  "kstate (entered p w) = kstate w" "darling_errno (entered p w) = darling_errno w"
  "console (entered p w) = console w @ [In_handle_x86_64_syscall]"
  by (simp_all add: entered_def)

lemma reg_entered:
  "reg (mem (entered p w)) p rflag_off = reg (mem w) p rflag_off AND NOT 1"
  "8 \<le> unat (off - rflag_off) \<Longrightarrow> 8 \<le> unat (rflag_off - off) \<Longrightarrow>
   reg (mem (entered p w)) p off = reg (mem w) p off"
  by (simp_all add: entered_def reg_set_reg_other X86_64_FLAG_CARRY_def)

lemma reg_entered_rax [simp]: "reg (mem (entered p w)) p rax_off = reg (mem w) p rax_off"
  by (rule reg_entered) (simp_all add: layout_simps)

definition other_class_message :: "c_int \<Rightarrow> message" where
  "other_class_message c =
     (if c = SYSCALL_CLASS_MACH then In_syscall_mach
      else if c = SYSCALL_CLASS_MDEP then In_syscall_machdep
      else if c = SYSCALL_CLASS_DIAG then Diag_not_supported else Unknown_class c)"

lemma handler_unix:
  assumes "class_of (reg (mem w) p rax_off) = SYSCALL_CLASS_UNIX"
  shows "darling_handle_x86_64_syscall e loc p w =
     finish p (darling_common_syscall_unix darling_x86_64_syscall_full_args_init e
       (handler_builder loc p (entered p w)) (handler_retargs loc) (entered p w))"
proof -
  have "class_of (reg (mem (entered p w)) p rax_off) = SYSCALL_CLASS_UNIX" using assms by simp
  moreover have "SYSCALL_CLASS_UNIX \<noteq> SYSCALL_CLASS_MACH" by (simp add: class_defs)
  ultimately show ?thesis
    by (simp add: darling_handle_x86_64_syscall_def entered_def [symmetric] finish_def
        handler_builder_def handler_retargs_def Let_def)
qed

lemma handler_other_class:
  assumes "class_of (reg (mem w) p rax_off) \<noteq> SYSCALL_CLASS_UNIX"
  shows "darling_handle_x86_64_syscall e loc p w =
     Inr (0, say (other_class_message (class_of (reg (mem w) p rax_off))) (entered p w))"
proof -
  let ?c = "class_of (reg (mem (entered p w)) p rax_off)"
  have "?c \<noteq> SYSCALL_CLASS_UNIX" using assms by simp
  then have "darling_handle_x86_64_syscall e loc p w =
      finish p (Inr (0, handler_retargs loc, say (other_class_message ?c) (entered p w)))"
    by (simp add: darling_handle_x86_64_syscall_def entered_def [symmetric] finish_def
        handler_retargs_def Let_def other_class_message_def darling_common_syscall_mach_def
        darling_common_syscall_machdep_def darling_common_syscall_diag_def)
  also have "\<dots> = Inr (0, say (other_class_message ?c) (entered p w))"
    by (simp add: finish_def handler_retargs_def return_values_not_unix)
  finally show ?thesis by simp
qed

lemma finish_no_trap:
  assumes "keeps_promise (unix_retarg t) outcome"
  shows "finish p outcome \<noteq> Inl Builtin_trap" and "finish p outcome \<noteq> Inl Array_bounds"
proof -
  have "finish p outcome \<noteq> Inl f" if "f = Builtin_trap \<or> f = Array_bounds" for f
  proof (cases outcome)
    case (Inl g)
    then show ?thesis using assms that by (auto simp: finish_def)
  next
    case (Inr r)
    obtain err ret w where r: "r = (err, ret, w)" by (cases r)
    obtain w' where "darling_x86_64_syscall_set_return_values ret p err w = Inr w'"
      using return_values_total [of err ret p w] assms Inr r by auto
    then show ?thesis using Inr r by (simp add: finish_def)
  qed
  then show "finish p outcome \<noteq> Inl Builtin_trap" and "finish p outcome \<noteq> Inl Array_bounds"
    by simp_all
qed

lemma full_args_view:
  assumes "valid_locals loc" and "0 \<le> n" "n \<le> 9"
  shows "\<exists>b. darling_x86_64_syscall_full_args_init
       ((handler_builder loc p w)\<lparr>indirect_syscall := i, arg_count := n\<rparr>) w = Inr b \<and>
     length (arg (args b)) = 9 \<and> take (nat n) (arg (args b))
       = map (\<lambda>k. user_arg (mem w) p (if i then k + 1 else k)) [0..<nat n] \<and>
     sysnum (args b) = (if i then ucast (user_arg (mem w) p 0)
       else get_sysnum (reg (mem w) p rax_off))"
proof -
  let ?b = "(handler_builder loc p w)\<lparr>indirect_syscall := i, arg_count := n\<rparr>"
  have len: "length (arg (args ?b)) = 9" and n: "0 \<le> arg_count ?b" "arg_count ?b \<le> 9"
    using assms by (simp_all add: handler_builder_fields)
  obtain b where b: "darling_x86_64_syscall_full_args_init ?b w = Inr b" "length (arg (args b)) = 9"
    using full_args_total [OF len n] by blast
  have "take (nat n) (arg (args b))
      = map (\<lambda>k. user_arg (mem w) p (if i then k + 1 else k)) [0..<nat n]"
  proof (rule nth_equalityI)
    fix j assume "j < length (take (nat n) (arg (args b)))"
    then have j: "j < nat n" "j < 9" using assms(2,3) b(2) by simp_all
    then show "take (nat n) (arg (args b)) ! j
        = map (\<lambda>k. user_arg (mem w) p (if i then k + 1 else k)) [0..<nat n] ! j"
      using full_args_at(1) [OF len n b(1) j(2)]
      by (simp add: handler_builder_fields assms(1) Let_def split: if_splits)
  qed (use assms(3) b(2) in simp)
  moreover have "sysnum (args b) = (if i then ucast (user_arg (mem w) p 0)
      else get_sysnum (reg (mem w) p rax_off))"
    using full_args_direct [OF len n, of w] full_args_indirect [OF len n, of w] b(1)
    by (cases i) (auto simp: handler_builder_fields assms(1))
  ultimately show ?thesis using b by blast
qed

section \<open>Constructed numbers\<close>

definition construct_number :: "c_int \<Rightarrow> c_int \<Rightarrow> c_int" where
  "construct_number c n = (push_bit SYSCALL_CLASS_SHIFT c) OR (SYSCALL_NUMBER_MASK AND n)"

lemma construct_number_eq:
  "SYSCALL_CONSTRUCT_MACH n = construct_number 1 n" "SYSCALL_CONSTRUCT_UNIX n = construct_number 2 n"
  "SYSCALL_CONSTRUCT_MDEP n = construct_number 3 n" "SYSCALL_CONSTRUCT_DIAG n = construct_number 4 n"
  by (simp_all add: construct_defs class_defs construct_number_def)

lemma get_sysnum_construct_number:
  "get_sysnum (ucast (construct_number c n)) = SYSCALL_NUMBER_MASK AND n"
  by (rule bit_word_eqI)
    (auto simp: bit_get_sysnum construct_number_def bit_simps number_mask_bits SYSCALL_CLASS_SHIFT_def)

lemma class_of_construct_number:
  assumes "take_bit 7 c = c"
  shows "class_of (ucast (construct_number c n)) = c"
proof (rule bit_word_eqI)
  fix i assume "i < LENGTH(32)"
  moreover have "\<not> bit c j" if "7 \<le> j" for j
    using bit_take_bit_iff [of 7 c j] that by (simp add: assms)
  ultimately show "bit (class_of (ucast (construct_number c n))) i = bit c i"
    by (auto simp: bit_class_of construct_number_def bit_simps number_mask_bits SYSCALL_CLASS_SHIFT_def)
qed

section \<open>Numbers without an implementation\<close>

lemma foldr_say:
  "mem (foldr say msgs w) = mem w" "kstate (foldr say msgs w) = kstate w"
  "darling_errno (foldr say msgs w) = darling_errno w"
  by (induction msgs) auto

lemma dispatch_enosys:
  fixes w :: "'k world"
  assumes other: "requested b \<notin> {4, 29, 42}" and "length (arg (args b)) = 9"
  shows "\<exists>msgs. darling_common_syscall_unix darling_x86_64_syscall_full_args_init e b ret w
     = Inr (host_errno e ''ENOSYS'', unix_retarg (result_type ret), foldr say msgs w)"
proof -
  have one: "\<exists>msgs. say m1 w = foldr say msgs w" for m1
    by (intro exI [of _ "[m1]"]) simp
  have two: "\<exists>msgs. say m1 (say m2 w) = foldr say msgs w" for m1 m2
    by (intro exI [of _ "[m1, m2]"]) simp
  show ?thesis
  proof (cases "in_table (requested b)")
    case False
    then show ?thesis using two by (simp add: dispatch_out_of_range)
  next
    case nr: True
    show ?thesis
    proof (cases "requested b = 0")
      case True
      then have f: "func (entry (requested b)) = Some (sys_syscall :: 'k syscall_function)"
        using nr by (simp add: entry_func)
      obtain b' where "darling_x86_64_syscall_full_args_init (prepared b) (say In_syscall_unix w) = Inr b'"
        using full_args.prepared_total [OF assms(2)] by blast
      then show ?thesis
        using one by (simp add: dispatch_entry [OF nr f] sys_syscall_def)
    next
      case False
      then have "func (entry (requested b) :: 'k darling_syscall_metadata) = None"
        using other nr by (simp add: entry_func)
      then show ?thesis using two nr by (simp add: dispatch_unimplemented)
    qed
  qed
qed

section \<open>Example requests\<close>

text \<open>
  Two requests in memory: at \<open>0x1000\<close> a direct \<open>write (1, 0x5000, 4)\<close>, at \<open>0x2000\<close> the same through
  \<open>syscall\<close>; at \<open>0x3000\<close> a number that is not implemented.
\<close>

definition example_locals :: locals where
  "example_locals =
     (\<lparr>args = \<lparr>sysnum = 7, arg = replicate 9 0xDEAD\<rparr>, indirect_syscall = True,
       arch_specific_regs = 1, arg_count = 5\<rparr>,
      \<lparr>syscall_type = SYSCALL_TYPE_MACH, result_type = RETARG_TYPE_NONE, result0 = 1, result1 = 2\<rparr>)"

definition other_locals :: locals where
  "other_locals =
     (\<lparr>args = \<lparr>sysnum = 0, arg = replicate 9 0\<rparr>, indirect_syscall = False,
       arch_specific_regs = 0, arg_count = 0\<rparr>,
      \<lparr>syscall_type = SYSCALL_TYPE_UNIX, result_type = RETARG_TYPE_INT_T, result0 = 0, result1 = 0\<rparr>)"

fun store_cells :: "(u64 \<times> u64) list \<Rightarrow> memory \<Rightarrow> memory" where
  "store_cells [] m = m"
| "store_cells ((a, v) # cs) m = store_cells cs (store64 m a v)"

definition example_requests :: "(c_int \<times> u64 list) list world" where
  "example_requests = example_world\<lparr>mem := store_cells
     [(0x1000, 0x2000004), (0x1008, 1), (0x1010, 0x5000), (0x1018, 4),
      (0x2000, 0x2000000), (0x2008, 4), (0x2010, 1), (0x2018, 0x5000), (0x2038, 4),
      (0x3000, 0x2000005)] (\<lambda>_. 0)\<rparr>"

lemma valid_example_locals: "valid_locals example_locals" "valid_locals other_locals"
  by (simp_all add: valid_locals_def example_locals_def other_locals_def)

lemma enosys_example_host: "enosys_is_error example_host"
  by (simp add: enosys_is_error_def reports_result_def example_enosys)

lemma load64_zero: "load64 (\<lambda>_. 0) a = 0"
  by (simp add: load64_def load_bytes_def upt_rec)

lemmas example_simps = reg_def user_arg_def example_requests_def example_world_def q.ld_st_same
  q.ld_st_disjoint disjoint_regions_def layout_simps load64_zero

lemma class_of_example: "class_of 0x2000005 = SYSCALL_CLASS_UNIX"
  by code_simp

lemma example_requests_regs:
  "class_of (reg (mem example_requests) 0x3000 rax_off) = SYSCALL_CLASS_UNIX"
  "requested_number (mem example_requests) 0x3000 = 5"
  "get_sysnum (reg (mem example_requests) 0x1000 rax_off) = 4"
  "get_sysnum (reg (mem example_requests) 0x2000 rax_off) = 0"
  "(ucast (reg (mem example_requests) 0x2000 rdi_off) :: c_int) = 4"
  "map (user_arg (mem example_requests) 0x1000) [0, 1, 2] = [1, 0x5000, 4]"
  "map (user_arg (mem example_requests) 0x2000) [1, 2, 3] = [1, 0x5000, 4]"
  by (simp_all add: example_simps class_of_example requested_number_def get_sysnum_def mask_values)

section \<open>Properties\<close>

text \<open>
  C3: The handler never executes \<open>__builtin_trap ()\<close> and never leaves the array of arguments, whatever
  the registers, the memory and the uninitialised locals are, as long as the host's \<open>ENOSYS\<close> is
  a proper error number.
\<close>

theorem handler_never_traps:
  assumes "valid_locals loc" and "enosys_is_error e"
  shows "darling_handle_x86_64_syscall e loc p w \<notin> {Inl Builtin_trap, Inl Array_bounds}"
proof (cases "class_of (reg (mem w) p rax_off) = SYSCALL_CLASS_UNIX")
  case True
  show ?thesis
    unfolding handler_unix [OF True]
    by (simp add: finish_no_trap [OF full_args.dispatch_keeps_promise
          [OF handler_builder_fields(3) [OF assms(1)] assms(2)]])
next
  case False
  then show ?thesis by (simp add: handler_other_class)
qed

text \<open>
  C4: What the handler does is independent of the uninitialised variables \<open>builder\<close> and \<open>retargs\<close>: no
  undefined value of the C program reaches the kernel, the registers or the result.
\<close>

theorem handler_ignores_uninitialised:
  assumes "valid_locals loc" and "valid_locals loc'"
  shows "darling_handle_x86_64_syscall e loc p w = darling_handle_x86_64_syscall e loc' p w"
proof (cases "class_of (reg (mem w) p rax_off) = SYSCALL_CLASS_UNIX")
  case True
  then show ?thesis
    using full_args.dispatch_determined [OF handler_builder_same [OF assms],
        of "handler_retargs loc" "handler_retargs loc'" e p "entered p w"]
    by (simp add: handler_unix handler_retargs_def)
next
  case False
  then show ?thesis by (simp add: handler_other_class)
qed

text \<open>
  C5: The constructor of the full arguments implements the calling convention: a direct call sees the
  user's arguments in order, and an indirect one sees them shifted by one, the number taken from the
  first; arguments beyond the registers come from the user's stack.  Every call of up to nine
  arguments is served.
\<close>

theorem full_args_are_the_users:
  assumes "valid_locals loc" and "0 \<le> n" "n \<le> 9"
  shows "\<exists>b. darling_x86_64_syscall_full_args_init
       ((handler_builder loc p w)\<lparr>indirect_syscall := i, arg_count := n\<rparr>) w = Inr b \<and>
     take (nat n) (arg (args b))
       = map (\<lambda>k. user_arg (mem w) p (if i then k + 1 else k)) [0..<nat n] \<and>
     sysnum (args b) = (if i then ucast (user_arg (mem w) p 0)
       else get_sysnum (reg (mem w) p rax_off))"
  using full_args_view [OF assms] by blast

text \<open>
  C8: A call made through \<open>syscall (number, arguments \<dots>)\<close> is the call made directly: when the two
  requests give the same number and the same arguments, the second shifted by one, the dispatcher
  gives the same outcome.
\<close>

theorem indirect_call_is_direct_call:
  fixes w :: "'k world"
  assumes "valid_locals loc"
    and direct: "get_sysnum (reg (mem w) p rax_off) = nr" "nr \<noteq> 0"
    and indirect: "get_sysnum (reg (mem w) q rax_off) = 0" "ucast (reg (mem w) q rdi_off) = nr"
    and shifted: "\<And>k. k < nat (declared_args nr) \<Longrightarrow> user_arg (mem w) q (k + 1) = user_arg (mem w) p k"
  shows "darling_common_syscall_unix darling_x86_64_syscall_full_args_init e (handler_builder loc q w) ret w
    = darling_common_syscall_unix darling_x86_64_syscall_full_args_init e (handler_builder loc p w) ret w"
proof -
  let ?b = "handler_builder loc p w" and ?c = "handler_builder loc q w" and ?w = "say In_syscall_unix w"
  let ?n = "declared_args nr"
  have req: "requested ?b = nr" "requested ?c = nr"
    using direct indirect by (simp_all add: requested_handler_builder assms(1) requested_number_def)
  show ?thesis
  proof (cases "in_table nr \<and> func (entry nr :: 'k darling_syscall_metadata) \<noteq> None")
    case False
    then show ?thesis
      by (cases "in_table nr") (auto simp: dispatch_out_of_range dispatch_unimplemented req)
  next
    case True
    then obtain f :: "'k syscall_function" where nr: "in_table nr" and f: "func (entry nr) = Some f"
      by auto
    have prep: "prepared ?b = ?b\<lparr>indirect_syscall := False, arg_count := ?n\<rparr>"
      "prepared ?c = ?c\<lparr>indirect_syscall := True, arg_count := ?n\<rparr>"
      using direct indirect
      by (simp_all add: prepared_def req handler_builder_fields assms(1) UNIX_SYSNUM_INDIRECT_SYSCALL_def)
    have same_w: "handler_builder loc p w = handler_builder loc p ?w"
      "handler_builder loc q w = handler_builder loc q ?w"
      by (simp_all add: handler_builder_def darling_x86_64_syscall_partial_args_init_def)
    obtain b c where b: "darling_x86_64_syscall_full_args_init (prepared ?b) ?w = Inr b"
        "length (arg (args b)) = 9" "take (nat ?n) (arg (args b)) = map (\<lambda>k. user_arg (mem w) p k) [0..<nat ?n]"
      and c: "darling_x86_64_syscall_full_args_init (prepared ?c) ?w = Inr c"
        "length (arg (args c)) = 9" "take (nat ?n) (arg (args c)) = map (\<lambda>k. user_arg (mem w) q (k + 1)) [0..<nat ?n]"
      using full_args_view [OF assms(1) declared_args_bounds, of nr False p ?w]
        full_args_view [OF assms(1) declared_args_bounds, of nr True q ?w]
      unfolding prep same_w [symmetric] by auto
    have "take (nat ?n) (arg (args c)) = take (nat ?n) (arg (args b))"
      unfolding b(3) c(3) using shifted by (intro map_cong) simp_all
    moreover have "system_call f (nat ?n) enosys_is_error"
      using table_entry [of "nat (sint nr)" f] nr f entry_arg_count [OF nr, where ?'a = 'k]
      by (simp add: entry_def table_index)
    ultimately have "f e (args c) r ?w = f e (args b) r ?w" for r
      using b(2) c(2) by (intro system_call.reads_declared)
    then show ?thesis
      by (simp add: dispatch_entry req nr f b(1) c(1))
  qed
qed

text \<open>
  C16: Decoding inverts the \<open>SYSCALL_CONSTRUCT\<close> macros: from the number a stub puts into \<open>eax\<close> the bridge
  reads back the class and the low 24 bits of the number, for each class.
\<close>

theorem decode_constructed_number:
  "class_of (ucast (SYSCALL_CONSTRUCT_MACH n)) = SYSCALL_CLASS_MACH \<and>
   class_of (ucast (SYSCALL_CONSTRUCT_UNIX n)) = SYSCALL_CLASS_UNIX \<and>
   class_of (ucast (SYSCALL_CONSTRUCT_MDEP n)) = SYSCALL_CLASS_MDEP \<and>
   class_of (ucast (SYSCALL_CONSTRUCT_DIAG n)) = SYSCALL_CLASS_DIAG \<and>
   get_sysnum (ucast (SYSCALL_CONSTRUCT_MACH n)) = SYSCALL_NUMBER_MASK AND n \<and>
   get_sysnum (ucast (SYSCALL_CONSTRUCT_UNIX n)) = SYSCALL_NUMBER_MASK AND n \<and>
   get_sysnum (ucast (SYSCALL_CONSTRUCT_MDEP n)) = SYSCALL_NUMBER_MASK AND n \<and>
   get_sysnum (ucast (SYSCALL_CONSTRUCT_DIAG n)) = SYSCALL_NUMBER_MASK AND n"
  unfolding construct_number_eq get_sysnum_construct_number
  by (simp add: class_of_construct_number class_defs)

text \<open>
  Setting the return values of a Unix call: the carry flag reports an error, exactly when the error
  is none of 0, \<open>ERESTART\<close> and \<open>EJUSTRETURN\<close>; then \<open>rax\<close> holds the error and \<open>rdx\<close> is as before.  No
  register but \<open>rax\<close>, \<open>rdx\<close> and the flags is written.
\<close>

lemma carry_reports_error:
  assumes "darling_x86_64_syscall_set_return_values ret p err w = Inr w'"
    and "syscall_type ret = SYSCALL_TYPE_UNIX" and "\<not> bit (reg (mem w) p rflag_off) 0"
  shows "(bit (reg (mem w') p rflag_off) 0 \<longleftrightarrow> err \<notin> {0, ERESTART, EJUSTRETURN}) \<and>
     (err \<notin> {0, ERESTART, EJUSTRETURN} \<longrightarrow>
       reg (mem w') p rax_off = scast err \<and> reg (mem w') p rdx_off = reg (mem w) p rdx_off) \<and>
     (\<forall>off \<in> {rdi_off, rsi_off, rcx_off, r8_off, r9_off, r10_off, r11_off, rbp_off, rsp_off}.
       reg (mem w') p off = reg (mem w) p off)"
proof (cases "reports_result err")
  case True
  then have err: "err \<in> {0, ERESTART, EJUSTRETURN}" using ERRORS [of err] by simp
  show ?thesis
    by (rule return_values_result [OF assms(2) True assms(1)])
      (use assms(3) err in \<open>simp_all add: reg_set_reg_other layout_simps\<close>)
next
  case False
  then have err: "err \<notin> {0, ERESTART, EJUSTRETURN}" using ERRORS [of err] by simp
  have w': "w' = set_reg p rflag_off (reg (mem w) p rflag_off OR 1) (set_reg p rax_off (scast err) w)"
    using assms(1) return_values_error [OF assms(2) False, of p w] by simp
  have "bit (reg (mem w) p rflag_off OR 1) 0" by (simp add: bit_simps)
  moreover have "reg (mem w') p off = reg (mem w) p off"
    if "8 \<le> unat (off - rflag_off)" "8 \<le> unat (rflag_off - off)"
      "8 \<le> unat (off - rax_off)" "8 \<le> unat (rax_off - off)" for off
    unfolding w' using that by (simp only: reg_set_reg_other)
  moreover have "reg (mem w') p rax_off = scast err"
    unfolding w' by (simp add: reg_set_reg_other layout_simps)
  ultimately show ?thesis
    using err by (simp add: w' layout_simps)
qed

text \<open>
  A Unix call whose number is not implemented, out of the table, negative, or a second level of
  indirection gives \<open>ENOSYS\<close> with the carry flag set: the kernel is not called and nothing but \<open>rax\<close>
  and the flags changes in memory.
\<close>

lemma unimplemented_gives_enosys:
  assumes "class_of (reg (mem w) p rax_off) = SYSCALL_CLASS_UNIX" and "valid_locals loc"
    and other: "requested_number (mem w) p \<notin> {4, 29, 42}" and "enosys_is_error e"
  shows "\<exists>w'. darling_handle_x86_64_syscall e loc p w = Inr (host_errno e ''ENOSYS'', w') \<and>
     kstate w' = kstate w \<and>
     reg (mem w') p rax_off = scast (host_errno e ''ENOSYS'') \<and>
     reg (mem w') p rflag_off = reg (mem w) p rflag_off OR 1 \<and>
     (\<forall>x. \<not> in_region (p + rax_off) 8 x \<and> \<not> in_region (p + rflag_off) 8 x \<longrightarrow> mem w' x = mem w x)"
proof -
  let ?w = "entered p w" and ?E = "host_errno e ''ENOSYS''"
  let ?b = "handler_builder loc p ?w"
  have nr: "requested ?b = requested_number (mem w) p"
    using assms(2) by (simp add: requested_handler_builder requested_number_def reg_entered layout_simps)
  have "\<exists>msgs. darling_common_syscall_unix darling_x86_64_syscall_full_args_init e ?b
      (handler_retargs loc) ?w = Inr (?E, unix_retarg RETARG_TYPE_INVALID, foldr say msgs ?w)"
    using dispatch_enosys [of ?b e "handler_retargs loc" ?w] other nr
    by (simp add: handler_builder_fields assms(2)) (simp add: handler_retargs_def)
  then obtain msgs where outcome: "darling_handle_x86_64_syscall e loc p w =
      finish p (Inr (?E, unix_retarg RETARG_TYPE_INVALID, foldr say msgs ?w))"
    using handler_unix [OF assms(1), of e loc] by (metis (no_types, lifting))
  let ?v = "foldr say msgs ?w"
  let ?w' = "set_reg p rflag_off (reg (mem ?v) p rflag_off OR 1) (set_reg p rax_off (scast ?E) ?v)"
  have mem: "mem ?v = mem ?w" by (simp add: foldr_say)
  have flags: "reg (mem ?v) p rflag_off OR 1 = reg (mem w) p rflag_off OR 1"
    unfolding mem reg_entered(1) by (rule bit_word_eqI) (auto simp: bit_simps)
  show ?thesis
  proof (intro exI conjI allI impI)
    show "darling_handle_x86_64_syscall e loc p w = Inr (?E, ?w')"
      using assms(4) unfolding outcome
      by (simp add: finish_def return_values_error unix_retarg_def enosys_is_error_def)
    show "kstate ?w' = kstate w" by (simp add: foldr_say)
    show "reg (mem ?w') p rax_off = scast ?E"
      by (simp add: reg_set_reg_other layout_simps)
    show "reg (mem ?w') p rflag_off = reg (mem w) p rflag_off OR 1"
      by (simp add: flags)
    show "mem ?w' x = mem w x"
      if "\<not> in_region (p + rax_off) 8 x \<and> \<not> in_region (p + rflag_off) 8 x" for x
      using that by (simp add: mem_set_reg_outside mem) (simp add: entered_def mem_set_reg_outside)
  qed
qed

section \<open>Witnesses\<close>

theorem handler_never_traps_witness:
  "darling_handle_x86_64_syscall example_host example_locals 0x1000 example_requests
     \<notin> {Inl Builtin_trap, Inl Array_bounds}"
  by (rule handler_never_traps [OF valid_example_locals(1) enosys_example_host])

theorem handler_ignores_uninitialised_witness:
  "darling_handle_x86_64_syscall example_host example_locals 0x1000 example_requests
     = darling_handle_x86_64_syscall example_host other_locals 0x1000 example_requests"
  by (rule handler_ignores_uninitialised [OF valid_example_locals])

theorem full_args_are_the_users_witness:
  "\<exists>b. darling_x86_64_syscall_full_args_init
       ((handler_builder example_locals 0x2000 example_requests)
          \<lparr>indirect_syscall := True, arg_count := 3\<rparr>) example_requests = Inr b \<and>
     take 3 (arg (args b)) = [1, 0x5000, 4] \<and> sysnum (args b) = 4"
  using full_args_are_the_users [OF valid_example_locals(1), where n = 3 and p = "0x2000"
      and w = example_requests and i = True]
    example_requests_regs(5,7)
  by (simp add: upt_rec user_arg_def)

theorem indirect_call_is_direct_call_witness:
  "darling_common_syscall_unix darling_x86_64_syscall_full_args_init example_host
       (handler_builder example_locals 0x2000 example_requests) (handler_retargs example_locals)
       example_requests
     = darling_common_syscall_unix darling_x86_64_syscall_full_args_init example_host
         (handler_builder example_locals 0x1000 example_requests) (handler_retargs example_locals)
         example_requests"
proof (rule indirect_call_is_direct_call [OF valid_example_locals(1) example_requests_regs(3) _
      example_requests_regs(4,5)])
  fix k assume "k < nat (declared_args 4)"
  then have "k = 0 \<or> k = 1 \<or> k = 2" by (auto simp: declared_args_def)
  then show "user_arg (mem example_requests) 0x2000 (k + 1) = user_arg (mem example_requests) 0x1000 k"
    using example_requests_regs(6,7) by (auto simp: numeral_3_eq_3 numeral_2_eq_2)
qed simp

end
