(* ===== verification/Machine.thy ===== *)
theory Machine
  imports Cbridge
begin

text \<open>
  The part of x86-64 that the assembly of the repository uses: registers, flags, the stack in
  byte-addressed memory, calls between assembly and C by the System V calling convention, and the
  \<open>syscall\<close> instruction.

  Code is a list of instructions per symbol.  The address an instruction pushes with \<open>call\<close> is chosen
  by the linker (\<open>next_rip\<close>); a callee that returns elsewhere is the fault \<open>Wild_return\<close>.  What a C
  function leaves in the registers and flags that the convention lets it clobber, and below the
  stack pointer, is arbitrary.
\<close>

unbundle bit_operations_syntax

section \<open>The state\<close>

datatype reg64 =
    RAX | RBX | RCX | RDX | RSI | RDI | RBP | RSP | R8 | R9 | R10 | R11 | R12 | R13 | R14 | R15

record 'k cpu =
  gpr :: "reg64 \<Rightarrow> u64"
  rflags :: u64
  rip :: u64
  world_of :: "'k world"

abbreviation cpu_mem :: "'k cpu \<Rightarrow> memory" where
  "cpu_mem s \<equiv> mem (world_of s)"

definition set_gpr :: "reg64 \<Rightarrow> u64 \<Rightarrow> 'k cpu \<Rightarrow> 'k cpu" where
  "set_gpr r v s = s\<lparr>gpr := (gpr s)(r := v)\<rparr>"

definition set_cpu_mem :: "memory \<Rightarrow> 'k cpu \<Rightarrow> 'k cpu" where
  "set_cpu_mem m s = s\<lparr>world_of := (world_of s)\<lparr>mem := m\<rparr>\<rparr>"

definition push :: "u64 \<Rightarrow> 'k cpu \<Rightarrow> 'k cpu" where
  "push v s = set_gpr RSP (gpr s RSP - 8) (set_cpu_mem (store64 (cpu_mem s) (gpr s RSP - 8) v) s)"

definition carry :: "u64 \<Rightarrow> bool" where
  "carry f \<longleftrightarrow> bit f 0"

text \<open>
  The flags a user program can set with \<open>popf\<close> (CF, PF, AF, ZF, SF, TF, DF, OF, NT, AC, ID).  RF and VM,
  which \<open>pushf\<close> does not store, are 0 in a program that is not being debugged.
\<close>

definition user_flags :: u64 where "user_flags = 0x244DD5"

definition load_flags :: "u64 \<Rightarrow> u64 \<Rightarrow> u64" where
  "load_flags old v = (old AND NOT user_flags) OR (v AND user_flags)"

section \<open>Instructions\<close>

text \<open>
  Operands are in the order of the source (AT\&T: source, destination).  \<open>Jnb n\<close> skips \<open>n\<close> instructions
  when the carry flag is clear; the labels of the code are all forward.
\<close>

datatype operation =
    Push reg64
  | Pop reg64
  | Mov reg64 reg64
  | Movl_imm c_int reg64
  | Movl_load u64 reg64 reg64   \<comment> \<open>\<open>movl disp(base), dst\<close>\<close>
  | Movl_store reg64 u64 reg64  \<comment> \<open>\<open>movl src, disp(base)\<close>\<close>
  | Mov_load reg64 reg64        \<comment> \<open>\<open>mov (base), dst\<close>\<close>
  | Mov_store reg64 reg64       \<comment> \<open>\<open>mov src, (base)\<close>\<close>
  | Xorl_self reg64             \<comment> \<open>\<open>xorl r, r\<close>\<close>
  | Subq_imm u64 reg64          \<comment> \<open>\<open>subq $i, r\<close>\<close>
  | Pushfq
  | Popfq

datatype instr =
    Op operation
  | Syscall
  | Load_got string reg64       \<comment> \<open>\<open>movq var@GOTPCREL(%rip), r\<close>\<close>
  | Mov_to_var reg64 string     \<comment> \<open>\<open>mov r, var(%rip)\<close>\<close>
  | Mov_from_var string reg64   \<comment> \<open>\<open>mov var(%rip), r\<close>\<close>
  | Push_var string             \<comment> \<open>\<open>push var\<close>\<close>
  | Call string
  | Jmp string
  | Jnb nat
  | Ret

text \<open>The status flags of \<open>a - b\<close>: CF, PF (of the low byte), AF, ZF, SF and OF.\<close>

definition sub_flags :: "u64 \<Rightarrow> u64 \<Rightarrow> u64 \<Rightarrow> u64" where
  "sub_flags f a b =
     (let r = a - b in
      (f AND NOT 0x8D5) OR of_bool (a < b)
        OR push_bit 2 (of_bool (even (length (filter (bit r) [0..<8]))))
        OR push_bit 4 (of_bool (a AND 15 < b AND 15))
        OR push_bit 6 (of_bool (r = 0))
        OR push_bit 7 (of_bool (bit r 63))
        OR push_bit 11 (of_bool (bit ((a XOR b) AND (a XOR r)) 63)))"

text \<open>A 32-bit destination clears the upper half of the register.  \<open>xorl r, r\<close> leaves ZF and PF set.\<close>

fun step :: "operation \<Rightarrow> 'k cpu \<Rightarrow> 'k cpu" where
  "step (Push r) s = push (gpr s r) s"
| "step (Pop r) s =
     (let v = load64 (cpu_mem s) (gpr s RSP) in set_gpr r v (set_gpr RSP (gpr s RSP + 8) s))"
| "step (Mov src dst) s = set_gpr dst (gpr s src) s"
| "step (Movl_imm i r) s = set_gpr r (ucast i) s"
| "step (Movl_load d b r) s = set_gpr r (ucast (load32 (cpu_mem s) (gpr s b + d))) s"
| "step (Movl_store r d b) s =
     set_cpu_mem (store32 (cpu_mem s) (gpr s b + d) (ucast (gpr s r))) s"
| "step (Mov_load b r) s = set_gpr r (load64 (cpu_mem s) (gpr s b)) s"
| "step (Mov_store r b) s = set_cpu_mem (store64 (cpu_mem s) (gpr s b) (gpr s r)) s"
| "step (Xorl_self r) s = (set_gpr r 0 s)\<lparr>rflags := (rflags s AND NOT 0x8D5) OR 0x44\<rparr>"
| "step (Subq_imm i r) s = (set_gpr r (gpr s r - i) s)\<lparr>rflags := sub_flags (rflags s) (gpr s r) i\<rparr>"
| "step Pushfq s = push (rflags s) s"
| "step Popfq s =
     (let v = load64 (cpu_mem s) (gpr s RSP)
      in (set_gpr RSP (gpr s RSP + 8) s)\<lparr>rflags := load_flags (rflags s) v\<rparr>)"

section \<open>What the linker, the compiler and the kernel choose\<close>

record 'k machine =
  host :: "'k env"
  uninitialised :: locals                             \<comment> \<open>locals of the C handler\<close>
  junk :: "string \<Rightarrow> 'k cpu \<Rightarrow> reg64 \<Rightarrow> u64"           \<comment> \<open>caller-saved registers after a C function\<close>
  junk_flags :: "string \<Rightarrow> 'k cpu \<Rightarrow> u64"             \<comment> \<open>flags after a C function\<close>
  scratch :: "u64 \<Rightarrow> memory \<Rightarrow> memory"                 \<comment> \<open>what C functions leave below the stack pointer\<close>
  next_rip :: "string \<Rightarrow> nat \<Rightarrow> u64"                  \<comment> \<open>address after an instruction of a symbol\<close>
  var_at :: "string \<Rightarrow> u64"                           \<comment> \<open>address of a variable\<close>
  got_at :: "string \<Rightarrow> u64"                           \<comment> \<open>its entry in the global offset table\<close>

text \<open>
  The frames of the C functions, and of what they call, take at most \<open>C_STACK\<close> bytes below the return
  address.
\<close>

definition C_STACK :: nat where "C_STACK = 0x10000"

definition stack_discipline :: "'k machine \<Rightarrow> bool" where
  "stack_discipline M \<longleftrightarrow>
     (\<forall>sp m x. \<not> in_region (sp - of_nat C_STACK) C_STACK x \<longrightarrow> scratch M sp m x = m x)"

section \<open>Running code\<close>

type_synonym 'k symbols = "string \<Rightarrow> ('k cpu \<Rightarrow> fault + 'k cpu) option"

definition return :: "'k cpu \<Rightarrow> 'k cpu" where
  "return s = (set_gpr RSP (gpr s RSP + 8) s)\<lparr>rip := load64 (cpu_mem s) (gpr s RSP)\<rparr>"

definition do_syscall :: "'k machine \<Rightarrow> u64 \<Rightarrow> 'k cpu \<Rightarrow> 'k cpu" where
  "do_syscall M next s =
     (case kernel (host M) (ucast (gpr s RAX))
             [gpr s RDI, gpr s RSI, gpr s RDX, gpr s R10, gpr s R8, gpr s R9]
             (kstate (world_of s)) (cpu_mem s) of
        (r, k, m) \<Rightarrow>
          (set_gpr RAX r (set_gpr RCX next (set_gpr R11 (rflags s) s)))
            \<lparr>world_of := (world_of s)\<lparr>kstate := k, mem := m\<rparr>\<rparr>)"

function exec ::
  "'k machine \<Rightarrow> 'k symbols \<Rightarrow> string \<Rightarrow> instr list \<Rightarrow> 'k cpu \<Rightarrow> fault + 'k cpu" where
  "exec M S name [] s = Inl Fell_off"
| "exec M S name (Op i # code) s = exec M S name code (step i s)"
| "exec M S name (Syscall # code) s =
     exec M S name code (do_syscall M (next_rip M name (length code)) s)"
| "exec M S name (Load_got f r # code) s =
     exec M S name code (set_gpr r (load64 (cpu_mem s) (got_at M f)) s)"
| "exec M S name (Mov_to_var r f # code) s =
     exec M S name code (set_cpu_mem (store64 (cpu_mem s) (var_at M f) (gpr s r)) s)"
| "exec M S name (Mov_from_var f r # code) s =
     exec M S name code (set_gpr r (load64 (cpu_mem s) (var_at M f)) s)"
| "exec M S name (Push_var f # code) s =
     exec M S name code (push (load64 (cpu_mem s) (var_at M f)) s)"
| "exec M S name (Call f # code) s =
     (case S f of
        None \<Rightarrow> Inl (Unresolved_symbol f)
      | Some g \<Rightarrow>
          (case g (push (next_rip M name (length code)) s) of
             Inl flt \<Rightarrow> Inl flt
           | Inr s' \<Rightarrow>
               if rip s' = next_rip M name (length code) then exec M S name code s'
               else Inl Wild_return))"
| "exec M S name (Jmp f # code) s =
     (case S f of None \<Rightarrow> Inl (Unresolved_symbol f) | Some g \<Rightarrow> g s)"
| "exec M S name (Jnb n # code) s =
     exec M S name (if carry (rflags s) then code else drop n code) s"
| "exec M S name (Ret # code) s = Inr (return s)"
  by pat_completeness auto
termination
  by (relation "measure (\<lambda>(M, S, name, code, s). length code)") auto

text \<open>
  A C function: entered with the return address on a stack that is 16-byte aligned below it, it runs
  its body on the world, returns its results in registers, clobbers the caller-saved registers and
  the flags, and keeps the others.
\<close>

definition caller_saved :: "reg64 set" where
  "caller_saved = {RAX, RCX, RDX, RSI, RDI, R8, R9, R10, R11}"

definition c_registers ::
  "'k machine \<Rightarrow> string \<Rightarrow> (reg64 \<times> u64) list \<Rightarrow> 'k cpu \<Rightarrow> reg64 \<Rightarrow> u64" where
  "c_registers M f results s r =
     (case map_of results r of
        Some v \<Rightarrow> v
      | None \<Rightarrow> if r = RSP then gpr s RSP + 8
                else if r \<in> caller_saved then junk M f s r else gpr s r)"

definition c_function ::
  "'k machine \<Rightarrow> string \<Rightarrow> ('k cpu \<Rightarrow> fault + (reg64 \<times> u64) list \<times> 'k world) \<Rightarrow> 'k cpu
     \<Rightarrow> fault + 'k cpu" where
  "c_function M f body s =
     (if (gpr s RSP + 8) AND 15 \<noteq> 0 then Inl Stack_misaligned
      else case body s of
        Inl flt \<Rightarrow> Inl flt
      | Inr (results, w) \<Rightarrow>
          let m = scratch M (gpr s RSP) (mem w) in
          Inr \<lparr>gpr = c_registers M f results s,
               rflags = load_flags (rflags s) (junk_flags M f s),
               rip = load64 m (gpr s RSP),
               world_of = w\<lparr>mem := m\<rparr>\<rparr>)"

text \<open>An \<open>int\<close> result is the lower half of \<open>rax\<close>; the upper half is arbitrary.\<close>

definition int_result :: "'k machine \<Rightarrow> string \<Rightarrow> 'k cpu \<Rightarrow> c_int \<Rightarrow> (reg64 \<times> u64) list" where
  "int_result M f s v = [(RAX, (junk M f s RAX AND NOT 0xFFFFFFFF) OR ucast v)]"

section \<open>Symbolic execution\<close>

text \<open>
  The rules give one register or one component of the world at a time: the state itself occurs once
  in a right-hand side, so the size of a term stays linear in the length of the code.
\<close>

lemma gpr_set_gpr [simp]: "gpr (set_gpr r v s) q = (if q = r then v else gpr s q)"
  by (simp add: set_gpr_def)

lemma set_gpr_simps [simp]:
  "rflags (set_gpr r v s) = rflags s" "rip (set_gpr r v s) = rip s"
  "world_of (set_gpr r v s) = world_of s"
  by (simp_all add: set_gpr_def)

lemma set_cpu_mem_simps [simp]:
  "gpr (set_cpu_mem m s) = gpr s" "rflags (set_cpu_mem m s) = rflags s"
  "rip (set_cpu_mem m s) = rip s" "world_of (set_cpu_mem m s) = (world_of s)\<lparr>mem := m\<rparr>"
  by (simp_all add: set_cpu_mem_def)

lemma push_simps [simp]:
  "gpr (push v s) q = (if q = RSP then gpr s RSP - 8 else gpr s q)"
  "rflags (push v s) = rflags s" "rip (push v s) = rip s"
  "cpu_mem (push v s) = store64 (cpu_mem s) (gpr s RSP - 8) v"
  "kstate (world_of (push v s)) = kstate (world_of s)"
  "console (world_of (push v s)) = console (world_of s)"
  "darling_errno (world_of (push v s)) = darling_errno (world_of s)"
  by (simp_all add: push_def)

lemma world_of_push:
  "world_of (push v s) = (world_of s)\<lparr>mem := store64 (cpu_mem s) (gpr s RSP - 8) v\<rparr>"
  by (simp add: push_def)

lemma return_simps [simp]:
  "gpr (return s) q = (if q = RSP then gpr s RSP + 8 else gpr s q)" "rflags (return s) = rflags s"
  "rip (return s) = load64 (cpu_mem s) (gpr s RSP)" "world_of (return s) = world_of s"
  by (simp_all add: return_def)

lemma cpu_eqI:
  "gpr s = gpr t \<Longrightarrow> rflags s = rflags t \<Longrightarrow> rip s = rip t \<Longrightarrow> world_of s = world_of t \<Longrightarrow>
   s = (t :: 'k cpu)"
  by simp

lemma load_flags_twice:
  "load_flags (load_flags f u) v = load_flags f v"
  by (rule bit_word_eqI) (auto simp: load_flags_def bit_simps)

lemma load_flags_same: "load_flags f f = f"
  by (rule bit_word_eqI) (auto simp: load_flags_def bit_simps)

lemma carry_load_flags: "carry (load_flags f v) = carry v"
  by (simp add: carry_def load_flags_def user_flags_def bit_simps)

text \<open>What lies above the stack pointer survives the C function's own use of the stack.\<close>

lemma scratch_cell:
  assumes "stack_discipline M" and "C_STACK \<le> unat (off + of_nat C_STACK)"
    and "8 \<le> unat (- off - of_nat C_STACK)"
  shows "load64 (scratch M sp m) (sp + off) = load64 m (sp + off)"
proof (rule q.ld_other_region)
  show "scratch M sp m x = m x" if "\<not> in_region (sp - of_nat C_STACK) C_STACK x" for x
    using assms(1) that by (simp add: stack_discipline_def)
  show "disjoint_regions (sp - of_nat C_STACK) C_STACK (sp + off) 8"
    using assms(2,3) by (simp add: disjoint_regions_def algebra_simps)
qed

end
