(* ===== verification/Asmbridge.thy ===== *)
theory Asmbridge
  imports Machine
begin

text \<open>
  The assembly bridge, \<open>src/xnu_syscall/syscall_asmbridge.S\<close>: it saves the registers on the stack as a
  \<open>darling_register_x86_64_t\<close>, calls the C handler on them, and restores them, with what the handler
  wrote there.  And \<open>src/linux_premigration/linux-syscall.S\<close>, the way down to the Linux kernel.

  The symbols are those of the Linux build; the Apple build has one more leading underscore.
\<close>

unbundle bit_operations_syntax

section \<open>The code\<close>

definition save_registers :: "operation list" where
  "save_registers =
     [Push RBP, Mov RSP RBP,
      Push RSP, Push RBP, Pushfq, Push R11, Push R10, Push R9, Push R8, Push RCX, Push RDX,
      Push RSI, Push RDI, Push RAX,
      Mov RSP RDI]"

definition restore_registers :: "operation list" where
  "restore_registers =
     [Pop RAX, Pop RDI, Pop RSI, Pop RDX, Pop RCX, Pop R8, Pop R9, Pop R10, Pop R11, Popfq,
      Pop RBP, Pop RSP,
      Pop RBP]"

definition asmbridge_code :: "instr list" where
  "asmbridge_code =
     map Op save_registers @ [Call ''_darling_handle_x86_64_syscall'']
     @ map Op restore_registers @ [Ret]"

definition c_handler :: "'k machine \<Rightarrow> 'k cpu \<Rightarrow> fault + 'k cpu" where
  "c_handler M = c_function M ''_darling_handle_x86_64_syscall''
     (\<lambda>s. case darling_handle_x86_64_syscall (host M) (uninitialised M) (gpr s RDI) (world_of s) of
            Inl f \<Rightarrow> Inl f
          | Inr (err, w) \<Rightarrow> Inr (int_result M ''_darling_handle_x86_64_syscall'' s err, w))"

definition darling_handle_symbols :: "'k machine \<Rightarrow> 'k symbols" where
  "darling_handle_symbols M = [''_darling_handle_x86_64_syscall'' \<mapsto> c_handler M]"

definition asmbridge :: "'k machine \<Rightarrow> 'k cpu \<Rightarrow> fault + 'k cpu" where
  "asmbridge M =
     exec M (darling_handle_symbols M) ''___darling_handle_x86_64_syscall'' asmbridge_code"

definition linux_syscall_code :: "instr list" where
  "linux_syscall_code =
     [Op (Movl_load 8 RSP RAX), Op (Mov RCX R10), Syscall, Ret]"

definition asm_linux_syscall :: "'k machine \<Rightarrow> 'k cpu \<Rightarrow> fault + 'k cpu" where
  "asm_linux_syscall M = exec M Map.empty ''linux_syscall'' linux_syscall_code"

section \<open>Saving and restoring\<close>

lemma exec_ops: "exec M S n (map Op ops @ code) s = exec M S n code (fold step ops s)"
  by (induction ops arbitrary: s) simp_all

definition saved_at :: "'k cpu \<Rightarrow> u64" where
  "saved_at s = gpr s RSP - 104"

definition saved :: "'k cpu \<Rightarrow> 'k cpu" where
  "saved s = fold step save_registers s"

lemma gpr_saved: "gpr (saved s) = (gpr s)(RBP := gpr s RSP - 8, RSP := saved_at s, RDI := saved_at s)"
proof
  fix r
  show "gpr (saved s) r
      = ((gpr s)(RBP := gpr s RSP - 8, RSP := saved_at s, RDI := saved_at s)) r"
    by (simp add: saved_def save_registers_def saved_at_def)
qed

lemma saved_simps [simp]:
  "rflags (saved s) = rflags s" "rip (saved s) = rip s"
  "kstate (world_of (saved s)) = kstate (world_of s)"
  "console (world_of (saved s)) = console (world_of s)"
  "darling_errno (world_of (saved s)) = darling_errno (world_of s)"
  by (simp_all add: saved_def save_registers_def)

lemma saved_reg:
  "reg (cpu_mem (saved s)) (saved_at s) rax_off = gpr s RAX"
  "reg (cpu_mem (saved s)) (saved_at s) rdi_off = gpr s RDI"
  "reg (cpu_mem (saved s)) (saved_at s) rsi_off = gpr s RSI"
  "reg (cpu_mem (saved s)) (saved_at s) rdx_off = gpr s RDX"
  "reg (cpu_mem (saved s)) (saved_at s) rcx_off = gpr s RCX"
  "reg (cpu_mem (saved s)) (saved_at s) r8_off = gpr s R8"
  "reg (cpu_mem (saved s)) (saved_at s) r9_off = gpr s R9"
  "reg (cpu_mem (saved s)) (saved_at s) r10_off = gpr s R10"
  "reg (cpu_mem (saved s)) (saved_at s) r11_off = gpr s R11"
  "reg (cpu_mem (saved s)) (saved_at s) rflag_off = rflags s"
  "reg (cpu_mem (saved s)) (saved_at s) rbp_off = gpr s RSP - 8"
  "reg (cpu_mem (saved s)) (saved_at s) rsp_off = gpr s RSP - 8"
  by (simp_all add: saved_def save_registers_def saved_at_def reg_def layout_simps mem_simps)

text \<open>Above the structure: the frame pointer of the caller, and the return address.\<close>

lemma saved_frame:
  "load64 (cpu_mem (saved s)) (saved_at s + 96) = gpr s RBP"
  "load64 (cpu_mem (saved s)) (saved_at s + 104) = load64 (cpu_mem s) (gpr s RSP)"
  by (simp_all add: saved_def save_registers_def saved_at_def mem_simps)

definition restored :: "'k cpu \<Rightarrow> 'k cpu" where
  "restored s = fold step restore_registers s"

lemma restored_gpr:
  "gpr (restored s) RAX = reg (cpu_mem s) (gpr s RSP) rax_off"
  "gpr (restored s) RDI = reg (cpu_mem s) (gpr s RSP) rdi_off"
  "gpr (restored s) RSI = reg (cpu_mem s) (gpr s RSP) rsi_off"
  "gpr (restored s) RDX = reg (cpu_mem s) (gpr s RSP) rdx_off"
  "gpr (restored s) RCX = reg (cpu_mem s) (gpr s RSP) rcx_off"
  "gpr (restored s) R8 = reg (cpu_mem s) (gpr s RSP) r8_off"
  "gpr (restored s) R9 = reg (cpu_mem s) (gpr s RSP) r9_off"
  "gpr (restored s) R10 = reg (cpu_mem s) (gpr s RSP) r10_off"
  "gpr (restored s) R11 = reg (cpu_mem s) (gpr s RSP) r11_off"
  "gpr (restored s) RBP = load64 (cpu_mem s) (reg (cpu_mem s) (gpr s RSP) rsp_off)"
  "gpr (restored s) RSP = reg (cpu_mem s) (gpr s RSP) rsp_off + 8"
  "r \<in> {RBX, R12, R13, R14, R15} \<Longrightarrow> gpr (restored s) r = gpr s r"
  by (auto simp: restored_def restore_registers_def reg_def layout_simps Let_def ac_simps)

lemma restored_simps [simp]:
  "rflags (restored s) = load_flags (rflags s) (reg (cpu_mem s) (gpr s RSP) rflag_off)"
  "rip (restored s) = rip s" "world_of (restored s) = world_of s"
  by (simp_all add: restored_def restore_registers_def reg_def layout_simps Let_def ac_simps)

section \<open>One call through the bridge\<close>

text \<open>The ABI state at the entry of a function: the stack is aligned below the return address.\<close>

definition aligned_entry :: "'k cpu \<Rightarrow> bool" where
  "aligned_entry s \<longleftrightarrow> (gpr s RSP + 8) AND 15 = 0"

lemma aligned_shift:
  assumes "unat k mod 16 = 0"
  shows "(x + k) AND 15 = (x :: u64) AND 15"
proof -
  have low: "unat (w AND 15) = unat w mod 16" for w :: u64
  proof -
    have "w AND 15 = take_bit 4 w" by (simp add: take_bit_eq_mask mask_eq_exp_minus_1)
    moreover have "unat (take_bit 4 w) = take_bit 4 (unat w)" by (rule unsigned_take_bit_eq)
    ultimately show ?thesis by (simp only: take_bit_eq_mod) simp
  qed
  have "unat (x + k) mod 16 = (unat x + unat k) mod 16"
    by (simp add: unat_word_ariths mod_mod_cancel)
  also have "\<dots> = (unat x + unat k mod 16) mod 16" by (simp only: mod_add_right_eq)
  finally have "unat (x + k) mod 16 = unat x mod 16" using assms by simp
  then show ?thesis by (simp only: word_unat_eq_iff low)
qed

definition bridge_rip :: "'k machine \<Rightarrow> u64" where
  "bridge_rip M = next_rip M ''___darling_handle_x86_64_syscall'' (length restore_registers + 1)"

definition handed_over :: "'k machine \<Rightarrow> 'k cpu \<Rightarrow> 'k cpu" where
  "handed_over M s = push (bridge_rip M) (saved s)"

lemma handed_over_reg:
  "reg (cpu_mem (handed_over M s)) (saved_at s) off = reg (cpu_mem (saved s)) (saved_at s) off"
  if "8 \<le> unat (8 + off)" "8 \<le> unat (- 8 - off)"
  using that by (simp add: handed_over_def gpr_saved reg_def q.ld_st_above_base)

text \<open>
  The frame of the bridge: the return address into it, the saved registers, the saved frame pointer
  and the return address of its caller.  The handler may write three of the saved registers.
\<close>

definition frame_intact :: "'k cpu \<Rightarrow> memory \<Rightarrow> memory \<Rightarrow> bool" where
  "frame_intact s m m' \<longleftrightarrow>
     (\<forall>x. in_region (saved_at s - 8) 120 x \<and> \<not> in_region (saved_at s + rax_off) 8 x
        \<and> \<not> in_region (saved_at s + rdx_off) 8 x \<and> \<not> in_region (saved_at s + rflag_off) 8 x
       \<longrightarrow> m' x = m x)"

lemma frame_intact_cell:
  assumes "frame_intact s m m'" and "unat (off + 8) \<le> 112"
    and "8 \<le> unat (off - rax_off)" "8 \<le> unat (rax_off - off)"
    and "8 \<le> unat (off - rdx_off)" "8 \<le> unat (rdx_off - off)"
    and "8 \<le> unat (off - rflag_off)" "8 \<le> unat (rflag_off - off)"
  shows "load64 m' (saved_at s + off) = load64 m (saved_at s + off)"
proof (rule q.ld_frame)
  fix i :: nat assume i: "i < 8"
  have shift: "saved_at s + off + of_nat i - (saved_at s - 8) = (off + 8) + of_nat i" by simp
  have "unat ((off + 8) + of_nat i) = unat (off + 8) + i"
    using assms(2) i by (simp add: unat_add_lem [THEN iffD1] unat_of_nat_lt [of i 8])
  then have "in_region (saved_at s - 8) 120 (saved_at s + off + of_nat i)"
    unfolding shift using assms(2) i by linarith
  moreover have "disjoint_regions (saved_at s + rax_off) 8 (saved_at s + off) 8"
    "disjoint_regions (saved_at s + rdx_off) 8 (saved_at s + off) 8"
    "disjoint_regions (saved_at s + rflag_off) 8 (saved_at s + off) 8"
    using assms(3-8) by (simp_all add: disjoint_regions_def)
  ultimately show "m' (saved_at s + off + of_nat i) = m (saved_at s + off + of_nat i)"
    using assms(1) i disjoint_outside unfolding frame_intact_def by blast
qed

lemma unat_minus_112: "unat (- 112 :: u64) = 2 ^ 64 - 112"
  by simp

lemma handed_over_gpr:
  "gpr (handed_over M s) RDI = saved_at s" "gpr (handed_over M s) RSP = saved_at s - 8"
  "r \<in> {RBX, R12, R13, R14, R15} \<Longrightarrow> gpr (handed_over M s) r = gpr s r"
  "rflags (handed_over M s) = rflags s"
  by (auto simp: handed_over_def gpr_saved)

text \<open>
  The run of the bridge around a handler that returns with the frame intact: every register of the
  caller is as before but \<open>rax\<close> and \<open>rdx\<close>, which are what the handler stored, and so are the flags a
  program can set; control is back at the caller, with the stack as it was.
\<close>

lemma asmbridge_run:
  assumes aligned: "aligned_entry s" and stack: "stack_discipline M"
    and handler: "darling_handle_x86_64_syscall (host M) (uninitialised M) (saved_at s)
      (world_of (handed_over M s)) = Inr (err, w)"
    and intact: "frame_intact s (cpu_mem (handed_over M s)) (mem w)"
  shows "asmbridge M s = Inr
    \<lparr>gpr = (gpr s)(RAX := reg (mem w) (saved_at s) rax_off, RDX := reg (mem w) (saved_at s) rdx_off,
                   RSP := gpr s RSP + 8),
     rflags = load_flags (rflags s) (reg (mem w) (saved_at s) rflag_off),
     rip = load64 (cpu_mem s) (gpr s RSP),
     world_of = w\<lparr>mem := scratch M (saved_at s - 8) (mem w)\<rparr>\<rparr>"
proof -
  let ?p = "saved_at s" and ?h = "handed_over M s" and ?f = "''_darling_handle_x86_64_syscall''"
  let ?m = "scratch M (?p - 8) (mem w)"
  define t where "t = \<lparr>gpr = c_registers M ?f (int_result M ?f ?h err) ?h,
    rflags = load_flags (rflags ?h) (junk_flags M ?f ?h), rip = load64 ?m (?p - 8),
    world_of = w\<lparr>mem := ?m\<rparr>\<rparr>"
  have "gpr ?h RSP + 8 = gpr s RSP + 8 + (- 112)"
    by (simp add: handed_over_gpr saved_at_def)
  moreover have "unat (- 112 :: u64) mod 16 = 0" by (simp add: unat_minus_112)
  ultimately have "(gpr ?h RSP + 8) AND 15 = 0"
    using aligned unfolding aligned_entry_def by (simp only: aligned_shift)
  then have call: "c_handler M ?h = Inr t"
    using handler by (simp add: c_handler_def c_function_def handed_over_gpr t_def Let_def)
  have above: "load64 ?m (?p + off) = load64 (mem w) (?p + off)"
    if "C_STACK \<le> unat (off + 8 + of_nat C_STACK)" "8 \<le> unat (- (off + 8) - of_nat C_STACK)" for off
    using scratch_cell [OF stack that, of "?p - 8" "mem w"] by simp
  have rip: "rip t = bridge_rip M"
    using frame_intact_cell [OF intact, of "- 8"] above [of "- 8"]
    by (simp add: t_def C_STACK_def layout_simps handed_over_def gpr_saved q.ld_st_same)
  have keep: "load64 ?m (?p + off) = load64 (cpu_mem (saved s)) (?p + off)"
    if "unat (off + 8) \<le> 112"
      "8 \<le> unat (off - rax_off)" "8 \<le> unat (rax_off - off)"
      "8 \<le> unat (off - rdx_off)" "8 \<le> unat (rdx_off - off)"
      "8 \<le> unat (off - rflag_off)" "8 \<le> unat (rflag_off - off)"
      "C_STACK \<le> unat (off + 8 + of_nat C_STACK)" "8 \<le> unat (- (off + 8) - of_nat C_STACK)"
      "8 \<le> unat (8 + off)" "8 \<le> unat (- 8 - off)" for off
    using frame_intact_cell [OF intact that(1-7)] above [OF that(8,9)]
      handed_over_reg [OF that(10,11), of M s] by (simp add: reg_def)
  have kept: "reg ?m ?p rdi_off = gpr s RDI" "reg ?m ?p rsi_off = gpr s RSI"
    "reg ?m ?p rcx_off = gpr s RCX" "reg ?m ?p r8_off = gpr s R8" "reg ?m ?p r9_off = gpr s R9"
    "reg ?m ?p r10_off = gpr s R10" "reg ?m ?p r11_off = gpr s R11"
    unfolding saved_reg [of s, symmetric] reg_def
    by (rule keep; simp add: layout_simps C_STACK_def)+
  have kept_rsp: "reg ?m ?p rsp_off = gpr s RSP - 8"
    unfolding saved_reg(12) [of s, symmetric] reg_def
    by (rule keep; simp add: layout_simps C_STACK_def)
  have kept_frame: "load64 ?m (gpr s RSP - 8) = gpr s RBP"
    "load64 ?m (gpr s RSP) = load64 (cpu_mem s) (gpr s RSP)"
    using keep [of 96] keep [of 104] saved_frame [of s]
    by (simp_all add: layout_simps C_STACK_def saved_at_def)
  have written: "reg ?m ?p rax_off = reg (mem w) ?p rax_off"
    "reg ?m ?p rdx_off = reg (mem w) ?p rdx_off" "reg ?m ?p rflag_off = reg (mem w) ?p rflag_off"
    unfolding reg_def by (rule above; simp add: layout_simps C_STACK_def)+
  have t: "gpr t RSP = ?p" "cpu_mem t = ?m" "world_of t = w\<lparr>mem := ?m\<rparr>"
    "rflags t = load_flags (rflags s) (junk_flags M ?f ?h)"
    "r \<in> {RBX, R12, R13, R14, R15} \<Longrightarrow> gpr t r = gpr s r" for r
    by (auto simp: t_def c_registers_def int_result_def handed_over_gpr caller_saved_def)
  have "asmbridge M s = Inr (return (restored t))"
    using call rip
    by (simp add: asmbridge_def asmbridge_code_def exec_ops saved_def [symmetric]
        restored_def [symmetric] darling_handle_symbols_def handed_over_def bridge_rip_def)
  moreover have "return (restored t) =
    \<lparr>gpr = (gpr s)(RAX := reg (mem w) ?p rax_off, RDX := reg (mem w) ?p rdx_off,
                   RSP := gpr s RSP + 8),
     rflags = load_flags (rflags s) (reg (mem w) ?p rflag_off),
     rip = load64 (cpu_mem s) (gpr s RSP), world_of = w\<lparr>mem := ?m\<rparr>\<rparr>"
  proof (rule cpu_eqI)
    show "gpr (return (restored t)) = gpr \<lparr>gpr = (gpr s)(RAX := reg (mem w) ?p rax_off,
        RDX := reg (mem w) ?p rdx_off, RSP := gpr s RSP + 8),
       rflags = load_flags (rflags s) (reg (mem w) ?p rflag_off),
       rip = load64 (cpu_mem s) (gpr s RSP), world_of = w\<lparr>mem := ?m\<rparr>\<rparr>"
    proof
      fix r
      show "gpr (return (restored t)) r = gpr \<lparr>gpr = (gpr s)(RAX := reg (mem w) ?p rax_off,
          RDX := reg (mem w) ?p rdx_off, RSP := gpr s RSP + 8),
         rflags = load_flags (rflags s) (reg (mem w) ?p rflag_off),
         rip = load64 (cpu_mem s) (gpr s RSP), world_of = w\<lparr>mem := ?m\<rparr>\<rparr> r"
        by (cases r) (simp_all add: restored_gpr t kept kept_rsp kept_frame written)
    qed
  qed (simp_all add: t restored_gpr kept_rsp kept_frame written load_flags_twice)
  ultimately show ?thesis by simp
qed


section \<open>Properties\<close>

text \<open>
  C13: The assembly of \<open>linux_syscall\<close> implements the C prototype: the six register arguments of the C
  calling convention and the number on the stack reach the kernel in the registers of the kernel's
  convention, and the kernel's result, state and memory come back, the stack and the callee-saved
  registers as they were.
\<close>

theorem linux_syscall_convention:
  "\<exists>t. asm_linux_syscall M s = Inr t \<and>
     (gpr t RAX, world_of t) = linux_syscall (host M) (gpr s RDI) (gpr s RSI) (gpr s RDX) (gpr s RCX)
        (gpr s R8) (gpr s R9) (load32 (cpu_mem s) (gpr s RSP + 8)) (world_of s) \<and>
     map (gpr t) [RBX, RBP, R12, R13, R14, R15] = map (gpr s) [RBX, RBP, R12, R13, R14, R15] \<and>
     gpr t RSP = gpr s RSP + 8 \<and>
     rip t = load64 (cpu_mem t) (gpr s RSP)"
proof -
  let ?t = "return (do_syscall M (next_rip M ''linux_syscall'' 1)
    (set_gpr R10 (gpr s RCX) (set_gpr RAX (ucast (load32 (cpu_mem s) (gpr s RSP + 8))) s)))"
  obtain r k m where kernel: "kernel (host M) (load32 (cpu_mem s) (gpr s RSP + 8))
      [gpr s RDI, gpr s RSI, gpr s RDX, gpr s RCX, gpr s R8, gpr s R9] (kstate (world_of s)) (cpu_mem s) = (r, k, m)"
    by (rule prod_cases3)
  have number: "ucast (ucast n :: u64) = n" for n :: c_int
    by (rule bit_word_eqI) (simp add: bit_simps)
  have "asm_linux_syscall M s = Inr ?t"
    by (simp add: asm_linux_syscall_def linux_syscall_code_def)
  then show ?thesis
    by (intro exI [of _ ?t])
      (auto simp: do_syscall_def linux_syscall_def kernel number caller_saved_def)
qed

end
