(* ===== verification/Requests.thy ===== *)
theory Requests
  imports Cbridge
begin

text \<open>
  What a Unix request is answered, as a specification: from the number and the user's arguments to an
  answer and a new world, without builders, result structures and tables.  The C handler of
  \<open>src/xnu_syscall/syscall_cbridge.c\<close>, with everything it calls, implements it
  (\<open>handler_implements_service\<close>).
\<close>

unbundle bit_operations_syntax

section \<open>Answers\<close>

text \<open>
  \<open>Failure err\<close> sets the carry flag and \<open>rax\<close>; \<open>Success a d\<close> gives \<open>rax\<close> and \<open>rdx\<close>, the carry flag clear.
\<close>

datatype answer = Failure c_int | Success u64 u64

fun deliver :: "u64 \<Rightarrow> answer \<Rightarrow> 'k world \<Rightarrow> 'k world" where
  "deliver p (Failure err) w =
     set_reg p rflag_off (reg (mem w) p rflag_off OR 1) (set_reg p rax_off (scast err) w)"
| "deliver p (Success a d) w = set_reg p rdx_off d (set_reg p rax_off a w)"

text \<open>A failure with a number that the handler takes for \<open>ERESTART\<close> or \<open>EJUSTRETURN\<close> is no failure.\<close>

definition failed :: "c_int \<Rightarrow> answer" where
  "failed err = (if reports_result err then Success 0 0 else Failure err)"

section \<open>The services\<close>

type_synonym 'k service = "fault + c_int \<times> answer \<times> 'k world"

definition write_service ::
  "'k env \<Rightarrow> c_int \<Rightarrow> u64 \<Rightarrow> c_int \<Rightarrow> 'k world \<Rightarrow> 'k service" where
  "write_service e fd buf len w =
     (case platform e of
        Linux \<Rightarrow>
          (case linux_syscall e (scast fd) buf (scast len) 0 0 0 1 w of
             (r, w) \<Rightarrow>
               if r <s 0 then
                 let err = errno_linux_to_bsd (errno_h e) (ucast r) in Inr (err, failed err, w)
               else Inr (0, Success r 0, w))
      | Apple \<Rightarrow>
          (case libc_call e Libc_write [scast fd, buf, scast len] w of
             (r, errno, w) \<Rightarrow>
               if r <s 0 then Inr (errno, failed errno, w) else Inr (0, Success r 0, w)))"

definition pipe_service :: "'k env \<Rightarrow> 'k world \<Rightarrow> 'k service" where
  "pipe_service e w =
     (let pair = (\<lambda>w. Success (scast (load32 (mem w) (pipe_fd e))) (scast (load32 (mem w) (pipe_fd e + 4))))
      in case platform e of
           Linux \<Rightarrow>
             (case linux_syscall e (pipe_fd e) 0 0 0 0 0 22 w of
                (r, w) \<Rightarrow>
                  if (ucast r :: c_int) <s 0 then
                    let err = errno_linux_to_bsd (errno_h e) (ucast r) in Inr (err, failed err, w)
                  else Inr (0, pair w, w))
         | Apple \<Rightarrow>
             (case libc_call e Libc_pipe [pipe_fd e] w of
                (r, errno, w) \<Rightarrow>
                  if (ucast r :: c_int) <s 0 then Inr (errno, failed errno, w)
                  else Inr (0, pair w, w)))"

text \<open>
  \<open>recvfrom\<close>: the result is the number of bytes, sign-extended to \<open>rax\<close>.  The flags reach the host as
  they are; on Linux the address that came back is converted in place.
\<close>

definition recvfrom_service ::
  "'k env \<Rightarrow> c_int \<Rightarrow> u64 \<Rightarrow> u64 \<Rightarrow> c_int \<Rightarrow> u64 \<Rightarrow> u64 \<Rightarrow> 'k world \<Rightarrow> 'k service" where
  "recvfrom_service e fd buf len flags from socklen w =
     (case platform e of
        Linux \<Rightarrow>
          (case linux_syscall e (scast fd) buf len (scast flags) from socklen 45 w of
             (r, w) \<Rightarrow>
               if (ucast r :: c_int) <s 0 then
                 let err = errno_linux_to_bsd (errno_h e) (ucast r) in Inr (err, failed err, w)
               else if from = 0 then Inr (0, Success (scast (ucast r :: c_int)) 0, w)
               else if socklen = 0 then Inl Null_deref
               else
                 (case sockaddr_fixup_from_linux e from from (load32 (mem w) socklen) (mem w) of
                    Inl f \<Rightarrow> Inl f
                  | Inr (n, m) \<Rightarrow>
                      Inr (0, Success (scast (if n <s 0 then n else (ucast r :: c_int))) 0,
                        w\<lparr>mem := store32 m socklen n\<rparr>)))
      | Apple \<Rightarrow>
          (case libc_call e Libc_recvfrom [scast fd, buf, len, scast flags, from, socklen] w of
             (r, errno, w) \<Rightarrow>
               if r <s 0 then Inr (errno, failed errno, w)
               else Inr (0, Success (scast (ucast r :: c_int)) 0, w)))"

definition no_service :: "'k env \<Rightarrow> 'k world \<Rightarrow> 'k service" where
  "no_service e w = (let err = host_errno e ''ENOSYS'' in Inr (err, failed err, w))"

text \<open>The request number \<open>nr\<close> with the user's arguments \<open>a\<close>.\<close>

definition unix_service :: "'k env \<Rightarrow> c_int \<Rightarrow> (nat \<Rightarrow> u64) \<Rightarrow> 'k world \<Rightarrow> 'k service" where
  "unix_service e nr a w =
     (let w = say In_syscall_unix w in
      if nr = 4 then write_service e (ucast (a 0)) (a 1) (ucast (a 2)) w
      else if nr = 29 then
        recvfrom_service e (ucast (a 0)) (a 1) (a 2) (ucast (a 3)) (a 4) (a 5) w
      else if nr = 42 then pipe_service e w
      else if nr = 0 then no_service e w
      else no_service e
        (say (if in_table nr then Unimplemented ''unix'' nr else Out_of_range ''unix'' nr) w))"

section \<open>From outcomes to services\<close>

text \<open>The answer that an error number and a result structure amount to.\<close>

definition answer_of :: "c_int \<Rightarrow> darling_syscall_retarg \<Rightarrow> answer" where
  "answer_of err ret =
     (if \<not> reports_result err then Failure err
      else if result_type ret = RETARG_TYPE_INT_T then
        Success (scast (result0 ret)) (scast (result1 ret))
      else if result_type ret = RETARG_TYPE_UINT_T then
        Success (ucast (result0 ret)) (ucast (result1 ret))
      else Success (get_result64 ret) 0)"

fun service_of :: "'k outcome \<Rightarrow> 'k service" where
  "service_of (Inl f) = Inl f"
| "service_of (Inr (err, ret, w)) = Inr (err, answer_of err ret, w)"

fun delivered :: "u64 \<Rightarrow> 'k service \<Rightarrow> fault + c_int \<times> 'k world" where
  "delivered p (Inl f) = Inl f"
| "delivered p (Inr (err, ans, w)) = Inr (err, deliver p ans w)"

text \<open>Outcomes whose results are of a kind that fills both registers.\<close>

fun fills_registers :: "'k outcome \<Rightarrow> bool" where
  "fills_registers (Inl f) \<longleftrightarrow> True"
| "fills_registers (Inr (err, ret, w)) \<longleftrightarrow> syscall_type ret = SYSCALL_TYPE_UNIX \<and>
     (reports_result err \<longrightarrow> result_type ret \<notin> {RETARG_TYPE_INVALID, RETARG_TYPE_NONE})"

lemma finish_delivered: "fills_registers r \<Longrightarrow> finish p r = delivered p (service_of r)"
proof (cases r)
  case (Inr x)
  assume fills: "fills_registers r"
  obtain err ret w where x: "x = (err, ret, w)" by (cases x)
  show ?thesis
  proof (cases "reports_result err")
    case False
    then show ?thesis
      using fills by (simp add: Inr x finish_def return_values_error answer_of_def)
  next
    case True
    then show ?thesis
      using fills
      by (auto simp: Inr x finish_def darling_x86_64_syscall_set_return_values_def ERRORS answer_of_def
          split: darling_syscall_retarg_type.split)
  qed
qed (simp add: finish_def)

section \<open>Every system call is its service\<close>

lemma get_result64_zero: "get_result64 (unix_retarg t) = 0"
  by (simp add: get_result64_def unix_retarg_def)

lemma reports_0: "reports_result 0"
  by (simp add: reports_result_def)

lemma write_is_service:
  assumes "length (arg a) = 9"
  shows "fills_registers (sys_write e a (unix_retarg t) w) \<and>
    service_of (sys_write e a (unix_retarg t) w)
      = write_service e (ucast (arg a ! 0)) (arg a ! 1) (ucast (arg a ! 2)) w"
  using result64_round_trip get_result64_zero
  by (auto simp: sys_write_def sys_write_nocancel_def write_service_def Let_def LINUX_SYSCALL_defs
      answer_of_def failed_def reports_0 unix_retarg_def split: platform.split prod.split)

lemma pipe_is_service:
  "fills_registers (sys_pipe e a (unix_retarg t) w) \<and>
   service_of (sys_pipe e a (unix_retarg t) w) = pipe_service e w"
  by (auto simp: sys_pipe_def pipe_service_def Let_def LINUX_SYSCALL_defs
      answer_of_def failed_def reports_0 unix_retarg_def split: platform.split prod.split)

lemma recvfrom_is_service:
  "fills_registers (sys_recvfrom e a (unix_retarg t) w) \<and>
   service_of (sys_recvfrom e a (unix_retarg t) w)
     = recvfrom_service e (ucast (arg a ! 0)) (arg a ! 1) (arg a ! 2) (ucast (arg a ! 3)) (arg a ! 4)
         (arg a ! 5) w"
  by (auto simp: sys_recvfrom_def sys_recvfrom_nocancel_def recvfrom_service_def Let_def
      LINUX_SYSCALL_defs answer_of_def failed_def reports_0 unix_retarg_def d.ld_st_same
      split: platform.split prod.split sum.split)


section \<open>The handler is its specification\<close>

text \<open>The user's argument \<open>k\<close> of a request: shifted by one when the number is the first argument.\<close>

definition request_arg :: "memory \<Rightarrow> u64 \<Rightarrow> nat \<Rightarrow> u64" where
  "request_arg m p k =
     user_arg m p (if get_sysnum (reg m p rax_off) = 0 then k + 1 else k)"

lemma requested_number_entered:
  "requested_number (mem (entered p w)) p = requested_number (mem w) p"
  by (simp add: requested_number_def reg_entered layout_simps)

lemma no_service_error:
  "enosys_is_error e \<Longrightarrow> no_service e w
     = service_of (Inr (host_errno e ''ENOSYS'', unix_retarg RETARG_TYPE_INVALID, w))"
  by (simp add: no_service_def failed_def answer_of_def enosys_is_error_def Let_def)

lemma fills_error:
  "enosys_is_error e \<Longrightarrow> fills_registers (Inr (host_errno e ''ENOSYS'', unix_retarg t, w))"
  by (simp add: enosys_is_error_def unix_retarg_def)

text \<open>The arguments that the constructor hands to a function of the table.\<close>

lemma constructed_args:
  assumes "valid_locals loc"
  shows "\<exists>b. darling_x86_64_syscall_full_args_init (prepared (handler_builder loc p w)) (say msg w) = Inr b \<and>
     length (arg (args b)) = 9 \<and>
     (\<forall>k < nat (declared_args (requested_number (mem w) p)). arg (args b) ! k = request_arg (mem w) p k)"
proof -
  let ?b = "handler_builder loc p w" and ?n = "declared_args (requested_number (mem w) p)"
  let ?i = "get_sysnum (reg (mem w) p rax_off) = 0"
  have same: "handler_builder loc p w = handler_builder loc p (say msg w)"
    by (simp add: handler_builder_def darling_x86_64_syscall_partial_args_init_def)
  have "prepared ?b = ?b\<lparr>indirect_syscall := ?i, arg_count := ?n\<rparr>"
    by (simp add: prepared_def handler_builder_fields assms requested_handler_builder
        UNIX_SYSNUM_INDIRECT_SYSCALL_def)
  then obtain b where b: "darling_x86_64_syscall_full_args_init (prepared ?b) (say msg w) = Inr b"
    "length (arg (args b)) = 9"
    and view: "take (nat ?n) (arg (args b)) = map (request_arg (mem w) p) [0..<nat ?n]"
    using full_args_view [OF assms declared_args_bounds [of "requested_number (mem w) p"],
        where p = p and w = "say msg w" and i = ?i]
    unfolding same [symmetric] request_arg_def by auto
  have "arg (args b) ! k = request_arg (mem w) p k" if "k < nat ?n" for k
    using arg_cong [OF view, of "\<lambda>xs. xs ! k"] that by simp
  then show ?thesis using b by blast
qed

lemma dispatch_is_service:
  fixes w :: "'k world"
  assumes loc: "valid_locals loc" and enosys: "enosys_is_error e"
    and ret: "result_type ret = RETARG_TYPE_INVALID"
  shows "fills_registers (darling_common_syscall_unix darling_x86_64_syscall_full_args_init e
      (handler_builder loc p w) ret w) \<and>
    service_of (darling_common_syscall_unix darling_x86_64_syscall_full_args_init e
      (handler_builder loc p w) ret w) = unix_service e (requested_number (mem w) p) (request_arg (mem w) p) w"
    (is "fills_registers ?r \<and> service_of ?r = unix_service e ?nr ?a w")
proof -
  let ?b = "handler_builder loc p w" and ?w = "say In_syscall_unix w"
  have nr: "requested ?b = ?nr" using loc by (rule requested_handler_builder)
  have small: "in_table 0" "in_table 4" "in_table 29" "in_table 42" by (simp_all add: in_table_def)
  obtain b where b: "darling_x86_64_syscall_full_args_init (prepared ?b) ?w = Inr b"
    "length (arg (args b)) = 9"
    and arg: "\<And>k. k < nat (declared_args ?nr) \<Longrightarrow> arg (args b) ! k = ?a k"
    using constructed_args [OF loc, of p w] by blast
  consider "\<not> in_table ?nr" | "in_table ?nr" "?nr \<notin> {0, 4, 29, 42}"
    | "?nr = 0" | "?nr = 4" | "?nr = 29" | "?nr = 42" by auto
  then show ?thesis
  proof cases
    case 1
    then have "?nr \<notin> {0, 4, 29, 42}" using small by auto
    then show ?thesis
      using 1 enosys by (simp add: dispatch_out_of_range nr ret unix_service_def
          no_service_error fills_error del: service_of.simps fills_registers.simps)
  next
    case 2
    then have "func (entry ?nr :: 'k darling_syscall_metadata) = None" by (simp add: entry_func)
    then show ?thesis
      using 2 enosys by (simp add: dispatch_unimplemented nr ret unix_service_def
          no_service_error fills_error del: service_of.simps fills_registers.simps)
  next
    case 3
    then show ?thesis
      using dispatch_entry [of ?b "sys_syscall :: 'k syscall_function"] small b enosys
      by (simp add: nr entry_func ret unix_service_def sys_syscall_def no_service_error fills_error
          del: service_of.simps fills_registers.simps)
  next
    case 4
    then have "arg (args b) ! 0 = ?a 0" "arg (args b) ! 1 = ?a 1" "arg (args b) ! 2 = ?a 2"
      using arg by (simp_all add: declared_args_def)
    then show ?thesis
      using 4 dispatch_entry [of ?b "sys_write :: 'k syscall_function"] small b
        write_is_service [OF b(2), of e RETARG_TYPE_INVALID ?w]
      by (simp add: nr entry_func ret unix_service_def)
  next
    case 5
    then have "arg (args b) ! 0 = ?a 0" "arg (args b) ! 1 = ?a 1" "arg (args b) ! 2 = ?a 2"
      "arg (args b) ! 3 = ?a 3" "arg (args b) ! 4 = ?a 4" "arg (args b) ! 5 = ?a 5"
      using arg by (simp_all add: declared_args_def)
    then show ?thesis
      using 5 dispatch_entry [of ?b "sys_recvfrom :: 'k syscall_function"] small b
        recvfrom_is_service [of e "args b" RETARG_TYPE_INVALID ?w]
      by (simp add: nr entry_func ret unix_service_def)
  next
    case 6
    then show ?thesis
      using dispatch_entry [of ?b "sys_pipe :: 'k syscall_function"] small b
        pipe_is_service [of e "args b" RETARG_TYPE_INVALID ?w]
      by (simp add: nr entry_func ret unix_service_def)
  qed
qed

lemma handler_service:
  assumes "class_of (reg (mem w) p rax_off) = SYSCALL_CLASS_UNIX"
    and "valid_locals loc" and "enosys_is_error e"
  shows "darling_handle_x86_64_syscall e loc p w =
     delivered p (unix_service e (requested_number (mem w) p) (request_arg (mem (entered p w)) p)
       (entered p w))"
proof -
  have "result_type (handler_retargs loc) = RETARG_TYPE_INVALID" by (simp add: handler_retargs_def)
  from dispatch_is_service [OF assms(2,3) this, of p "entered p w"] show ?thesis
    unfolding handler_unix [OF assms(1)] by (simp add: finish_delivered requested_number_entered)
qed


section \<open>The one call to the host's kernel\<close>

text \<open>On Linux a request makes at most one system call: its number and registers.\<close>

definition kernel_request :: "'k env \<Rightarrow> c_int \<Rightarrow> (nat \<Rightarrow> u64) \<Rightarrow> (c_int \<times> u64 list) option" where
  "kernel_request e nr a =
     (if nr = 4 then Some (1, [scast (ucast (a 0) :: c_int), a 1, scast (ucast (a 2) :: c_int), 0, 0, 0])
      else if nr = 29 then
        Some (45, [scast (ucast (a 0) :: c_int), a 1, a 2, scast (ucast (a 3) :: c_int), a 4, a 5])
      else if nr = 42 then Some (22, [pipe_fd e, 0, 0, 0, 0, 0])
      else None)"

definition kernel_answer :: "'k env \<Rightarrow> c_int \<Rightarrow> (nat \<Rightarrow> u64) \<Rightarrow> 'k world \<Rightarrow> (u64 \<times> 'k \<times> memory) option" where
  "kernel_answer e nr a w =
     map_option (\<lambda>(n, as). kernel e n as (kstate w) (mem w)) (kernel_request e nr a)"

lemma sockaddr_kernel [simp]:
  "sockaddr_fixup_from_linux (e\<lparr>kernel := kernel'\<rparr>) = sockaddr_fixup_from_linux e"
  by (intro ext) (simp add: sockaddr_fixup_from_linux_def Let_def split: option.split prod.split)

lemma unix_service_kernel_cong:
  assumes "platform e = Linux" and "kernel_answer (e\<lparr>kernel := kernel'\<rparr>) nr a w = kernel_answer e nr a w"
  shows "unix_service (e\<lparr>kernel := kernel'\<rparr>) nr a w = unix_service e nr a w"
  using assms
  by (auto simp: unix_service_def write_service_def pipe_service_def recvfrom_service_def no_service_def
      kernel_answer_def kernel_request_def linux_syscall_def host_errno_def Let_def
      split: if_splits prod.split)

lemma unix_service_world:
  assumes "unix_service e nr a w = Inr (err, ans, w')" and "platform e = Linux"
  shows "kstate w' = (case kernel_answer e nr a w of None \<Rightarrow> kstate w | Some (r, k, m) \<Rightarrow> k)"
    and "darling_errno w' = darling_errno w" and "\<exists>msgs. console w' = console w @ msgs"
  using assms
  by (auto simp: unix_service_def write_service_def pipe_service_def recvfrom_service_def no_service_def
      kernel_answer_def kernel_request_def linux_syscall_def Let_def
      split: if_splits prod.splits sum.splits)

text \<open>The conversion of an \<open>int\<close> argument gives the user's value back exactly when it fits.\<close>

lemma scast_ucast_fits: "scast (ucast v :: c_int) = v \<longleftrightarrow> - (2 ^ 31) \<le> sint v \<and> sint v < 2 ^ 31" for v :: u64
proof
  assume "scast (ucast v :: c_int) = v"
  then have "sint v = sint (ucast v :: c_int)" using sint_scast_int [of "ucast v"] by simp
  moreover have "- (2 ^ 31) \<le> sint (ucast v :: c_int)" "sint (ucast v :: c_int) < 2 ^ 31"
    using sint_ge [of "ucast v :: c_int"] sint_lt [of "ucast v :: c_int"] by simp_all
  ultimately show "- (2 ^ 31) \<le> sint v \<and> sint v < 2 ^ 31" by simp
next
  assume range: "- (2 ^ 31) \<le> sint v \<and> sint v < 2 ^ 31"
  have "uint (ucast v :: c_int) = take_bit 32 (uint v)" by (simp add: unsigned_ucast_eq)
  then have "sint (ucast v :: c_int) = signed_take_bit 31 (sint v)"
    by (simp add: sint_uint signed_take_bit_take_bit signed_take_bit_signed_take_bit min_def)
  also have "\<dots> = sint v" using range by (simp add: signed_take_bit_int_eq_self)
  finally have "sint (scast (ucast v :: c_int) :: u64) = sint v" by (simp only: sint_scast_int)
  then show "scast (ucast v :: c_int) = v" by (simp only: sint_inject)
qed


lemma int_count_fits:
  "(scast (ucast v :: c_int) :: u64) = v \<longleftrightarrow> uint v < 2 ^ 31 \<or> 2 ^ 64 - 2 ^ 31 \<le> uint v" for v :: u64
proof -
  have "uint v < 2 ^ 64" "0 \<le> uint v" by (rule uint_long_lt, rule uint_nonneg)
  then show ?thesis unfolding scast_ucast_fits sint_long_cases by (cases "uint v < 2 ^ 63"; simp; linarith)
qed

lemma int_count_value:
  "uint (scast (ucast v :: c_int) :: u64)
     = uint v mod 2 ^ 32 + (if uint v mod 2 ^ 32 < 2 ^ 31 then 0 else 2 ^ 64 - 2 ^ 32)" for v :: u64
proof -
  have "uint (ucast v :: c_int) = uint v mod 2 ^ 32" by (simp add: unsigned_ucast_eq take_bit_eq_mod)
  then show ?thesis unfolding uint_scast_int sless_0_int by (simp only:) simp
qed

lemma deliver_simps [simp]:
  "kstate (deliver p ans w) = kstate w" "darling_errno (deliver p ans w) = darling_errno w"
  "console (deliver p ans w) = console w"
  by (cases ans; simp)+

lemma deliver_outside:
  "\<not> in_region (p + rax_off) 8 x \<Longrightarrow> \<not> in_region (p + rdx_off) 8 x \<Longrightarrow> \<not> in_region (p + rflag_off) 8 x \<Longrightarrow>
   mem (deliver p ans w) x = mem w x"
  by (cases ans) (simp_all add: mem_set_reg_outside)

lemma enosys_kernel [simp]: "enosys_is_error (e\<lparr>kernel := k\<rparr>) = enosys_is_error e"
  by (simp add: enosys_is_error_def host_errno_def)

text \<open>Small error numbers, in the negated form of the Linux kernel.\<close>

lemma of_nat_small_error:
  assumes "0 < c" "c < 4096"
  shows "uint (- of_nat c :: u64) = 2 ^ 64 - int c" "uint (- of_nat c :: c_int) = 2 ^ 32 - int c"
proof -
  have "uint (of_nat c :: u64) = int c" "uint (of_nat c :: c_int) = int c"
    using assms by (simp_all add: unsigned_of_nat take_bit_nat_eq_self)
  moreover from this have "(of_nat c :: u64) \<noteq> 0" "(of_nat c :: c_int) \<noteq> 0"
    using assms by auto
  ultimately show "uint (- of_nat c :: u64) = 2 ^ 64 - int c"
    "uint (- of_nat c :: c_int) = 2 ^ 32 - int c"
    using assms
    by (simp_all add: uint_word_ariths zmod_zminus1_eq_if unsigned_eq_0_iff mod_pos_pos_trivial)
qed

lemma kernel_error:
  assumes "0 < c" "c < 4096"
  shows "(- of_nat c :: u64) <s 0" "(- of_nat c :: c_int) <s 0"
    and "(ucast (- of_nat c :: u64) :: c_int) = - of_nat c"
    and "(scast (- of_nat c :: c_int) :: u64) = - of_nat c"
proof -
  note vals = of_nat_small_error [OF assms]
  show neg: "(- of_nat c :: u64) <s 0" "(- of_nat c :: c_int) <s 0"
    unfolding sless_0_int sless_0_long vals using assms by simp_all
  have "uint (ucast (- of_nat c :: u64) :: c_int) = (2 ^ 64 - int c) mod 2 ^ 32"
    by (simp only: unsigned_ucast_eq vals) (simp add: take_bit_eq_mod)
  also have "\<dots> = ((2 ^ 32 - int c) + (2 ^ 32 - 1) * 2 ^ 32) mod 2 ^ 32" by (simp add: algebra_simps)
  also have "\<dots> = (2 ^ 32 - int c) mod 2 ^ 32" by (rule mod_mult_self1)
  also have "\<dots> = 2 ^ 32 - int c" using assms by (intro mod_pos_pos_trivial) simp_all
  finally show "(ucast (- of_nat c :: u64) :: c_int) = - of_nat c"
    by (simp only: word_uint_eq_iff vals)
  show "(scast (- of_nat c :: c_int) :: u64) = - of_nat c"
    by (simp only: word_uint_eq_iff vals uint_scast_int neg(2) if_True)
qed

lemma failed_small_error:
  assumes c: "0 < c" "c < 4096"
  shows "failed (- of_nat c) = (if c \<le> 2 then Success 0 0 else Failure (- of_nat c))"
proof -
  have "uint (- 1 :: c_int) = 2 ^ 32 - 1" "uint (- 2 :: c_int) = 2 ^ 32 - 2"
    using of_nat_small_error(2) [of 1] of_nat_small_error(2) [of 2] by simp_all
  then have small: "(- of_nat c :: c_int) = - 1 \<longleftrightarrow> c = 1" "(- of_nat c :: c_int) = - 2 \<longleftrightarrow> c = 2"
    "(- of_nat c :: c_int) \<noteq> 0"
    using c by (auto simp only: word_uint_eq_iff of_nat_small_error [OF c]) simp
  have "c \<le> 2 \<longleftrightarrow> c = 1 \<or> c = 2" using c by auto
  then show ?thesis
    by (simp only: failed_def reports_result_def small) simp
qed

lemma linux_error_answer:
  assumes e: "platform e = Linux" "errno_h e = linux_errno" and c: "0 < c" "c < 4096"
    and kernel: "kernel_answer e nr a w = Some (- of_nat c, k, m)"
  shows "\<exists>w'. unix_service e nr a w
      = Inr (- of_nat c, (if c \<le> 2 then Success 0 0 else Failure (- of_nat c)), w') \<and>
    kstate w' = k \<and> mem w' = m"
proof -
  note simps = kernel_error [OF c] errno_linux_identity e failed_small_error [OF c] linux_syscall_def Let_def
  have "nr = 4 \<or> nr = 29 \<or> nr = 42"
    using kernel by (auto simp: kernel_answer_def kernel_request_def split: if_splits)
  then show ?thesis
    using kernel
    by (elim disjE) (simp_all add: simps unix_service_def write_service_def pipe_service_def
        recvfrom_service_def kernel_answer_def kernel_request_def)
qed


section \<open>Properties\<close>

text \<open>
  C6: The C handler, with the builder, the constructor, the table and the result structure, implements
  the specification: for every Unix request, with the number and the arguments taken from the saved
  registers and the user's stack, it gives the answer of \<open>unix_service\<close> and delivers it to the
  saved registers.
\<close>

theorem handler_implements_service:
  assumes "class_of (reg (mem w) p rax_off) = SYSCALL_CLASS_UNIX"
    and "valid_locals loc" and "enosys_is_error e"
  shows "darling_handle_x86_64_syscall e loc p w =
     delivered p (unix_service e (requested_number (mem w) p) (request_arg (mem (entered p w)) p)
       (entered p w))"
  using assms by (rule handler_service)

text \<open>
  C11: On Linux a request makes at most one system call of the kernel, the one that \<open>kernel_request\<close>
  names: the kernel's state changes as that call changes it, a kernel that differs elsewhere gives
  the same run, and \<open>darling_errno\<close> is left to the stubs.
\<close>

theorem one_kernel_call:
  assumes unix: "class_of (reg (mem w) p rax_off) = SYSCALL_CLASS_UNIX"
    and loc: "valid_locals loc" and enosys: "enosys_is_error e" and linux: "platform e = Linux"
    and run: "darling_handle_x86_64_syscall e loc p w = Inr (err, w')"
  defines "answer \<equiv> \<lambda>e. kernel_answer e (requested_number (mem w) p) (request_arg (mem (entered p w)) p)
    (entered p w)"
  shows "kstate w' = (case answer e of None \<Rightarrow> kstate w | Some (r, k, m) \<Rightarrow> k) \<and>
     (\<forall>k. answer (e\<lparr>kernel := k\<rparr>) = answer e \<longrightarrow>
       darling_handle_x86_64_syscall (e\<lparr>kernel := k\<rparr>) loc p w = Inr (err, w')) \<and>
     darling_errno w' = darling_errno w"
proof (intro conjI allI impI)
  let ?s = "unix_service e (requested_number (mem w) p) (request_arg (mem (entered p w)) p) (entered p w)"
  have "delivered p ?s = Inr (err, w')" using run handler_service [OF unix loc enosys] by simp
  then obtain ans v where v: "?s = Inr (err, ans, v)" "w' = deliver p ans v"
    by (cases ?s) auto
  show "kstate w' = (case answer e of None \<Rightarrow> kstate w | Some (r, k, m) \<Rightarrow> k)"
    "darling_errno w' = darling_errno w"
    using unix_service_world [OF v(1) linux] by (simp_all add: v(2) answer_def split: option.split)
  fix k assume "answer (e\<lparr>kernel := k\<rparr>) = answer e"
  then have "unix_service (e\<lparr>kernel := k\<rparr>) (requested_number (mem w) p)
      (request_arg (mem (entered p w)) p) (entered p w) = ?s"
    unfolding answer_def by (rule unix_service_kernel_cong [OF linux])
  then show "darling_handle_x86_64_syscall (e\<lparr>kernel := k\<rparr>) loc p w = Inr (err, w')"
    using handler_service [OF unix loc, of "e\<lparr>kernel := k\<rparr>"] enosys v by simp
qed

text \<open>
  C12: An error of the Linux kernel, \<open>- c\<close>, comes back negated in \<open>rax\<close>, and the errors 1 and 2 (\<open>EPERM\<close>
  and \<open>ENOENT\<close>), which the handler takes for \<open>ERESTART\<close> and \<open>EJUSTRETURN\<close>, come back as a success with
  result 0.
\<close>

theorem linux_errors_delivered:
  assumes "class_of (reg (mem w) p rax_off) = SYSCALL_CLASS_UNIX"
    and "valid_locals loc" and "enosys_is_error e"
    and "platform e = Linux" and "errno_h e = linux_errno" and "0 < c" "c < 4096"
    and "kernel_answer e (requested_number (mem w) p) (request_arg (mem (entered p w)) p) (entered p w)
       = Some (- of_nat c, k, m)"
  shows "\<exists>v. darling_handle_x86_64_syscall e loc p w
       = Inr (- of_nat c, deliver p (if c \<le> 2 then Success 0 0 else Failure (- of_nat c)) v) \<and>
     kstate v = k \<and> mem v = m"
  using linux_error_answer [OF assms(4-8)] handler_service [OF assms(1-3)] by auto

text \<open>
  C14: \<open>write\<close> keeps its count in an \<open>int\<close>: the kernel is asked to write the low half of the user's count,
  sign-extended, and what it does on any other count has no influence.  That is the user's count exactly
  below \<open>2 ^ 31\<close> and in the last \<open>2 ^ 31\<close> values of 64 bits; a count whose low half has its top bit set
  reaches the kernel as one of those values, any other as its low half.
\<close>

theorem write_count_is_an_int:
  "sys_write (e\<lparr>kernel := \<lambda>nr as.
       if nr = 1 \<and> as ! 2 = scast (ucast (arg a ! 2) :: c_int) then kernel e nr as else other nr as\<rparr>)
     a ret w = sys_write e a ret w \<and>
   ((scast (ucast (arg a ! 2) :: c_int) :: u64) = arg a ! 2
      \<longleftrightarrow> uint (arg a ! 2) < 2 ^ 31 \<or> 2 ^ 64 - 2 ^ 31 \<le> uint (arg a ! 2)) \<and>
   uint (scast (ucast (arg a ! 2) :: c_int) :: u64)
     = uint (arg a ! 2) mod 2 ^ 32 + (if uint (arg a ! 2) mod 2 ^ 32 < 2 ^ 31 then 0 else 2 ^ 64 - 2 ^ 32)"
proof (intro conjI)
  show "sys_write (e\<lparr>kernel := \<lambda>nr as.
       if nr = 1 \<and> as ! 2 = scast (ucast (arg a ! 2) :: c_int) then kernel e nr as else other nr as\<rparr>)
     a ret w = sys_write e a ret w"
    by (simp add: sys_write_def sys_write_nocancel_def LINUX_SYSCALL_defs linux_syscall_def
        libc_call_def Let_def numeral_2_eq_2 split: platform.split prod.split sum.split)
qed (rule int_count_fits int_count_value)+

text \<open>
  C15: \<open>recvfrom\<close> hands its flags to the kernel as the user gave them: what the kernel does on any other
  flags, the converted ones included, has no influence.
\<close>

theorem recvfrom_passes_raw_flags:
  "sys_recvfrom (e\<lparr>kernel := \<lambda>nr as.
       if nr = 45 \<and> as ! 3 = scast (ucast (arg a ! 3) :: c_int) then kernel e nr as else other nr as\<rparr>)
     a ret w = sys_recvfrom e a ret w"
  by (simp add: sys_recvfrom_def sys_recvfrom_nocancel_def LINUX_SYSCALL_defs linux_syscall_def
      libc_call_def Let_def numeral_3_eq_3 split: platform.split prod.split sum.split)

text \<open>
  A request of another class, Mach traps included, is printed and answered with success: the kernel
  is not called, and in memory only the carry flag is cleared, so \<open>rax\<close> is the number of the request.
\<close>

lemma other_classes_do_nothing:
  assumes "class_of (reg (mem w) p rax_off) \<noteq> SYSCALL_CLASS_UNIX"
  shows "\<exists>w'. darling_handle_x86_64_syscall e loc p w = Inr (0, w') \<and> kstate w' = kstate w \<and>
     darling_errno w' = darling_errno w \<and>
     mem w' = store64 (mem w) (p + rflag_off) (reg (mem w) p rflag_off AND NOT X86_64_FLAG_CARRY)"
  unfolding handler_other_class [OF assms] by (simp add: entered_def set_reg_def)


section \<open>Witnesses\<close>

lemma class_of_examples: "class_of 0x2000004 = SYSCALL_CLASS_UNIX" "class_of 0 \<noteq> SYSCALL_CLASS_UNIX"
  by code_simp+

lemma example_write_request:
  "class_of (reg (mem example_requests) 0x1000 rax_off) = SYSCALL_CLASS_UNIX"
  "requested_number (mem example_requests) 0x1000 = 4"
  "request_arg (mem (entered 0x1000 example_requests)) 0x1000 0 = 1"
  "request_arg (mem (entered 0x1000 example_requests)) 0x1000 1 = 0x5000"
  "request_arg (mem (entered 0x1000 example_requests)) 0x1000 2 = 4"
  by (simp_all add: example_simps class_of_examples requested_number_def request_arg_def get_sysnum_def
      mask_values entered_def set_reg_def)

lemma example_request_write:
  "kernel_request e 4 (request_arg (mem (entered 0x1000 example_requests)) 0x1000)
     = Some (1, [1, 0x5000, 4, 0, 0, 0])"
  using example_write_request(3-5) by (simp add: kernel_request_def)

lemma example_host_fields [simp]:
  "platform example_host = Linux" "errno_h example_host = linux_errno" "kernel example_host = example_kernel"
  by (simp_all add: example_host_def)

lemma kstate_example_requests [simp]: "kstate example_requests = []"
  by (simp add: example_requests_def example_world_def)

theorem handler_implements_service_witness:
  "\<exists>v. darling_handle_x86_64_syscall example_host example_locals 0x1000 example_requests
       = Inr (0, deliver 0x1000 (Success 4 0) v) \<and>
     kstate v = [(1, [1, 0x5000, 4, 0, 0, 0])]"
  unfolding handler_implements_service [OF example_write_request(1) valid_example_locals(1) enosys_example_host]
    example_write_request(2) unix_service_def write_service_def
  using example_write_request(3-5)
  by (simp add: linux_syscall_def example_kernel_def sless_0_long Let_def)
    (rule exI, rule conjI, rule refl, simp)

lemma example_write_runs:
  "\<exists>w'. darling_handle_x86_64_syscall example_host example_locals 0x1000 example_requests = Inr (0, w')"
  unfolding handler_service [OF example_write_request(1) valid_example_locals(1) enosys_example_host]
    example_write_request(2) unix_service_def write_service_def
  using example_write_request(3-5)
  by (simp add: linux_syscall_def example_kernel_def sless_0_long Let_def)

theorem one_kernel_call_witness:
  "\<exists>w'. darling_handle_x86_64_syscall example_host example_locals 0x1000 example_requests = Inr (0, w') \<and>
     kstate w' = [(1, [1, 0x5000, 4, 0, 0, 0])]"
proof -
  obtain w' where w': "darling_handle_x86_64_syscall example_host example_locals 0x1000 example_requests
      = Inr (0, w')"
    using example_write_runs by blast
  from one_kernel_call [OF example_write_request(1) valid_example_locals(1) enosys_example_host
      example_host_fields(1) this]
  have "kstate w' = [(1, [1, 0x5000, 4, 0, 0, 0])]"
    by (simp add: kernel_answer_def example_write_request(2) example_request_write example_kernel_def)
  with w' show ?thesis by blast
qed

text \<open>A kernel that forbids writing.\<close>

definition forbidding_host :: "nat \<Rightarrow> (c_int \<times> u64 list) list env" where
  "forbidding_host c = example_host\<lparr>kernel := \<lambda>nr as k m. (- of_nat c, k, m)\<rparr>"

theorem linux_errors_delivered_witness:
  "(\<exists>v. darling_handle_x86_64_syscall (forbidding_host 1) example_locals 0x1000 example_requests
       = Inr (- 1, deliver 0x1000 (Success 0 0) v)) \<and>
   (\<exists>v. darling_handle_x86_64_syscall (forbidding_host 9) example_locals 0x1000 example_requests
       = Inr (- 9, deliver 0x1000 (Failure (- 9)) v))"
proof -
  have host: "enosys_is_error (forbidding_host c)" "platform (forbidding_host c) = Linux"
    "errno_h (forbidding_host c) = linux_errno" for c
    by (simp_all add: forbidding_host_def enosys_example_host)
  have "kernel_answer (forbidding_host c) (requested_number (mem example_requests) 0x1000)
      (request_arg (mem (entered 0x1000 example_requests)) 0x1000) (entered 0x1000 example_requests)
    = Some (- of_nat c, [], mem (entered 0x1000 example_requests))" for c
    by (simp add: kernel_answer_def example_write_request(2) example_request_write forbidding_host_def)
  from linux_errors_delivered [OF example_write_request(1) valid_example_locals(1) host _ _ this, of 1]
    linux_errors_delivered [OF example_write_request(1) valid_example_locals(1) host _ _ this, of 9]
  show ?thesis by auto
qed

end
