(* ===== verification/Trap.thy ===== *)
theory Trap
  imports Asmbridge Requests
begin

text \<open>
  A system call as the caller of the assembly bridge sees it.  The interface \<open>syscall_trap\<close> is what the
  stubs of \<open>libsyscall\<close> rely on when they call \<open>___darling_handle_x86_64_syscall\<close> where macOS has a
  \<open>syscall\<close> instruction; the bridge with the C handler behind it provides it.
\<close>

unbundle bit_operations_syntax

section \<open>The interface\<close>

text \<open>The caller's state after the call: the answer in the registers and the carry flag.\<close>

fun answered_gpr :: "answer \<Rightarrow> (reg64 \<Rightarrow> u64) \<Rightarrow> reg64 \<Rightarrow> u64" where
  "answered_gpr (Success a d) g = g(RAX := a, RDX := d, RSP := g RSP + 8)"
| "answered_gpr (Failure err) g = g(RAX := scast err, RSP := g RSP + 8)"

fun answered_flags :: "answer \<Rightarrow> u64 \<Rightarrow> u64" where
  "answered_flags (Success a d) f = f AND NOT 1"
| "answered_flags (Failure err) f = f OR 1"

definition answered :: "'k cpu \<Rightarrow> answer \<Rightarrow> 'k world \<Rightarrow> 'k cpu" where
  "answered s ans w =
     \<lparr>gpr = answered_gpr ans (gpr s), rflags = answered_flags ans (rflags s),
      rip = load64 (cpu_mem s) (gpr s RSP), world_of = w\<rparr>"

text \<open>
  \<open>serves s ans w\<close>: entered in state \<open>s\<close>, the call is answered with \<open>ans\<close>, in a world \<open>w\<close> whose memory
  has the two words above the return address as they were (the frame of the stub).
\<close>

locale syscall_trap =
  fixes trap :: "'k cpu \<Rightarrow> fault + 'k cpu" and serves :: "'k cpu \<Rightarrow> answer \<Rightarrow> 'k world \<Rightarrow> bool"
  assumes answers: "aligned_entry s \<Longrightarrow> serves s ans w \<Longrightarrow> trap s = Inr (answered s ans w)"
    and keeps_frame: "serves s ans w \<Longrightarrow> off \<in> {8, 16} \<Longrightarrow>
      load64 (mem w) (gpr s RSP + off) = load64 (cpu_mem s) (gpr s RSP + off)"
begin

lemma no_fault: "aligned_entry s \<Longrightarrow> serves s ans w \<Longrightarrow> trap s \<noteq> Inl f"
  by (simp add: answers)

lemma deterministic:
  "aligned_entry s \<Longrightarrow> serves s ans w \<Longrightarrow> serves s ans' w' \<Longrightarrow> answered s ans w = answered s ans' w'"
  using answers [of s ans w] answers [of s ans' w'] by simp

end

section \<open>The request, from the registers\<close>

definition cpu_number :: "'k cpu \<Rightarrow> c_int" where
  "cpu_number s = (if get_sysnum (gpr s RAX) = 0 then ucast (gpr s RDI) else get_sysnum (gpr s RAX))"

text \<open>
  Argument \<open>k\<close>; those beyond the registers are above the return address into the stub, its saved
  frame pointer and the return address of its caller.
\<close>

definition cpu_arg :: "'k cpu \<Rightarrow> nat \<Rightarrow> u64" where
  "cpu_arg s k =
     (if k = 0 then gpr s RDI else if k = 1 then gpr s RSI else if k = 2 then gpr s RDX
      else if k = 3 then gpr s R10 else if k = 4 then gpr s R8 else if k = 5 then gpr s R9
      else load64 (cpu_mem s) (gpr s RSP + 24 + 8 * of_nat (k - 6)))"

definition cpu_request_arg :: "'k cpu \<Rightarrow> nat \<Rightarrow> u64" where
  "cpu_request_arg s k = cpu_arg s (if get_sysnum (gpr s RAX) = 0 then k + 1 else k)"

text \<open>The world in which the C handler serves the request.\<close>

definition handler_world :: "'k machine \<Rightarrow> 'k cpu \<Rightarrow> 'k world" where
  "handler_world M s = entered (saved_at s) (world_of (handed_over M s))"

lemma handler_world_simps [simp]:
  "kstate (handler_world M s) = kstate (world_of s)"
  "darling_errno (handler_world M s) = darling_errno (world_of s)"
  "console (handler_world M s) = console (world_of s) @ [In_handle_x86_64_syscall]"
  by (simp_all add: handler_world_def handed_over_def)

text \<open>
  The six argument registers, the number, the flags and the user's stack as the handler finds them in
  memory.
\<close>

lemma handed_over_regs:
  assumes "off \<in> {rax_off, rdi_off, rsi_off, rdx_off, rcx_off, r8_off, r9_off, r10_off, r11_off, rflag_off,
    rbp_off, rsp_off}"
  shows "reg (cpu_mem (handed_over M s)) (saved_at s) off = reg (cpu_mem (saved s)) (saved_at s) off"
  by (rule handed_over_reg) (use assms in \<open>auto simp: layout_simps\<close>)

lemma handler_world_regs:
  assumes "off \<in> {rax_off, rdi_off, rsi_off, rdx_off, rcx_off, r8_off, r9_off, r10_off, r11_off, rbp_off,
    rsp_off}"
  shows "reg (mem (handler_world M s)) (saved_at s) off = reg (cpu_mem (saved s)) (saved_at s) off"
proof -
  have "reg (mem (handler_world M s)) (saved_at s) off = reg (cpu_mem (handed_over M s)) (saved_at s) off"
    unfolding handler_world_def by (rule reg_entered) (use assms in \<open>auto simp: layout_simps\<close>)
  also have "\<dots> = reg (cpu_mem (saved s)) (saved_at s) off"
    by (rule handed_over_regs) (use assms in auto)
  finally show ?thesis .
qed

lemma handler_world_flags:
  "reg (mem (handler_world M s)) (saved_at s) rflag_off = rflags s AND NOT 1"
  by (simp add: handler_world_def reg_entered(1) handed_over_regs saved_reg)

text \<open>What the bridge and the handler write before the service runs lies below the return address.\<close>

lemma in_region_part:
  assumes "in_region (a + off) n x" and "unat off + n \<le> k" and "k \<le> 2 ^ 64"
  shows "in_region a k x"
proof -
  have "unat (x - (a + off)) + unat off < 2 ^ LENGTH(64)" using assms by simp
  then have "unat ((x - (a + off)) + off) = unat (x - (a + off)) + unat off"
    by (rule unat_add_lem [THEN iffD1])
  then have "unat (x - a) = unat (x - (a + off)) + unat off" by simp
  then show ?thesis using assms(1,2) by linarith
qed

lemma bridge_writes_frame:
  assumes "\<not> in_region (gpr s RSP - 112) 112 x"
  shows "mem (handler_world M s) x = cpu_mem s x"
proof -
  have out: "\<not> unat (x - (gpr s RSP - i)) < 8" if "unat (112 - i) + 8 \<le> 112" for i
    using in_region_part [where a = "gpr s RSP - 112" and off = "112 - i" and n = 8 and x = x and k = 112] that assms by auto
  have "mem (handler_world M s) x = cpu_mem (handed_over M s) x"
    using out [of 32] by (simp add: handler_world_def entered_def mem_set_reg_outside saved_at_def rflag_off_def)
  also have "\<dots> = cpu_mem s x"
    by (simp add: handed_over_def gpr_saved saved_at_def saved_def save_registers_def q.st_outside out)
  finally show ?thesis .
qed


lemma handler_world_cell:
  assumes "112 \<le> unat (off + 112)" and "8 \<le> unat (- off - 112)"
  shows "load64 (mem (handler_world M s)) (gpr s RSP + off) = load64 (cpu_mem s) (gpr s RSP + off)"
proof (rule q.ld_other_region [OF bridge_writes_frame])
  show "disjoint_regions (gpr s RSP - 112) 112 (gpr s RSP + off) 8"
    using assms by (simp add: disjoint_regions_def algebra_simps)
qed

lemma request_of_cpu:
  "class_of (reg (cpu_mem (handed_over M s)) (saved_at s) rax_off) = class_of (gpr s RAX)"
  "requested_number (cpu_mem (handed_over M s)) (saved_at s) = cpu_number s"
  by (simp_all add: handed_over_regs saved_reg requested_number_def cpu_number_def)

lemma request_arg_of_cpu:
  assumes "k < 6"
  shows "request_arg (mem (handler_world M s)) (saved_at s) k = cpu_request_arg s k"
proof -
  let ?m = "mem (handler_world M s)" and ?p = "saved_at s"
  have "load64 ?m (gpr s RSP + 24) = load64 (cpu_mem s) (gpr s RSP + 24)"
    by (rule handler_world_cell) simp_all
  then have stack: "user_arg ?m ?p 6 = cpu_arg s 6"
    by (simp add: user_arg_def cpu_arg_def handler_world_regs saved_reg add.commute)
  have "user_arg ?m ?p j = cpu_arg s j" if "j < 6" for j
    using that by (simp add: user_arg_def cpu_arg_def handler_world_regs saved_reg)
  moreover have "j < 6 \<or> j = 6" if "j < 7" for j :: nat using that by linarith
  ultimately have "user_arg ?m ?p j = cpu_arg s j" if "j < 7" for j
    using stack that by blast
  then show ?thesis
    using assms by (simp add: request_arg_def cpu_request_arg_def handler_world_regs saved_reg)
qed

lemma unix_service_args_cong:
  assumes "\<And>k. k < 6 \<Longrightarrow> a k = b k"
  shows "unix_service e nr a w = unix_service e nr b w"
  using assms [of 0] assms [of 1] assms [of 2] assms [of 3] assms [of 4] assms [of 5]
  by (simp add: unix_service_def Let_def)

section \<open>The bridge provides the interface\<close>

text \<open>
  The service leaves the frames of the bridge and of the stub alone: the kernel writes only to the
  buffers of the caller.
\<close>

definition frame_kept :: "'k cpu \<Rightarrow> memory \<Rightarrow> memory \<Rightarrow> bool" where
  "frame_kept s m m' \<longleftrightarrow> (\<forall>x. in_region (saved_at s - 8) 136 x \<longrightarrow> m' x = m x)"

definition bridge_serves :: "'k machine \<Rightarrow> 'k cpu \<Rightarrow> answer \<Rightarrow> 'k world \<Rightarrow> bool" where
  "bridge_serves M s ans w \<longleftrightarrow>
     stack_discipline M \<and> valid_locals (uninitialised M) \<and> enosys_is_error (host M) \<and>
     class_of (gpr s RAX) = SYSCALL_CLASS_UNIX \<and>
     (\<exists>err v. unix_service (host M) (cpu_number s) (cpu_request_arg s) (handler_world M s)
          = Inr (err, ans, v) \<and>
        frame_kept s (mem (handler_world M s)) (mem v) \<and>
        w = v\<lparr>mem := scratch M (saved_at s - 8) (mem (deliver (saved_at s) ans v))\<rparr>)"

lemma frame_kept_cell:
  assumes "frame_kept s m m'" and "unat (off + 8) + 8 \<le> 136"
  shows "load64 m' (saved_at s + off) = load64 m (saved_at s + off)"
proof (rule q.ld_frame)
  fix i :: nat assume i: "i < 8"
  have "in_region (saved_at s - 8) 136 (saved_at s + off + of_nat i)"
  proof (rule in_region_part)
    show "in_region (saved_at s - 8 + (off + 8)) 8 (saved_at s + off + of_nat i)"
      using i by (simp add: unat_of_nat_lt [of i 8])
  qed (use assms(2) in simp_all)
  then show "m' (saved_at s + off + of_nat i) = m (saved_at s + off + of_nat i)"
    using assms(1) by (simp add: frame_kept_def)
qed

lemma frame_kept_regs:
  assumes "frame_kept s m m'" and "off \<in> {rax_off, rdx_off, rflag_off}"
  shows "reg m' (saved_at s) off = reg m (saved_at s) off"
  unfolding reg_def by (rule frame_kept_cell [OF assms(1)]) (use assms(2) in \<open>auto simp: layout_simps\<close>)

lemma load_carry:
  "load_flags f (f AND NOT 1) = f AND NOT 1" "load_flags f ((f AND NOT 1) OR 1) = f OR 1"
proof -
  have user: "bit user_flags 0" by (simp add: user_flags_def)
  have "bit (1 :: u64) i \<longleftrightarrow> i = 0" for i by (simp add: bit_1_iff)
  then show "load_flags f (f AND NOT 1) = f AND NOT 1" "load_flags f ((f AND NOT 1) OR 1) = f OR 1"
    by (auto intro!: bit_word_eqI gr0I simp: load_flags_def bit_simps user)
qed

lemma bridge_answers:
  assumes "aligned_entry s" and serves: "bridge_serves M s ans w"
  shows "asmbridge M s = Inr (answered s ans w)"
proof -
  let ?p = "saved_at s" and ?hw = "handler_world M s" and ?h = "handed_over M s"
  obtain err v where v: "unix_service (host M) (cpu_number s) (cpu_request_arg s) ?hw = Inr (err, ans, v)"
    and kept: "frame_kept s (mem ?hw) (mem v)"
    and w: "w = v\<lparr>mem := scratch M (?p - 8) (mem (deliver ?p ans v))\<rparr>"
    and stack: "stack_discipline M" and loc: "valid_locals (uninitialised M)"
    and enosys: "enosys_is_error (host M)" and unix: "class_of (gpr s RAX) = SYSCALL_CLASS_UNIX"
    using serves unfolding bridge_serves_def by blast
  have "unix_service (host M) (cpu_number s) (request_arg (mem ?hw) ?p) ?hw = Inr (err, ans, v)"
    unfolding v [symmetric] by (rule unix_service_args_cong) (rule request_arg_of_cpu)
  then have handler: "darling_handle_x86_64_syscall (host M) (uninitialised M) ?p (world_of ?h)
      = Inr (err, deliver ?p ans v)"
    using handler_service [OF _ loc enosys, of "world_of ?h" ?p] unix
    by (simp add: request_of_cpu handler_world_def)
  have "frame_intact s (cpu_mem ?h) (mem (deliver ?p ans v))"
    unfolding frame_intact_def
  proof (intro allI impI)
    fix x
    assume x: "in_region (?p - 8) 120 x \<and> \<not> in_region (?p + rax_off) 8 x
      \<and> \<not> in_region (?p + rdx_off) 8 x \<and> \<not> in_region (?p + rflag_off) 8 x"
    then have "mem (deliver ?p ans v) x = mem v x" by (simp add: deliver_outside)
    also have "\<dots> = mem ?hw x" using kept x by (simp add: frame_kept_def)
    also have "\<dots> = cpu_mem ?h x" using x by (simp add: handler_world_def entered_def mem_set_reg_outside)
    finally show "mem (deliver ?p ans v) x = cpu_mem ?h x" .
  qed
  note run = asmbridge_run [OF assms(1) stack handler this]
  have before: "reg (mem v) ?p rdx_off = gpr s RDX" "reg (mem v) ?p rflag_off = rflags s AND NOT 1"
    using frame_kept_regs [OF kept] by (simp_all add: handler_world_regs handler_world_flags saved_reg)
  show ?thesis
  proof (cases ans)
    case (Failure err)
    have "reg (mem (deliver ?p ans v)) ?p rax_off = scast err"
      "reg (mem (deliver ?p ans v)) ?p rdx_off = gpr s RDX"
      "reg (mem (deliver ?p ans v)) ?p rflag_off = (rflags s AND NOT 1) OR 1"
      by (simp_all add: Failure reg_set_reg_other layout_simps before [unfolded layout_simps])
    then show ?thesis
      unfolding run by (auto simp: answered_def Failure load_carry [simplified] w)
  next
    case (Success a d)
    have "reg (mem (deliver ?p ans v)) ?p rax_off = a" "reg (mem (deliver ?p ans v)) ?p rdx_off = d"
      "reg (mem (deliver ?p ans v)) ?p rflag_off = rflags s AND NOT 1"
      by (simp_all add: Success reg_set_reg_other layout_simps before [unfolded layout_simps])
    then show ?thesis
      unfolding run by (simp add: answered_def Success load_carry [simplified] w)
  qed
qed


lemma deliver_cell:
  assumes "8 \<le> unat off" "8 \<le> unat (- off)" "8 \<le> unat (off - 24)" "8 \<le> unat (24 - off)"
    "8 \<le> unat (off - 72)" "8 \<le> unat (72 - off)"
  shows "load64 (mem (deliver p ans w)) (p + off) = load64 (mem w) (p + off)"
proof -
  have "reg (mem (deliver p ans w)) p off = reg (mem w) p off"
    using assms by (cases ans) (simp_all add: reg_set_reg_other layout_simps)
  then show ?thesis by (simp add: reg_def)
qed

lemma bridge_keeps_cell:
  assumes serves: "bridge_serves M s ans w" and off: "off = 0 \<or> off = 8 \<or> off = 16"
  shows "load64 (mem w) (gpr s RSP + off) = load64 (cpu_mem s) (gpr s RSP + off)"
proof -
  let ?p = "saved_at s"
  obtain v where kept: "frame_kept s (mem (handler_world M s)) (mem v)"
    and w: "w = v\<lparr>mem := scratch M (?p - 8) (mem (deliver ?p ans v))\<rparr>" and stack: "stack_discipline M"
    using serves unfolding bridge_serves_def by blast
  have at: "gpr s RSP + off = ?p + (104 + off)" "?p - 8 + (112 + off) = ?p + (104 + off)"
    by (simp_all add: saved_at_def)
  have "load64 (mem w) (?p + (104 + off)) = load64 (mem (deliver ?p ans v)) (?p + (104 + off))"
    using scratch_cell [OF stack, of "112 + off" "?p - 8"] off unfolding at(2)
    by (elim disjE) (simp_all add: w C_STACK_def)
  also have "\<dots> = load64 (mem v) (?p + (104 + off))"
    by (rule deliver_cell) (use off in auto)
  also have "\<dots> = load64 (mem (handler_world M s)) (?p + (104 + off))"
    by (rule frame_kept_cell [OF kept]) (use off in auto)
  also have "\<dots> = load64 (cpu_mem s) (gpr s RSP + off)"
    unfolding at(1) [symmetric] by (rule handler_world_cell) (use off in auto)
  finally show ?thesis unfolding at(1) .
qed

interpretation bridge: syscall_trap "asmbridge M" "bridge_serves M" for M :: "'k machine"
  by unfold_locales (auto intro: bridge_answers bridge_keeps_cell)


section \<open>Memory outside the stack\<close>

text \<open>Below the return address: the frame of the bridge, and below it those of the C functions.\<close>

abbreviation in_stack :: "'k cpu \<Rightarrow> u64 \<Rightarrow> bool" where
  "in_stack s x \<equiv> in_region (gpr s RSP - of_nat (112 + C_STACK)) (112 + C_STACK) x"

lemma below_stack:
  assumes "\<not> in_stack s x" and "unat (of_nat (112 + C_STACK) - i) + n \<le> 112 + C_STACK"
  shows "\<not> in_region (gpr s RSP - i) n x"
proof
  assume inside: "in_region (gpr s RSP - i) n x"
  have at: "gpr s RSP - of_nat (112 + C_STACK) + (of_nat (112 + C_STACK) - i) = gpr s RSP - i" by simp
  have "in_stack s x"
  proof (rule in_region_part)
    show "in_region (gpr s RSP - of_nat (112 + C_STACK) + (of_nat (112 + C_STACK) - i)) n x"
      unfolding at by (rule inside)
    show "112 + C_STACK \<le> 2 ^ 64" by (simp add: C_STACK_def)
  qed (rule assms(2))
  with assms(1) show False by simp
qed

lemma bridge_memory:
  assumes "stack_discipline M" and "\<not> in_stack s x"
  shows "scratch M (saved_at s - 8) (mem (deliver (saved_at s) ans v)) x = mem v x"
    and "mem (handler_world M s) x = cpu_mem s x"
proof -
  have "\<not> in_region (gpr s RSP - (112 + of_nat C_STACK)) C_STACK x"
    by (rule below_stack [OF assms(2)]) (simp add: C_STACK_def)
  then have "\<not> in_region (saved_at s - 8 - of_nat C_STACK) C_STACK x"
    by (simp add: saved_at_def diff_diff_eq add.assoc)
  then have "scratch M (saved_at s - 8) (mem (deliver (saved_at s) ans v)) x
      = mem (deliver (saved_at s) ans v) x"
    using assms(1) by (simp add: stack_discipline_def)
  also have "\<dots> = mem v x"
  proof (rule deliver_outside)
    have cell: "\<not> in_region (gpr s RSP - i) 8 x" if "i \<in> {104, 80, 32}" for i
      by (rule below_stack [OF assms(2)]) (use that in \<open>auto simp: C_STACK_def\<close>)
    show "\<not> in_region (saved_at s + rax_off) 8 x" "\<not> in_region (saved_at s + rdx_off) 8 x"
      "\<not> in_region (saved_at s + rflag_off) 8 x"
      using cell [of 104] cell [of 80] cell [of 32] by (simp_all add: saved_at_def layout_simps)
  qed
  finally show "scratch M (saved_at s - 8) (mem (deliver (saved_at s) ans v)) x = mem v x" .
  show "mem (handler_world M s) x = cpu_mem s x"
    by (rule bridge_writes_frame, rule below_stack [OF assms(2)]) (simp add: C_STACK_def)
qed


text \<open>A service that does not write to memory is served, and only the stack changes.\<close>

lemma bridge_pure:
  assumes "stack_discipline M" "valid_locals (uninitialised M)" "enosys_is_error (host M)"
    and "class_of (gpr s RAX) = SYSCALL_CLASS_UNIX"
    and v: "unix_service (host M) (cpu_number s) (cpu_request_arg s) (handler_world M s) = Inr (err, ans, v)"
    and pure: "mem v = mem (handler_world M s)"
  shows "\<exists>w. bridge_serves M s ans w \<and> kstate w = kstate v \<and> darling_errno w = darling_errno v \<and>
    console w = console v \<and> (\<forall>x. \<not> in_stack s x \<longrightarrow> mem w x = cpu_mem s x)"
proof (intro exI conjI)
  let ?w = "v\<lparr>mem := scratch M (saved_at s - 8) (mem (deliver (saved_at s) ans v))\<rparr>"
  show "bridge_serves M s ans ?w"
    unfolding bridge_serves_def frame_kept_def pure [symmetric] using assms by blast
  show "\<forall>x. \<not> in_stack s x \<longrightarrow> mem ?w x = cpu_mem s x"
  proof (intro allI impI)
    fix x assume "\<not> in_stack s x"
    note memory = bridge_memory [OF assms(1) this]
    show "mem ?w x = cpu_mem s x"
      using memory(1) [of ans v] memory(2) pure by simp
  qed
qed simp_all

text \<open>
  A request of another class, Mach traps included: it is answered with a success that leaves \<open>rax\<close> and
  \<open>rdx\<close> as they were.
\<close>

lemma bridge_answers_other_class:
  assumes aligned: "aligned_entry s" and stack: "stack_discipline M"
    and other: "class_of (gpr s RAX) \<noteq> SYSCALL_CLASS_UNIX"
  shows "\<exists>w. asmbridge M s = Inr (answered s (Success (gpr s RAX) (gpr s RDX)) w) \<and>
    kstate w = kstate (world_of s) \<and> darling_errno w = darling_errno (world_of s) \<and>
    (\<forall>off \<in> {8, 16}. load64 (mem w) (gpr s RSP + off) = load64 (cpu_mem s) (gpr s RSP + off)) \<and>
    (\<forall>x. \<not> in_stack s x \<longrightarrow> mem w x = cpu_mem s x)"
proof -
  let ?p = "saved_at s" and ?h = "handed_over M s" and ?hw = "handler_world M s"
  let ?v = "say (other_class_message (class_of (gpr s RAX))) ?hw"
  let ?w = "?v\<lparr>mem := scratch M (?p - 8) (mem ?hw)\<rparr>"
  have handler: "darling_handle_x86_64_syscall (host M) (uninitialised M) ?p (world_of ?h) = Inr (0, ?v)"
    using other handler_other_class [of "world_of ?h" ?p "host M" "uninitialised M"]
    by (simp add: request_of_cpu handler_world_def)
  have "frame_intact s (cpu_mem ?h) (mem ?v)"
    unfolding frame_intact_def by (simp add: handler_world_def entered_def mem_set_reg_outside)
  note run = asmbridge_run [OF aligned stack handler this]
  have regs: "reg (mem ?v) ?p rax_off = gpr s RAX" "reg (mem ?v) ?p rdx_off = gpr s RDX"
    "reg (mem ?v) ?p rflag_off = rflags s AND NOT 1"
    by (simp_all add: handler_world_regs handler_world_flags saved_reg)
  have "asmbridge M s = Inr (answered s (Success (gpr s RAX) (gpr s RDX)) ?w)"
    unfolding run regs load_carry by (simp add: answered_def)
  moreover have "mem ?w x = cpu_mem s x" if "\<not> in_stack s x" for x
  proof -
    have "\<not> in_region (gpr s RSP - (112 + of_nat C_STACK)) C_STACK x"
      by (rule below_stack [OF that]) (simp add: C_STACK_def)
    then have "\<not> in_region (?p - 8 - of_nat C_STACK) C_STACK x"
      by (simp add: saved_at_def diff_diff_eq add.assoc)
    then show ?thesis using stack bridge_memory(2) [OF stack that] by (simp add: stack_discipline_def)
  qed
  moreover have "load64 (mem ?w) (gpr s RSP + off) = load64 (cpu_mem s) (gpr s RSP + off)" if "off \<in> {8, 16}" for off
  proof -
    have at: "gpr s RSP + off = ?p - 8 + (112 + off)" by (simp add: saved_at_def)
    have "load64 (mem ?w) (gpr s RSP + off) = load64 (mem ?hw) (gpr s RSP + off)"
      unfolding at using scratch_cell [OF stack, of "112 + off" "?p - 8" "mem ?hw"] that
      by (auto simp: C_STACK_def)
    also have "\<dots> = load64 (cpu_mem s) (gpr s RSP + off)"
      by (rule handler_world_cell) (use that in auto)
    finally show ?thesis .
  qed
  ultimately show ?thesis by (intro exI [of _ ?w]) simp
qed


lemma unix_service_enosys:
  assumes "enosys_is_error e" and "nr \<notin> {4, 29, 42}"
  shows "\<exists>msgs. unix_service e nr a w
    = Inr (host_errno e ''ENOSYS'', Failure (host_errno e ''ENOSYS''), foldr say msgs w)"
proof -
  let ?msg = "if in_table nr then Unimplemented ''unix'' nr else Out_of_range ''unix'' nr"
  let ?msgs = "if nr = 0 then [In_syscall_unix] else [?msg, In_syscall_unix]"
  have "unix_service e nr a w = no_service e (foldr say ?msgs w)"
    using assms(2) by (simp add: unix_service_def Let_def)
  moreover have "\<not> reports_result (host_errno e ''ENOSYS'')"
    using assms(1) by (simp add: enosys_is_error_def)
  ultimately show ?thesis
    by (intro exI [of _ ?msgs]) (simp add: no_service_def failed_def Let_def)
qed

section \<open>Properties\<close>

text \<open>
  C7: The assembly bridge is transparent: entered with the ABI's stack alignment, around any request that
  the handler answers without writing to the bridge's frame, it returns to its caller with the stack
  restored, every register as it was but \<open>rax\<close> and, for a success, \<open>rdx\<close>, and every flag but the carry
  flag, whatever the C compiler leaves in the registers and flags it may clobber.
\<close>

theorem bridge_transparent:
  assumes "aligned_entry s" and "bridge_serves M s ans w"
  shows "asmbridge M s = Inr (answered s ans w)"
  using assms by (rule bridge_answers)

text \<open>
  C29: A request of another class than Unix, Mach and machine-dependent traps included, goes through the bridge
  with success: the carry flag is cleared, \<open>rax\<close> still holds the request and \<open>rdx\<close> what it held, every other
  register is as it was, the kernel is not called, \<open>errno\<close> is kept, and memory changes only in the stack of
  the bridge.
\<close>

theorem bridge_other_class:
  assumes "aligned_entry s" and "stack_discipline M" and "class_of (gpr s RAX) \<noteq> SYSCALL_CLASS_UNIX"
  shows "\<exists>w. asmbridge M s = Inr
       \<lparr>gpr = (gpr s)(RSP := gpr s RSP + 8), rflags = rflags s AND NOT 1,
        rip = load64 (cpu_mem s) (gpr s RSP), world_of = w\<rparr> \<and>
     kstate w = kstate (world_of s) \<and> darling_errno w = darling_errno (world_of s) \<and>
     (\<forall>x. \<not> in_region (gpr s RSP - of_nat (112 + C_STACK)) (112 + C_STACK) x \<longrightarrow> mem w x = cpu_mem s x)"
proof -
  obtain w where w: "asmbridge M s = Inr (answered s (Success (gpr s RAX) (gpr s RDX)) w)"
    "kstate w = kstate (world_of s)" "darling_errno w = darling_errno (world_of s)"
    "\<forall>x. \<not> in_stack s x \<longrightarrow> mem w x = cpu_mem s x"
    using bridge_answers_other_class [OF assms] by blast
  have "answered s (Success (gpr s RAX) (gpr s RDX)) w =
      \<lparr>gpr = (gpr s)(RSP := gpr s RSP + 8), rflags = rflags s AND NOT 1,
       rip = load64 (cpu_mem s) (gpr s RSP), world_of = w\<rparr>"
    by (simp add: answered_def)
  with w show ?thesis by (intro exI [of _ w]) simp
qed

text \<open>
  From the bridge's entry to its return, a Unix request without an implementation gives \<open>ENOSYS\<close> in
  \<open>rax\<close> and the carry flag; the kernel is not called, and memory changes only in the stack below the
  return address.
\<close>

lemma bridge_enosys:
  assumes "aligned_entry s" and "stack_discipline M" "valid_locals (uninitialised M)"
    and enosys: "enosys_is_error (host M)"
    and "class_of (gpr s RAX) = SYSCALL_CLASS_UNIX" and other: "cpu_number s \<notin> {4, 29, 42}"
  shows "\<exists>w. asmbridge M s = Inr
       \<lparr>gpr = (gpr s)(RAX := scast (host_errno (host M) ''ENOSYS''), RSP := gpr s RSP + 8),
        rflags = rflags s OR 1, rip = load64 (cpu_mem s) (gpr s RSP), world_of = w\<rparr> \<and>
     kstate w = kstate (world_of s) \<and>
     (\<forall>x. \<not> in_region (gpr s RSP - of_nat (112 + C_STACK)) (112 + C_STACK) x \<longrightarrow> mem w x = cpu_mem s x)"
proof -
  obtain msgs where service: "unix_service (host M) (cpu_number s) (cpu_request_arg s) (handler_world M s)
      = Inr (host_errno (host M) ''ENOSYS'', Failure (host_errno (host M) ''ENOSYS''),
          foldr say msgs (handler_world M s))"
    using unix_service_enosys [OF enosys other] by blast
  obtain w where "bridge_serves M s (Failure (host_errno (host M) ''ENOSYS'')) w"
    "kstate w = kstate (world_of s)" "\<forall>x. \<not> in_stack s x \<longrightarrow> mem w x = cpu_mem s x"
    using bridge_pure [OF assms(2-5) service] by (auto simp: foldr_say)
  then show ?thesis
    using bridge.answers [OF assms(1)] by (auto simp: answered_def)
qed

section \<open>An example machine\<close>

definition example_machine :: "(c_int \<times> u64 list) list machine" where
  "example_machine =
     \<lparr>host = example_host, uninitialised = example_locals,
      junk = (\<lambda>f s r. 0xBAD), junk_flags = (\<lambda>f s. 0xFFF),
      scratch = (\<lambda>sp m x. if in_region (sp - of_nat C_STACK) C_STACK x then 0xCC else m x),
      next_rip = (\<lambda>f n. 0x400000 + of_nat n), var_at = (\<lambda>f. 0x5000), got_at = (\<lambda>f. 0x4000)\<rparr>"

text \<open>A process about to request number \<open>n\<close> with the arguments \<open>1\<close>, \<open>0x5000\<close> and \<open>4\<close>.\<close>

definition example_cpu :: "u64 \<Rightarrow> (c_int \<times> u64 list) list cpu" where
  "example_cpu n =
     \<lparr>gpr = (\<lambda>_. 7)(RAX := n, RDI := 1, RSI := 0x5000, RDX := 4, RSP := 0x7FFF0008),
      rflags = 0x246, rip = 0x400000, world_of = example_world\<rparr>"

lemma example_machine_good:
  "stack_discipline example_machine" "valid_locals (uninitialised example_machine)"
  "enosys_is_error (host example_machine)" "host example_machine = example_host"
  using valid_example_locals enosys_example_host
  by (simp_all add: example_machine_def stack_discipline_def)

lemma example_cpu_good:
  "aligned_entry (example_cpu n)" "gpr (example_cpu n) RAX = n" "gpr (example_cpu n) RDI = 1"
  "gpr (example_cpu n) RSI = 0x5000" "gpr (example_cpu n) RDX = 4" "rflags (example_cpu n) = 0x246"
  "kstate (world_of (example_cpu n)) = []" "gpr (example_cpu n) RSP = 0x7FFF0008"
  by (simp_all add: example_cpu_def aligned_entry_def example_world_def)

lemma example_write_service:
  "\<exists>v. unix_service example_host 4 (cpu_request_arg (example_cpu 0x2000004)) w = Inr (0, Success 4 0, v) \<and>
     mem v = mem w \<and> kstate v = kstate w @ [(1, [1, 0x5000, 4, 0, 0, 0])]"
  by (simp add: unix_service_def write_service_def cpu_request_arg_def cpu_arg_def example_cpu_good
      get_sysnum_def mask_values linux_syscall_def example_kernel_def sless_0_long Let_def)

theorem bridge_transparent_witness:
  "\<exists>w. asmbridge example_machine (example_cpu 0x2000004)
       = Inr (answered (example_cpu 0x2000004) (Success 4 0) w) \<and>
     kstate w = [(1, [1, 0x5000, 4, 0, 0, 0])]"
proof -
  have nr: "cpu_number (example_cpu 0x2000004) = 4"
    by (simp add: cpu_number_def example_cpu_good get_sysnum_def mask_values)
  obtain v where "unix_service (host example_machine) (cpu_number (example_cpu 0x2000004))
      (cpu_request_arg (example_cpu 0x2000004)) (handler_world example_machine (example_cpu 0x2000004))
      = Inr (0, Success 4 0, v)"
    "mem v = mem (handler_world example_machine (example_cpu 0x2000004))"
    "kstate v = [(1, [1, 0x5000, 4, 0, 0, 0])]"
    using example_write_service [of "handler_world example_machine (example_cpu 0x2000004)"]
    by (auto simp: nr example_machine_good example_cpu_good)
  from bridge_pure [OF example_machine_good(1-3) _ this(1,2)] this(3)
  obtain w where "bridge_serves example_machine (example_cpu 0x2000004) (Success 4 0) w"
    "kstate w = [(1, [1, 0x5000, 4, 0, 0, 0])]"
    by (auto simp: example_cpu_good class_of_examples)
  then show ?thesis using bridge_transparent [OF example_cpu_good(1)] by blast
qed

theorem bridge_other_class_witness:
  "\<exists>w. asmbridge example_machine (example_cpu 0x1000019) = Inr
      \<lparr>gpr = (gpr (example_cpu 0x1000019))(RSP := 0x7FFF0010), rflags = 0x246,
       rip = load64 (cpu_mem (example_cpu 0x1000019)) 0x7FFF0008, world_of = w\<rparr> \<and> kstate w = []"
proof -
  have "class_of (gpr (example_cpu 0x1000019) RAX) \<noteq> SYSCALL_CLASS_UNIX"
    unfolding example_cpu_good by code_simp
  from bridge_other_class [OF example_cpu_good(1) example_machine_good(1) this] show ?thesis
    by (auto simp: example_cpu_good)
qed

end
