(* ===== verification/Asm_Help.thy ===== *)
theory Asm_Help
  imports Machine
begin

text \<open>
  The assembler macros of \<open>src/include/architecture/i386/asm_help.h\<close> for x86-64, as functions that give
  code, and the bit masks of \<open>reg_help.h\<close>.  Directives that only declare symbols and sections have no
  code; \<open>CALL_MCOUNT\<close> is empty, as \<open>notdef\<close> is not defined.  The assembler variables
  \<open>L__framesize\<close> and \<open>L__nested_function\<close>, which a prologue sets for the epilogue, are arguments.  The
  property is that prologues and epilogue fit together.
\<close>

unbundle bit_operations_syntax

section \<open>\<open>reg_help.h\<close>\<close>

definition BITS_WIDTH :: "nat \<Rightarrow> nat \<Rightarrow> nat" where
  "BITS_WIDTH msb lsb = msb - lsb + 1"

definition BIT_WIDTH :: "nat \<Rightarrow> nat" where
  "BIT_WIDTH pos = 1"

definition MKMASK :: "nat \<Rightarrow> nat \<Rightarrow> u32" where
  "MKMASK width offset = push_bit offset (drop_bit (32 - width) (- 1))"

definition BITSMASK :: "nat \<Rightarrow> nat \<Rightarrow> u32" where
  "BITSMASK msb lsb = MKMASK (BITS_WIDTH msb lsb) (lsb mod 32)"

definition BITMASK :: "nat \<Rightarrow> u32" where
  "BITMASK pos = MKMASK (BIT_WIDTH pos) (pos mod 32)"

definition STACK_INCR :: nat where "STACK_INCR = 4"

definition ROUND_FRAME :: "u32 \<Rightarrow> u32" where
  "ROUND_FRAME x = (x + of_nat STACK_INCR - 1) AND NOT (of_nat STACK_INCR - 1)"

section \<open>Frames\<close>

definition ROUND_TO_STACK :: "nat \<Rightarrow> nat" where
  "ROUND_TO_STACK len = (len + STACK_INCR - 1) div STACK_INCR * STACK_INCR"

definition LEAF_FUNCTION_PROLOGUE :: "nat \<Rightarrow> instr list" where
  "LEAF_FUNCTION_PROLOGUE localvarsize =
     (let framesize = ROUND_TO_STACK localvarsize in
      if framesize \<noteq> 0
      then [Op (Push RBP), Op (Mov RSP RBP), Op (Subq_imm (of_nat framesize) RSP)]
      else [])"

definition NESTED_FUNCTION_PROLOGUE :: "nat \<Rightarrow> instr list" where
  "NESTED_FUNCTION_PROLOGUE localvarsize =
     (let framesize = ROUND_TO_STACK localvarsize in
      if framesize \<noteq> 0
      then [Op (Push RBP), Op (Mov RSP RBP), Op (Subq_imm (of_nat framesize) RSP)]
      else [])"

definition FUNCTION_EPILOGUE :: "nat \<Rightarrow> instr list" where
  "FUNCTION_EPILOGUE framesize =
     (if framesize \<noteq> 0 then [Op (Mov RBP RSP), Op (Pop RBP)] else []) @ [Ret]"

definition LEAF :: "nat \<Rightarrow> instr list" where
  "LEAF localvarsize = LEAF_FUNCTION_PROLOGUE localvarsize"

definition NESTED :: "nat \<Rightarrow> instr list" where
  "NESTED localvarsize = NESTED_FUNCTION_PROLOGUE localvarsize"

definition END_function :: "nat \<Rightarrow> instr list" where
  "END_function localvarsize = FUNCTION_EPILOGUE (ROUND_TO_STACK localvarsize)"

text \<open>A call and a branch to another function: on x86-64 the linker makes them position-independent.\<close>

definition CALL_EXTERN :: "string \<Rightarrow> instr list" where
  "CALL_EXTERN target = [Call target]"

definition CALL_EXTERN_AGAIN :: "string \<Rightarrow> instr list" where
  "CALL_EXTERN_AGAIN target = [Call target]"

definition BRANCH_EXTERN :: "string \<Rightarrow> instr list" where
  "BRANCH_EXTERN target = [Jmp target]"

text \<open>
  Access to a variable of another object file.  With \<open>__DYNAMIC__\<close> defined (\<open>dyn\<close>) it goes through the
  global offset table and uses \<open>r11\<close>; \<open>PUSH_EXTERN\<close> exists without it only.
\<close>

definition PICIFY_64 :: "string \<Rightarrow> instr list" where
  "PICIFY_64 var = [Load_got var R11]"

definition PUSH_EXTERN :: "string \<Rightarrow> instr list" where
  "PUSH_EXTERN var = [Push_var var]"

definition REG_TO_EXTERN :: "bool \<Rightarrow> reg64 \<Rightarrow> string \<Rightarrow> instr list" where
  "REG_TO_EXTERN dyn r var = (if dyn then PICIFY_64 var @ [Op (Mov_store r R11)] else [Mov_to_var r var])"

definition EXTERN_TO_REG :: "bool \<Rightarrow> string \<Rightarrow> reg64 \<Rightarrow> instr list" where
  "EXTERN_TO_REG dyn var r = (if dyn then PICIFY_64 var @ [Op (Mov_load R11 r)] else [Mov_from_var var r])"

section \<open>\<open>syscall_sw.h\<close>\<close>

text \<open>With \<open>DARLING\<close> defined the traps are calls; the last two are of functions that are not in the repository.\<close>

definition UNIX_SYSCALL_TRAP :: "instr list" where
  "UNIX_SYSCALL_TRAP = [Call ''___darling_handle_x86_64_syscall'']"

definition MACHDEP_SYSCALL_TRAP :: "instr list" where
  "MACHDEP_SYSCALL_TRAP = [Call ''__darling_machdep_syscall'']"

definition kernel_trap :: "c_int \<Rightarrow> instr list" where
  "kernel_trap trap_number =
     LEAF 0 @ [Op (Movl_imm trap_number RAX), Call ''__darling_mach_syscall''] @ END_function 0"

text \<open>Without it they are \<open>syscall\<close> instructions, and the negative number of a Mach trap is encoded with its class.\<close>

definition UNIX_SYSCALL_TRAP_macos :: "instr list" where
  "UNIX_SYSCALL_TRAP_macos = [Syscall]"

definition MACHDEP_SYSCALL_TRAP_macos :: "instr list" where
  "MACHDEP_SYSCALL_TRAP_macos = [Syscall]"

definition kernel_trap_macos :: "c_int \<Rightarrow> instr list" where
  "kernel_trap_macos trap_number =
     LEAF 0 @ [Op (Mov RCX R10), Op (Movl_imm (SYSCALL_CONSTRUCT_MACH (- trap_number)) RAX), Syscall] @ END_function 0"

section \<open>Facts on the macros\<close>

lemma LEAF_0: "LEAF 0 = []"
  by (simp add: LEAF_def LEAF_FUNCTION_PROLOGUE_def ROUND_TO_STACK_def STACK_INCR_def)

lemma bit_MKMASK: "bit (MKMASK w off) i \<longleftrightarrow> off \<le> i \<and> i < off + w \<and> i < 32" if "0 < w" "w \<le> 32"
  using that by (auto simp: MKMASK_def bit_simps)

lemma bit_BITSMASK:
  assumes "lsb \<le> msb" and "msb < 32"
  shows "bit (BITSMASK msb lsb) i \<longleftrightarrow> lsb \<le> i \<and> i \<le> msb"
  using assms by (auto simp: BITSMASK_def BITS_WIDTH_def bit_MKMASK)

lemma ROUND_TO_STACK_bounds:
  "n \<le> ROUND_TO_STACK n" "ROUND_TO_STACK n < n + 4" "4 dvd ROUND_TO_STACK n"
  by (simp_all add: ROUND_TO_STACK_def STACK_INCR_def)

lemma unat_mask_4: "unat (w AND NOT 3 :: u32) = unat w div 4 * 4"
proof -
  have "w AND NOT (mask k) = push_bit k (drop_bit k w)" for k
    by (rule bit_word_eqI) (auto simp: bit_simps)
  from this [of 2] have "w AND NOT 3 = push_bit 2 (drop_bit 2 w)" by (simp add: mask_eq_exp_minus_1)
  also have "unat (push_bit 2 (drop_bit 2 w)) = unat w div 4 * 4"
  proof -
    have "unat w < 2 ^ 32" using unsigned_less [of w] by simp
    then have "unat w div 4 * 4 < 2 ^ 32" by linarith
    then show ?thesis
      by (simp add: drop_bit_eq_div push_bit_eq_mult unat_word_ariths unat_div)
  qed
  finally show ?thesis .
qed

lemma ROUND_FRAME_is_ROUND_TO_STACK:
  assumes "n + 3 < 2 ^ 32"
  shows "unat (ROUND_FRAME (of_nat n)) = ROUND_TO_STACK n"
proof -
  have "of_nat n + of_nat STACK_INCR - 1 = (of_nat (n + 3) :: u32)" by (simp add: STACK_INCR_def)
  moreover have "unat (of_nat (n + 3) :: u32) = n + 3"
    using assms by (simp only: unsigned_of_nat) (simp add: take_bit_nat_eq_self)
  ultimately have "unat (ROUND_FRAME (of_nat n)) = (n + 3) div 4 * 4"
    unfolding ROUND_FRAME_def using unat_mask_4 [of "of_nat (n + 3)"] by (simp add: STACK_INCR_def add.commute)
  then show ?thesis by (simp add: ROUND_TO_STACK_def STACK_INCR_def)
qed

section \<open>Position independence\<close>

text \<open>Through the global offset table the macros do what they do without it, but for \<open>r11\<close>.\<close>

lemma variables_position_independent:
  assumes "load64 (cpu_mem s) (got_at M f) = var_at M f" and "r \<noteq> R11"
  shows "exec M S n (REG_TO_EXTERN True r f @ code) s =
      exec M S n (REG_TO_EXTERN False r f @ code) (set_gpr R11 (var_at M f) s)"
    and "exec M S n (EXTERN_TO_REG True f r @ code) s =
      exec M S n (EXTERN_TO_REG False f r @ code) (set_gpr R11 (var_at M f) s)"
  using assms by (simp_all add: REG_TO_EXTERN_def EXTERN_TO_REG_def PICIFY_64_def)

text \<open>What a Mach trap of macOS asks the kernel for: the class Mach and the number without its sign.\<close>

lemma kernel_trap_macos_request:
  "exec M S f (kernel_trap_macos n) s = Inr (return (do_syscall M (next_rip M f 1)
     (set_gpr RAX (ucast (SYSCALL_CONSTRUCT_MACH (- n))) (set_gpr R10 (gpr s RCX) s))))"
  "class_of (ucast (SYSCALL_CONSTRUCT_MACH (- n))) = SYSCALL_CLASS_MACH"
  "get_sysnum (ucast (SYSCALL_CONSTRUCT_MACH (- n))) = SYSCALL_NUMBER_MASK AND - n"
  by (simp add: kernel_trap_macos_def LEAF_def LEAF_FUNCTION_PROLOGUE_def ROUND_TO_STACK_def STACK_INCR_def
      END_function_def FUNCTION_EPILOGUE_def)
    (simp_all add: construct_number_eq get_sysnum_construct_number class_of_construct_number class_defs)

section \<open>Frames are balanced\<close>

text \<open>
  A function between a prologue and its epilogue, whose body keeps \<open>rbp\<close>, does not write to the saved frame
  pointer and the return address, and without a frame keeps the stack pointer.
\<close>

definition framed :: "nat \<Rightarrow> 'k cpu \<Rightarrow> 'k cpu" where
  "framed n s =
     (if ROUND_TO_STACK n = 0 then s
      else step (Subq_imm (of_nat (ROUND_TO_STACK n)) RSP) (step (Mov RSP RBP) (step (Push RBP) s)))"

definition keeps_frame_of :: "nat \<Rightarrow> 'k cpu \<Rightarrow> 'k cpu \<Rightarrow> bool" where
  "keeps_frame_of n s s' \<longleftrightarrow>
     gpr s' RBP = gpr (framed n s) RBP \<and> (ROUND_TO_STACK n = 0 \<longrightarrow> gpr s' RSP = gpr s RSP) \<and>
     load64 (cpu_mem s') (gpr s RSP) = load64 (cpu_mem s) (gpr s RSP) \<and>
     (ROUND_TO_STACK n \<noteq> 0 \<longrightarrow> load64 (cpu_mem s') (gpr s RSP - 8) = gpr s RBP)"

lemma exec_map_ops: "exec M S f (map Op ops @ code) s = exec M S f code (fold step ops s)"
  by (induction ops arbitrary: s) simp_all

lemma framed_function_runs:
  assumes "prologue \<in> {LEAF n, NESTED n}" and "keeps_frame_of n s (fold step ops (framed n s))"
  shows "\<exists>t. exec M S f (prologue @ map Op ops @ END_function n) s = Inr t \<and>
    rip t = load64 (cpu_mem s) (gpr s RSP) \<and> gpr t RSP = gpr s RSP + 8 \<and> gpr t RBP = gpr s RBP \<and>
    world_of t = world_of (fold step ops (framed n s))"
proof -
  let ?b = "fold step ops (framed n s)"
  let ?t = "return (if ROUND_TO_STACK n = 0 then ?b else step (Pop RBP) (step (Mov RBP RSP) ?b))"
  have "exec M S f (prologue @ map Op ops @ END_function n) s
      = exec M S f (map Op ops @ END_function n) (framed n s)"
    using assms(1)
    by (auto simp: LEAF_def NESTED_def LEAF_FUNCTION_PROLOGUE_def NESTED_FUNCTION_PROLOGUE_def
        framed_def Let_def)
  also have "\<dots> = Inr ?t"
    by (simp add: exec_map_ops END_function_def FUNCTION_EPILOGUE_def)
  finally have "exec M S f (prologue @ map Op ops @ END_function n) s = Inr ?t" .
  moreover have "rip ?t = load64 (cpu_mem s) (gpr s RSP) \<and> gpr ?t RSP = gpr s RSP + 8 \<and>
      gpr ?t RBP = gpr s RBP \<and> world_of ?t = world_of ?b"
    using assms(2) by (auto simp: keeps_frame_of_def framed_def)
  ultimately show ?thesis by blast
qed

section \<open>Property\<close>

text \<open>
  C32: The prologues and the epilogue of \<open>asm_help.h\<close> fit together for any size of the local variables: a leaf
  or nested function with any straight-line body that keeps \<open>rbp\<close>, the saved frame pointer and the return
  address returns to its caller with the stack pointer and \<open>rbp\<close> of the caller, in the world that the body
  left; and the body starts with the stack pointer below as much room as the variables need, to the next
  multiple of 4.
\<close>

theorem framed_function:
  assumes "prologue \<in> {LEAF n, NESTED n}" and "keeps_frame_of n s (fold step ops (framed n s))"
  shows "(\<exists>t. exec M S f (prologue @ map Op ops @ END_function n) s = Inr t \<and>
      rip t = load64 (cpu_mem s) (gpr s RSP) \<and> gpr t RSP = gpr s RSP + 8 \<and> gpr t RBP = gpr s RBP \<and>
      world_of t = world_of (fold step ops (framed n s))) \<and>
    gpr (framed n s) RSP = gpr s RSP - (if n = 0 then 0 else 8 + of_nat (ROUND_TO_STACK n)) \<and>
    n \<le> ROUND_TO_STACK n \<and> ROUND_TO_STACK n < n + 4"
proof (intro conjI)
  show "\<exists>t. exec M S f (prologue @ map Op ops @ END_function n) s = Inr t \<and>
      rip t = load64 (cpu_mem s) (gpr s RSP) \<and> gpr t RSP = gpr s RSP + 8 \<and> gpr t RBP = gpr s RBP \<and>
      world_of t = world_of (fold step ops (framed n s))"
    using assms by (rule framed_function_runs)
  have "ROUND_TO_STACK n = 0 \<longleftrightarrow> n = 0"
    using ROUND_TO_STACK_bounds(1) [of n] by (auto simp: ROUND_TO_STACK_def STACK_INCR_def)
  then show "gpr (framed n s) RSP = gpr s RSP - (if n = 0 then 0 else 8 + of_nat (ROUND_TO_STACK n))"
    by (simp add: framed_def)
qed (rule ROUND_TO_STACK_bounds)+

text \<open>A leaf function with 20 bytes of variables, of which its body writes the lowest 8, that returns 5.\<close>

definition framed_cpu :: "unit cpu" where
  "framed_cpu = \<lparr>gpr = (\<lambda>_. 7)(RSP := 0x8000), rflags = 0, rip = 0,
     world_of = \<lparr>kstate = (), mem = (\<lambda>_. 1), console = [], darling_errno = 0\<rparr>\<rparr>"

theorem framed_function_witness:
  "\<forall>M S. \<exists>t. exec M S ''five'' (LEAF 20 @ map Op [Mov_store RDI RSP, Movl_imm 5 RAX] @ END_function 20) framed_cpu
     = Inr t \<and> gpr t RSP = 0x8008 \<and> gpr t RBP = 7"
proof -
  have size: "ROUND_TO_STACK 20 = 20" by (simp add: ROUND_TO_STACK_def STACK_INCR_def)
  have "keeps_frame_of 20 framed_cpu (fold step [Mov_store RDI RSP, Movl_imm 5 RAX] (framed 20 framed_cpu))"
    by (simp add: keeps_frame_of_def framed_def size framed_cpu_def q.ld_st_disjoint q.ld_st_same disjoint_regions_def)
  from framed_function [OF _ this, of "LEAF 20"] show ?thesis
    by (fastforce simp: framed_cpu_def)
qed

end
