(* ===== verification/Libsyscall.thy ===== *)
theory Libsyscall
  imports Trap Asm_Help
begin

text \<open>
  \<open>libsyscall\<close>: the stubs that a program calls, \<open>bsdsyscalls/\<close>, with the x86-64 macros of \<open>SYS.h\<close> and
  \<open>asm_help.h\<close> as functions that give code, and the setting of \<open>errno\<close>, \<open>custom/errno.c\<close>.

  As in \<open>Asmbridge\<close>, the symbols are those of the Linux build.  \<open>DARLING\<close> is defined for every file
  (\<open>CMakeLists.txt\<close>), so a stub calls the assembly bridge where macOS has a \<open>syscall\<close> instruction.
\<close>

unbundle bit_operations_syntax

section \<open>\<open>custom/errno.c\<close>\<close>

type_synonym cerror_return_t = "128 word"

definition darling_set_cerror :: "c_int \<Rightarrow> 'k world \<Rightarrow> 'k world" where
  "darling_set_cerror err w = w\<lparr>darling_errno := err\<rparr>"

definition darling_get_cerror :: "'k world \<Rightarrow> c_int" where
  "darling_get_cerror w = darling_errno w"

definition darling_cerror_nocancel :: "c_int \<Rightarrow> 'k world \<Rightarrow> cerror_return_t \<times> 'k world" where
  "darling_cerror_nocancel err w =
     (let w = say (In_cerror_nocancel err) w; w = darling_set_cerror err w in (- 1, w))"

definition darling_cerror :: "c_int \<Rightarrow> 'k world \<Rightarrow> cerror_return_t \<times> 'k world" where
  "darling_cerror err w = (let w = say (In_cerror err) w in darling_cerror_nocancel err w)"

text \<open>The first argument is in \<open>edi\<close>; a 128-bit result is returned in \<open>rax\<close> and \<open>rdx\<close>.\<close>

definition int128_result :: "cerror_return_t \<Rightarrow> (reg64 \<times> u64) list" where
  "int128_result v = [(RAX, ucast v), (RDX, ucast (drop_bit 64 v))]"

definition c_cerror ::
  "'k machine \<Rightarrow> string \<Rightarrow> (c_int \<Rightarrow> 'k world \<Rightarrow> cerror_return_t \<times> 'k world) \<Rightarrow> 'k cpu \<Rightarrow> fault + 'k cpu" where
  "c_cerror M f body = c_function M f
     (\<lambda>s. case body (ucast (gpr s RDI)) (world_of s) of (v, w) \<Rightarrow> Inr (int128_result v, w))"

section \<open>The macros\<close>

definition UNIX_SYSCALL_SYSCALL :: "instr list" where
  "UNIX_SYSCALL_SYSCALL =
     [Op (Mov RCX R10),
      Op (Push RBP),
      Op (Mov RSP RBP),
      Call ''___darling_handle_x86_64_syscall'',
      Op (Pop RBP)]"

definition UNIX_SYSCALL_NONAME :: "string \<Rightarrow> string \<Rightarrow> instr list" where
  "UNIX_SYSCALL_NONAME name cerror =
     [Op (Movl_imm (SYSCALL_CONSTRUCT_UNIX (SYS name)) RAX)] @ UNIX_SYSCALL_SYSCALL @
     [Jnb 2, Op (Mov RAX RDI)] @ BRANCH_EXTERN cerror"

definition PSEUDO :: "string \<Rightarrow> string \<Rightarrow> instr list" where
  "PSEUDO name cerror = LEAF 0 @ UNIX_SYSCALL_NONAME name cerror"

definition SYSCALL2 :: "string \<Rightarrow> string \<Rightarrow> instr list" where
  "SYSCALL2 name cerror = PSEUDO name cerror @ [Ret]"

definition SYSCALL :: "string \<Rightarrow> instr list" where
  "SYSCALL name = PSEUDO name ''darling_cerror'' @ [Ret]"

text \<open>The macro with the symbol's name, which no stub uses, has the code of \<open>PSEUDO\<close>.\<close>

definition UNIX_SYSCALL :: "string \<Rightarrow> instr list" where
  "UNIX_SYSCALL name =
     LEAF 0 @ [Op (Movl_imm (SYSCALL_CONSTRUCT_UNIX (SYS name)) RAX)] @ UNIX_SYSCALL_SYSCALL @
     [Jnb 2, Op (Mov RAX RDI)] @ BRANCH_EXTERN ''darling_cerror''"

lemma UNIX_SYSCALL_PSEUDO: "UNIX_SYSCALL name = PSEUDO name ''darling_cerror''"
  by (simp add: UNIX_SYSCALL_def PSEUDO_def UNIX_SYSCALL_NONAME_def)

lemmas macro_defs = UNIX_SYSCALL_SYSCALL_def BRANCH_EXTERN_def UNIX_SYSCALL_NONAME_def
  LEAF_0 PSEUDO_def SYSCALL2_def SYSCALL_def

section \<open>The stubs\<close>

definition write_code :: "instr list" where
  "write_code = SYSCALL2 ''write'' ''darling_cerror''"

definition syscall_code :: "instr list" where
  "syscall_code = SYSCALL ''syscall''"

definition recvmsg_code :: "instr list" where
  "recvmsg_code = SYSCALL2 ''recvmsg'' ''cerror''"

definition pipe_code :: "instr list" where
  "pipe_code = PSEUDO ''pipe'' ''darling_cerror_nocancel'' @
     [Op (Movl_store RAX 0 RDI), Op (Movl_store RDX 4 RDI), Op (Xorl_self RAX), Ret]"

text \<open>The symbols the stubs are linked with; nothing defines \<open>cerror\<close>.\<close>

definition libsyscall_symbols :: "'k machine \<Rightarrow> 'k symbols" where
  "libsyscall_symbols M =
     [''___darling_handle_x86_64_syscall'' \<mapsto> asmbridge M,
      ''darling_cerror'' \<mapsto> c_cerror M ''darling_cerror'' darling_cerror,
      ''darling_cerror_nocancel'' \<mapsto> c_cerror M ''darling_cerror_nocancel'' darling_cerror_nocancel]"

definition darling_write :: "'k machine \<Rightarrow> 'k cpu \<Rightarrow> fault + 'k cpu" where
  "darling_write M = exec M (libsyscall_symbols M) ''darling_write'' write_code"

definition darling_syscall :: "'k machine \<Rightarrow> 'k cpu \<Rightarrow> fault + 'k cpu" where
  "darling_syscall M = exec M (libsyscall_symbols M) ''___darling_syscall'' syscall_code"

definition darling_recvmsg :: "'k machine \<Rightarrow> 'k cpu \<Rightarrow> fault + 'k cpu" where
  "darling_recvmsg M = exec M (libsyscall_symbols M) ''___darling_recvmsg'' recvmsg_code"

definition darling_pipe :: "'k machine \<Rightarrow> 'k cpu \<Rightarrow> fault + 'k cpu" where
  "darling_pipe M = exec M (libsyscall_symbols M) ''___darling_pipe'' pipe_code"

section \<open>The common part of the stubs\<close>

text \<open>The state at the entry of the bridge, and after the stub has popped its frame pointer.\<close>

definition trapped :: "u64 \<Rightarrow> string \<Rightarrow> 'k cpu \<Rightarrow> 'k cpu" where
  "trapped ret name s = push ret (step (Mov RSP RBP) (step (Push RBP) (step (Mov RCX R10)
     (step (Movl_imm (SYSCALL_CONSTRUCT_UNIX (SYS name)) RAX) s))))"

fun stub_gpr :: "answer \<Rightarrow> (reg64 \<Rightarrow> u64) \<Rightarrow> reg64 \<Rightarrow> u64" where
  "stub_gpr (Success a d) g = g(RAX := a, RDX := d, R10 := g RCX)"
| "stub_gpr (Failure err) g = g(RAX := scast err, R10 := g RCX)"

definition popped :: "u64 \<Rightarrow> answer \<Rightarrow> 'k world \<Rightarrow> 'k cpu \<Rightarrow> 'k cpu" where
  "popped ret ans w s =
     \<lparr>gpr = stub_gpr ans (gpr s), rflags = answered_flags ans (rflags s), rip = ret, world_of = w\<rparr>"

lemma minus_1_low: "(ucast (- 1 :: cerror_return_t) :: u64) = - 1"
  by (rule bit_word_eqI) (simp add: bit_simps)

lemma trapped_gpr:
  "gpr (trapped ret name s) = (gpr s)(RAX := ucast (SYSCALL_CONSTRUCT_UNIX (SYS name)),
     R10 := gpr s RCX, RBP := gpr s RSP - 8, RSP := gpr s RSP - 16)"
proof
  fix r
  show "gpr (trapped ret name s) r = ((gpr s)(RAX := ucast (SYSCALL_CONSTRUCT_UNIX (SYS name)),
     R10 := gpr s RCX, RBP := gpr s RSP - 8, RSP := gpr s RSP - 16)) r"
    by (simp add: trapped_def)
qed

lemma trapped_simps [simp]:
  "rflags (trapped ret name s) = rflags s" "kstate (world_of (trapped ret name s)) = kstate (world_of s)"
  "darling_errno (world_of (trapped ret name s)) = darling_errno (world_of s)"
  "console (world_of (trapped ret name s)) = console (world_of s)"
  by (simp_all add: trapped_def)

lemma trapped_cells:
  "load64 (cpu_mem (trapped ret name s)) (gpr s RSP - 16) = ret"
  "load64 (cpu_mem (trapped ret name s)) (gpr s RSP - 8) = gpr s RBP"
  "load64 (cpu_mem (trapped ret name s)) (gpr s RSP) = load64 (cpu_mem s) (gpr s RSP)"
  by (simp_all add: trapped_def mem_simps)

lemma aligned_trapped: "aligned_entry s \<Longrightarrow> aligned_entry (trapped ret name s)"
  using aligned_shift [of "- 16" "gpr s RSP + 8"]
  by (simp add: aligned_entry_def trapped_gpr)

text \<open>The return from a C function, as the ABI has it.\<close>

definition returns_to_caller :: "'k cpu \<Rightarrow> 'k cpu \<Rightarrow> bool" where
  "returns_to_caller s t \<longleftrightarrow>
     gpr t RSP = gpr s RSP + 8 \<and> rip t = load64 (cpu_mem s) (gpr s RSP) \<and>
     (\<forall>r \<in> {RBX, RBP, R12, R13, R14, R15}. gpr t r = gpr s r)"

definition sets_errno :: "(c_int \<Rightarrow> 'k world \<Rightarrow> cerror_return_t \<times> 'k world) \<Rightarrow> bool" where
  "sets_errno body \<longleftrightarrow>
     (\<forall>err w. \<exists>msgs. body err w = (- 1, (foldr say msgs w)\<lparr>darling_errno := err\<rparr>))"

context syscall_trap
begin

text \<open>
  Every stub, over any provider of the trap: a success goes on after the label, with the results in
  \<open>rax\<close> and \<open>rdx\<close>; a failure goes to the error function with the error in \<open>rdi\<close>.
\<close>

lemma unix_syscall:
  assumes "S ''___darling_handle_x86_64_syscall'' = Some trap" and "aligned_entry s"
    and ret: "ret = next_rip M here (4 + length rest)"
    and serves: "serves (trapped ret name s) ans w"
  shows "exec M S here (UNIX_SYSCALL_NONAME name cerror @ rest) s =
     exec M S here (Jnb 2 # Op (Mov RAX RDI) # Jmp cerror # rest) (popped ret ans w s)"
proof -
  let ?t = "trapped ret name s"
  have trap: "trap ?t = Inr (answered ?t ans w)"
    by (rule answers [OF aligned_trapped [OF assms(2)] serves])
  have rbp: "load64 (mem w) (gpr s RSP - 8) = gpr s RBP"
    using keeps_frame [OF serves, of 8] by (simp add: trapped_gpr trapped_cells)
  have "step (Pop RBP) (answered ?t ans w) = popped ret ans w s"
  proof (rule cpu_eqI)
    show "gpr (step (Pop RBP) (answered ?t ans w)) = gpr (popped ret ans w s)"
      by (rule ext) (cases ans; simp add: answered_def popped_def trapped_gpr rbp Let_def)
  qed (simp_all add: answered_def popped_def trapped_gpr trapped_cells)
  moreover have "rip (answered ?t ans w) = ret"
    by (simp add: answered_def trapped_gpr trapped_cells)
  moreover have "exec M S here (UNIX_SYSCALL_NONAME name cerror @ rest) s
    = exec M S here (Op (Pop RBP) # Jnb 2 # Op (Mov RAX RDI) # Jmp cerror # rest) (answered ?t ans w)"
  proof -
    let ?ops = "[Movl_imm (SYSCALL_CONSTRUCT_UNIX (SYS name)) RAX, Mov RCX R10, Push RBP, Mov RSP RBP]"
      and ?tail = "Op (Pop RBP) # Jnb 2 # Op (Mov RAX RDI) # Jmp cerror # rest"
    have "UNIX_SYSCALL_NONAME name cerror @ rest
        = map Op ?ops @ Call ''___darling_handle_x86_64_syscall'' # ?tail"
      by (simp add: macro_defs)
    moreover have len: "length ?tail = 4 + length rest" by simp
    moreover have "push ret (fold step ?ops s) = ?t" by (simp add: trapped_def)
    ultimately show ?thesis
      using \<open>rip (answered ?t ans w) = ret\<close>
      by (simp only: exec_ops exec.simps assms(1) option.case trap sum.case if_True ret [symmetric] refl)
  qed
  ultimately show ?thesis by simp
qed

lemma stub_success:
  assumes "S ''___darling_handle_x86_64_syscall'' = Some trap" and "aligned_entry s"
    and "ret = next_rip M here (4 + length rest)"
    and "serves (trapped ret name s) (Success a d) w"
  shows "exec M S here (PSEUDO name cerror @ rest) s =
     exec M S here rest (popped ret (Success a d) w s)"
proof -
  have "\<not> carry (rflags (popped ret (Success a d) w s))"
    by (simp add: popped_def carry_def bit_simps)
  then show ?thesis
    using unix_syscall [where S = S, OF assms(1-4)] by (simp add: PSEUDO_def LEAF_0)
qed

lemma stub_failure:
  assumes "S ''___darling_handle_x86_64_syscall'' = Some trap" and "aligned_entry s"
    and "ret = next_rip M here (4 + length rest)"
    and "serves (trapped ret name s) (Failure err) w"
  shows "exec M S here (PSEUDO name cerror @ rest) s =
     (case S cerror of
        None \<Rightarrow> Inl (Unresolved_symbol cerror)
      | Some g \<Rightarrow> g (set_gpr RDI (scast err) (popped ret (Failure err) w s)))"
proof -
  have "carry (rflags (popped ret (Failure err) w s))"
    by (simp add: popped_def carry_def bit_simps)
  moreover have "gpr (popped ret (Failure err) w s) RAX = scast err" by (simp add: popped_def)
  ultimately show ?thesis
    using unix_syscall [where S = S, OF assms(1-4)] by (simp add: PSEUDO_def LEAF_0)
qed

text \<open>The error function of a stub sets \<open>errno\<close> and gives -1.\<close>

lemma stub_sets_errno:
  assumes trap: "S ''___darling_handle_x86_64_syscall'' = Some trap" and aligned: "aligned_entry s"
    and ret: "ret = next_rip M here (4 + length rest)"
    and serves: "serves (trapped ret name s) (Failure err) w"
    and cerror: "S cerror = Some (c_cerror M cerror body)" "sets_errno body" and stack: "stack_discipline M"
  shows "\<exists>t. exec M S here (PSEUDO name cerror @ rest) s = Inr t \<and> returns_to_caller s t \<and>
     gpr t RAX = - 1 \<and> darling_errno (world_of t) = err \<and> kstate (world_of t) = kstate w \<and>
     (\<forall>x. \<not> in_region (gpr s RSP - of_nat C_STACK) C_STACK x \<longrightarrow> cpu_mem t x = mem w x)"
proof -
  let ?u = "set_gpr RDI (scast err) (popped ret (Failure err) w s)" and ?m = "scratch M (gpr s RSP) (mem w)"
  obtain msgs where body: "body err w = (- 1, (foldr say msgs w)\<lparr>darling_errno := err\<rparr>)"
    using cerror(2) unfolding sets_errno_def by blast
  define t where "t = \<lparr>gpr = c_registers M cerror (int128_result (- 1)) ?u,
    rflags = load_flags (rflags ?u) (junk_flags M cerror ?u), rip = load64 ?m (gpr s RSP),
    world_of = (foldr say msgs w)\<lparr>darling_errno := err, mem := ?m\<rparr>\<rparr>"
  have "exec M S here (PSEUDO name cerror @ rest) s = c_cerror M cerror body ?u"
    using stub_failure [where S = S, OF trap aligned ret serves] cerror(1) by simp
  also have "\<dots> = Inr t"
    using aligned body
    by (simp add: c_cerror_def c_function_def popped_def aligned_entry_def ucast_scast_id t_def
        foldr_say Let_def)
  finally have run: "exec M S here (PSEUDO name cerror @ rest) s = Inr t" .
  have "load64 ?m (gpr s RSP) = load64 (mem w) (gpr s RSP)"
    using scratch_cell [OF stack, of 0 "gpr s RSP" "mem w"] by (simp add: C_STACK_def)
  also have "\<dots> = load64 (cpu_mem s) (gpr s RSP)"
    using keeps_frame [OF serves, of 16] by (simp add: trapped_gpr trapped_cells)
  finally have "returns_to_caller s t"
    by (simp add: returns_to_caller_def t_def c_registers_def int128_result_def caller_saved_def popped_def)
  moreover have "gpr t RAX = - 1"
    by (simp add: t_def c_registers_def int128_result_def minus_1_low)
  moreover have "cpu_mem t x = mem w x" if "\<not> in_region (gpr s RSP - of_nat C_STACK) C_STACK x" for x
    using stack that by (simp add: t_def stack_discipline_def)
  moreover have "darling_errno (world_of t) = err" "kstate (world_of t) = kstate w"
    by (simp_all add: t_def foldr_say)
  ultimately show ?thesis using run by blast
qed

end

section \<open>The stubs on the assembly bridge\<close>

lemma darling_cerror_sets_errno: "sets_errno darling_cerror" "sets_errno darling_cerror_nocancel"
proof -
  have "darling_cerror err w = (- 1, (foldr say [In_cerror_nocancel err, In_cerror err] w)\<lparr>darling_errno := err\<rparr>)"
    "darling_cerror_nocancel err w = (- 1, (foldr say [In_cerror_nocancel err] w)\<lparr>darling_errno := err\<rparr>)"
    for err and w :: "'k world"
    by (simp_all add: darling_cerror_def darling_cerror_nocancel_def darling_set_cerror_def)
  then show "sets_errno (darling_cerror :: c_int \<Rightarrow> 'k world \<Rightarrow> _)"
    "sets_errno (darling_cerror_nocancel :: c_int \<Rightarrow> 'k world \<Rightarrow> _)"
    unfolding sets_errno_def by blast+
qed


text \<open>
  The stack a stub uses, with the bridge and the C functions it calls: the bytes below its return
  address.
\<close>

definition STUB_STACK :: nat where "STUB_STACK = 16 + (112 + C_STACK)"

definition stub_stack :: "'k cpu \<Rightarrow> u64 \<Rightarrow> bool" where
  "stub_stack s x \<longleftrightarrow> in_region (gpr s RSP - of_nat STUB_STACK) STUB_STACK x"

definition good_machine :: "'k machine \<Rightarrow> bool" where
  "good_machine M \<longleftrightarrow>
     stack_discipline M \<and> valid_locals (uninitialised M) \<and> enosys_is_error (host M)"

lemma outside_stub_stack:
  assumes "\<not> stub_stack s x" and "unat (of_nat STUB_STACK - i) + n \<le> STUB_STACK"
  shows "\<not> in_region (gpr s RSP - i) n x"
proof
  assume inside: "in_region (gpr s RSP - i) n x"
  have at: "gpr s RSP - of_nat STUB_STACK + (of_nat STUB_STACK - i) = gpr s RSP - i" by simp
  have "in_region (gpr s RSP - of_nat STUB_STACK) STUB_STACK x"
  proof (rule in_region_part)
    show "in_region (gpr s RSP - of_nat STUB_STACK + (of_nat STUB_STACK - i)) n x"
      unfolding at by (rule inside)
    show "STUB_STACK \<le> 2 ^ 64" by (simp add: STUB_STACK_def C_STACK_def)
  qed (rule assms(2))
  with assms(1) show False by (simp add: stub_stack_def)
qed

lemma trapped_outside:
  assumes "\<not> stub_stack s x"
  shows "cpu_mem (trapped ret name s) x = cpu_mem s x" and "\<not> in_stack (trapped ret name s) x"
    and "\<not> in_region (gpr s RSP - of_nat C_STACK) C_STACK x"
proof -
  have "\<not> in_region (gpr s RSP - i) 8 x" if "i \<in> {8, 16}" for i
    by (rule outside_stub_stack [OF assms]) (use that in \<open>auto simp: STUB_STACK_def C_STACK_def\<close>)
  then show "cpu_mem (trapped ret name s) x = cpu_mem s x"
    by (simp add: trapped_def q.st_outside)
  have "\<not> in_region (gpr s RSP - of_nat STUB_STACK) (112 + C_STACK) x"
    by (rule outside_stub_stack [OF assms]) (simp add: STUB_STACK_def)
  then show "\<not> in_stack (trapped ret name s) x"
    by (simp add: trapped_gpr STUB_STACK_def diff_diff_eq add.assoc)
  show "\<not> in_region (gpr s RSP - of_nat C_STACK) C_STACK x"
    by (rule outside_stub_stack [OF assms]) (simp add: STUB_STACK_def C_STACK_def)
qed

lemma trapped_request:
  "class_of (gpr (trapped ret name s) RAX) = SYSCALL_CLASS_UNIX"
  "get_sysnum (gpr (trapped ret name s) RAX) = SYSCALL_NUMBER_MASK AND SYS name"
  by (simp_all add: trapped_gpr construct_number_eq get_sysnum_construct_number
      class_of_construct_number class_defs)

lemma trapped_args:
  "gpr (trapped ret name s) RDI = gpr s RDI" "gpr (trapped ret name s) RSI = gpr s RSI"
  "gpr (trapped ret name s) RDX = gpr s RDX" "gpr (trapped ret name s) R10 = gpr s RCX"
  "gpr (trapped ret name s) R8 = gpr s R8" "gpr (trapped ret name s) R9 = gpr s R9"
  by (simp_all add: trapped_gpr)

text \<open>A request that does not write to memory, through a stub.\<close>

lemma stub_pure:
  assumes "good_machine M"
    and service: "unix_service (host M) (cpu_number (trapped ret name s)) (cpu_request_arg (trapped ret name s))
      (handler_world M (trapped ret name s)) = Inr (err, ans, v)"
    and "mem v = mem (handler_world M (trapped ret name s))"
  shows "\<exists>w. bridge_serves M (trapped ret name s) ans w \<and> kstate w = kstate v \<and>
    darling_errno w = darling_errno v \<and> (\<forall>x. \<not> stub_stack s x \<longrightarrow> mem w x = cpu_mem s x)"
proof -
  obtain w where "bridge_serves M (trapped ret name s) ans w" "kstate w = kstate v"
    "darling_errno w = darling_errno v"
    "\<forall>x. \<not> in_stack (trapped ret name s) x \<longrightarrow> mem w x = cpu_mem (trapped ret name s) x"
    using bridge_pure [OF _ _ _ trapped_request(1) service assms(3)] assms(1)
    unfolding good_machine_def by blast
  moreover from this(4) have "\<forall>x. \<not> stub_stack s x \<longrightarrow> mem w x = cpu_mem s x"
    using trapped_outside by metis
  ultimately show ?thesis by blast
qed

text \<open>The memory the service works on is the caller's, but for the stack.\<close>

lemma trapped_handler_memory:
  assumes "good_machine M" and "\<not> stub_stack s x"
  shows "mem (handler_world M (trapped ret name s)) x = cpu_mem s x"
  using bridge_memory(2) [OF _ trapped_outside(2) [OF assms(2)]] assms
  by (simp add: good_machine_def trapped_outside(1))


section \<open>What a stub gives its caller\<close>

text \<open>The C view of an answer: the result in \<open>rax\<close>, and \<open>errno\<close>.\<close>

fun c_value :: "answer \<Rightarrow> u64" where
  "c_value (Success a d) = a"
| "c_value (Failure err) = - 1"

fun c_errno :: "answer \<Rightarrow> c_int \<Rightarrow> c_int" where
  "c_errno (Success a d) old = old"
| "c_errno (Failure err) old = err"

text \<open>The call is over: control, stack and callee-saved registers are as the ABI has it.\<close>

definition call_done :: "'k cpu \<Rightarrow> answer \<Rightarrow> 'k \<Rightarrow> 'k cpu \<Rightarrow> bool" where
  "call_done s ans k t \<longleftrightarrow>
     returns_to_caller s t \<and> gpr t RAX = c_value ans \<and>
     darling_errno (world_of t) = c_errno ans (darling_errno (world_of s)) \<and>
     kstate (world_of t) = k \<and> (\<forall>x. \<not> stub_stack s x \<longrightarrow> cpu_mem t x = cpu_mem s x)"

lemma symbols:
  "libsyscall_symbols M ''___darling_handle_x86_64_syscall'' = Some (asmbridge M)"
  "libsyscall_symbols M ''darling_cerror'' = Some (c_cerror M ''darling_cerror'' darling_cerror)"
  "libsyscall_symbols M ''darling_cerror_nocancel''
     = Some (c_cerror M ''darling_cerror_nocancel'' darling_cerror_nocancel)"
  "libsyscall_symbols M ''cerror'' = None"
  by (simp_all add: libsyscall_symbols_def)

lemma caller_cell:
  assumes "bridge_serves M (trapped ret name s) ans w"
  shows "load64 (mem w) (gpr s RSP) = load64 (cpu_mem s) (gpr s RSP)"
  using bridge.keeps_frame [OF assms, of 16] by (simp add: trapped_gpr trapped_cells)

lemma returns_popped:
  assumes "bridge_serves M (trapped ret name s) (Success a d) w"
  shows "returns_to_caller s (return (popped r (Success a d) w s))"
  by (simp add: returns_to_caller_def popped_def caller_cell [OF assms])

text \<open>The same, for a service that may have written to the memory of the program.\<close>

definition call_returns :: "'k cpu \<Rightarrow> answer \<Rightarrow> 'k world \<Rightarrow> 'k cpu \<Rightarrow> bool" where
  "call_returns s ans v t \<longleftrightarrow>
     returns_to_caller s t \<and> gpr t RAX = c_value ans \<and>
     darling_errno (world_of t) = c_errno ans (darling_errno (world_of s)) \<and>
     kstate (world_of t) = kstate v \<and> (\<forall>x. \<not> stub_stack s x \<longrightarrow> cpu_mem t x = mem v x)"

lemma stub_returns:
  assumes good: "good_machine M" and aligned: "aligned_entry s"
    and service: "unix_service (host M) (cpu_number (trapped ret name s)) (cpu_request_arg (trapped ret name s))
      (handler_world M (trapped ret name s)) = Inr (err, ans, v)"
    and kept: "frame_kept (trapped ret name s) (mem (handler_world M (trapped ret name s))) (mem v)"
    and errno: "darling_errno v = darling_errno (world_of s)"
    and ret: "ret = next_rip M here 5"
  shows "\<exists>t. exec M (libsyscall_symbols M) here (PSEUDO name ''darling_cerror'' @ [Ret]) s = Inr t \<and>
    call_returns s ans v t"
proof -
  let ?u = "trapped ret name s"
  let ?w = "v\<lparr>mem := scratch M (saved_at ?u - 8) (mem (deliver (saved_at ?u) ans v))\<rparr>"
  have serves: "bridge_serves M ?u ans ?w"
    using good service kept trapped_request(1) unfolding bridge_serves_def good_machine_def by blast
  have stack: "stack_discipline M" using good by (simp add: good_machine_def)
  have mem: "mem ?w x = mem v x" if "\<not> stub_stack s x" for x
    using bridge_memory(1) [OF stack trapped_outside(2) [OF that]] by (simp del: deliver.simps)
  have next_address: "ret = next_rip M here (4 + length [Ret])" by (simp add: ret)
  show ?thesis
  proof (cases ans)
    case (Success a d)
    let ?t = "return (popped ret (Success a d) ?w s)"
    have "exec M (libsyscall_symbols M) here (PSEUDO name ''darling_cerror'' @ [Ret]) s = Inr ?t"
      using bridge.stub_success [where S = "libsyscall_symbols M", OF symbols(1) aligned next_address
          serves [unfolded Success]] by (simp add: Success del: deliver.simps)
    moreover have "call_returns s ans v ?t"
      using returns_popped [OF serves [unfolded Success]] mem errno
      by (auto simp: call_returns_def Success popped_def simp del: deliver.simps)
    ultimately show ?thesis by blast
  next
    case (Failure e)
    obtain t where t: "exec M (libsyscall_symbols M) here (PSEUDO name ''darling_cerror'' @ [Ret]) s = Inr t"
      "returns_to_caller s t" "gpr t RAX = - 1" "darling_errno (world_of t) = e"
      "kstate (world_of t) = kstate ?w"
      and below: "\<forall>x. \<not> in_region (gpr s RSP - of_nat C_STACK) C_STACK x \<longrightarrow> cpu_mem t x = mem ?w x"
      using bridge.stub_sets_errno [where S = "libsyscall_symbols M", OF symbols(1) aligned next_address
          serves [unfolded Failure] symbols(2) darling_cerror_sets_errno(1) stack] Failure by blast
    have "cpu_mem t x = mem v x" if "\<not> stub_stack s x" for x
      using below trapped_outside(3) [OF that] mem [OF that] by simp
    then have "call_returns s ans v t" using t by (simp add: call_returns_def Failure)
    then show ?thesis using t(1) by blast
  qed
qed

lemma plain_stub:
  assumes "good_machine M" and aligned: "aligned_entry s"
    and service: "unix_service (host M) (cpu_number (trapped ret name s)) (cpu_request_arg (trapped ret name s))
      (handler_world M (trapped ret name s)) = Inr (err, ans, v)"
    and mem: "mem v = mem (handler_world M (trapped ret name s))"
    and errno: "darling_errno v = darling_errno (world_of s)"
    and ret: "ret = next_rip M here 5"
  shows "\<exists>t. exec M (libsyscall_symbols M) here (PSEUDO name ''darling_cerror'' @ [Ret]) s = Inr t \<and>
    call_done s ans (kstate v) t"
proof -
  have "frame_kept (trapped ret name s) (mem (handler_world M (trapped ret name s))) (mem v)"
    by (simp add: frame_kept_def mem)
  from stub_returns [OF assms(1,2) service this errno ret] show ?thesis
    using trapped_handler_memory [OF assms(1)] by (auto simp: call_returns_def call_done_def mem)
qed

text \<open>
  Asked in the state \<open>s\<close>, the kernel answers \<open>r\<close> to a \<open>write\<close>: it does not depend on the stub's stack,
  and writes to no memory of the program.
\<close>

definition kernel_writes :: "'k machine \<Rightarrow> 'k cpu \<Rightarrow> u64 \<Rightarrow> u64 \<Rightarrow> u64 \<Rightarrow> u64 \<Rightarrow> 'k \<Rightarrow> bool" where
  "kernel_writes M s fd buf len r k \<longleftrightarrow> platform (host M) = Linux \<and>
     (\<forall>m. (\<forall>x. \<not> stub_stack s x \<longrightarrow> m x = cpu_mem s x) \<longrightarrow>
        kernel (host M) 1 [scast (ucast fd :: c_int), buf, scast (ucast len :: c_int), 0, 0, 0]
          (kstate (world_of s)) m = (r, k, m))"

definition write_answer :: "'k env \<Rightarrow> u64 \<Rightarrow> answer" where
  "write_answer e r =
     (if r <s 0 then failed (errno_linux_to_bsd (errno_h e) (ucast r)) else Success r 0)"

lemma write_service_answer:
  assumes "kernel_writes M s (a 0) (a 1) (a 2) r k" and "good_machine M"
  shows "\<exists>err v. unix_service (host M) 4 a (handler_world M (trapped ret name s))
      = Inr (err, write_answer (host M) r, v) \<and>
    mem v = mem (handler_world M (trapped ret name s)) \<and> kstate v = k \<and>
    darling_errno v = darling_errno (world_of s)"
proof -
  let ?m = "mem (handler_world M (trapped ret name s))"
  have linux: "platform (host M) = Linux" using assms(1) by (simp add: kernel_writes_def)
  have "\<forall>x. \<not> stub_stack s x \<longrightarrow> ?m x = cpu_mem s x"
    using trapped_handler_memory [OF assms(2)] by blast
  then have "kernel (host M) 1 [scast (ucast (a 0) :: c_int), a 1, scast (ucast (a 2) :: c_int), 0, 0, 0]
      (kstate (world_of s)) ?m = (r, k, ?m)"
    using assms(1) by (simp only: kernel_writes_def)
  then show ?thesis
    by (simp add: unix_service_def write_service_def linux linux_syscall_def write_answer_def Let_def)
qed

lemma write_stub:
  assumes "good_machine M" and "aligned_entry s"
    and "kernel_writes M s (gpr s RDI) (gpr s RSI) (gpr s RDX) r k"
  shows "\<exists>t. darling_write M s = Inr t \<and> call_done s (write_answer (host M) r) k t"
proof -
  let ?t = "trapped (next_rip M ''darling_write'' 5) ''write'' s"
  have "cpu_number ?t = 4" and direct: "get_sysnum (gpr ?t RAX) \<noteq> 0"
    by (simp_all add: cpu_number_def trapped_request SYS_used mask_values)
  moreover have "cpu_request_arg ?t 0 = gpr s RDI" "cpu_request_arg ?t 1 = gpr s RSI"
    "cpu_request_arg ?t 2 = gpr s RDX"
    using direct by (simp_all add: cpu_request_arg_def cpu_arg_def trapped_args)
  ultimately show ?thesis
    using write_service_answer [of M s "cpu_request_arg ?t" r k "next_rip M ''darling_write'' 5" "''write''"]
      plain_stub [OF assms(1,2), of "next_rip M ''darling_write'' 5" "''write''" _ _ _ "''darling_write''"] assms
    by (auto simp: darling_write_def write_code_def SYSCALL2_def)
qed

lemma syscall_stub:
  assumes "good_machine M" and "aligned_entry s" and "(ucast (gpr s RDI) :: c_int) = 4"
    and "kernel_writes M s (gpr s RSI) (gpr s RDX) (gpr s RCX) r k"
  shows "\<exists>t. darling_syscall M s = Inr t \<and> call_done s (write_answer (host M) r) k t"
proof -
  let ?t = "trapped (next_rip M ''___darling_syscall'' 5) ''syscall'' s"
  have indirect: "get_sysnum (gpr ?t RAX) = 0"
    by (simp add: trapped_request SYS_used)
  then have "cpu_number ?t = 4" "cpu_request_arg ?t 0 = gpr s RSI" "cpu_request_arg ?t 1 = gpr s RDX"
    "cpu_request_arg ?t 2 = gpr s RCX"
    using assms(3) by (simp_all add: cpu_number_def cpu_request_arg_def cpu_arg_def trapped_args)
  then show ?thesis
    using write_service_answer [of M s "cpu_request_arg ?t" r k "next_rip M ''___darling_syscall'' 5" "''syscall''"]
      plain_stub [OF assms(1,2), of "next_rip M ''___darling_syscall'' 5" "''syscall''" _ _ _ "''___darling_syscall''"] assms
    by (auto simp: darling_syscall_def syscall_code_def SYSCALL_def)
qed


text \<open>Any request without an implementation, through \<open>syscall\<close>.\<close>

lemma enosys_through_syscall:
  assumes "good_machine M" and "aligned_entry s" and "(ucast (gpr s RDI) :: c_int) \<notin> {4, 29, 42}"
  shows "\<exists>t. darling_syscall M s = Inr t \<and>
    call_done s (Failure (host_errno (host M) ''ENOSYS'')) (kstate (world_of s)) t"
proof -
  let ?t = "trapped (next_rip M ''___darling_syscall'' 5) ''syscall'' s"
  have "cpu_number ?t = ucast (gpr s RDI)"
    by (simp add: cpu_number_def trapped_request SYS_used trapped_args)
  moreover have "enosys_is_error (host M)" using assms(1) by (simp add: good_machine_def)
  ultimately obtain msgs where "unix_service (host M) (cpu_number ?t) (cpu_request_arg ?t) (handler_world M ?t)
      = Inr (host_errno (host M) ''ENOSYS'', Failure (host_errno (host M) ''ENOSYS''),
          foldr say msgs (handler_world M ?t))"
    using unix_service_enosys [where nr = "cpu_number ?t"] assms(3) by metis
  from plain_stub [OF assms(1,2) this _ _ refl] show ?thesis
    by (simp add: foldr_say darling_syscall_def syscall_code_def SYSCALL_def)
qed

text \<open>The kernel's \<open>pipe\<close> writes the two descriptors where it was told to.\<close>

definition kernel_pipes :: "'k machine \<Rightarrow> 'k cpu \<Rightarrow> c_int \<Rightarrow> c_int \<Rightarrow> 'k \<Rightarrow> bool" where
  "kernel_pipes M s a b k \<longleftrightarrow> platform (host M) = Linux \<and>
     (\<forall>m. (\<forall>x. \<not> stub_stack s x \<longrightarrow> m x = cpu_mem s x) \<longrightarrow>
        kernel (host M) 22 [pipe_fd (host M), 0, 0, 0, 0, 0] (kstate (world_of s)) m
          = (0, k, store32 (store32 m (pipe_fd (host M)) a) (pipe_fd (host M) + 4) b))"

text \<open>The local array of \<open>sys_pipe\<close> is in the frame of a C function.\<close>

definition pipe_fd_in_frame :: "'k machine \<Rightarrow> 'k cpu \<Rightarrow> bool" where
  "pipe_fd_in_frame M s \<longleftrightarrow>
     unat (pipe_fd (host M) - (gpr s RSP - of_nat STUB_STACK)) + 8 \<le> C_STACK"

lemma pipe_fd_region:
  assumes "pipe_fd_in_frame M s" and "in_region (pipe_fd (host M)) 8 x"
  shows "in_region (gpr s RSP - of_nat STUB_STACK) C_STACK x"
proof (rule in_region_part)
  show "in_region (gpr s RSP - of_nat STUB_STACK + (pipe_fd (host M) - (gpr s RSP - of_nat STUB_STACK))) 8 x"
    using assms(2) by simp
qed (use assms(1) in \<open>simp_all add: pipe_fd_in_frame_def C_STACK_def\<close>)

lemma store_pair_outside:
  assumes "\<not> in_region p 8 x"
  shows "store32 (store32 m p a) (p + 4) b x = m x"
proof -
  have "\<not> in_region p 4 x" using assms by simp
  moreover have "\<not> in_region (p + 4) 4 x"
    using in_region_part [where a = p and off = 4 and n = 4 and k = 8 and x = x] assms by auto
  ultimately show ?thesis by (simp add: d.st_outside)
qed

lemma frame_beyond_C_stack:
  assumes "in_region (saved_at (trapped ret name s) - 8) 136 x"
  shows "\<not> in_region (gpr s RSP - of_nat STUB_STACK) C_STACK x"
proof -
  let ?B = "gpr s RSP - of_nat STUB_STACK" and ?p = "saved_at (trapped ret name s) - 8"
  have split: "x - ?B = of_nat C_STACK + (x - ?p)"
    by (simp add: saved_at_def trapped_gpr STUB_STACK_def)
  have size: "unat (of_nat C_STACK :: u64) = C_STACK" by (simp add: C_STACK_def)
  have "unat (of_nat C_STACK + (x - ?p)) = unat (of_nat C_STACK :: u64) + unat (x - ?p)"
    by (rule unat_add_lem [THEN iffD1]) (use assms in \<open>simp add: C_STACK_def\<close>)
  then have "unat (x - ?B) = C_STACK + unat (x - ?p)" by (simp only: split size)
  then show ?thesis by linarith
qed


lemma pipe_service_answer:
  assumes "kernel_pipes M s a b k" and "good_machine M" and in_frame: "pipe_fd_in_frame M s"
  shows "\<exists>v. unix_service (host M) 42 arguments (handler_world M (trapped ret name s))
      = Inr (0, Success (scast a) (scast b), v) \<and> kstate v = k \<and> darling_errno v = darling_errno (world_of s) \<and>
    frame_kept (trapped ret name s) (mem (handler_world M (trapped ret name s))) (mem v) \<and>
    (\<forall>x. \<not> stub_stack s x \<longrightarrow> mem v x = cpu_mem s x)"
proof -
  let ?m = "mem (handler_world M (trapped ret name s))" and ?fd = "pipe_fd (host M)"
  let ?m' = "store32 (store32 ?m ?fd a) (?fd + 4) b"
  have linux: "platform (host M) = Linux" using assms(1) by (simp add: kernel_pipes_def)
  have same: "\<forall>x. \<not> stub_stack s x \<longrightarrow> ?m x = cpu_mem s x"
    using trapped_handler_memory [OF assms(2)] by blast
  then have "kernel (host M) 22 [?fd, 0, 0, 0, 0, 0] (kstate (world_of s)) ?m = (0, k, ?m')"
    using assms(1) by (simp only: kernel_pipes_def)
  moreover have "frame_kept (trapped ret name s) ?m ?m'"
    unfolding frame_kept_def
  proof (intro allI impI)
    fix x assume "in_region (saved_at (trapped ret name s) - 8) 136 x"
    then show "?m' x = ?m x"
      using frame_beyond_C_stack pipe_fd_region [OF in_frame] by (intro store_pair_outside) blast
  qed
  moreover have "?m' x = cpu_mem s x" if "\<not> stub_stack s x" for x
  proof -
    have "C_STACK \<le> STUB_STACK" by (simp add: STUB_STACK_def)
    then have "\<not> in_region ?fd 8 x"
      using that pipe_fd_region [OF in_frame, of x] by (auto simp: stub_stack_def)
    then show ?thesis using store_pair_outside same that by simp
  qed
  ultimately show ?thesis
    by (simp add: unix_service_def pipe_service_def linux linux_syscall_def load_pair Let_def)
qed

lemma pipe_stub:
  assumes good: "good_machine M" and aligned: "aligned_entry s"
    and kernel: "kernel_pipes M s a b k" and in_frame: "pipe_fd_in_frame M s"
    and buffer: "disjoint_regions (gpr s RDI) 8 (gpr s RSP) 8"
  shows "\<exists>t. darling_pipe M s = Inr t \<and> returns_to_caller s t \<and> gpr t RAX = 0 \<and>
    load32 (cpu_mem t) (gpr s RDI) = a \<and> load32 (cpu_mem t) (gpr s RDI + 4) = b \<and>
    kstate (world_of t) = k \<and> darling_errno (world_of t) = darling_errno (world_of s) \<and>
    (\<forall>x. \<not> stub_stack s x \<and> \<not> in_region (gpr s RDI) 8 x \<longrightarrow> cpu_mem t x = cpu_mem s x)"
proof -
  let ?ret = "next_rip M ''___darling_pipe'' 8" and ?p = "gpr s RDI"
  let ?u = "trapped ?ret ''pipe'' s"
  have nr: "cpu_number ?u = 42" by (simp add: cpu_number_def trapped_request SYS_used mask_values)
  obtain v where v: "unix_service (host M) 42 (cpu_request_arg ?u) (handler_world M ?u)
      = Inr (0, Success (scast a) (scast b), v)" "kstate v = k" "darling_errno v = darling_errno (world_of s)"
    "frame_kept ?u (mem (handler_world M ?u)) (mem v)" "\<And>x. \<not> stub_stack s x \<Longrightarrow> mem v x = cpu_mem s x"
    using pipe_service_answer [OF kernel good in_frame] by blast
  let ?w = "v\<lparr>mem := scratch M (saved_at ?u - 8) (mem (deliver (saved_at ?u) (Success (scast a) (scast b)) v))\<rparr>"
  have serves: "bridge_serves M ?u (Success (scast a) (scast b)) ?w"
    using good v(1,4) trapped_request(1) unfolding bridge_serves_def good_machine_def nr by blast
  have stack: "stack_discipline M" using good by (simp add: good_machine_def)
  have outside: "mem ?w x = cpu_mem s x" if "\<not> stub_stack s x" for x
  proof -
    have "mem ?w x = mem v x"
      using bridge_memory(1) [OF stack trapped_outside(2) [OF that]]
      by (simp del: deliver.simps)
    then show ?thesis using v(5) [OF that] by simp
  qed
  let ?m = "store32 (store32 (mem ?w) ?p a) (?p + 4) b"
  define t where "t = return (step (Xorl_self RAX) (step (Movl_store RDX 4 RDI) (step (Movl_store RAX 0 RDI)
    (popped ?ret (Success (scast a) (scast b)) ?w s))))"
  have mem: "cpu_mem t = ?m"
    by (simp add: t_def popped_def ucast_scast_id)
  have "load64 ?m (gpr s RSP) = load64 (mem ?w) (gpr s RSP)"
    by (rule q.ld_other_region [OF store_pair_outside buffer])
  then have cell: "load64 ?m (gpr s RSP) = load64 (cpu_mem s) (gpr s RSP)"
    using caller_cell [OF serves] by simp
  have "darling_pipe M s = Inr t"
    using bridge.stub_success [where S = "libsyscall_symbols M" and here = "''___darling_pipe''"
        and rest = "[Op (Movl_store RAX 0 RDI), Op (Movl_store RDX 4 RDI), Op (Xorl_self RAX), Ret]",
        OF symbols(1) aligned _ serves]
    by (simp add: darling_pipe_def pipe_code_def t_def del: step.simps deliver.simps)
  moreover have "returns_to_caller s t" "gpr t RAX = 0"
    using cell by (simp_all add: returns_to_caller_def t_def popped_def ucast_scast_id)
  moreover have "load32 (cpu_mem t) ?p = a" "load32 (cpu_mem t) (?p + 4) = b"
    unfolding mem by (rule load_pair)+
  moreover have "kstate (world_of t) = k" "darling_errno (world_of t) = darling_errno (world_of s)"
    using v(2,3) by (simp_all add: t_def popped_def)
  moreover have "cpu_mem t x = cpu_mem s x" if "\<not> stub_stack s x" "\<not> in_region ?p 8 x" for x
    unfolding mem using store_pair_outside [OF that(2)] outside [OF that(1)] by simp
  ultimately show ?thesis by blast
qed


lemma recvmsg_stub:
  assumes "good_machine M" and "aligned_entry s"
  shows "darling_recvmsg M s = Inl (Unresolved_symbol ''cerror'')"
proof -
  let ?ret = "next_rip M ''___darling_recvmsg'' 5" and ?E = "host_errno (host M) ''ENOSYS''"
  let ?u = "trapped ?ret ''recvmsg'' s"
  have "cpu_number ?u = 27" by (simp add: cpu_number_def trapped_request SYS_used mask_values)
  moreover have "enosys_is_error (host M)" using assms(1) by (simp add: good_machine_def)
  ultimately obtain msgs where service: "unix_service (host M) (cpu_number ?u) (cpu_request_arg ?u)
      (handler_world M ?u) = Inr (?E, Failure ?E, foldr say msgs (handler_world M ?u))"
    using unix_service_enosys [where nr = "27" and e = "host M" and a = "cpu_request_arg ?u"
        and w = "handler_world M ?u"] by auto
  obtain w where "bridge_serves M ?u (Failure ?E) w"
    using stub_pure [OF assms(1) service] by (auto simp: foldr_say)
  from bridge.stub_failure [where S = "libsyscall_symbols M" and here = "''___darling_recvmsg''"
      and rest = "[Ret]" and cerror = "''cerror''", OF symbols(1) assms(2) _ this]
  show ?thesis by (simp add: darling_recvmsg_def recvmsg_code_def SYSCALL2_def symbols)
qed

section \<open>Properties\<close>

text \<open>
  C1: \<open>darling_write\<close> on Linux, from the call of the stub to its return, for whatever the kernel answers.  The
  kernel is asked once, for the caller's descriptor and count cut to an \<open>int\<close> and sign-extended, which is
  the caller's count below \<open>2 ^ 31\<close>.  An answer that is not negative is returned and \<open>errno\<close> kept; a
  negative one is translated by \<open>errno_linux_to_bsd\<close>, and -1 is returned with \<open>errno\<close> the translated
  number, sign included, unless that is 0, -1 or -2 (\<open>ERESTART\<close>, \<open>EJUSTRETURN\<close>), when 0 is returned and
  \<open>errno\<close> kept.  The stack pointer, the callee-saved registers and all memory but the stack below the
  caller are as they were.
\<close>

theorem write_end_to_end:
  fixes s :: "'k cpu" and M :: "'k machine" and r :: u64
  defines "n \<equiv> scast (ucast (gpr s RDX) :: c_int) :: u64"
    and "err \<equiv> errno_linux_to_bsd (errno_h (host M)) (ucast r)" and "errno \<equiv> darling_errno (world_of s)"
  assumes "good_machine M" and "aligned_entry s" and "platform (host M) = Linux"
    and "\<And>m. (\<And>x. \<not> stub_stack s x \<Longrightarrow> m x = cpu_mem s x) \<Longrightarrow>
      kernel (host M) 1 [scast (ucast (gpr s RDI) :: c_int), gpr s RSI, n, 0, 0, 0] (kstate (world_of s)) m
        = (r, k, m)"
  shows "(\<exists>t. darling_write M s = Inr t \<and> returns_to_caller s t \<and> kstate (world_of t) = k \<and>
      (\<forall>x. \<not> stub_stack s x \<longrightarrow> cpu_mem t x = cpu_mem s x) \<and>
      (gpr t RAX, darling_errno (world_of t)) =
        (if \<not> r <s 0 then (r, errno) else if err \<in> {0, - 1, - 2} then (0, errno) else (- 1, err))) \<and>
    (uint (gpr s RDX) < 2 ^ 31 \<longrightarrow> n = gpr s RDX)"
proof
  have "kernel_writes M s (gpr s RDI) (gpr s RSI) (gpr s RDX) r k"
    using assms(6,7) by (simp add: kernel_writes_def n_def)
  from write_stub [OF assms(4,5) this] show "\<exists>t. darling_write M s = Inr t \<and> returns_to_caller s t \<and>
      kstate (world_of t) = k \<and> (\<forall>x. \<not> stub_stack s x \<longrightarrow> cpu_mem t x = cpu_mem s x) \<and>
      (gpr t RAX, darling_errno (world_of t)) =
        (if \<not> r <s 0 then (r, errno) else if err \<in> {0, - 1, - 2} then (0, errno) else (- 1, err))"
    by (auto simp: call_done_def write_answer_def failed_def reports_result_def ERESTART_def EJUSTRETURN_def
        err_def errno_def)
  show "uint (gpr s RDX) < 2 ^ 31 \<longrightarrow> n = gpr s RDX" by (simp add: n_def int_count_fits)
qed

text \<open>
  C10: On a Linux host the error of a failed \<open>write\<close> arrives in \<open>errno\<close> with the sign the kernel gave it:
  \<open>EBADF\<close> (9) sets \<open>errno\<close> to -9.  The errors 1 and 2 are not reported: the stub returns 0, as if
  nothing had been written, and \<open>errno\<close> is as before.
\<close>

theorem write_errors_on_linux:
  assumes good: "good_machine M" and aligned: "aligned_entry s" and linux: "errno_h (host M) = linux_errno"
    and c: "0 < c" "c < 4096"
    and kernel: "kernel_writes M s (gpr s RDI) (gpr s RSI) (gpr s RDX) (- of_nat c) k"
  shows "\<exists>t. darling_write M s = Inr t \<and> returns_to_caller s t \<and> kstate (world_of t) = k \<and>
     gpr t RAX = (if c \<le> 2 then 0 else - 1) \<and>
     darling_errno (world_of t) = (if c \<le> 2 then darling_errno (world_of s) else - of_nat c)"
proof -
  have "write_answer (host M) (- of_nat c) = (if c \<le> 2 then Success 0 0 else Failure (- of_nat c))"
    by (simp add: write_answer_def kernel_error [OF c] linux errno_linux_identity failed_small_error [OF c])
  then show ?thesis
    using write_stub [OF good aligned kernel] by (auto simp: call_done_def)
qed

text \<open>
  C9: \<open>syscall (4, fd, buf, len)\<close> is \<open>write (fd, buf, len)\<close>: the two stubs, one indirect and with every
  argument one register later, return the same value and leave the same \<open>errno\<close>, kernel state and
  memory outside the stack.
\<close>

theorem syscall_is_write:
  assumes good: "good_machine M" and aligned: "aligned_entry s" and number: "(ucast (gpr s RDI) :: c_int) = 4"
    and kernel: "kernel_writes M s (gpr s RSI) (gpr s RDX) (gpr s RCX) r k"
  defines "s' \<equiv> s\<lparr>gpr := (gpr s)(RDI := gpr s RSI, RSI := gpr s RDX, RDX := gpr s RCX)\<rparr>"
  shows "\<exists>t t'. darling_syscall M s = Inr t \<and> darling_write M s' = Inr t' \<and>
     gpr t RAX = gpr t' RAX \<and> darling_errno (world_of t) = darling_errno (world_of t') \<and>
     kstate (world_of t) = kstate (world_of t') \<and>
     (\<forall>x. \<not> stub_stack s x \<longrightarrow> cpu_mem t x = cpu_mem t' x)"
proof -
  have "aligned_entry s'" "kernel_writes M s' (gpr s' RDI) (gpr s' RSI) (gpr s' RDX) r k"
    using aligned kernel by (simp_all add: s'_def aligned_entry_def kernel_writes_def stub_stack_def)
  then obtain t t' where "darling_syscall M s = Inr t" "call_done s (write_answer (host M) r) k t"
    "darling_write M s' = Inr t'" "call_done s' (write_answer (host M) r) k t'"
    using syscall_stub [OF good aligned number kernel] write_stub [OF good, of s'] by blast
  then show ?thesis by (auto simp: call_done_def s'_def stub_stack_def)
qed

text \<open>
  C2: \<open>darling_pipe\<close> is \<open>pipe\<close>: the two descriptors, which the kernel wrote into a local array of
  \<open>sys_pipe\<close>, travel through the result structure, the saved registers and \<open>eax\<close> and \<open>edx\<close> into the
  array of the caller, and nothing else but the stack is written.
\<close>

theorem pipe_end_to_end:
  assumes "good_machine M" and "aligned_entry s" and "kernel_pipes M s a b k" and "pipe_fd_in_frame M s"
    and "disjoint_regions (gpr s RDI) 8 (gpr s RSP) 8"
  shows "\<exists>t. darling_pipe M s = Inr t \<and> returns_to_caller s t \<and> gpr t RAX = 0 \<and>
    load32 (cpu_mem t) (gpr s RDI) = a \<and> load32 (cpu_mem t) (gpr s RDI + 4) = b \<and>
    kstate (world_of t) = k \<and> darling_errno (world_of t) = darling_errno (world_of s) \<and>
    (\<forall>x. \<not> stub_stack s x \<and> \<not> in_region (gpr s RDI) 8 x \<longrightarrow> cpu_mem t x = cpu_mem s x)"
  using assms by (rule pipe_stub)

text \<open>
  C27: Every number without an implementation gives -1 and \<open>ENOSYS\<close> in \<open>errno\<close> through \<open>syscall\<close>, whatever
  its arguments; the kernel is not called, and the call returns with the stack pointer, the callee-saved
  registers and the memory of its caller as they were.
\<close>

theorem syscall_enosys:
  assumes "good_machine M" and "aligned_entry s" and "(ucast (gpr s RDI) :: c_int) \<notin> {4, 29, 42}"
  shows "\<exists>t. darling_syscall M s = Inr t \<and> returns_to_caller s t \<and> gpr t RAX = - 1 \<and>
    darling_errno (world_of t) = host_errno (host M) ''ENOSYS'' \<and> kstate (world_of t) = kstate (world_of s) \<and>
    (\<forall>x. \<not> stub_stack s x \<longrightarrow> cpu_mem t x = cpu_mem s x)"
  using enosys_through_syscall [OF assms] by (simp add: call_done_def)

text \<open>
  \<open>darling_recvmsg\<close> names an error function, \<open>cerror\<close>, that nothing defines; and as \<open>recvmsg\<close> has no
  implementation, every call reaches it.
\<close>

lemma recvmsg_needs_cerror:
  assumes "good_machine M" and "aligned_entry s"
  shows "darling_recvmsg M s = Inl (Unresolved_symbol ''cerror'')"
  using assms by (rule recvmsg_stub)


section \<open>Witnesses\<close>

definition machine_on :: "(c_int \<times> u64 list) list env \<Rightarrow> (c_int \<times> u64 list) list machine" where
  "machine_on e = example_machine\<lparr>host := e\<rparr>"

lemma good_machine_on: "enosys_is_error e \<Longrightarrow> good_machine (machine_on e)"
  using example_machine_good by (simp add: good_machine_def machine_on_def stack_discipline_def)

lemma host_machine_on [simp]: "host (machine_on e) = e"
  by (simp add: machine_on_def)

lemma good_forbidding: "good_machine (machine_on (forbidding_host c))"
  by (rule good_machine_on) (simp add: forbidding_host_def enosys_example_host)

lemma example_kernel_writes:
  "kernel_writes (machine_on example_host) (example_cpu 0) 1 0x5000 4 4 [(1, [1, 0x5000, 4, 0, 0, 0])]"
  by (simp add: kernel_writes_def example_cpu_good example_kernel_def)

theorem write_end_to_end_witness:
  "(\<exists>t. darling_write (machine_on example_host) (example_cpu 0) = Inr t \<and> gpr t RAX = 4 \<and>
     darling_errno (world_of t) = 0 \<and> kstate (world_of t) = [(1, [1, 0x5000, 4, 0, 0, 0])]) \<and>
   (\<exists>t. darling_write (machine_on (forbidding_host 9)) (example_cpu 0) = Inr t \<and> gpr t RAX = - 1 \<and>
     darling_errno (world_of t) = - 9)"
proof
  have errno: "darling_errno (world_of (example_cpu 0)) = 0"
    by (simp add: example_cpu_def example_world_def)
  show "\<exists>t. darling_write (machine_on example_host) (example_cpu 0) = Inr t \<and> gpr t RAX = 4 \<and>
     darling_errno (world_of t) = 0 \<and> kstate (world_of t) = [(1, [1, 0x5000, 4, 0, 0, 0])]"
    using write_end_to_end [OF good_machine_on [OF enosys_example_host] example_cpu_good(1) [of 0], where r = 4
        and k = "[(1, [1, 0x5000, 4, 0, 0, 0])]"]
    by (auto simp: example_cpu_good example_kernel_def sless_0_long errno)
  show "\<exists>t. darling_write (machine_on (forbidding_host 9)) (example_cpu 0) = Inr t \<and> gpr t RAX = - 1 \<and>
     darling_errno (world_of t) = - 9"
    using write_end_to_end [OF good_forbidding [of 9] example_cpu_good(1) [of 0], where r = "- 9" and k = "[]"]
    by (auto simp: example_cpu_good forbidding_host_def sless_0_long errno errno_linux_identity)
qed

theorem write_errors_on_linux_witness:
  "(\<exists>t. darling_write (machine_on (forbidding_host 9)) (example_cpu 0) = Inr t \<and>
      gpr t RAX = - 1 \<and> darling_errno (world_of t) = - 9) \<and>
   (\<exists>t. darling_write (machine_on (forbidding_host 1)) (example_cpu 0) = Inr t \<and> gpr t RAX = 0)"
proof -
  have errnos: "errno_h (host (machine_on (forbidding_host c))) = linux_errno" for c
    by (simp add: forbidding_host_def)
  have writes: "kernel_writes (machine_on (forbidding_host c)) (example_cpu 0) (gpr (example_cpu 0) RDI)
      (gpr (example_cpu 0) RSI) (gpr (example_cpu 0) RDX) (- of_nat c) []" for c
    by (simp add: kernel_writes_def example_cpu_good forbidding_host_def)
  note run = write_errors_on_linux [OF good_forbidding example_cpu_good(1) errnos _ _ writes]
  show ?thesis using run [of 9] run [of 1] by auto
qed

definition syscall_cpu :: "(c_int \<times> u64 list) list cpu" where
  "syscall_cpu = (example_cpu 0)\<lparr>gpr := (gpr (example_cpu 0))(RDI := 4, RSI := 1, RDX := 0x5000, RCX := 4)\<rparr>"

theorem syscall_is_write_witness:
  "\<exists>t t'. darling_syscall (machine_on example_host) syscall_cpu = Inr t \<and>
     darling_write (machine_on example_host)
       (syscall_cpu\<lparr>gpr := (gpr syscall_cpu)(RDI := 1, RSI := 0x5000, RDX := 4)\<rparr>) = Inr t' \<and>
     gpr t RAX = gpr t' RAX \<and> kstate (world_of t) = kstate (world_of t')"
proof -
  have regs: "gpr syscall_cpu RDI = 4" "gpr syscall_cpu RSI = 1" "gpr syscall_cpu RDX = 0x5000"
    "gpr syscall_cpu RCX = 4"
    by (simp_all add: syscall_cpu_def)
  have "aligned_entry syscall_cpu"
    using example_cpu_good(1) by (simp add: syscall_cpu_def aligned_entry_def)
  moreover have "kernel_writes (machine_on example_host) syscall_cpu 1 0x5000 4 4
      [(1, [1, 0x5000, 4, 0, 0, 0])]"
    using example_kernel_writes by (simp add: kernel_writes_def syscall_cpu_def stub_stack_def)
  ultimately show ?thesis
    using syscall_is_write [OF good_machine_on [OF enosys_example_host], of syscall_cpu]
    by (fastforce simp: regs)
qed

theorem syscall_enosys_witness:
  "\<exists>t. darling_syscall (machine_on example_host) (example_cpu 0) = Inr t \<and> gpr t RAX = - 1 \<and>
     darling_errno (world_of t) = 38"
  using syscall_enosys [OF good_machine_on [OF enosys_example_host] example_cpu_good(1), of 0]
  by (auto simp: example_cpu_good example_enosys)

theorem pipe_end_to_end_witness:
  "\<exists>t. darling_pipe (machine_on (example_host\<lparr>pipe_fd := 0x7FFE0000\<rparr>)) (example_cpu 0) = Inr t \<and>
     gpr t RAX = 0 \<and> load32 (cpu_mem t) 1 = 5 \<and> load32 (cpu_mem t) 5 = 6"
proof -
  let ?M = "machine_on (example_host\<lparr>pipe_fd := 0x7FFE0000\<rparr>)"
  have "good_machine ?M"
    by (rule good_machine_on) (use enosys_example_host in \<open>simp add: enosys_is_error_def host_errno_def\<close>)
  moreover have "kernel_pipes ?M (example_cpu 0) 5 6 [(22, [0x7FFE0000, 0, 0, 0, 0, 0])]"
    by (simp add: kernel_pipes_def example_cpu_good example_kernel_def)
  moreover have "pipe_fd_in_frame ?M (example_cpu 0)"
    by (simp add: pipe_fd_in_frame_def example_cpu_good STUB_STACK_def C_STACK_def)
  moreover have "disjoint_regions (gpr (example_cpu 0) RDI) 8 (gpr (example_cpu 0) RSP) 8"
    by (simp add: disjoint_regions_def example_cpu_good)
  ultimately show ?thesis
    using pipe_end_to_end [OF _ example_cpu_good(1)] by (fastforce simp: example_cpu_good)
qed

end
