(* ===== verification/Session.thy ===== *)
theory Session
  imports Libsyscall
begin

text \<open>
  The emulation over the life of a process, as a labelled transition system on the world.  A label is what
  the process does at the emulation's interface: it lets the bridge call the C handler, with any contents
  of the saved registers and of uninitialised variables, it calls \<open>__linux_syscall\<close> of \<open>common/base.c\<close> or one
  of the three functions of \<open>custom/errno.c\<close> that set \<open>errno\<close>, or it writes to its own memory.  A request
  that ends in a fault has no transition: the process is gone.

  The invariants say what a process finds after any sequence of these: \<open>errno\<close> is what the last error
  function set, and no request and no system call changes it; what was printed stays.
\<close>

section \<open>Steps\<close>

datatype event =
    Memory memory
  | Handle locals u64
  | Linux_call c_int "u64 list"
  | Set_cerror c_int
  | Cerror c_int
  | Cerror_nocancel c_int

inductive process_step :: "'k env \<Rightarrow> event \<Rightarrow> 'k world \<Rightarrow> 'k world \<Rightarrow> bool" for e :: "'k env" where
  Memory: "process_step e (Memory m) w (w\<lparr>mem := m\<rparr>)"
| Handle: "process_step e (Handle loc p) w w'"
    if "valid_locals loc" and "darling_handle_x86_64_syscall e loc p w = Inr (err, w')"
| Linux_call: "process_step e (Linux_call nr [a1, a2, a3, a4, a5, a6]) w w'"
    if "emul_linux_syscall e nr a1 a2 a3 a4 a5 a6 w = (r, w')"
| Set_cerror: "process_step e (Set_cerror err) w (darling_set_cerror err w)"
| Cerror: "process_step e (Cerror err) w w'" if "darling_cerror err w = (r, w')"
| Cerror_nocancel: "process_step e (Cerror_nocancel err) w w'" if "darling_cerror_nocancel err w = (r, w')"

inductive process_run :: "'k env \<Rightarrow> event list \<Rightarrow> 'k world \<Rightarrow> 'k world \<Rightarrow> bool" for e :: "'k env" where
  Done: "process_run e [] w w"
| Go: "process_run e (ev # evs) w w'" if "process_step e ev w v" and "process_run e evs v w'"

inductive_cases process_stepE: "process_step e ev w w'"
inductive_simps process_run_Nil: "process_run e [] w w'"
inductive_simps process_run_Cons: "process_run e (ev # evs) w w'"

section \<open>A request\<close>

lemma request_world:
  assumes run: "darling_handle_x86_64_syscall e loc p w = Inr (err, w')" and "valid_locals loc"
    and "enosys_is_error e" and linux: "platform e = Linux"
  shows "darling_errno w' = darling_errno w \<and> (\<exists>msgs. console w' = console w @ msgs)"
proof (cases "class_of (reg (mem w) p rax_off) = SYSCALL_CLASS_UNIX")
  case False
  then show ?thesis using run by (auto simp: handler_other_class)
next
  case True
  let ?s = "unix_service e (requested_number (mem w) p) (request_arg (mem (entered p w)) p) (entered p w)"
  have "delivered p ?s = Inr (err, w')" using run handler_service [OF True assms(2,3)] by simp
  then obtain ans v where v: "?s = Inr (err, ans, v)" and w': "w' = deliver p ans v" by (cases ?s) auto
  show ?thesis using unix_service_world(2,3) [OF v linux] by (auto simp: w')
qed

section \<open>Runs\<close>

text \<open>The number that an event puts into \<open>errno\<close>, if it is one that does.\<close>

fun errno_set :: "event \<Rightarrow> c_int option" where
  "errno_set (Set_cerror err) = Some err"
| "errno_set (Cerror err) = Some err"
| "errno_set (Cerror_nocancel err) = Some err"
| "errno_set ev = None"

fun last_errno :: "event list \<Rightarrow> c_int \<Rightarrow> c_int" where
  "last_errno [] old = old"
| "last_errno (ev # evs) old = last_errno evs (case errno_set ev of None \<Rightarrow> old | Some err \<Rightarrow> err)"

lemma step_world:
  assumes "process_step e ev w w'" and "enosys_is_error e" and "platform e = Linux"
  shows "darling_errno w' = last_errno [ev] (darling_errno w) \<and> (\<exists>msgs. console w' = console w @ msgs)"
  using assms(1)
proof cases
  case (Handle loc p err)
  then show ?thesis using request_world [OF Handle(3,2) assms(2,3)] by simp
qed (auto simp: darling_cerror_def darling_cerror_nocancel_def darling_set_cerror_def emul_linux_syscall_def
    linux_syscall_def say_def split: prod.splits)

text \<open>
  \<open>errno\<close> is what the last of the error functions set, over any run; and what was printed is never taken back.
\<close>

lemma errno_is_last_set:
  assumes "process_run e evs w w'" and "enosys_is_error e" and "platform e = Linux"
  shows "darling_get_cerror w' = last_errno evs (darling_get_cerror w) \<and> (\<exists>msgs. console w' = console w @ msgs)"
  using assms(1)
proof induction
  case (Go ev w v evs w')
  then show ?case using step_world [OF Go.hyps(1) assms(2,3)] by (auto simp: darling_get_cerror_def)
qed auto

text \<open>A request that fails, as the stub ends it: the handler, then \<open>darling_cerror\<close> with the error.\<close>

lemma failed_request_sets_errno:
  assumes "process_run e [Handle loc p, Cerror err] w w'" and "enosys_is_error e" and "platform e = Linux"
  shows "darling_get_cerror w' = err"
  using errno_is_last_set [OF assms] by simp

text \<open>The \<open>write\<close> of the example, and an error after it.\<close>

lemma example_run:
  "\<exists>w. process_run example_host [Handle example_locals 0x1000, Cerror 9] example_requests w \<and> darling_get_cerror w = 9"
proof -
  obtain v where "darling_handle_x86_64_syscall example_host example_locals 0x1000 example_requests = Inr (0, v)"
    using example_write_runs by blast
  then have "process_step example_host (Handle example_locals 0x1000) example_requests v"
    by (rule Handle [OF valid_example_locals(1)])
  moreover obtain r w where "darling_cerror 9 v = (r, w)" by (cases "darling_cerror 9 v")
  then have "process_step example_host (Cerror 9) v w" by (rule Cerror)
  ultimately have "process_run example_host [Handle example_locals 0x1000, Cerror 9] example_requests w"
    by (simp add: process_run_Cons process_run_Nil) blast
  then show ?thesis
    using failed_request_sets_errno [OF _ enosys_example_host example_host_fields(1)] by blast
qed

end
