(* ===== verification/Indirect_Calls.thy ===== *)
theory Indirect_Calls
  imports Libsyscall
begin

text \<open>
  Calls through \<open>darling_syscall\<close> end to end.  \<open>recvfrom\<close>, as \<open>src/test/indirect_syscall/\<close> calls it, has six
  arguments after the number, so that the last one, the pointer to the address length, is on the stack
  of the caller; the kernel fills the buffer, the address and its length, and the address is converted
  in place to the BSD layout.  And every call returns, whatever number and arguments it is given, but for
  three faults that \<open>recvfrom\<close> with an address can meet.
\<close>

unbundle bit_operations_syntax

section \<open>What the kernel receives\<close>

text \<open>Memory in which the bytes in \<open>R\<close> were received.\<close>

definition received :: "(u64 \<Rightarrow> bool) \<Rightarrow> (u64 \<Rightarrow> u8) \<Rightarrow> memory \<Rightarrow> memory" where
  "received R data m x = (if R x then data x else m x)"

text \<open>
  Asked in the state \<open>s\<close> to receive, the kernel answers \<open>r\<close> and writes \<open>data\<close> to the bytes in \<open>R\<close>; it
  does not depend on the stub's stack.
\<close>

definition kernel_receives ::
  "'k machine \<Rightarrow> 'k cpu \<Rightarrow> u64 list \<Rightarrow> (u64 \<Rightarrow> bool) \<Rightarrow> (u64 \<Rightarrow> u8) \<Rightarrow> u64 \<Rightarrow> 'k \<Rightarrow> bool" where
  "kernel_receives M s regs R data r k \<longleftrightarrow> platform (host M) = Linux \<and>
     (\<forall>m. (\<forall>x. \<not> stub_stack s x \<longrightarrow> m x = cpu_mem s x) \<longrightarrow>
        kernel (host M) 45 regs (kstate (world_of s)) m = (r, k, received R data m))"

text \<open>The registers of the kernel call: the program's arguments, one place later than in a direct call.\<close>

definition recvfrom_regs :: "'k cpu \<Rightarrow> u64 list" where
  "recvfrom_regs s =
     [scast (ucast (gpr s RSI) :: c_int), gpr s RDX, gpr s RCX, scast (ucast (gpr s R8) :: c_int),
      gpr s R9, load64 (cpu_mem s) (gpr s RSP + 8)]"

text \<open>Bytes of the caller: neither in the stack of the stub nor its return address.\<close>

definition of_caller :: "'k cpu \<Rightarrow> u64 \<Rightarrow> bool" where
  "of_caller s x \<longleftrightarrow> \<not> stub_stack s x \<and> \<not> in_region (gpr s RSP) 8 x"

definition belongs_to_caller :: "'k cpu \<Rightarrow> (u64 \<Rightarrow> bool) \<Rightarrow> bool" where
  "belongs_to_caller s S \<longleftrightarrow> (\<forall>x. S x \<longrightarrow> of_caller s x)"

lemma belongsD: "belongs_to_caller s S \<Longrightarrow> S x \<Longrightarrow> of_caller s x"
  by (simp add: belongs_to_caller_def)

text \<open>The address as the program finds it: length and family in the BSD layout.\<close>

definition bsd_address :: "'k env \<Rightarrow> u64 \<Rightarrow> c_int \<Rightarrow> memory \<Rightarrow> memory" where
  "bsd_address e from len m =
     m(from + 1 := ucast (sfamily_linux_to_bsd (socket_h e) (ucast (linux_family m from))),
       from := ucast len)"

section \<open>The frame of the call\<close>

lemma frame_of_stub:
  assumes "in_region (saved_at (trapped ret name s) - 8) 136 x"
  shows "\<not> of_caller s x"
proof
  assume caller: "of_caller s x"
  let ?p = "saved_at (trapped ret name s) - 8"
  have at: "gpr s RSP - of_nat STUB_STACK + (?p - (gpr s RSP - of_nat STUB_STACK)) = ?p" by simp
  have off: "?p - (gpr s RSP - of_nat STUB_STACK) = of_nat C_STACK"
    by (simp add: saved_at_def trapped_gpr STUB_STACK_def)
  have low: "unat (x - ?p) < 136" using assms by simp
  have "\<not> unat (x - ?p) < 128"
  proof
    assume "unat (x - ?p) < 128"
    then have "in_region (gpr s RSP - of_nat STUB_STACK + of_nat C_STACK) 128 x"
      unfolding off [symmetric] at by simp
    then have "in_region (gpr s RSP - of_nat STUB_STACK) STUB_STACK x"
      by (rule in_region_part) (simp_all add: STUB_STACK_def C_STACK_def)
    with caller show False by (simp add: of_caller_def stub_stack_def)
  qed
  then have "unat (x - ?p - 128) = unat (x - ?p) - 128"
    by (subst unat_sub) (simp_all add: word_le_nat_alt)
  moreover have "x - gpr s RSP = x - ?p - 128" by (simp add: saved_at_def trapped_gpr)
  ultimately have "unat (x - gpr s RSP) = unat (x - ?p) - 128" by (simp only:)
  then have "unat (x - gpr s RSP) < 8" using low by linarith
  with caller show False by (simp add: of_caller_def)
qed

lemma load32_caller:
  assumes "\<And>x. \<not> stub_stack s x \<Longrightarrow> m x = m' x" and "belongs_to_caller s (in_region a 4)"
  shows "load32 m a = load32 m' a"
proof (rule d.ld_frame)
  fix i :: nat assume "i < 4"
  then have "in_region a 4 (a + of_nat i)" by (simp add: unat_of_nat_lt [of i 4])
  then show "m (a + of_nat i) = m' (a + of_nat i)"
    using assms(1) belongsD [OF assms(2)] by (simp add: of_caller_def)
qed

lemma linux_family_caller:
  assumes "\<And>x. \<not> stub_stack s x \<Longrightarrow> m x = m' x" and "belongs_to_caller s (in_region a 2)"
  shows "linux_family m a = linux_family m' a"
proof -
  have "of_caller s a" "of_caller s (a + 1)" by (rule belongsD [OF assms(2)], simp)+
  then show ?thesis using assms(1) by (simp add: linux_family_alt of_caller_def)
qed

section \<open>The service\<close>

lemma bsd_address_outside: "\<not> in_region from 2 x \<Longrightarrow> bsd_address e from len m x = m x"
  by (auto simp: bsd_address_def)

lemma bsd_address_cong:
  assumes "m x = m' x" and "linux_family m from = linux_family m' from"
  shows "bsd_address e from len m x = bsd_address e from len m' x"
  using assms by (simp add: bsd_address_def)

lemma store32_cong: "m x = m' x \<Longrightarrow> store32 m a v x = store32 m' a v x"
  by (simp add: store32_def store_bytes_def)

lemma recvfrom_service_answer:
  fixes s :: "'k cpu" and ret name R data
  defines "u \<equiv> trapped ret name s" and "from \<equiv> gpr s R9" and "fromlen \<equiv> load64 (cpu_mem s) (gpr s RSP + 8)"
    and "m \<equiv> received R data (cpu_mem s)"
  assumes good: "good_machine M" and kernel: "kernel_receives M s (recvfrom_regs s) R data r k"
    and r: "\<not> (ucast r :: c_int) <s 0"
    and args: "a 0 = gpr s RSI" "a 1 = gpr s RDX" "a 2 = gpr s RCX" "a 3 = gpr s R8" "a 4 = from" "a 5 = fromlen"
    and R: "belongs_to_caller s R" and nonnull: "from \<noteq> 0" "fromlen \<noteq> 0"
    and addr: "belongs_to_caller s (in_region from 2)"
    and lenp: "belongs_to_caller s (in_region fromlen 4)"
    and len: "\<not> load32 m fromlen <s 0"
    and family: "ucast (ucast (sfamily_linux_to_bsd (socket_h (host M)) (ucast (linux_family m from))) :: u8)
      \<noteq> socket_h (host M) PF_LOCAL"
  shows "\<exists>v. unix_service (host M) 29 a (handler_world M u)
      = Inr (0, Success (scast (ucast r :: c_int)) 0, v) \<and>
    frame_kept u (mem (handler_world M u)) (mem v) \<and> kstate v = k \<and>
    darling_errno v = darling_errno (world_of s) \<and>
    (\<forall>x. \<not> stub_stack s x \<longrightarrow> mem v x =
       store32 (bsd_address (host M) from (load32 m fromlen) m) fromlen
         (load32 m fromlen) x)"
proof -
  let ?h = "mem (handler_world M u)"
  let ?m = "received R data ?h" and ?n = "load32 m fromlen"
  let ?m' = "store32 (bsd_address (host M) from ?n ?m) fromlen ?n"
  have linux: "platform (host M) = Linux" using kernel by (simp add: kernel_receives_def)
  have start: "kstate (world_of u) = kstate (world_of s)" "darling_errno (world_of u) = darling_errno (world_of s)"
    by (simp_all add: u_def)
  have same0: "\<forall>x. \<not> stub_stack s x \<longrightarrow> ?h x = cpu_mem s x"
    unfolding u_def using trapped_handler_memory [OF good] by blast
  then have same: "?m x = m x" if "\<not> stub_stack s x" for x
    using that by (simp add: received_def m_def)
  have lens: "load32 ?m fromlen = ?n" by (rule load32_caller [OF same lenp])
  have fams: "linux_family ?m from = linux_family m from" by (rule linux_family_caller [OF same addr])
  have call: "kernel (host M) 45 (recvfrom_regs s) (kstate (world_of s)) ?h = (r, k, ?m)"
    using kernel same0 by (simp only: kernel_receives_def)
  have fixup: "sockaddr_fixup_from_linux (host M) from from ?n ?m = Inr (?n, bsd_address (host M) from ?n ?m)"
    using sockaddr_from_linux_other_family [OF len, of "host M" ?m "from"] family fams
    by (simp add: bsd_address_def)
  let ?v = "(handler_world M u)\<lparr>console := console (handler_world M u) @ [In_syscall_unix],
    kstate := k, mem := ?m'\<rparr>"
  have "unix_service (host M) 29 a (handler_world M u) = Inr (0, Success (scast (ucast r :: c_int)) 0, ?v)"
    using call [unfolded recvfrom_regs_def] r nonnull
    by (simp add: unix_service_def recvfrom_service_def args linux linux_syscall_def lens fixup len say_def start
        from_def [symmetric] fromlen_def [symmetric] Let_def del: One_nat_def)
  moreover have "?m' x = ?h x" if "\<not> of_caller s x" for x
  proof -
    have "\<not> R x" "\<not> in_region from 2 x" "\<not> in_region fromlen 4 x" using that belongsD [OF R] belongsD [OF addr] belongsD [OF lenp] by blast+
    then show ?thesis by (simp add: d.st_outside bsd_address_outside received_def)
  qed
  then have "frame_kept u ?h ?m'"
    unfolding frame_kept_def u_def using frame_of_stub by blast
  moreover have "?m' x = store32 (bsd_address (host M) from ?n m) fromlen ?n x"
    if "\<not> stub_stack s x" for x
    by (rule store32_cong, rule bsd_address_cong [OF same [OF that] fams])
  ultimately show ?thesis by (intro exI [of _ ?v]) (simp add: start)
qed

section \<open>Through \<open>syscall\<close>\<close>

lemma indirect_request:
  fixes s :: "'k cpu" and ret :: u64
  defines "u \<equiv> trapped ret ''syscall'' s"
  shows "cpu_number u = ucast (gpr s RDI)" "cpu_request_arg u 0 = gpr s RSI" "cpu_request_arg u 1 = gpr s RDX"
    "cpu_request_arg u 2 = gpr s RCX" "cpu_request_arg u 3 = gpr s R8" "cpu_request_arg u 4 = gpr s R9"
proof -
  have "get_sysnum (gpr u RAX) = 0" by (simp add: u_def trapped_request SYS_used)
  then show "cpu_number u = ucast (gpr s RDI)" "cpu_request_arg u 0 = gpr s RSI"
    "cpu_request_arg u 1 = gpr s RDX" "cpu_request_arg u 2 = gpr s RCX" "cpu_request_arg u 3 = gpr s R8"
    "cpu_request_arg u 4 = gpr s R9"
    by (simp_all add: cpu_number_def cpu_request_arg_def cpu_arg_def trapped_args u_def)
qed

text \<open>The last argument is on the stack of the caller, above its return address.\<close>

lemma indirect_stack_argument:
  "cpu_request_arg (trapped ret ''syscall'' s) 5 = load64 (cpu_mem s) (gpr s RSP + 8)"
proof -
  have "get_sysnum (gpr (trapped ret ''syscall'' s) RAX) = 0" by (simp add: trapped_request SYS_used)
  moreover have "load64 (cpu_mem (trapped ret ''syscall'' s)) (gpr s RSP + 8)
      = load64 (cpu_mem s) (gpr s RSP + 8)"
    by (simp add: trapped_def mem_simps)
  ultimately show ?thesis
    by (simp add: cpu_request_arg_def cpu_arg_def trapped_gpr add.commute)
qed

lemma recvfrom_stub:
  fixes s :: "'k cpu" and R data
  defines "from \<equiv> gpr s R9" and "fromlen \<equiv> load64 (cpu_mem s) (gpr s RSP + 8)"
    and "m \<equiv> received R data (cpu_mem s)"
  assumes good: "good_machine M" and aligned: "aligned_entry s" and number: "(ucast (gpr s RDI) :: c_int) = 29"
    and kernel: "kernel_receives M s (recvfrom_regs s) R data r k" and r: "\<not> (ucast r :: c_int) <s 0"
    and R: "belongs_to_caller s R" and nonnull: "from \<noteq> 0" "fromlen \<noteq> 0"
    and addr: "belongs_to_caller s (in_region from 2)"
    and lenp: "belongs_to_caller s (in_region fromlen 4)"
    and len: "\<not> load32 m fromlen <s 0"
    and family: "ucast (ucast (sfamily_linux_to_bsd (socket_h (host M)) (ucast (linux_family m from))) :: u8)
      \<noteq> socket_h (host M) PF_LOCAL"
  shows "\<exists>t. darling_syscall M s = Inr t \<and> returns_to_caller s t \<and> gpr t RAX = scast (ucast r :: c_int) \<and>
    darling_errno (world_of t) = darling_errno (world_of s) \<and> kstate (world_of t) = k \<and>
    (\<forall>x. \<not> stub_stack s x \<longrightarrow> cpu_mem t x =
       store32 (bsd_address (host M) from (load32 m fromlen) m) fromlen (load32 m fromlen) x)"
proof -
  let ?ret = "next_rip M ''___darling_syscall'' 5"
  let ?u = "trapped ?ret ''syscall'' s"
  obtain v where v: "unix_service (host M) (cpu_number ?u) (cpu_request_arg ?u) (handler_world M ?u)
      = Inr (0, Success (scast (ucast r :: c_int)) 0, v)"
    "frame_kept ?u (mem (handler_world M ?u)) (mem v)" "kstate v = k"
    "darling_errno v = darling_errno (world_of s)"
    and mem: "\<forall>x. \<not> stub_stack s x \<longrightarrow> mem v x =
       store32 (bsd_address (host M) from (load32 m fromlen) m) fromlen (load32 m fromlen) x"
    using recvfrom_service_answer [where R = R and data = data and ret = ?ret and name = "''syscall''"
          and a = "cpu_request_arg ?u", OF good kernel r indirect_request(2-6)
        indirect_stack_argument R nonnull [unfolded from_def fromlen_def]
        addr [unfolded from_def] lenp [unfolded fromlen_def] len [unfolded m_def fromlen_def]
        family [unfolded m_def from_def]]
    unfolding indirect_request(1) number from_def fromlen_def m_def by blast
  obtain t where "darling_syscall M s = Inr t" "call_returns s (Success (scast (ucast r :: c_int)) 0) v t"
    using stub_returns [OF good aligned v(1,2,4) refl]
    by (auto simp: darling_syscall_def syscall_code_def SYSCALL_def)
  then show ?thesis using v(3) mem by (auto simp: call_returns_def)
qed

text \<open>
  C24: \<open>syscall (29, fd, buf, len, flags, from, fromlen)\<close> is \<open>recvfrom\<close>: the kernel is called with the six
  arguments, the last one taken from the stack of the caller; its result is returned; the program finds
  the received bytes, the address in the BSD layout with its length in its first byte, and \<open>errno\<close> as it was.
\<close>

theorem recvfrom_end_to_end:
  fixes s :: "'k cpu" and R data
  defines "from \<equiv> gpr s R9" and "fromlen \<equiv> load64 (cpu_mem s) (gpr s RSP + 8)"
    and "m \<equiv> received R data (cpu_mem s)"
  assumes good: "good_machine M" and aligned: "aligned_entry s" and number: "(ucast (gpr s RDI) :: c_int) = 29"
    and kernel: "kernel_receives M s (recvfrom_regs s) R data r k" and r: "\<not> (ucast r :: c_int) <s 0"
    and R: "belongs_to_caller s R" and nonnull: "from \<noteq> 0" "fromlen \<noteq> 0"
    and addr: "belongs_to_caller s (in_region from 2)"
    and lenp: "belongs_to_caller s (in_region fromlen 4)"
    and len: "\<not> load32 m fromlen <s 0"
    and family: "ucast (ucast (sfamily_linux_to_bsd (socket_h (host M)) (ucast (linux_family m from))) :: u8)
      \<noteq> socket_h (host M) PF_LOCAL"
  shows "\<exists>t. darling_syscall M s = Inr t \<and> returns_to_caller s t \<and> gpr t RAX = scast (ucast r :: c_int) \<and>
    darling_errno (world_of t) = darling_errno (world_of s) \<and> kstate (world_of t) = k \<and>
    (\<forall>x. \<not> stub_stack s x \<longrightarrow> cpu_mem t x =
       store32 (bsd_address (host M) from (load32 m fromlen) m) fromlen (load32 m fromlen) x)"
  using assms(4-) unfolding from_def fromlen_def m_def by (rule recvfrom_stub)

section \<open>Every call of \<open>syscall\<close>\<close>

text \<open>The conversion of the address writes to the structure only, and has two ways to fail.\<close>

lemma sockaddr_fixup_in_place:
  assumes "sockaddr_fixup_from_linux e p p len m = Inr (n, m')" and "\<not> in_region p 106 x"
  shows "m' x = m x"
  using assms(1) outside_structure [OF assms(2)]
  by (auto simp: sockaddr_fixup_from_linux_def memcpy_same set_bsd_family_alt set_bsd_length_alt
      set_sun_path_outside Let_def split: if_splits option.splits prod.splits)

lemma sockaddr_fixup_faults:
  "sockaddr_fixup_from_linux e p p len m = Inl f \<Longrightarrow> f \<in> {Memcpy_range, Strcpy_overflow}"
  by (auto simp: sockaddr_fixup_from_linux_def Let_def split: if_splits option.splits prod.splits)

text \<open>What a service wrote to memory, beside what the kernel did, and the faults it may end in.\<close>

lemma unix_service_writes:
  assumes "platform e = Linux" and "unix_service e nr a w = Inr (err, ans, v)"
    and "nr = 29 \<and> a 4 \<noteq> 0 \<longrightarrow> \<not> in_region (a 4) 106 x \<and> \<not> in_region (a 5) 4 x"
  shows "mem v x = (case kernel_answer e nr a w of None \<Rightarrow> mem w x | Some (r, k, m) \<Rightarrow> m x)"
proof (cases "nr = 29 \<and> a 4 \<noteq> 0")
  case True
  obtain q where "kernel_answer e nr a w = Some q"
    using True by (auto simp: kernel_answer_def kernel_request_def)
  then obtain r k m where answer: "kernel_answer e nr a w = Some (r, k, m)" by (cases q) auto
  have "mem v x = m x"
    using assms True answer
    by (auto simp: unix_service_def recvfrom_service_def linux_syscall_def kernel_answer_def
        kernel_request_def d.st_outside Let_def sockaddr_fixup_in_place split: if_splits sum.splits prod.splits)
  then show ?thesis by (simp add: answer)
next
  case False
  then show ?thesis
    using assms(1,2)
    by (auto simp: unix_service_def write_service_def recvfrom_service_def pipe_service_def no_service_def
        linux_syscall_def kernel_answer_def kernel_request_def Let_def split: if_splits prod.splits)
qed

lemma unix_service_faults:
  assumes "platform e = Linux" and "unix_service e nr a w = Inl f"
  shows "nr = 29 \<and> a 4 \<noteq> 0 \<and> (if a 5 = 0 then f = Null_deref else f \<in> {Memcpy_range, Strcpy_overflow})"
  using assms
  by (auto simp: unix_service_def write_service_def recvfrom_service_def pipe_service_def no_service_def
      linux_syscall_def Let_def split: if_splits prod.splits sum.splits dest!: sockaddr_fixup_faults)

text \<open>A fault of the service ends the bridge and the stub.\<close>

lemma bridge_faults:
  assumes "aligned_entry s" and "good_machine M" and "class_of (gpr s RAX) = SYSCALL_CLASS_UNIX"
    and fault: "unix_service (host M) (cpu_number s) (cpu_request_arg s) (handler_world M s) = Inl f"
  shows "asmbridge M s = Inl f"
proof -
  let ?p = "saved_at s" and ?hw = "handler_world M s" and ?h = "handed_over M s"
  have "unix_service (host M) (cpu_number s) (request_arg (mem ?hw) ?p) ?hw = Inl f"
    unfolding fault [symmetric] by (rule unix_service_args_cong) (rule request_arg_of_cpu)
  then have handler: "darling_handle_x86_64_syscall (host M) (uninitialised M) ?p (world_of ?h) = Inl f"
    using handler_service [of "world_of ?h" ?p "uninitialised M" "host M"] assms(2,3)
    by (simp add: request_of_cpu handler_world_def good_machine_def)
  have "gpr ?h RSP + 8 = gpr s RSP + 8 + (- 112)" by (simp add: handed_over_gpr saved_at_def)
  moreover have "unat (- 112 :: u64) mod 16 = 0" by (simp add: unat_minus_112)
  ultimately have "(gpr ?h RSP + 8) AND 15 = 0"
    using assms(1) unfolding aligned_entry_def by (simp only: aligned_shift)
  then have "c_handler M ?h = Inl f"
    using handler by (simp add: c_handler_def c_function_def handed_over_gpr)
  then show ?thesis
    by (simp add: asmbridge_def asmbridge_code_def exec_ops saved_def [symmetric]
        darling_handle_symbols_def handed_over_def bridge_rip_def)
qed

lemma stub_faults:
  assumes "asmbridge M (trapped (next_rip M ''___darling_syscall'' 5) ''syscall'' s) = Inl f"
  shows "darling_syscall M s = Inl f"
proof -
  let ?ops = "[Movl_imm (SYSCALL_CONSTRUCT_UNIX (SYS ''syscall'')) RAX, Mov RCX R10, Push RBP, Mov RSP RBP]"
    and ?tail = "[Op (Pop RBP), Jnb 2, Op (Mov RAX RDI), Jmp ''darling_cerror'', Ret]"
  have code: "syscall_code = map Op ?ops @ Call ''___darling_handle_x86_64_syscall'' # ?tail"
    by (simp add: syscall_code_def SYSCALL_def PSEUDO_def LEAF_0 macro_defs)
  have len: "length ?tail = 5" by simp
  have at: "push (next_rip M ''___darling_syscall'' 5) (fold step ?ops s)
      = trapped (next_rip M ''___darling_syscall'' 5) ''syscall'' s"
    by (simp add: trapped_def)
  show ?thesis
    unfolding darling_syscall_def code by (simp only: exec_ops exec.simps symbols(1) option.case len at assms sum.case)
qed

text \<open>
  The system call that this call of \<open>syscall\<close> makes, whatever the stub's stack holds, does not write to
  the frames of the stub and the bridge: 128 bytes below the return address of the stub, and the return
  address.  It is so when the buffers the program passes are not part of the stack it calls with.
\<close>

definition syscall_args :: "'k cpu \<Rightarrow> u64 list" where
  "syscall_args s =
     [gpr s RSI, gpr s RDX, gpr s RCX, gpr s R8, gpr s R9, load64 (cpu_mem s) (gpr s RSP + 8)]"

definition kernel_spares :: "'k machine \<Rightarrow> 'k cpu \<Rightarrow> bool" where
  "kernel_spares M s \<longleftrightarrow> (\<forall>nr regs m r k m'.
     kernel_request (host M) (ucast (gpr s RDI)) (\<lambda>i. syscall_args s ! i) = Some (nr, regs) \<and>
     (\<forall>x. \<not> stub_stack s x \<longrightarrow> m x = cpu_mem s x) \<and>
     kernel (host M) nr regs (kstate (world_of s)) m = (r, k, m') \<longrightarrow>
       (\<forall>x. in_region (gpr s RSP - 128) 136 x \<longrightarrow> m' x = m x))"

lemma kernel_request_args_cong:
  "(\<And>i. i < 6 \<Longrightarrow> a i = b i) \<Longrightarrow> kernel_request e nr a = kernel_request e nr b"
  by (simp add: kernel_request_def)

lemma less_6: "i < 6 \<longleftrightarrow> i = 0 \<or> i = 1 \<or> i = 2 \<or> i = 3 \<or> i = 4 \<or> i = (5 :: nat)"
  by linarith

lemma indirect_args:
  "i < 6 \<Longrightarrow> cpu_request_arg (trapped ret ''syscall'' s) i = syscall_args s ! i"
  unfolding less_6
  by (elim disjE) (simp_all add: indirect_request [simplified] indirect_stack_argument syscall_args_def)

lemma kernel_answer_spares:
  fixes s :: "'k cpu" and M :: "'k machine"
  defines "u \<equiv> trapped (next_rip M ''___darling_syscall'' 5) ''syscall'' s"
  assumes "good_machine M" and "kernel_spares M s"
    and "kernel_answer (host M) (cpu_number u) (cpu_request_arg u) (handler_world M u) = Some (r, k, m)"
    and "in_region (gpr s RSP - 128) 136 x"
  shows "m x = mem (handler_world M u) x"
proof -
  have "kernel_request (host M) (cpu_number u) (cpu_request_arg u)
      = kernel_request (host M) (ucast (gpr s RDI)) (\<lambda>i. syscall_args s ! i)"
    unfolding u_def indirect_request(1) by (rule kernel_request_args_cong) (rule indirect_args)
  then obtain nr regs
    where "kernel_request (host M) (ucast (gpr s RDI)) (\<lambda>i. syscall_args s ! i) = Some (nr, regs)"
      and "kernel (host M) nr regs (kstate (world_of s)) (mem (handler_world M u)) = (r, k, m)"
    using assms(4) by (auto simp: kernel_answer_def u_def)
  moreover have "\<forall>x. \<not> stub_stack s x \<longrightarrow> mem (handler_world M u) x = cpu_mem s x"
    unfolding u_def using trapped_handler_memory [OF assms(2)] by blast
  ultimately show ?thesis using assms(3,5) unfolding kernel_spares_def by blast
qed

text \<open>
  C25: A call of \<open>syscall\<close>, whatever its number, its arguments and the answer of the kernel, returns to its
  caller with the callee-saved registers and the stack as they were, and changes \<open>errno\<close> only when it
  returns -1.  The exception is \<open>recvfrom\<close> with a place for the address, which may end in a fault: at the
  pointer to its length when that is null, else in the conversion of the address.  The buffers of the
  call are the caller's: the kernel does not write to the frames of the stub and the bridge, and the
  address of \<open>recvfrom\<close> and its length lie outside them.
\<close>

theorem syscall_returns:
  fixes s :: "'k cpu" and M :: "'k machine"
  defines "number \<equiv> ucast (gpr s RDI) :: c_int" and "from \<equiv> gpr s R9"
    and "fromlen \<equiv> load64 (cpu_mem s) (gpr s RSP + 8)"
  assumes good: "good_machine M" and aligned: "aligned_entry s" and linux: "platform (host M) = Linux"
    and spares: "kernel_spares M s"
    and address: "number = 29 \<Longrightarrow> from \<noteq> 0 \<Longrightarrow>
      belongs_to_caller s (in_region from 106) \<and> belongs_to_caller s (in_region fromlen 4)"
  shows "(\<exists>t. darling_syscall M s = Inr t \<and> returns_to_caller s t \<and>
      (gpr t RAX = - 1 \<or> darling_errno (world_of t) = darling_errno (world_of s))) \<or>
    number = 29 \<and> from \<noteq> 0 \<and>
      (if fromlen = 0 then darling_syscall M s = Inl Null_deref
       else darling_syscall M s = Inl Memcpy_range \<or> darling_syscall M s = Inl Strcpy_overflow)"
proof -
  let ?u = "trapped (next_rip M ''___darling_syscall'' 5) ''syscall'' s"
  let ?w = "handler_world M ?u" and ?nr = "cpu_number ?u" and ?a = "cpu_request_arg ?u"
  have request: "?nr = number" "?a 4 = from" "?a 5 = fromlen"
    by (simp_all add: indirect_request indirect_stack_argument number_def from_def fromlen_def)
  show ?thesis
  proof (cases "unix_service (host M) ?nr ?a ?w")
    case (Inl f)
    have "asmbridge M ?u = Inl f"
      by (rule bridge_faults [OF aligned_trapped [OF aligned] good trapped_request(1) Inl])
    then have "darling_syscall M s = Inl f" by (rule stub_faults)
    then show ?thesis using unix_service_faults [OF linux Inl] by (auto simp: request split: if_splits)
  next
    case (Inr res)
    obtain err ans v where v: "unix_service (host M) ?nr ?a ?w = Inr (err, ans, v)"
      using Inr by (cases res) auto
    have at: "saved_at ?u - 8 = gpr s RSP - 128" by (simp add: saved_at_def trapped_gpr)
    have "frame_kept ?u (mem ?w) (mem v)"
      unfolding frame_kept_def
    proof (intro allI impI)
      fix x assume x: "in_region (saved_at ?u - 8) 136 x"
      from frame_of_stub [OF this] address
      have "?nr = 29 \<and> ?a 4 \<noteq> 0 \<longrightarrow> \<not> in_region (?a 4) 106 x \<and> \<not> in_region (?a 5) 4 x"
        unfolding request by (auto simp: belongs_to_caller_def)
      from unix_service_writes [OF linux v this] show "mem v x = mem ?w x"
        using kernel_answer_spares [OF good spares _ x [unfolded at]] by (simp split: option.splits)
    qed
    moreover have "darling_errno v = darling_errno (world_of s)"
      using unix_service_world(2) [OF v linux] by simp
    ultimately obtain t where "darling_syscall M s = Inr t" "call_returns s ans v t"
      using stub_returns [OF good aligned v _ _ refl]
      by (auto simp: darling_syscall_def syscall_code_def SYSCALL_def)
    then show ?thesis by (cases ans) (auto simp: call_returns_def)
  qed
qed

section \<open>Witnesses\<close>

text \<open>
  Four bytes arrive at \<open>0x5000\<close>, from an IPv4 address of 16 bytes, as Linux writes it (family 2), at \<open>0x6000\<close>;
  the length is at \<open>0x7000\<close>.
\<close>

definition arrived :: "u64 \<Rightarrow> bool" where
  "arrived x \<longleftrightarrow> in_region 0x5000 4 x \<or> in_region 0x6000 16 x \<or> in_region 0x7000 4 x"

definition arrived_data :: "u64 \<Rightarrow> u8" where
  "arrived_data = (\<lambda>_. 0)(0x5000 := 72, 0x6000 := 2, 0x7000 := 16)"

definition receiving_host :: "(c_int \<times> u64 list) list env" where
  "receiving_host = example_host\<lparr>kernel := \<lambda>nr as k m. (4, k @ [(nr, as)], received arrived arrived_data m)\<rparr>"

definition receiving_cpu :: "(c_int \<times> u64 list) list cpu" where
  "receiving_cpu =
     (example_cpu 0)\<lparr>gpr := (gpr (example_cpu 0))(RDI := 29, RSI := 3, RDX := 0x5000, RCX := 1024, R8 := 0, R9 := 0x6000),
       world_of := example_world\<lparr>mem := store64 (\<lambda>_. 0) 0x7FFF0010 0x7000\<rparr>\<rparr>"

lemma receiving_cpu_regs:
  "gpr receiving_cpu RDI = 29" "gpr receiving_cpu RSI = 3" "gpr receiving_cpu RDX = 0x5000"
  "gpr receiving_cpu RCX = 1024" "gpr receiving_cpu R8 = 0" "gpr receiving_cpu R9 = 0x6000"
  "gpr receiving_cpu RSP = 0x7FFF0008" "load64 (cpu_mem receiving_cpu) 0x7FFF0010 = 0x7000"
  "kstate (world_of receiving_cpu) = []"
  by (simp_all add: receiving_cpu_def example_cpu_def example_world_def q.ld_st_same)

lemma low_address_of_caller:
  assumes "unat x < 0x8000"
  shows "of_caller receiving_cpu x"
proof -
  have "unat (x - b) = unat x + 2 ^ 64 - unat b" if "0x8000 \<le> unat b" for b :: u64
    using assms that by (simp add: unat_sub_if' word_le_nat_alt)
  from this [of "0x7FFF0008 - of_nat STUB_STACK"] this [of "0x7FFF0008"] assms show ?thesis
    by (simp add: of_caller_def stub_stack_def receiving_cpu_regs STUB_STACK_def C_STACK_def)
qed

lemma low_region:
  assumes "in_region a n x" and "unat a + n \<le> 0x8000"
  shows "of_caller receiving_cpu x"
proof (rule low_address_of_caller)
  have "unat ((x - a) + a) = unat (x - a) + unat a"
    by (rule unat_add_lem [THEN iffD1]) (use assms in simp)
  then show "unat x < 0x8000" using assms by simp
qed

lemma receiving_regions:
  "belongs_to_caller receiving_cpu arrived" "belongs_to_caller receiving_cpu (in_region 0x6000 2)"
  "belongs_to_caller receiving_cpu (in_region 0x7000 4)"
  unfolding belongs_to_caller_def arrived_def
  using low_region [where a = "0x5000" and n = 4] low_region [where a = "0x6000" and n = 16]
    low_region [where a = "0x7000" and n = 4] low_region [where a = "0x6000" and n = 2]
  by auto

lemma received_address:
  "linux_family (received arrived arrived_data m) 0x6000 = 2"
  "load32 (received arrived arrived_data m) 0x7000 = 16"
  by (simp_all add: linux_family_alt load32_def load_bytes_def upt_rec received_def arrived_def arrived_data_def)

theorem recvfrom_end_to_end_witness:
  "\<exists>t. darling_syscall (machine_on receiving_host) receiving_cpu = Inr t \<and> gpr t RAX = 4 \<and>
     cpu_mem t 0x5000 = 72 \<and> cpu_mem t 0x6000 = 16 \<and> cpu_mem t 0x6001 = 2 \<and>
     kstate (world_of t) = [(45, [3, 0x5000, 1024, 0, 0x6000, 0x7000])]"
proof -
  have host: "socket_h receiving_host = linux_socket_h" "platform receiving_host = Linux"
    by (simp_all add: receiving_host_def example_host_def)
  have good: "good_machine (machine_on receiving_host)"
    by (rule good_machine_on) (use enosys_example_host in \<open>simp add: receiving_host_def enosys_is_error_def host_errno_def\<close>)
  have aligned: "aligned_entry receiving_cpu"
    using example_cpu_good(1) by (simp add: receiving_cpu_def aligned_entry_def)
  have "recvfrom_regs receiving_cpu = [3, 0x5000, 1024, 0, 0x6000, 0x7000]"
    by (simp add: recvfrom_regs_def receiving_cpu_regs)
  then have kernel: "kernel_receives (machine_on receiving_host) receiving_cpu (recvfrom_regs receiving_cpu)
      arrived arrived_data 4 [(45, [3, 0x5000, 1024, 0, 0x6000, 0x7000])]"
    by (simp add: kernel_receives_def host receiving_cpu_regs) (simp add: receiving_host_def)
  have outside: "\<not> stub_stack receiving_cpu 0x5000" "\<not> stub_stack receiving_cpu 0x6000"
    "\<not> stub_stack receiving_cpu 0x6001"
    by (simp_all add: stub_stack_def receiving_cpu_regs STUB_STACK_def C_STACK_def)
  let ?m = "store32 (bsd_address receiving_host 0x6000 16 (received arrived arrived_data (cpu_mem receiving_cpu))) 0x7000 16"
  have inet: "sfamily_linux_to_bsd linux_socket_h 2 = 2" by code_simp
  then have "\<exists>t. darling_syscall (machine_on receiving_host) receiving_cpu = Inr t \<and> gpr t RAX = 4 \<and>
      kstate (world_of t) = [(45, [3, 0x5000, 1024, 0, 0x6000, 0x7000])] \<and>
      (\<forall>x. \<not> stub_stack receiving_cpu x \<longrightarrow> cpu_mem t x = ?m x)"
    using recvfrom_end_to_end [OF good aligned _ kernel _ receiving_regions(1)] receiving_regions(2,3)
    by (auto simp: receiving_cpu_regs host received_address sless_0_int)
  moreover have "?m 0x5000 = 72" "?m 0x6000 = 16" "?m 0x6001 = 2"
    by (simp_all add: d.st_outside bsd_address_def received_address host inet) 
      (simp add: received_def arrived_def arrived_data_def)
  ultimately show ?thesis using outside by auto
qed

lemma forbidding_spares: "kernel_spares (machine_on (forbidding_host c)) s"
  by (simp add: kernel_spares_def forbidding_host_def)

lemma receiving_spares: "kernel_spares (machine_on receiving_host) receiving_cpu"
proof -
  have "\<not> arrived x" if "in_region (gpr receiving_cpu RSP - 128) 136 x" for x
    using that frame_of_stub [where s = receiving_cpu and x = x]
      belongsD [OF receiving_regions(1)]
    by (auto simp: saved_at_def trapped_gpr)
  then show ?thesis by (auto simp: kernel_spares_def receiving_host_def received_def)
qed

theorem syscall_returns_witness:
  "(\<exists>t. darling_syscall (machine_on (forbidding_host 9)) (example_cpu 0) = Inr t \<and>
     returns_to_caller (example_cpu 0) t) \<and>
   (\<exists>r. darling_syscall (machine_on receiving_host) receiving_cpu = r \<and> r \<noteq> Inl Null_deref)"
proof -
  have "belongs_to_caller receiving_cpu (in_region 0x6000 106)"
    unfolding belongs_to_caller_def using low_region [where a = "0x6000" and n = 106] by simp
  moreover have "good_machine (machine_on receiving_host)" "aligned_entry receiving_cpu"
    "platform (host (machine_on receiving_host)) = Linux"
    "platform (host (machine_on (forbidding_host 9))) = Linux"
    by (rule good_machine_on)
      (use enosys_example_host example_cpu_good(1) in \<open>simp_all add: receiving_host_def enosys_is_error_def
        host_errno_def receiving_cpu_def aligned_entry_def forbidding_host_def\<close>)
  moreover have "(ucast (gpr (example_cpu 0) RDI) :: c_int) \<noteq> 29" by (simp add: example_cpu_good)
  ultimately show ?thesis
    using syscall_returns [OF good_forbidding example_cpu_good(1) _ forbidding_spares]
      syscall_returns [OF _ _ _ receiving_spares] receiving_regions(3)
    by (auto simp: receiving_cpu_regs)
qed

end
