(* ===== verification/Self_Tests.thy ===== *)
theory Self_Tests
  imports Indirect_Calls
begin

text \<open>
  Tests of the repository as theorems.  \<open>src/test/generic_syscall/\<close> requests the Unix number
  \<open>0xFFFF\<close>, beyond the table, with assembly code of its own in place of a stub, and asserts that
  \<open>errno\<close> is \<open>ENOSYS\<close>.  Unlike the stubs the code calls the error function and goes on after it.
  The C programs around it and around the stubs clear \<open>errno\<close>, make one call, and assert.
\<close>

unbundle bit_operations_syntax

section \<open>The code of the test\<close>

definition out_of_bounds_code :: "instr list" where
  "out_of_bounds_code =
     [Op (Push RBP),
      Op (Mov RSP RBP),
      Op (Movl_imm 0x200FFFF RAX),
      Call ''___darling_handle_x86_64_syscall'',
      Jnb 2,
      Op (Mov RAX RDI),
      Call ''darling_cerror'',
      Op (Pop RBP),
      Ret]"

definition darling_asm_out_of_bounds :: "'k machine \<Rightarrow> 'k cpu \<Rightarrow> fault + 'k cpu" where
  "darling_asm_out_of_bounds M =
     exec M (libsyscall_symbols M) ''darling_asm_out_of_bounds'' out_of_bounds_code"

section \<open>The run\<close>

text \<open>The state at the entry of the bridge.\<close>

definition requesting :: "u64 \<Rightarrow> 'k cpu \<Rightarrow> 'k cpu" where
  "requesting ret s = push ret (step (Movl_imm 0x200FFFF RAX) (step (Mov RSP RBP) (step (Push RBP) s)))"

lemma requesting_simps:
  "gpr (requesting ret s) RAX = 0x200FFFF" "gpr (requesting ret s) RSP = gpr s RSP - 16"
  "r \<notin> {RAX, RSP, RBP} \<Longrightarrow> gpr (requesting ret s) r = gpr s r"
  "load64 (cpu_mem (requesting ret s)) (gpr s RSP - 16) = ret"
  "load64 (cpu_mem (requesting ret s)) (gpr s RSP - 8) = gpr s RBP"
  "load64 (cpu_mem (requesting ret s)) (gpr s RSP) = load64 (cpu_mem s) (gpr s RSP)"
  "kstate (world_of (requesting ret s)) = kstate (world_of s)"
  by (simp_all add: requesting_def mem_simps)

lemma aligned_requesting: "aligned_entry s \<Longrightarrow> aligned_entry (requesting ret s)"
  using aligned_shift [of "- 16" "gpr s RSP + 8"]
  by (simp add: aligned_entry_def requesting_simps)

lemma request_out_of_bounds:
  "class_of (gpr (requesting ret s) RAX) = SYSCALL_CLASS_UNIX" "cpu_number (requesting ret s) = 0xFFFF"
  unfolding requesting_simps(1) cpu_number_def by (code_simp, simp add: get_sysnum_def mask_values)

text \<open>The call of an error function, from a frame with the saved frame pointer on top.\<close>

lemma minus_1_high: "(ucast (mask 64 :: cerror_return_t) :: u64) = - 1"
  by (rule bit_word_eqI) (simp add: bit_simps)

lemma called_cerror:
  fixes s :: "'k cpu" and ret :: u64
  assumes stack: "stack_discipline M" and aligned: "(gpr s RSP) AND 15 = 0" and sets: "sets_errno body"
  defines "m \<equiv> scratch M (gpr s RSP - 8) (store64 (cpu_mem s) (gpr s RSP - 8) ret)"
  shows "\<exists>t. c_cerror M f body (push ret s) = Inr t \<and>
    rip t = ret \<and> cpu_mem t = m \<and> gpr t RSP = gpr s RSP \<and> gpr t RAX = - 1 \<and> gpr t RDX = - 1 \<and>
    gpr t RDI = junk M f (push ret s) RDI \<and> (\<forall>r \<in> {RBX, RBP, R12, R13, R14, R15}. gpr t r = gpr s r) \<and>
    kstate (world_of t) = kstate (world_of s) \<and> darling_errno (world_of t) = ucast (gpr s RDI)"
proof -
  let ?err = "ucast (gpr s RDI) :: c_int" and ?v = "push ret s"
  obtain msgs where body: "body ?err (world_of ?v) = (- 1, (foldr say msgs (world_of ?v))\<lparr>darling_errno := ?err\<rparr>)"
    using sets unfolding sets_errno_def by blast
  have "load64 m (gpr s RSP - 8) = load64 (store64 (cpu_mem s) (gpr s RSP - 8) ret) (gpr s RSP - 8)"
    unfolding m_def using scratch_cell [OF stack, of 0 "gpr s RSP - 8"] by (simp add: C_STACK_def)
  then have rip: "load64 m (gpr s RSP - 8) = ret" by (simp add: q.ld_st_same)
  define t where "t = \<lparr>gpr = c_registers M f (int128_result (- 1)) ?v,
    rflags = load_flags (rflags ?v) (junk_flags M f ?v), rip = ret,
    world_of = (foldr say msgs (world_of ?v))\<lparr>darling_errno := ?err, mem := m\<rparr>\<rparr>"
  have "c_cerror M f body ?v = Inr t"
    using aligned body rip by (simp add: c_cerror_def c_function_def t_def m_def foldr_say Let_def)
  moreover have "rip t = ret" "cpu_mem t = m" "gpr t RSP = gpr s RSP" "gpr t RAX = - 1" "gpr t RDX = - 1"
    "gpr t RDI = junk M f ?v RDI" "\<forall>r \<in> {RBX, RBP, R12, R13, R14, R15}. gpr t r = gpr s r"
    by (simp_all add: t_def c_registers_def int128_result_def minus_1_low minus_1_high caller_saved_def)
  moreover have "kstate (world_of t) = kstate (world_of s)" "darling_errno (world_of t) = ?err"
    by (simp_all add: t_def foldr_say)
  ultimately show ?thesis by blast
qed

lemma cerror_frame_cells:
  assumes "stack_discipline M" and "off \<in> {8, 16}"
  shows "load64 (scratch M sp (store64 m sp ret)) (sp + off) = load64 m (sp + off)"
proof -
  have "load64 (scratch M sp (store64 m sp ret)) (sp + off) = load64 (store64 m sp ret) (sp + off)"
    by (rule scratch_cell [OF assms(1)]) (use assms(2) in \<open>auto simp: C_STACK_def\<close>)
  also have "\<dots> = load64 m (sp + off)"
    using q.ld_st_field [of off 0 m sp ret] assms(2) by auto
  finally show ?thesis .
qed

lemma served_out_of_bounds:
  assumes good: "good_machine M"
  shows "\<exists>w. bridge_serves M (requesting ret s) (Failure (host_errno (host M) ''ENOSYS'')) w \<and>
    kstate w = kstate (world_of s)"
proof -
  let ?u = "requesting ret s" and ?E = "host_errno (host M) ''ENOSYS''"
  have assms: "stack_discipline M" "valid_locals (uninitialised M)" "enosys_is_error (host M)"
    using good by (simp_all add: good_machine_def)
  obtain msgs where "unix_service (host M) (cpu_number ?u) (cpu_request_arg ?u) (handler_world M ?u)
      = Inr (?E, Failure ?E, foldr say msgs (handler_world M ?u))"
    using unix_service_enosys [OF assms(3), where nr = "cpu_number ?u"] by (auto simp: request_out_of_bounds)
  from bridge_pure [OF assms request_out_of_bounds(1) this] show ?thesis
    by (auto simp: foldr_say requesting_simps)
qed

lemma out_of_bounds_run:
  assumes good: "good_machine M" and aligned: "aligned_entry s"
  shows "\<exists>t. darling_asm_out_of_bounds M s = Inr t \<and> returns_to_caller s t \<and> gpr t RAX = - 1 \<and>
    darling_errno (world_of t) = host_errno (host M) ''ENOSYS'' \<and> kstate (world_of t) = kstate (world_of s)"
proof -
  let ?f = "''darling_asm_out_of_bounds''" and ?E = "host_errno (host M) ''ENOSYS''" and ?sp = "gpr s RSP"
  let ?ret = "next_rip M ?f 5" and ?ret2 = "next_rip M ?f 2" and ?S = "libsyscall_symbols M"
  let ?u = "requesting ?ret s"
  obtain w where serves: "bridge_serves M ?u (Failure ?E) w" and kept: "kstate w = kstate (world_of s)"
    using served_out_of_bounds [OF good] by blast
  let ?a = "answered ?u (Failure ?E) w"
  define b where "b = step (Mov RAX RDI) ?a"
  have a: "rip ?a = ?ret" "carry (rflags ?a)"
    by (simp_all add: answered_def requesting_simps carry_def bit_simps)
  have b: "gpr b RSP = ?sp - 8" "ucast (gpr b RDI) = ?E" "cpu_mem b = mem w"
    "kstate (world_of b) = kstate (world_of s)" "gpr b RBP = gpr ?u RBP"
    "\<forall>r \<in> {RBX, R12, R13, R14, R15}. gpr b r = gpr s r"
    by (simp_all add: b_def answered_def requesting_simps ucast_scast_id kept)
  have "(?sp - 8) AND 15 = 0"
    using aligned aligned_shift [of "- 16" "?sp + 8"] by (simp add: aligned_entry_def)
  moreover have "stack_discipline M" using good by (simp add: good_machine_def)
  ultimately obtain c where c: "c_cerror M ''darling_cerror'' darling_cerror (push ?ret2 b) = Inr c" "rip c = ?ret2"
    "cpu_mem c = scratch M (?sp - 16) (store64 (mem w) (?sp - 16) ?ret2)" "gpr c RSP = ?sp - 8" "gpr c RAX = - 1"
    "\<forall>r \<in> {RBX, RBP, R12, R13, R14, R15}. gpr c r = gpr b r"
    "kstate (world_of c) = kstate (world_of s)" "darling_errno (world_of c) = ?E"
    using called_cerror [OF _ _ darling_cerror_sets_errno(1), of M b "''darling_cerror''" ?ret2] b(1-4)
    by (auto simp: diff_diff_eq)
  let ?t = "return (step (Pop RBP) c)"
  have cells: "load64 (cpu_mem c) (?sp - 16 + off) = load64 (cpu_mem ?u) (?sp - 16 + off)" if "off \<in> {8, 16}" for off
  proof -
    have "load64 (cpu_mem c) (?sp - 16 + off) = load64 (mem w) (?sp - 16 + off)"
      unfolding c(3) by (rule cerror_frame_cells) (use good that in \<open>simp_all add: good_machine_def\<close>)
    also have "\<dots> = load64 (cpu_mem ?u) (?sp - 16 + off)"
      using bridge.keeps_frame [OF serves that] by (simp add: requesting_simps)
    finally show ?thesis .
  qed
  have lengths: "length [c1, c2, c3, c4, c5] = 5" "length [c1, c2] = 2" for c1 c2 c3 c4 c5 :: instr
    by simp_all
  have "darling_asm_out_of_bounds M s = Inr ?t"
    using bridge.answers [OF aligned_requesting [OF aligned] serves] c(1,2) [unfolded b_def] a
    by (simp add: darling_asm_out_of_bounds_def out_of_bounds_code_def symbols requesting_def lengths del: list.size)
  moreover have "returns_to_caller s ?t"
    using cells [of 8] cells [of 16] c(4,6) b(6)
    by (simp add: returns_to_caller_def requesting_simps)
  ultimately show ?thesis using c by auto
qed

section \<open>The C programs\<close>

text \<open>
  A call from C: the first six arguments are in registers, the rest of the state is what the program made
  it.  The verdict of a program is whether its assertions hold.
\<close>

definition calling :: "u64 list \<Rightarrow> 'k cpu \<Rightarrow> 'k cpu" where
  "calling as s =
     s\<lparr>gpr := \<lambda>r. case map_of (zip [RDI, RSI, RDX, RCX, R8, R9] as) r of Some v \<Rightarrow> v | None \<Rightarrow> gpr s r\<rparr>"

definition errno_cleared :: "'k cpu \<Rightarrow> 'k cpu" where
  "errno_cleared s = s\<lparr>world_of := darling_set_cerror 0 (world_of s)\<rparr>"

definition verdict :: "(u64 \<Rightarrow> c_int \<Rightarrow> bool) \<Rightarrow> fault + 'k cpu \<Rightarrow> fault + bool" where
  "verdict asserted r =
     (case r of Inl flt \<Rightarrow> Inl flt | Inr t \<Rightarrow> Inr (asserted (gpr t RAX) (darling_get_cerror (world_of t))))"

text \<open>
  A program is linked with the library (\<open>darling\<close>) or, on macOS, with stubs of its own, so the function that
  it tests is an argument.  \<open>str\<close> is the address of the string, of 12 characters, or 13 with the newline of the
  second program, and \<open>enosys\<close> the host's \<open>ENOSYS\<close>.  The handler of \<open>SIGSYS\<close> that some programs install is
  left out: it prints its argument.
\<close>

definition write_fail_run :: "('k cpu \<Rightarrow> fault + 'k cpu) \<Rightarrow> u64 \<Rightarrow> 'k cpu \<Rightarrow> fault + bool" where
  "write_fail_run write str s =
     verdict (\<lambda>actual_len cerror. cerror = 9) (write (calling [1000, str, 12] (errno_cleared s)))"

definition sysnum_with_class_identifier ::
  "('k cpu \<Rightarrow> fault + 'k cpu) \<Rightarrow> c_int \<Rightarrow> u64 \<Rightarrow> 'k cpu \<Rightarrow> fault + bool" where
  "sysnum_with_class_identifier syscall enosys str s =
     verdict (\<lambda>result cerror. cerror = enosys) (syscall (calling [0x2000004, 1, str, 13] (errno_cleared s)))"

definition out_of_bound_unix_syscall :: "('k cpu \<Rightarrow> fault + 'k cpu) \<Rightarrow> c_int \<Rightarrow> 'k cpu \<Rightarrow> fault + bool" where
  "out_of_bound_unix_syscall asm_out_of_bounds enosys s =
     verdict (\<lambda>result cerror. cerror = enosys) (asm_out_of_bounds (errno_cleared s))"

lemma calling_simps [simp]:
  "gpr (calling (a # as) s) RDI = a" "gpr (calling (a # b # as) s) RSI = b" "gpr (calling (a # b # c # as) s) RDX = c"
  "world_of (calling as s) = world_of s" "aligned_entry (calling as s) = aligned_entry s"
  by (cases as, simp_all add: calling_def aligned_entry_def zip_Cons1 split: list.split option.split)+

lemma errno_cleared_simps [simp]:
  "darling_errno (world_of (errno_cleared s)) = 0" "kstate (world_of (errno_cleared s)) = kstate (world_of s)"
  "aligned_entry (errno_cleared s) = aligned_entry s"
  by (simp_all add: errno_cleared_def darling_set_cerror_def aligned_entry_def)

lemma write_tested:
  assumes "good_machine M" and "aligned_entry s"
    and "kernel_writes M (calling [fd, str, 12] (errno_cleared s)) fd str 12 r k"
  shows "\<exists>t. darling_write M (calling [fd, str, 12] (errno_cleared s)) = Inr t \<and>
    gpr t RAX = c_value (write_answer (host M) r) \<and>
    darling_errno (world_of t) = c_errno (write_answer (host M) r) 0"
  using write_stub [OF assms(1), of "calling [fd, str, 12] (errno_cleared s)" r k] assms(2,3)
  by (auto simp: call_done_def)

section \<open>The registers that are saved\<close>

text \<open>
  \<open>print_temp_regs/main.s\<close> puts a number into each register and calls the bridge with it.  The number in \<open>rax\<close>
  is of no class, so nothing happens, and the registers keep their numbers; 1 is also the exit code.  For these
  constants \<open>mov\<close> to a 64-bit register is \<open>movl\<close>.
\<close>

definition print_temp_regs_code :: "instr list" where
  "print_temp_regs_code =
     [Op (Push RBP),
      Op (Mov RSP RBP),
      Op (Movl_imm 1 RAX),
      Op (Movl_imm 2 RDI),
      Op (Movl_imm 3 RSI),
      Op (Movl_imm 4 RDX),
      Op (Movl_imm 5 RCX),
      Op (Movl_imm 6 R8),
      Op (Movl_imm 7 R9),
      Op (Movl_imm 8 R10),
      Op (Movl_imm 9 R11),
      Call ''___darling_handle_x86_64_syscall'',
      Op (Pop RBP),
      Ret]"

definition print_temp_regs :: "'k machine \<Rightarrow> 'k cpu \<Rightarrow> fault + 'k cpu" where
  "print_temp_regs M = exec M (libsyscall_symbols M) ''main'' print_temp_regs_code"

lemma print_temp_regs_run:
  assumes stack: "stack_discipline M" and aligned: "aligned_entry s"
  shows "\<exists>t. print_temp_regs M s = Inr t \<and> returns_to_caller s t \<and> kstate (world_of t) = kstate (world_of s) \<and>
    map (gpr t) [RAX, RDI, RSI, RDX, RCX, R8, R9, R10, R11] = [1, 2, 3, 4, 5, 6, 7, 8, 9]"
proof -
  let ?ret = "next_rip M ''main'' 2" and ?sp = "gpr s RSP"
  define u where "u = push ?ret (step (Movl_imm 9 R11) (step (Movl_imm 8 R10) (step (Movl_imm 7 R9)
    (step (Movl_imm 6 R8) (step (Movl_imm 5 RCX) (step (Movl_imm 4 RDX) (step (Movl_imm 3 RSI)
    (step (Movl_imm 2 RDI) (step (Movl_imm 1 RAX) (step (Mov RSP RBP) (step (Push RBP) s)))))))))))"
  have u: "map (gpr u) [RAX, RDI, RSI, RDX, RCX, R8, R9, R10, R11] = [1, 2, 3, 4, 5, 6, 7, 8, 9]"
    "gpr u RSP = ?sp - 16" "\<forall>r \<in> {RBX, R12, R13, R14, R15}. gpr u r = gpr s r"
    "load64 (cpu_mem u) (?sp - 16) = ?ret" "load64 (cpu_mem u) (?sp - 8) = gpr s RBP"
    "load64 (cpu_mem u) ?sp = load64 (cpu_mem s) ?sp" "kstate (world_of u) = kstate (world_of s)"
    by (simp_all add: u_def mem_simps)
  have "aligned_entry u"
    using aligned aligned_shift [of "- 16" "?sp + 8"] by (simp add: aligned_entry_def u(2))
  moreover have "class_of (gpr u RAX) \<noteq> SYSCALL_CLASS_UNIX" using u(1) by (simp, code_simp)
  ultimately obtain w where w: "asmbridge M u = Inr (answered u (Success (gpr u RAX) (gpr u RDX)) w)"
    "kstate w = kstate (world_of u)" "load64 (mem w) (?sp - 8) = gpr s RBP" "load64 (mem w) ?sp = load64 (cpu_mem s) ?sp"
    using bridge_answers_other_class [of u M] stack u(2,5,6) by auto
  define a where "a = answered u (Success (gpr u RAX) (gpr u RDX)) w"
  let ?t = "return (step (Pop RBP) a)"
  have a: "map (gpr a) [RAX, RDI, RSI, RDX, RCX, R8, R9, R10, R11] = [1, 2, 3, 4, 5, 6, 7, 8, 9]"
    "gpr a RSP = ?sp - 8" "\<forall>r \<in> {RBX, R12, R13, R14, R15}. gpr a r = gpr s r" "rip a = ?ret" "world_of a = w"
    using u by (simp_all add: a_def answered_def)
  have run: "asmbridge M u = Inr a" using w(1) by (simp add: a_def)
  have lengths: "length [c1, c2 :: instr] = 2" for c1 c2 by simp
  have "print_temp_regs M s = Inr ?t"
    using run a(4) by (simp add: print_temp_regs_def print_temp_regs_code_def symbols u_def lengths del: list.size)
  moreover have "returns_to_caller s ?t" using a w by (simp add: returns_to_caller_def)
  ultimately show ?thesis using a(1,5) w(2) u(7) by (intro exI [of _ ?t]) simp
qed

section \<open>Property\<close>

text \<open>
  C26: The test \<open>generic_syscall_out_of_bounds_darling_fail\<close> passes: on any host and from any state, its code
  returns, with the registers the ABI preserves intact, and \<open>darling_get_cerror ()\<close> is \<open>ENOSYS\<close>; the kernel is
  not called.
\<close>

theorem out_of_bounds_test_passes:
  assumes "good_machine M" and "aligned_entry s"
  shows "\<exists>t. darling_asm_out_of_bounds M s = Inr t \<and> returns_to_caller s t \<and>
    darling_get_cerror (world_of t) = host_errno (host M) ''ENOSYS'' \<and> kstate (world_of t) = kstate (world_of s)"
  using out_of_bounds_run [OF assms] by (auto simp: darling_get_cerror_def)

theorem out_of_bounds_test_passes_witness:
  "\<exists>t. darling_asm_out_of_bounds (machine_on example_host) (example_cpu 0) = Inr t \<and>
     darling_get_cerror (world_of t) = 38"
  using out_of_bounds_test_passes [OF good_machine_on [OF enosys_example_host] example_cpu_good(1)]
  by (auto simp: example_enosys)

text \<open>
  C28: The error tests on Linux.  The test that requests a number with its class and the one that requests a
  number beyond the table pass.  The test of a failing \<open>write\<close> fails: its call of the stub returns -1 and
  \<open>darling_get_cerror ()\<close> gives -9, where the test expects \<open>EBADF\<close>, 9.
\<close>

theorem tests_on_linux:
  assumes good: "good_machine M" and aligned: "aligned_entry s" and linux: "errno_h (host M) = linux_errno"
    and fails: "kernel_writes M (calling [1000, str, 12] (errno_cleared s)) 1000 str 12 (- 9) k"
  shows "(\<exists>t. darling_write M (calling [1000, str, 12] (errno_cleared s)) = Inr t \<and> gpr t RAX = - 1 \<and>
      darling_get_cerror (world_of t) = - 9) \<and>
    write_fail_run (darling_write M) str s = Inr False \<and>
    sysnum_with_class_identifier (darling_syscall M) (host_errno (host M) ''ENOSYS'') str s = Inr True \<and>
    out_of_bound_unix_syscall (darling_asm_out_of_bounds M) (host_errno (host M) ''ENOSYS'') s = Inr True"
proof (intro conjI)
  have "write_answer (host M) (- of_nat 9) = Failure (- of_nat 9)"
    using kernel_error [of 9] failed_small_error [of 9]
    by (simp add: write_answer_def linux errno_linux_identity del: of_nat_numeral)
  then have "write_answer (host M) (- 9) = Failure (- 9)" by simp
  then show run: "\<exists>t. darling_write M (calling [1000, str, 12] (errno_cleared s)) = Inr t \<and> gpr t RAX = - 1 \<and>
      darling_get_cerror (world_of t) = - 9"
    using write_tested [OF good aligned fails] by (auto simp: darling_get_cerror_def)
  then show "write_fail_run (darling_write M) str s = Inr False"
    by (auto simp: write_fail_run_def verdict_def)
  show "sysnum_with_class_identifier (darling_syscall M) (host_errno (host M) ''ENOSYS'') str s = Inr True"
    using enosys_through_syscall [OF good, of "calling [0x2000004, 1, str, 13] (errno_cleared s)"] aligned
    by (auto simp: sysnum_with_class_identifier_def verdict_def darling_get_cerror_def call_done_def)
  show "out_of_bound_unix_syscall (darling_asm_out_of_bounds M) (host_errno (host M) ''ENOSYS'') s = Inr True"
    using out_of_bounds_run [OF good, of "errno_cleared s"] aligned
    by (auto simp: out_of_bound_unix_syscall_def verdict_def darling_get_cerror_def)
qed

text \<open>A kernel that knows every descriptor but 1000.\<close>

definition tested_host :: "(c_int \<times> u64 list) list env" where
  "tested_host = example_host\<lparr>kernel := \<lambda>nr as k m. (if as ! 0 = 1000 then - 9 else as ! 2, k, m)\<rparr>"

theorem tests_on_linux_witness:
  "(\<exists>t. darling_write (machine_on tested_host) (calling [1000, 0x5000, 12] (errno_cleared (example_cpu 0))) = Inr t \<and>
     darling_get_cerror (world_of t) = - 9) \<and>
   write_fail_run (darling_write (machine_on tested_host)) 0x5000 (example_cpu 0) = Inr False \<and>
   sysnum_with_class_identifier (darling_syscall (machine_on tested_host)) 38 0x5000 (example_cpu 0) = Inr True"
proof -
  have "good_machine (machine_on tested_host)" "errno_h (host (machine_on tested_host)) = linux_errno"
    "host_errno (host (machine_on tested_host)) ''ENOSYS'' = 38"
    using example_enosys by (simp_all add: good_machine_on tested_host_def enosys_example_host host_errno_def)
  moreover have "kernel_writes (machine_on tested_host) (calling [1000, 0x5000, 12] (errno_cleared (example_cpu 0)))
      1000 0x5000 12 (- 9) []"
    by (simp add: kernel_writes_def tested_host_def example_cpu_good)
  ultimately show ?thesis using tests_on_linux [OF _ example_cpu_good(1)] by metis
qed

end
