(* ===== verification/Run_Tests.thy ===== *)
theory Run_Tests
  imports Self_Tests
begin

text \<open>
  The C programs of \<open>src/test/\<close> that go on with the C library of the host after the call under test: \<open>write\<close>
  to a pipe and read it back, and \<open>pipe\<close> and use it.  The functions of that library are parameters, acting on
  the world; a verdict is whether every assertion holds.
\<close>

unbundle bit_operations_syntax

section \<open>The C library\<close>

text \<open>\<open>pipe\<close> gives the two descriptors, which the program has in a local array of its own.\<close>

record 'k c_library =
  pipe_lib :: "'k world \<Rightarrow> (c_int \<times> c_int) \<times> 'k world"
  read_lib :: "c_int \<Rightarrow> u64 \<Rightarrow> u64 \<Rightarrow> 'k world \<Rightarrow> u64 \<times> 'k world"
  write_lib :: "c_int \<Rightarrow> u64 \<Rightarrow> u64 \<Rightarrow> 'k world \<Rightarrow> u64 \<times> 'k world"
  fcntl_lib :: "c_int \<Rightarrow> c_int \<Rightarrow> 'k world \<Rightarrow> c_int \<times> 'k world"

definition F_GETFD :: c_int where "F_GETFD = 1"

definition c_bytes :: "string \<Rightarrow> u8 list" where
  "c_bytes str = map of_char str"

text \<open>An array of \<open>n\<close> characters with an initialiser.\<close>

definition char_array :: "nat \<Rightarrow> string \<Rightarrow> u8 list" where
  "char_array n str = strncpy_bytes n (c_bytes str)"

text \<open>\<open>strcmp (p, q) == 0\<close>, for strings of less than 100 characters.\<close>

definition strcmp_equal :: "memory \<Rightarrow> u64 \<Rightarrow> u64 \<Rightarrow> bool" where
  "strcmp_equal m p q \<longleftrightarrow> c_string m p 100 \<noteq> None \<and> c_string m p 100 = c_string m q 100"

section \<open>The programs\<close>

text \<open>\<open>sys_write/successful_run.c\<close>; \<open>str\<close> is the address of the literal, \<open>buf\<close> that of \<open>expected_result\<close>.\<close>

definition write_successful_run ::
  "'k c_library \<Rightarrow> ('k cpu \<Rightarrow> fault + 'k cpu) \<Rightarrow> u64 \<Rightarrow> u64 \<Rightarrow> 'k cpu \<Rightarrow> fault + bool" where
  "write_successful_run C write str buf s =
     (let ((rfd, wfd), w) = pipe_lib C (darling_set_cerror 0 (world_of s)) in
      case write (calling [scast wfd, str, 12] (s\<lparr>world_of := w\<rparr>)) of
        Inl flt \<Rightarrow> Inl flt
      | Inr t \<Rightarrow>
          if gpr t RAX \<noteq> 12 then Inr False
          else let w = (world_of t)\<lparr>mem := store_bytes (cpu_mem t) buf (char_array 100 ''ABCDEFJH'')\<rparr>;
                   (len, w) = read_lib C rfd buf 100 w
               in Inr (len = 12 \<and> strcmp_equal (mem w) str buf \<and> darling_get_cerror w = 0))"

text \<open>
  \<open>sys_pipe/sucessful_run.c\<close>; \<open>fds\<close> is the address of \<open>fd\<close>, \<open>str\<close> that of the literal, \<open>buf\<close> that of
  \<open>pipe_string\<close>.
\<close>

definition pipe_successful_run ::
  "'k c_library \<Rightarrow> ('k cpu \<Rightarrow> fault + 'k cpu) \<Rightarrow> u64 \<Rightarrow> u64 \<Rightarrow> u64 \<Rightarrow> 'k cpu \<Rightarrow> fault + bool" where
  "pipe_successful_run C pipe fds str buf s =
     (case pipe (calling [fds] (set_cpu_mem (store_bytes (cpu_mem s) fds (replicate 8 0)) s)) of
        Inl flt \<Rightarrow> Inl flt
      | Inr t \<Rightarrow>
          if (ucast (gpr t RAX) :: c_int) \<noteq> 0 then Inr False
          else let fd0 = load32 (cpu_mem t) fds; fd1 = load32 (cpu_mem t) (fds + 4);
                   (fd0_flag, w) = fcntl_lib C fd0 F_GETFD (world_of t);
                   (fd1_flag, w) = fcntl_lib C fd1 F_GETFD w in
               if \<not> (fd0_flag \<noteq> - 1 \<and> fd1_flag \<noteq> - 1) then Inr False
               else let w = w\<lparr>mem := store_bytes (mem w) buf (char_array 100 ''INVALID'')\<rparr>;
                        (n, w) = write_lib C fd1 str 13 w;
                        (n, w) = read_lib C fd0 buf 100 w
                    in Inr (strcmp_equal (mem w) str buf))"

section \<open>Strings\<close>

lemma string_at:
  assumes "load_bytes m p (Suc (length hs)) = hs @ [0]" and "0 \<notin> set hs" and "length hs < 100"
  shows "c_string m p 100 = Some hs"
proof (rule c_string_intro)
  have "load_bytes m p (Suc (length hs)) ! i = (hs @ [0]) ! i" for i using assms(1) by simp
  then show "m (p + of_nat i) = hs ! i" if "i < length hs" for i
    using that by (metis less_Suc_eq nth_append nth_load_bytes)
  show "m (p + of_nat (length hs)) = 0"
    using arg_cong [OF assms(1), of "\<lambda>bs. bs ! length hs"] by (simp add: nth_append)
qed (use assms in auto)

lemma char_array_simps [simp]: "length (char_array n str) = n"
  by (simp add: char_array_def)

text \<open>A buffer of 100 bytes that ends in zeros, with a string read into it.\<close>

lemma read_into_buffer:
  assumes "length bs = 100" and "length hs < 100" and "bs ! length hs = 0"
  shows "load_bytes (store_bytes (store_bytes m p bs) p hs) p (Suc (length hs)) = hs @ [0]"
proof (rule nth_equalityI)
  fix i assume "i < length (load_bytes (store_bytes (store_bytes m p bs) p hs) p (Suc (length hs)))"
  then have i: "i < Suc (length hs)" by simp
  then have "unat (of_nat i :: u64) = i" using assms(2) by (intro unat_of_nat_lt [of i "Suc (length hs)"]) auto
  then show "load_bytes (store_bytes (store_bytes m p bs) p hs) p (Suc (length hs)) ! i = (hs @ [0]) ! i"
    using i assms by (auto simp: store_bytes_def nth_append less_Suc_eq)
qed simp

lemma string_kept:
  assumes "load_bytes m p n = bs" and "\<And>i. i < n \<Longrightarrow> m' (p + of_nat i) = m (p + of_nat i)"
  shows "load_bytes m' p n = bs"
  unfolding assms(1) [symmetric] by (rule load_bytes_cong) (rule assms(2))

lemma hello_strings:
  "length (c_bytes ''Hello World!'') = 12" "0 \<notin> set (c_bytes ''Hello World!'')"
  "length (c_bytes ''Hello world!'') = 12" "0 \<notin> set (c_bytes ''Hello world!'')"
  "char_array 100 ''ABCDEFJH'' ! 12 = 0"
  by code_simp+

text \<open>A literal of 12 characters, outside the stack of the stub.\<close>

definition literal_at :: "'k cpu \<Rightarrow> u64 \<Rightarrow> u8 list \<Rightarrow> bool" where
  "literal_at s p hs \<longleftrightarrow> load_bytes (cpu_mem s) p 13 = hs @ [0] \<and> length hs = 12 \<and> 0 \<notin> set hs \<and>
     disjoint_regions (gpr s RSP - of_nat STUB_STACK) STUB_STACK p 13"

lemma literal_outside:
  assumes "literal_at s p hs" and "i < 13"
  shows "\<not> stub_stack s (p + of_nat i)"
  using assms disjoint_outside by (fastforce simp: literal_at_def stub_stack_def)

lemma literal_read:
  assumes literal: "literal_at s str hs" and kept: "\<And>i. i < 13 \<Longrightarrow> m' (str + of_nat i) = cpu_mem s (str + of_nat i)"
    and buffer: "load_bytes m' buf 13 = hs @ [0]"
  shows "strcmp_equal m' str buf"
proof -
  have "load_bytes m' str 13 = hs @ [0]"
    using literal kept by (auto simp: literal_at_def intro: string_kept)
  then have "c_string m' str 100 = Some hs" "c_string m' buf 100 = Some hs"
    using literal buffer by (auto simp: literal_at_def intro!: string_at)
  then show ?thesis by (simp add: strcmp_equal_def)
qed

section \<open>Runs\<close>

lemma write_run:
  fixes s :: "'k cpu" and w :: "'k world" and wfd :: c_int and str :: u64
  defines "s' \<equiv> calling [scast wfd, str, 12] (s\<lparr>world_of := w\<rparr>)" and "hs \<equiv> c_bytes ''Hello World!''"
  assumes good: "good_machine M" and aligned: "aligned_entry s"
    and pipe: "pipe_lib C (darling_set_cerror 0 (world_of s)) = ((rfd, wfd), w)" "darling_errno w = 0"
    and kernel: "kernel_writes M s' (scast wfd) str 12 12 k"
    and literal: "literal_at s' str hs" and apart: "disjoint_regions buf 100 str 13"
    and read: "\<And>v. kstate v = k \<Longrightarrow>
      read_lib C rfd buf 100 v = (12, v\<lparr>kstate := k', mem := store_bytes (mem v) buf hs\<rparr>)"
  shows "write_successful_run C (darling_write M) str buf s = Inr True"
proof -
  have "aligned_entry s'" using aligned unfolding s'_def calling_simps by (simp add: aligned_entry_def)
  moreover have "kernel_writes M s' (gpr s' RDI) (gpr s' RSI) (gpr s' RDX) 12 k" using kernel by (simp add: s'_def)
  moreover have "write_answer (host M) 12 = Success 12 0" by (simp add: write_answer_def sless_0_long)
  ultimately obtain t where t: "darling_write M s' = Inr t" "gpr t RAX = 12" "darling_errno (world_of t) = 0"
    "kstate (world_of t) = k" "\<And>x. \<not> stub_stack s' x \<Longrightarrow> cpu_mem t x = cpu_mem s' x"
    using write_stub [OF good, of s' 12 k] pipe(2) by (auto simp: call_done_def s'_def)
  let ?b = "store_bytes (cpu_mem t) buf (char_array 100 ''ABCDEFJH'')" and ?n = "length hs"
  let ?m = "store_bytes ?b buf hs"
  have outside: "?m (str + of_nat i) = cpu_mem t (str + of_nat i)" if "i < 13" for i
  proof -
    have "\<not> in_region buf 100 (str + of_nat i)" by (rule disjoint_outside [OF apart that])
    then show ?thesis by (simp add: store_bytes_outside hs_def hello_strings)
  qed
  have "load_bytes ?m buf (Suc ?n) = hs @ [0]"
    by (rule read_into_buffer) (simp_all add: hs_def hello_strings)
  then have "strcmp_equal ?m str buf"
    using literal_read [OF literal, of ?m buf] outside t(5) literal_outside [OF literal]
    by (simp add: hs_def hello_strings)
  then show ?thesis
    using pipe t(1-4) read [of "(world_of t)\<lparr>mem := ?b\<rparr>"]
    by (simp add: write_successful_run_def s'_def darling_get_cerror_def)
qed

text \<open>
  The two ends of a new, empty pipe in the state \<open>k\<close> of the kernel: both are open, 13 bytes can be written to
  the one, after which the kernel is in the state \<open>sent\<close>, and in that state they can be read from the other.
\<close>

definition new_pipe ::
  "'k c_library \<Rightarrow> c_int \<Rightarrow> c_int \<Rightarrow> u64 \<Rightarrow> u64 \<Rightarrow> 'k \<Rightarrow> (u8 list \<Rightarrow> 'k) \<Rightarrow> (u8 list \<Rightarrow> 'k) \<Rightarrow> bool" where
  "new_pipe C a b str buf k sent taken \<longleftrightarrow>
     (\<forall>v. kstate v = k \<longrightarrow> fcntl_lib C a F_GETFD v = (0, v) \<and> fcntl_lib C b F_GETFD v = (0, v) \<and>
        write_lib C b str 13 v = (13, v\<lparr>kstate := sent (load_bytes (mem v) str 13)\<rparr>)) \<and>
     (\<forall>v bs. length bs = 13 \<longrightarrow> kstate v = sent bs \<longrightarrow>
        read_lib C a buf 100 v = (13, v\<lparr>kstate := taken bs, mem := store_bytes (mem v) buf bs\<rparr>))"

text \<open>
  The test of \<open>pipe\<close> passes: with the library's \<open>darling_pipe\<close> on a kernel that makes a pipe, the descriptors
  in the array of the program are those of the pipe, in that order, and the 13 bytes come out as they went in.
\<close>

lemma pipe_run:
  fixes s :: "'k cpu" and fds :: u64
  defines "s' \<equiv> calling [fds] (set_cpu_mem (store_bytes (cpu_mem s) fds (replicate 8 0)) s)"
    and "hs \<equiv> c_bytes ''Hello world!''"
  assumes good: "good_machine M" and aligned: "aligned_entry s"
    and kernel: "kernel_pipes M s' a b k" and in_frame: "pipe_fd_in_frame M s'"
    and apart: "disjoint_regions fds 8 (gpr s RSP) 8" "disjoint_regions fds 8 str 13" "disjoint_regions buf 100 str 13"
    and literal: "literal_at s' str hs"
    and works: "new_pipe C a b str buf k sent taken"
  shows "pipe_successful_run C (darling_pipe M) fds str buf s = Inr True"
proof -
  have regs: "gpr s' RDI = fds" "gpr s' RSP = gpr s RSP" "aligned_entry s'"
    using aligned by (simp_all add: s'_def calling_def aligned_entry_def)
  obtain t where t: "darling_pipe M s' = Inr t" "gpr t RAX = 0" "load32 (cpu_mem t) fds = a"
    "load32 (cpu_mem t) (fds + 4) = b" "kstate (world_of t) = k"
    "\<And>x. \<not> stub_stack s' x \<Longrightarrow> \<not> in_region fds 8 x \<Longrightarrow> cpu_mem t x = cpu_mem s' x"
    using pipe_stub [OF good regs(3) kernel in_frame] apart(1) unfolding regs(1,2) by blast
  let ?b = "store_bytes (cpu_mem t) buf (char_array 100 ''INVALID'')"
  have b: "?b (str + of_nat i) = cpu_mem s' (str + of_nat i)" if "i < 13" for i
  proof -
    have "\<not> in_region buf 100 (str + of_nat i)" "\<not> in_region fds 8 (str + of_nat i)"
      using disjoint_outside that apart(2,3) by blast+
    then show ?thesis using t(6) literal_outside [OF literal that] by (simp add: store_bytes_outside)
  qed
  have sent: "load_bytes ?b str 13 = hs @ [0]"
    using string_kept [where m = "cpu_mem s'" and m' = ?b, OF _ b] literal by (simp add: literal_at_def)
  let ?m = "store_bytes ?b buf (hs @ [0])"
  have len: "length (hs @ [0]) = 13" by (simp add: hs_def hello_strings)
  have read: "read_lib C a buf 100 v
      = (13, v\<lparr>kstate := taken (hs @ [0]), mem := store_bytes (mem v) buf (hs @ [0])\<rparr>)"
    if "kstate v = sent (hs @ [0])" for v
    using works len that unfolding new_pipe_def by blast
  have "load_bytes ?m buf 13 = hs @ [0]"
    using load_store_same [of "hs @ [0]" ?b buf] len by simp
  moreover have "?m (str + of_nat i) = cpu_mem s' (str + of_nat i)" if "i < 13" for i
    using disjoint_outside [OF apart(3) that] len b [OF that] by (simp add: store_bytes_outside)
  ultimately have "strcmp_equal ?m str buf" using literal_read [OF literal] by blast
  then show ?thesis
    using t(1-5) works sent read
    by (simp add: pipe_successful_run_def s'_def new_pipe_def Let_def del: append.simps)
qed

section \<open>Example\<close>

text \<open>A library that keeps what was sent in the state of the kernel, and a process with the literal.\<close>

definition example_library :: "(c_int \<times> u64 list) list c_library" where
  "example_library =
     \<lparr>pipe_lib = (\<lambda>v. ((5, 6), v)),
      read_lib = (\<lambda>fd p n v. (13, v\<lparr>kstate := tl (kstate v),
        mem := store_bytes (mem v) p (map ucast (snd (hd (kstate v))))\<rparr>)),
      write_lib = (\<lambda>fd p n v. (n, v\<lparr>kstate := (fd, map ucast (load_bytes (mem v) p (unat n))) # kstate v\<rparr>)),
      fcntl_lib = (\<lambda>fd cmd v. (0, v))\<rparr>"

definition literal_cpu :: "(c_int \<times> u64 list) list cpu" where
  "literal_cpu = set_cpu_mem (store_bytes (cpu_mem (example_cpu 0)) 0x6000 (c_bytes ''Hello world!'' @ [0])) (example_cpu 0)"

lemma example_library_works:
  "new_pipe example_library 5 6 0x6000 0x6100 k (\<lambda>bs. (6, map ucast bs) # k) (\<lambda>bs. k)"
proof -
  have "map ucast (map ucast bs :: u64 list) = bs" for bs :: "u8 list"
    by (rule nth_equalityI) (simp_all add: ucast_up_ucast_id is_up)
  then show ?thesis by (simp add: new_pipe_def example_library_def)
qed

lemma pipe_program_example:
  "pipe_successful_run example_library (darling_pipe (machine_on (example_host\<lparr>pipe_fd := 0x7FFE0000\<rparr>))) 0x6200 0x6000
     0x6100 literal_cpu = Inr True"
proof (rule pipe_run)
  let ?M = "machine_on (example_host\<lparr>pipe_fd := 0x7FFE0000\<rparr>)"
  let ?s = "calling [0x6200] (set_cpu_mem (store_bytes (cpu_mem literal_cpu) 0x6200 (replicate 8 0)) literal_cpu)"
  have sp: "gpr literal_cpu RSP = 0x7FFF0008" "gpr ?s RSP = 0x7FFF0008" "kstate (world_of literal_cpu) = []"
    by (simp_all add: literal_cpu_def calling_def example_cpu_good)
  show "good_machine ?M"
    by (rule good_machine_on) (use enosys_example_host in \<open>simp add: enosys_is_error_def host_errno_def\<close>)
  show "aligned_entry literal_cpu" by (simp add: aligned_entry_def sp)
  show "kernel_pipes ?M ?s 5 6 [(22, [0x7FFE0000, 0, 0, 0, 0, 0])]"
    by (simp add: kernel_pipes_def example_kernel_def sp)
  show "pipe_fd_in_frame ?M ?s"
    by (simp add: pipe_fd_in_frame_def sp STUB_STACK_def C_STACK_def)
  show "disjoint_regions 0x6200 8 (gpr literal_cpu RSP) 8" "disjoint_regions 0x6200 8 0x6000 13"
    "disjoint_regions 0x6100 100 0x6000 13"
    by (simp_all add: disjoint_regions_def sp)
  show "literal_at ?s 0x6000 (c_bytes ''Hello world!'')"
  proof -
    have "load_bytes (cpu_mem literal_cpu) 0x6000 13 = c_bytes ''Hello world!'' @ [0]"
      using load_store_same [of "c_bytes ''Hello world!'' @ [0]" "cpu_mem (example_cpu 0)" "0x6000"] hello_strings
      by (simp add: literal_cpu_def)
    then have "load_bytes (cpu_mem ?s) 0x6000 13 = c_bytes ''Hello world!'' @ [0]"
      by (simp add: load_store_disjoint disjoint_regions_def)
    moreover have "disjoint_regions (gpr ?s RSP - of_nat STUB_STACK) STUB_STACK 0x6000 13"
      unfolding sp by (simp add: disjoint_regions_def STUB_STACK_def C_STACK_def)
    ultimately show ?thesis using hello_strings by (simp add: literal_at_def)
  qed
qed (rule example_library_works)

end
