(* ===== verification/Socket_Test.thy ===== *)
theory Socket_Test
  imports Run_Tests
begin

text \<open>
  \<open>src/test/indirect_syscall/successful_recvfrom_and_sendto.c\<close>: the thread of the server, which receives a
  datagram with \<open>darling_syscall (29, \<dots>)\<close> and answers it with the C library, and that of the client, which uses
  the C library only.  Each thread is a program of its own here; what they print is left out.
\<close>

unbundle bit_operations_syntax

section \<open>The program\<close>

text \<open>The functions of the C library, with an \<open>int\<close> or \<open>ssize_t\<close> result.\<close>

record 'k socket_library =
  socket_lib :: "c_int \<Rightarrow> c_int \<Rightarrow> c_int \<Rightarrow> 'k world \<Rightarrow> c_int \<times> 'k world"
  bind_lib :: "c_int \<Rightarrow> u64 \<Rightarrow> u32 \<Rightarrow> 'k world \<Rightarrow> c_int \<times> 'k world"
  sendto_lib :: "c_int \<Rightarrow> u64 \<Rightarrow> u64 \<Rightarrow> c_int \<Rightarrow> u64 \<Rightarrow> u32 \<Rightarrow> 'k world \<Rightarrow> u64 \<times> 'k world"
  recvfrom_lib :: "c_int \<Rightarrow> u64 \<Rightarrow> u64 \<Rightarrow> c_int \<Rightarrow> u64 \<Rightarrow> u64 \<Rightarrow> 'k world \<Rightarrow> u64 \<times> 'k world"
  close_lib :: "c_int \<Rightarrow> 'k world \<Rightarrow> c_int \<times> 'k world"

text \<open>The constants of the headers of a Linux host.\<close>

definition SOCK_DGRAM :: c_int where "SOCK_DGRAM = 2"
definition IPPROTO_UDP :: c_int where "IPPROTO_UDP = 17"
definition LINUX_MSG_WAITALL_FLAG :: c_int where "LINUX_MSG_WAITALL_FLAG = 0x100"

text \<open>The \<open>sockaddr_in\<close> of any address, port 8080 in network byte order.\<close>

definition any_address :: "u8 list" where
  "any_address = le_bytes 2 (ucast LINUX_PF_INET :: u16) @ [0x1F, 0x90] @ replicate 12 0"

text \<open>The addresses of the variables and literals of a thread; the client has no \<open>client_address_details\<close>.\<close>

record thread_locals =
  server_at :: u64     \<comment> \<open>\<open>server_address_details\<close>\<close>
  client_at :: u64     \<comment> \<open>\<open>client_address_details\<close>\<close>
  len_at :: u64        \<comment> \<open>\<open>len\<close>\<close>
  buffer_at :: u64     \<comment> \<open>\<open>buffer\<close>\<close>
  expected_at :: u64   \<comment> \<open>the string that the thread compares with\<close>
  message_at :: u64    \<comment> \<open>the string that it sends\<close>

datatype outcome = Passed | Assertion_failed | Exit_failure string

text \<open>
  The address of \<open>len\<close>, the seventh argument of the call, is on the stack, above the return address of
  \<open>darling_syscall\<close>.
\<close>

definition recvfrom_call :: "thread_locals \<Rightarrow> c_int \<Rightarrow> 'k world \<Rightarrow> 'k cpu \<Rightarrow> 'k cpu" where
  "recvfrom_call L fd w s =
     (let m = store_bytes (mem w) (client_at L) (replicate 16 0);
          m = store32 m (len_at L) 16;
          m = store64 m (gpr s RSP + 8) (len_at L)
      in calling [29, scast fd, buffer_at L, 1024, scast LINUX_MSG_WAITALL_FLAG, client_at L]
           (s\<lparr>world_of := w\<lparr>mem := m\<rparr>\<rparr>))"

definition server_thread ::
  "thread_locals \<Rightarrow> 'k socket_library \<Rightarrow> ('k cpu \<Rightarrow> fault + 'k cpu) \<Rightarrow> 'k cpu \<Rightarrow> fault + outcome" where
  "server_thread L C syscall s =
     (let w = darling_set_cerror 0 (world_of s);
          (fd, w) = socket_lib C LINUX_PF_INET SOCK_DGRAM IPPROTO_UDP w in
      if fd <s 0 then Inr (Exit_failure ''Failed to create socket'')
      else
      let w = w\<lparr>mem := store_bytes (mem w) (server_at L) any_address\<rparr>;
          (err, w) = bind_lib C fd (server_at L) 16 w in
      if err <s 0 then Inr (Exit_failure ''Failed to bind socket'')
      else if darling_get_cerror w \<noteq> 0 then Inr Assertion_failed
      else case syscall (recvfrom_call L fd w s) of
        Inl flt \<Rightarrow> Inl flt
      | Inr t \<Rightarrow>
          let client_buffer_len = ucast (gpr t RAX) :: c_int; w = world_of t in
          if darling_get_cerror w \<noteq> 0 \<or> \<not> 0 <s client_buffer_len then Inr Assertion_failed
          else
          let w = w\<lparr>mem := (mem w)(buffer_at L + scast client_buffer_len := 0)\<rparr> in
          if \<not> strcmp_equal (mem w) (expected_at L) (buffer_at L) then Inr Assertion_failed
          else
          let (sent, w) = sendto_lib C fd (message_at L) 31 0 (client_at L) (load32 (mem w) (len_at L)) w in
          if sent <s 0 then Inr (Exit_failure ''Failed to send message'')
          else if darling_get_cerror w \<noteq> 0 then Inr Assertion_failed
          else Inr Passed)"

text \<open>
  The client asks for \<open>strlen (buffer)\<close> bytes, of a buffer that nothing has initialised: without a zero in it,
  \<open>strlen\<close> reads past its end.
\<close>

definition client_thread :: "thread_locals \<Rightarrow> 'k socket_library \<Rightarrow> 'k world \<Rightarrow> fault + outcome" where
  "client_thread L C w =
     (let w = darling_set_cerror 0 w;
          (fd, w) = socket_lib C LINUX_PF_INET SOCK_DGRAM 0 w in
      if fd <s 0 then Inr (Exit_failure ''Failed to create socket'')
      else
      let w = w\<lparr>mem := store_bytes (mem w) (server_at L) any_address\<rparr>;
          (sent, w) = sendto_lib C fd (message_at L) 31 0 (server_at L) 16 w;
          w = w\<lparr>mem := store32 (mem w) (len_at L) 16\<rparr>
      in case c_string (mem w) (buffer_at L) 1024 of
        None \<Rightarrow> Inl Array_bounds
      | Some bs \<Rightarrow>
          let (r, w) = recvfrom_lib C fd (buffer_at L) (of_nat (length bs)) 0 (server_at L) (len_at L) w;
              server_buffer_len = ucast r :: c_int;
              w = w\<lparr>mem := (mem w)(buffer_at L + scast server_buffer_len := 0)\<rparr> in
          if strcmp_equal (mem w) (expected_at L) (buffer_at L) then Inr Assertion_failed
          else
          let (err, w) = close_lib C fd w in
          if darling_get_cerror w \<noteq> 0 then Inr Assertion_failed
          else Inr Passed)"

text \<open>
  The assertion on the message has the wrong sense: whatever the library does, the client does not pass when
  it has received what it compares with.
\<close>

lemma client_rejects_the_reply:
  assumes "\<And>fd n a l v r v'. recvfrom_lib C fd (buffer_at L) n 0 a l v = (r, v') \<Longrightarrow>
    strcmp_equal ((mem v')(buffer_at L + scast (ucast r :: c_int) := 0)) (expected_at L) (buffer_at L)"
  shows "client_thread L C w \<noteq> Inr Passed"
  using assms by (auto simp: client_thread_def Let_def split: prod.split option.split)

section \<open>The run on Linux\<close>

definition client_message :: "u8 list" where
  "client_message = c_bytes ''[Client] Sent message to server''"

lemma client_message: "length client_message = 31" "0 \<notin> set client_message"
  by (simp_all add: client_message_def) code_simp+

lemma recvfrom_call_regs:
  "gpr (recvfrom_call L fd w s) RDI = 29" "gpr (recvfrom_call L fd w s) RSI = scast fd"
  "gpr (recvfrom_call L fd w s) R9 = client_at L" "gpr (recvfrom_call L fd w s) RSP = gpr s RSP"
  "load64 (cpu_mem (recvfrom_call L fd w s)) (gpr s RSP + 8) = len_at L"
  "aligned_entry (recvfrom_call L fd w s) = aligned_entry s"
  "darling_errno (world_of (recvfrom_call L fd w s)) = darling_errno w"
  by (simp_all add: recvfrom_call_def calling_def Let_def q.ld_st_same aligned_entry_def)

definition locals_apart :: "thread_locals \<Rightarrow> bool" where
  "locals_apart L \<longleftrightarrow>
     disjoint_regions (len_at L) 4 (client_at L) 2 \<and> disjoint_regions (len_at L) 4 (buffer_at L) 32 \<and>
     disjoint_regions (len_at L) 4 (expected_at L) 32 \<and> disjoint_regions (client_at L) 2 (buffer_at L) 32 \<and>
     disjoint_regions (client_at L) 2 (expected_at L) 32 \<and> disjoint_regions (buffer_at L) 32 (expected_at L) 32"

text \<open>
  The datagram of the client: its 31 bytes arrive in the buffer, an IPv4 address as Linux writes it, and its
  length; the string to compare it with stays.
\<close>

definition datagram_arrived :: "thread_locals \<Rightarrow> 'k cpu \<Rightarrow> memory \<Rightarrow> bool" where
  "datagram_arrived L s m \<longleftrightarrow>
     load_bytes m (buffer_at L) 31 = client_message \<and> linux_family m (client_at L) = 2 \<and> load32 m (len_at L) = 16 \<and>
     load_bytes m (expected_at L) 32 = client_message @ [0] \<and>
     belongs_to_caller s (in_region (client_at L) 2) \<and> belongs_to_caller s (in_region (len_at L) 4) \<and>
     belongs_to_caller s (in_region (buffer_at L) 32) \<and> belongs_to_caller s (in_region (expected_at L) 32)"

lemma region_member: "i < n \<Longrightarrow> n \<le> 2 ^ 64 \<Longrightarrow> in_region a n (a + of_nat i)"
  by (simp add: unat_of_nat_lt)

lemma region_avoids: "\<not> in_region a n y \<Longrightarrow> i < n \<Longrightarrow> n \<le> 2 ^ 64 \<Longrightarrow> a + of_nat i \<noteq> y"
  using region_member by metis

lemma belongs_cell:
  assumes "belongs_to_caller s (in_region a n)" and "i < n" and "n \<le> 2 ^ 64"
  shows "\<not> stub_stack s (a + of_nat i)"
  using belongsD [OF assms(1), OF region_member [OF assms(2,3)]] by (simp add: of_caller_def)

text \<open>What the program finds: the message, but an address whose family is no longer a Linux one.\<close>

lemma received_by_server:
  assumes apart: "locals_apart L" and arrived: "datagram_arrived L s m" and linux: "socket_h e = linux_socket_h"
    and after: "\<And>x. \<not> stub_stack s x \<Longrightarrow> m' x = store32 (bsd_address e (client_at L) 16 m) (len_at L) 16 x"
  defines "m'' \<equiv> m'(buffer_at L + 31 := 0)"
  shows "strcmp_equal m'' (expected_at L) (buffer_at L)" and "linux_family m'' (client_at L) = 0x210"
    and "load32 m'' (len_at L) = 16"
proof -
  let ?c = "client_at L" and ?l = "len_at L" and ?b = "buffer_at L" and ?x = "expected_at L" and ?last = "buffer_at L + 31"
  note regions = apart [unfolded locals_apart_def]
  have caller: "\<not> stub_stack s (?c + of_nat i)" if "i < 2" for i
    by (rule belongs_cell [OF _ that]) (use arrived in \<open>simp_all add: datagram_arrived_def\<close>)
  have caller_l: "\<not> stub_stack s (?l + of_nat i)" if "i < 4" for i
    by (rule belongs_cell [OF _ that]) (use arrived in \<open>simp_all add: datagram_arrived_def\<close>)
  have caller_b: "\<not> stub_stack s (?b + of_nat i)" "\<not> stub_stack s (?x + of_nat i)" if "i < 32" for i
    by (rule belongs_cell [OF _ that], use arrived in \<open>simp_all add: datagram_arrived_def\<close>)+
  have kept: "m' x = m x" if "\<not> stub_stack s x" "\<not> in_region ?l 4 x" "\<not> in_region ?c 2 x" for x
    using that after by (simp add: d.st_outside bsd_address_outside)
  have last: "\<not> in_region ?l 4 ?last" "\<not> in_region ?c 2 ?last"
    using disjoint_outside [of ?l 4 ?b 32 31] disjoint_outside [of ?c 2 ?b 32 31] regions by simp_all
  have "load32 m'' ?l = load32 (store32 (bsd_address e ?c 16 m) ?l 16) ?l"
  proof (rule d.ld_frame)
    fix i :: nat assume "i < 4"
    moreover from this have "?l + of_nat i \<noteq> ?last" using region_avoids [OF last(1)] by simp
    ultimately show "m'' (?l + of_nat i) = store32 (bsd_address e ?c 16 m) ?l 16 (?l + of_nat i)"
      using after caller_l by (simp add: m''_def)
  qed
  then show "load32 m'' ?l = 16" by (simp add: d.ld_st_same)
  have address: "m'' (?c + of_nat i) = bsd_address e ?c 16 m (?c + of_nat i)" if "i < 2" for i
  proof -
    have "?c + of_nat i \<noteq> ?last" using region_avoids [OF last(2) that] by simp
    moreover have "\<not> in_region ?l 4 (?c + of_nat i)" using regions disjoint_outside that by blast
    ultimately show ?thesis using after caller [OF that] by (simp add: m''_def d.st_outside)
  qed
  have "sfamily_linux_to_bsd linux_socket_h 2 = 2" by code_simp
  then show "linux_family m'' ?c = 0x210"
    using address [of 0] address [of 1] arrived
    by (simp add: linux_family_alt bsd_address_def linux datagram_arrived_def)
  have message: "load_bytes m'' ?b (Suc (length client_message)) = client_message @ [0]"
  proof (rule nth_equalityI)
    fix i assume "i < length (load_bytes m'' ?b (Suc (length client_message)))"
    then have i: "i < 32" by (simp add: client_message)
    show "load_bytes m'' ?b (Suc (length client_message)) ! i = (client_message @ [0]) ! i"
    proof (cases "i = 31")
      case True
      then show ?thesis by (simp add: client_message m''_def nth_append)
    next
      case False
      then have "?b + of_nat i \<noteq> ?last"
        using i of_nat_64_eq [of i 31] by simp
      moreover have "\<not> in_region ?l 4 (?b + of_nat i)" "\<not> in_region ?c 2 (?b + of_nat i)"
        using regions disjoint_outside i by blast+
      moreover have "m (?b + of_nat i) = client_message ! i"
        using arrived False i nth_load_bytes [of i 31 m ?b] by (simp add: datagram_arrived_def)
      ultimately show ?thesis
        using False i kept [OF caller_b(1) [OF i]] by (simp add: client_message m''_def nth_append)
    qed
  qed (simp add: client_message)
  have "load_bytes m'' ?x 32 = client_message @ [0]"
  proof (rule string_kept [where m = m])
    show "load_bytes m ?x 32 = client_message @ [0]" using arrived by (simp add: datagram_arrived_def)
    fix i :: nat assume i: "i < 32"
    have "\<not> in_region ?b 32 (?x + of_nat i)" "\<not> in_region ?l 4 (?x + of_nat i)" "\<not> in_region ?c 2 (?x + of_nat i)"
      using regions disjoint_outside i by blast+
    moreover from this(1) have "?x + of_nat i \<noteq> ?last" using region_avoids [where a = ?b and n = 32 and y = "?x + of_nat i" and i = 31] by auto
    ultimately show "m'' (?x + of_nat i) = m (?x + of_nat i)"
      using kept [OF caller_b(2) [OF i]] by (simp add: m''_def)
  qed
  then have "c_string m'' ?x 100 = Some client_message" "c_string m'' ?b 100 = Some client_message"
    using message by (auto intro!: string_at simp: client_message)
  then show "strcmp_equal m'' ?x ?b" by (simp add: strcmp_equal_def)
qed

lemma received_31: "(ucast (31 :: u64) :: c_int) = 31" "\<not> (31 :: c_int) <s 0" "(0 :: c_int) <s 31" "(scast (31 :: c_int) :: u64) = 31"
  by (simp_all add: word_sless_alt)

text \<open>The kernel's \<open>sendto\<close> on an IPv4 socket, whose address has another family: \<open>EAFNOSUPPORT\<close>.\<close>

definition rejects_other_families :: "thread_locals \<Rightarrow> 'k socket_library \<Rightarrow> c_int \<Rightarrow> bool" where
  "rejects_other_families L C fd \<longleftrightarrow>
     (\<forall>v. linux_family (mem v) (client_at L) \<noteq> 2 \<longrightarrow> fst (sendto_lib C fd (message_at L) 31 0 (client_at L) 16 v) = - 1)"

lemma server_run:
  fixes s :: "'k cpu" and L :: thread_locals and fd :: c_int and w :: "'k world" and R data
  defines "s' \<equiv> recvfrom_call L fd w s"
  assumes good: "good_machine M" and aligned: "aligned_entry s" and linux: "socket_h (host M) = linux_socket_h"
    and socket: "socket_lib C LINUX_PF_INET SOCK_DGRAM IPPROTO_UDP (darling_set_cerror 0 (world_of s)) = (fd, v)"
      "\<not> fd <s 0"
    and bind: "bind_lib C fd (server_at L) 16 (v\<lparr>mem := store_bytes (mem v) (server_at L) any_address\<rparr>) = (0, w)"
      "darling_errno w = 0"
    and kernel: "kernel_receives M s' (recvfrom_regs s') R data 31 k" and R: "belongs_to_caller s' R"
    and nonnull: "client_at L \<noteq> 0" "len_at L \<noteq> 0" and apart: "locals_apart L"
    and arrived: "datagram_arrived L s' (received R data (cpu_mem s'))"
    and rejects: "rejects_other_families L C fd"
  shows "server_thread L C (darling_syscall M) s = Inr (Exit_failure ''Failed to send message'')"
proof -
  let ?m = "received R data (cpu_mem s')"
  have regs: "gpr s' RDI = 29" "gpr s' R9 = client_at L" "load64 (cpu_mem s') (gpr s' RSP + 8) = len_at L"
    "aligned_entry s'" "darling_errno (world_of s') = 0"
    using aligned bind(2) by (simp_all add: s'_def recvfrom_call_regs)
  have len: "load32 ?m (len_at L) = 16" "linux_family ?m (client_at L) = 2"
    "belongs_to_caller s' (in_region (client_at L) 2)" "belongs_to_caller s' (in_region (len_at L) 4)"
    using arrived by (simp_all add: datagram_arrived_def)
  have "\<not> (16 :: c_int) <s 0" by (simp add: word_sless_alt)
  moreover have "ucast (ucast (sfamily_linux_to_bsd linux_socket_h (ucast (2 :: u16))) :: u8) \<noteq> linux_socket_h PF_LOCAL"
    by code_simp
  ultimately obtain t where t: "darling_syscall M s' = Inr t" "gpr t RAX = 31" "darling_errno (world_of t) = 0"
    and mem: "\<And>x. \<not> stub_stack s' x \<Longrightarrow> cpu_mem t x = store32 (bsd_address (host M) (client_at L) 16 ?m) (len_at L) 16 x"
    using recvfrom_stub [OF good regs(4) _ kernel _ R] nonnull len linux received_31 unfolding regs by auto
  let ?m'' = "(cpu_mem t)(buffer_at L + 31 := 0)"
  note found = received_by_server [OF apart arrived linux mem]
  have "fst (sendto_lib C fd (message_at L) 31 0 (client_at L) 16 ((world_of t)\<lparr>mem := ?m''\<rparr>)) = - 1"
    using rejects found(2) by (simp add: rejects_other_families_def)
  then obtain v' where sendto: "sendto_lib C fd (message_at L) 31 0 (client_at L) 16 ((world_of t)\<lparr>mem := ?m''\<rparr>) = (- 1, v')"
    by (cases "sendto_lib C fd (message_at L) 31 0 (client_at L) 16 ((world_of t)\<lparr>mem := ?m''\<rparr>)") simp
  have negative: "(- 1 :: u64) <s 0" "\<not> (0 :: c_int) <s 0" by (simp_all add: word_sless_alt)
  show ?thesis
    using socket bind t found(1,3) sendto
    by (simp add: server_thread_def s'_def [symmetric] darling_get_cerror_def received_31 negative)
qed

section \<open>Property\<close>

text \<open>
  C30: The test of \<open>recvfrom\<close> does not pass on a Linux host.  The server receives the message of the client
  through the library, and its assertions hold; but the address that came with it has been converted to the
  BSD layout, and when the program hands it to \<open>sendto\<close> of its C library, the kernel does not know the
  family 0x210 and rejects it: the server exits.
\<close>

theorem server_thread_on_linux:
  fixes s :: "'k cpu" and L :: thread_locals and fd :: c_int and w :: "'k world" and R data
  defines "s' \<equiv> recvfrom_call L fd w s"
  assumes "good_machine M" and "aligned_entry s" and "socket_h (host M) = linux_socket_h"
    and "socket_lib C LINUX_PF_INET SOCK_DGRAM IPPROTO_UDP (darling_set_cerror 0 (world_of s)) = (fd, v)"
      "\<not> fd <s 0"
    and "bind_lib C fd (server_at L) 16 (v\<lparr>mem := store_bytes (mem v) (server_at L) any_address\<rparr>) = (0, w)"
      "darling_errno w = 0"
    and "kernel_receives M s' (recvfrom_regs s') R data 31 k" and "belongs_to_caller s' R"
    and "client_at L \<noteq> 0" "len_at L \<noteq> 0" and "locals_apart L"
    and "datagram_arrived L s' (received R data (cpu_mem s'))"
    and "rejects_other_families L C fd"
  shows "server_thread L C (darling_syscall M) s = Inr (Exit_failure ''Failed to send message'')"
  using assms(2-) unfolding s'_def by (rule server_run)

text \<open>An example of such a host.\<close>

definition example_thread_locals :: thread_locals where
  "example_thread_locals =
     \<lparr>server_at = 0x5000, client_at = 0x6000, len_at = 0x7000, buffer_at = 0x6100, expected_at = 0x6200,
      message_at = 0x6300\<rparr>"

definition example_sockets :: "(c_int \<times> u64 list) list socket_library" where
  "example_sockets =
     \<lparr>socket_lib = (\<lambda>domain kind protocol v. (3, v)), bind_lib = (\<lambda>fd p n v. (0, v)),
      sendto_lib = (\<lambda>fd p n flags to len v. (if linux_family (mem v) to = 2 then n else - 1, v)),
      recvfrom_lib = (\<lambda>fd p n flags from len v. (0, v)), close_lib = (\<lambda>fd v. (0, v))\<rparr>"

definition datagram_region :: "u64 \<Rightarrow> bool" where
  "datagram_region x \<longleftrightarrow> in_region 0x6100 31 x \<or> in_region 0x6000 16 x \<or> in_region 0x7000 4 x"

definition datagram :: "u64 \<Rightarrow> u8" where
  "datagram = store_bytes ((\<lambda>_. 0)(0x6000 := 2, 0x7000 := 16)) 0x6100 client_message"

definition datagram_host :: "(c_int \<times> u64 list) list env" where
  "datagram_host = example_host\<lparr>kernel := \<lambda>nr as k m. (31, k @ [(nr, as)], received datagram_region datagram m)\<rparr>"

definition server_cpu :: "(c_int \<times> u64 list) list cpu" where
  "server_cpu = set_cpu_mem (store_bytes (cpu_mem (example_cpu 0)) 0x6200 (client_message @ [0])) (example_cpu 0)"

lemma of_caller_cong: "gpr s RSP = gpr t RSP \<Longrightarrow> of_caller s x = of_caller t x"
  by (simp add: of_caller_def stub_stack_def)

lemma datagram_example:
  fixes s :: "(c_int \<times> u64 list) list cpu"
  assumes sp: "gpr s RSP = 0x7FFF0008" and literal: "load_bytes (cpu_mem s) 0x6200 32 = client_message @ [0]"
  shows "belongs_to_caller s datagram_region"
    and "datagram_arrived example_thread_locals s (received datagram_region datagram (cpu_mem s))"
proof -
  let ?m = "received datagram_region datagram (cpu_mem s)"
  have low: "of_caller s x" if "in_region a n x" "unat a + n \<le> 0x8000" for a n x
    using low_region [OF that] of_caller_cong [of s receiving_cpu x] sp by (simp add: receiving_cpu_regs)
  have region: "belongs_to_caller s (in_region a n)" if "unat a + n \<le> 0x8000" for a n
    using low that unfolding belongs_to_caller_def by blast
  show "belongs_to_caller s datagram_region"
    using region [of "0x6100" 31] region [of "0x6000" 16] region [of "0x7000" 4]
    by (auto simp: belongs_to_caller_def datagram_region_def)
  have "load_bytes ?m 0x6100 31 = load_bytes datagram 0x6100 31"
    by (rule load_bytes_cong) (simp add: received_def datagram_region_def unat_of_nat_lt [of _ 31])
  also have "\<dots> = client_message"
    using load_store_same [of client_message _ "0x6100"] by (simp add: datagram_def client_message)
  finally have message: "load_bytes ?m 0x6100 31 = client_message" .
  have kept: "load_bytes ?m 0x6200 32 = client_message @ [0]"
  proof (rule string_kept [OF literal])
    fix i :: nat assume i: "i < 32"
    have "\<not> in_region a n (0x6200 + of_nat i)" if "disjoint_regions a n 0x6200 32" for a n
      by (rule disjoint_outside [OF that i])
    from this [of "0x6100" 31] this [of "0x6000" 16] this [of "0x7000" 4]
    have "\<not> datagram_region (0x6200 + of_nat i)" by (simp add: datagram_region_def disjoint_regions_def)
    then show "?m (0x6200 + of_nat i) = cpu_mem s (0x6200 + of_nat i)"
      by (simp add: received_def)
  qed
  have address: "linux_family ?m 0x6000 = 2" "load32 ?m 0x7000 = 16"
    by (simp_all add: linux_family_alt load32_def load_bytes_def upt_rec received_def datagram_region_def datagram_def
        store_bytes_def client_message)
  show "datagram_arrived example_thread_locals s ?m"
    using message kept address region by (simp add: datagram_arrived_def example_thread_locals_def)
qed

theorem server_thread_on_linux_witness:
  "server_thread example_thread_locals example_sockets (darling_syscall (machine_on datagram_host)) server_cpu
     = Inr (Exit_failure ''Failed to send message'')"
proof -
  let ?M = "machine_on datagram_host" and ?L = example_thread_locals
  let ?v = "darling_set_cerror 0 (world_of server_cpu)"
  let ?w = "?v\<lparr>mem := store_bytes (mem ?v) 0x5000 any_address\<rparr>"
  let ?s = "recvfrom_call ?L 3 ?w server_cpu"
  have sp: "gpr server_cpu RSP = 0x7FFF0008" "kstate (world_of ?s) = []"
    by (simp_all add: server_cpu_def example_cpu_good recvfrom_call_def calling_def darling_set_cerror_def Let_def)
  have any: "length any_address = 16" by (simp add: any_address_def)
  have "load_bytes (cpu_mem server_cpu) 0x6200 32 = client_message @ [0]"
    using load_store_same [of "client_message @ [0]" "cpu_mem (example_cpu 0)" "0x6200"]
    by (simp add: server_cpu_def client_message)
  then have literal: "load_bytes (cpu_mem ?s) 0x6200 32 = client_message @ [0]"
    by (simp add: recvfrom_call_def darling_set_cerror_def Let_def store64_def store32_def load_store_disjoint
        disjoint_regions_def any sp example_thread_locals_def)
  have "gpr ?s RSP = 0x7FFF0008" by (simp add: recvfrom_call_regs sp)
  note example = datagram_example [OF this literal]
  have "good_machine ?M"
    by (rule good_machine_on) (use enosys_example_host in \<open>simp add: datagram_host_def enosys_is_error_def host_errno_def\<close>)
  moreover have "aligned_entry server_cpu" by (simp add: aligned_entry_def sp)
  moreover have "socket_h (host ?M) = linux_socket_h" "platform datagram_host = Linux"
    by (simp_all add: datagram_host_def example_host_def)
  moreover have "socket_lib example_sockets LINUX_PF_INET SOCK_DGRAM IPPROTO_UDP ?v = (3, ?v)"
    "bind_lib example_sockets 3 (server_at ?L) 16 (?v\<lparr>mem := store_bytes (mem ?v) (server_at ?L) any_address\<rparr>) = (0, ?w)"
    "\<not> (3 :: c_int) <s 0" "darling_errno ?w = 0"
    by (simp_all add: example_sockets_def example_thread_locals_def darling_set_cerror_def word_sless_alt)
  moreover have "kernel_receives ?M ?s (recvfrom_regs ?s) datagram_region datagram 31 [(45, recvfrom_regs ?s)]"
    using calculation(4) by (simp add: kernel_receives_def sp) (simp add: datagram_host_def)
  moreover have "locals_apart ?L" "client_at ?L \<noteq> 0" "len_at ?L \<noteq> 0" "rejects_other_families ?L example_sockets 3"
    by (simp_all add: locals_apart_def disjoint_regions_def example_thread_locals_def rejects_other_families_def
        example_sockets_def)
  ultimately show ?thesis using server_thread_on_linux [OF _ _ _ _ _ _ _ _ example(1) _ _ _ example(2)] by blast
qed

end
