(* ===== verification/Macos_Tests.thy ===== *)
theory Macos_Tests
  imports Self_Tests
begin

text \<open>
  The assembly that the tests of \<open>src/test/\<close> use on macOS in place of the library: stubs that trap into the
  kernel with the \<open>syscall\<close> instruction, and the error function of \<open>shared/errno_stub_macos.c\<close>.

  The kernel of macOS is a parameter: a function of the registers, its state and the memory, which gives
  \<open>rax\<close>, \<open>rdx\<close> and the carry flag, set when \<open>rax\<close> is the number of an error.
\<close>

unbundle bit_operations_syntax

section \<open>The kernel\<close>

type_synonym 'k xnu = "(reg64 \<Rightarrow> u64) \<Rightarrow> 'k \<Rightarrow> memory \<Rightarrow> (u64 \<times> u64 \<times> bool) \<times> 'k \<times> memory"

definition xnu_trap :: "'k xnu \<Rightarrow> u64 \<Rightarrow> 'k cpu \<Rightarrow> 'k cpu" where
  "xnu_trap X next s =
     (case X (gpr s) (kstate (world_of s)) (cpu_mem s) of
        ((a, d, fails), k, m) \<Rightarrow>
          s\<lparr>gpr := (gpr s)(RAX := a, RDX := d, RCX := next, R11 := rflags s),
            rflags := (if fails then rflags s OR 1 else rflags s AND NOT 1),
            world_of := (world_of s)\<lparr>kstate := k, mem := m\<rparr>\<rparr>)"

text \<open>The code of a stub has one \<open>syscall\<close> instruction, before its first branch.\<close>

fun exec_macos :: "'k xnu \<Rightarrow> 'k machine \<Rightarrow> 'k symbols \<Rightarrow> string \<Rightarrow> instr list \<Rightarrow> 'k cpu \<Rightarrow> fault + 'k cpu" where
  "exec_macos X M S name (Op i # code) s = exec_macos X M S name code (step i s)"
| "exec_macos X M S name (Syscall # code) s =
     exec M S name code (xnu_trap X (next_rip M name (length code)) s)"
| "exec_macos X M S name code s = exec M S name code s"

section \<open>\<open>shared/errno_stub_macos.c\<close>\<close>

definition darling_set_cerror_macos :: "c_int \<Rightarrow> 'k world \<Rightarrow> 'k world" where
  "darling_set_cerror_macos err w = w\<lparr>darling_errno := err\<rparr>"

definition darling_get_cerror_macos :: "'k world \<Rightarrow> c_int" where
  "darling_get_cerror_macos w = darling_errno w"

definition darling_cerror_macos :: "c_int \<Rightarrow> 'k world \<Rightarrow> cerror_return_t \<times> 'k world" where
  "darling_cerror_macos err w = (let w = say (In_cerror err) w; w = darling_set_cerror_macos err w in (- 1, w))"

lemma cerror_macos_sets_errno: "sets_errno darling_cerror_macos"
proof -
  have "darling_cerror_macos err w = (- 1, (foldr say [In_cerror err] w)\<lparr>darling_errno := err\<rparr>)"
    for err and w :: "'k world"
    by (simp add: darling_cerror_macos_def darling_set_cerror_macos_def)
  then show "sets_errno (darling_cerror_macos :: c_int \<Rightarrow> 'k world \<Rightarrow> _)" unfolding sets_errno_def by blast
qed

text \<open>So the programs may use either library.\<close>

lemma errno_macos: "darling_set_cerror_macos = darling_set_cerror" "darling_get_cerror_macos = darling_get_cerror"
  by (simp_all add: fun_eq_iff darling_set_cerror_macos_def darling_set_cerror_def
      darling_get_cerror_macos_def darling_get_cerror_def)

section \<open>The stubs\<close>

definition write_macos_code :: "instr list" where
  "write_macos_code =
     [Op (Push RBP),
      Op (Mov RSP RBP),
      Op (Movl_imm 0x2000004 RAX),
      Syscall,
      Jnb 2,
      Op (Mov RAX RDI),
      Call ''_darling_cerror'',
      Op (Pop RBP),
      Ret]"

definition out_of_bounds_macos_code :: "instr list" where
  "out_of_bounds_macos_code =
     [Op (Push RBP),
      Op (Mov RSP RBP),
      Op (Movl_imm 0x200FFFF RAX),
      Syscall,
      Jnb 2,
      Op (Mov RAX RDI),
      Call ''_darling_cerror'',
      Op (Pop RBP),
      Ret]"

definition pipe_macos_code :: "instr list" where
  "pipe_macos_code =
     [Op (Movl_imm 0x200002A RAX),
      Syscall,
      Jnb 6,
      Op (Mov RAX RDI),
      Op (Push RBP),
      Op (Mov RSP RBP),
      Op (Mov RAX RDI),
      Call ''_darling_cerror'',
      Op (Pop RBP),
      Op (Movl_store RAX 0 RDI),
      Op (Movl_store RDX 4 RDI),
      Op (Xorl_self RAX),
      Ret]"

definition indirect_syscall_macos_code :: "instr list" where
  "indirect_syscall_macos_code =
     [Op (Movl_imm 0x2000000 RAX),
      Op (Mov RCX R10),
      Syscall,
      Jnb 2,
      Op (Mov RAX RDI),
      Call ''_darling_cerror'',
      Ret]"

definition macos_symbols :: "'k machine \<Rightarrow> 'k symbols" where
  "macos_symbols M = [''_darling_cerror'' \<mapsto> c_cerror M ''_darling_cerror'' darling_cerror_macos]"

definition write_macos :: "'k xnu \<Rightarrow> 'k machine \<Rightarrow> 'k cpu \<Rightarrow> fault + 'k cpu" where
  "write_macos X M = exec_macos X M (macos_symbols M) ''_darling_write'' write_macos_code"

definition asm_out_of_bounds_macos :: "'k xnu \<Rightarrow> 'k machine \<Rightarrow> 'k cpu \<Rightarrow> fault + 'k cpu" where
  "asm_out_of_bounds_macos X M =
     exec_macos X M (macos_symbols M) ''_darling_asm_out_of_bounds'' out_of_bounds_macos_code"

definition pipe_macos :: "'k xnu \<Rightarrow> 'k machine \<Rightarrow> 'k cpu \<Rightarrow> fault + 'k cpu" where
  "pipe_macos X M = exec_macos X M (macos_symbols M) ''_darling_pipe'' pipe_macos_code"

definition syscall_macos :: "'k xnu \<Rightarrow> 'k machine \<Rightarrow> 'k cpu \<Rightarrow> fault + 'k cpu" where
  "syscall_macos X M = exec_macos X M (macos_symbols M) ''_darling_syscall'' indirect_syscall_macos_code"

section \<open>Runs\<close>

text \<open>
  What the kernel answers to the registers \<open>g\<close>; it does not write to the words of the stack at the offsets
  \<open>offs\<close> of the stack pointer.
\<close>

definition xnu_answers ::
  "'k xnu \<Rightarrow> 'k cpu \<Rightarrow> u64 list \<Rightarrow> u64 \<Rightarrow> u64 \<Rightarrow> bool \<Rightarrow> 'k \<Rightarrow> bool" where
  "xnu_answers X s offs a d fails k \<longleftrightarrow>
     (\<exists>m. X (gpr s) (kstate (world_of s)) (cpu_mem s) = ((a, d, fails), k, m) \<and>
        list_all (\<lambda>off. load64 m (gpr s RSP + off) = load64 (cpu_mem s) (gpr s RSP + off)) offs)"

definition framed_request :: "c_int \<Rightarrow> 'k cpu \<Rightarrow> 'k cpu" where
  "framed_request nr s = step (Movl_imm nr RAX) (step (Mov RSP RBP) (step (Push RBP) s))"

lemma framed_request_simps:
  "gpr (framed_request nr s) RSP = gpr s RSP - 8" "kstate (world_of (framed_request nr s)) = kstate (world_of s)"
  "darling_errno (world_of (framed_request nr s)) = darling_errno (world_of s)"
  "r \<notin> {RAX, RBP, RSP} \<Longrightarrow> gpr (framed_request nr s) r = gpr s r"
  "load64 (cpu_mem (framed_request nr s)) (gpr s RSP - 8) = gpr s RBP"
  "load64 (cpu_mem (framed_request nr s)) (gpr s RSP) = load64 (cpu_mem s) (gpr s RSP)"
  by (simp_all add: framed_request_def mem_simps)

lemma carry_of_answer [simp]: "carry (f OR 1)" "\<not> carry (f AND - 2)"
proof -
  have "\<not> carry (f AND NOT 1)" by (simp only: carry_def bit_simps) simp
  then show "\<not> carry (f AND - 2)" by simp
qed (simp add: carry_def bit_simps)

text \<open>The state after the trap.\<close>

lemma trap_answered:
  assumes "xnu_answers X s offs a d fails k"
  shows "gpr (xnu_trap X ret s) = (gpr s)(RAX := a, RDX := d, RCX := ret, R11 := rflags s)"
    and "carry (rflags (xnu_trap X ret s)) = fails" and "kstate (world_of (xnu_trap X ret s)) = k"
    and "darling_errno (world_of (xnu_trap X ret s)) = darling_errno (world_of s)"
    and "off \<in> set offs \<Longrightarrow>
      load64 (cpu_mem (xnu_trap X ret s)) (gpr s RSP + off) = load64 (cpu_mem s) (gpr s RSP + off)"
  using assms by (auto simp: xnu_answers_def xnu_trap_def list_all_iff split: if_splits)

lemma code_lengths:
  "length [c1 :: instr] = 1" "length [c1, c2 :: instr] = 2" "length [c1, c2, c3, c4 :: instr] = 4"
  "length [c1, c2, c3, c4, c5 :: instr] = 5" "length [c1, c2, c3, c4, c5, c6, c7, c8, c9, c10, c11 :: instr] = 11"
  by simp_all

text \<open>A stub with a frame of its own: what the kernel answers is what the caller gets.\<close>

lemma framed_stub:
  fixes s :: "'k cpu"
  assumes stack: "stack_discipline M" and aligned: "aligned_entry s"
    and answers: "xnu_answers X (framed_request nr s) [0, 8] a d fails k"
  shows "\<exists>t. exec_macos X M (macos_symbols M) f
      [Op (Push RBP), Op (Mov RSP RBP), Op (Movl_imm nr RAX), Syscall, Jnb 2, Op (Mov RAX RDI),
       Call ''_darling_cerror'', Op (Pop RBP), Ret] s = Inr t \<and>
    returns_to_caller s t \<and> kstate (world_of t) = k \<and> gpr t RAX = (if fails then - 1 else a) \<and>
    darling_errno (world_of t) = (if fails then ucast a else darling_errno (world_of s))" (is "\<exists>t. ?run = _ \<and> _")
proof -
  let ?sp = "gpr s RSP" and ?ret = "next_rip M f 2"
  define v where "v = xnu_trap X (next_rip M f 5) (framed_request nr s)"
  have v: "gpr v RSP = ?sp - 8" "gpr v RAX = a" "carry (rflags v) = fails" "kstate (world_of v) = k"
    "darling_errno (world_of v) = darling_errno (world_of s)" "\<forall>r \<in> {RBX, R12, R13, R14, R15}. gpr v r = gpr s r"
    unfolding v_def by (simp_all add: trap_answered [OF answers] framed_request_simps)
  have cells: "load64 (cpu_mem v) (?sp - 8) = gpr s RBP" "load64 (cpu_mem v) ?sp = load64 (cpu_mem s) ?sp"
    using trap_answered(5) [OF answers, of 0] trap_answered(5) [OF answers, of 8]
    by (simp_all add: v_def framed_request_simps)
  show ?thesis
  proof (cases fails)
    case False
    let ?t = "return (step (Pop RBP) v)"
    have "?run = Inr ?t" using False v(3) by (simp add: v_def framed_request_def code_lengths del: list.size)
    moreover have "returns_to_caller s ?t" using cells v(1,6) by (simp add: returns_to_caller_def)
    ultimately show ?thesis using False v by (intro exI [of _ ?t]) simp
  next
    case True
    let ?b = "step (Mov RAX RDI) v"
    have "(?sp - 8) AND 15 = 0"
      using aligned aligned_shift [of "- 16" "?sp + 8"] by (simp add: aligned_entry_def)
    then obtain c where c: "c_cerror M ''_darling_cerror'' darling_cerror_macos (push ?ret ?b) = Inr c" "rip c = ?ret"
      "cpu_mem c = scratch M (?sp - 16) (store64 (cpu_mem v) (?sp - 16) ?ret)" "gpr c RSP = ?sp - 8"
      "gpr c RAX = - 1" "\<forall>r \<in> {RBX, RBP, R12, R13, R14, R15}. gpr c r = gpr v r" "kstate (world_of c) = k"
      "darling_errno (world_of c) = ucast a"
      using called_cerror [OF stack _ cerror_macos_sets_errno, of ?b "''_darling_cerror''" ?ret] v(1,2,4)
      by (auto simp: diff_diff_eq)
    let ?t = "return (step (Pop RBP) c)"
    have "?run = Inr ?t"
      using True v(3) c(1,2) by (simp add: v_def framed_request_def macos_symbols_def code_lengths del: list.size)
    moreover have "returns_to_caller s ?t"
      using cerror_frame_cells [OF stack, of 8 "?sp - 16" "cpu_mem v" ?ret]
        cerror_frame_cells [OF stack, of 16 "?sp - 16" "cpu_mem v" ?ret] cells c(3,4,6) v(6)
      by (simp add: returns_to_caller_def)
    ultimately show ?thesis using True c by (intro exI [of _ ?t]) simp
  qed
qed

text \<open>
  The stub of \<open>pipe\<close>.  A success stores the two descriptors.  On an error it goes on at the same place, with -1
  in \<open>rax\<close> and \<open>rdx\<close> and in \<open>rdi\<close> what the error function left there: it stores -1 twice where that points
  to, and returns 0.
\<close>

definition pipe_request :: "'k cpu \<Rightarrow> 'k cpu" where
  "pipe_request s = step (Movl_imm 0x200002A RAX) s"

lemma pipe_request_simps:
  "gpr (pipe_request s) RSP = gpr s RSP" "kstate (world_of (pipe_request s)) = kstate (world_of s)"
  "darling_errno (world_of (pipe_request s)) = darling_errno (world_of s)" "cpu_mem (pipe_request s) = cpu_mem s"
  "r \<noteq> RAX \<Longrightarrow> gpr (pipe_request s) r = gpr s r"
  by (simp_all add: pipe_request_def)

definition store_descriptors :: "'k cpu \<Rightarrow> 'k cpu" where
  "store_descriptors s = return (step (Xorl_self RAX) (step (Movl_store RDX 4 RDI) (step (Movl_store RAX 0 RDI) s)))"

lemma store_descriptors_simps:
  "gpr (store_descriptors s) RAX = 0" "r \<notin> {RAX, RSP} \<Longrightarrow> gpr (store_descriptors s) r = gpr s r"
  "gpr (store_descriptors s) RSP = gpr s RSP + 8"
  "cpu_mem (store_descriptors s)
     = store32 (store32 (cpu_mem s) (gpr s RDI) (ucast (gpr s RAX))) (gpr s RDI + 4) (ucast (gpr s RDX))"
  "rip (store_descriptors s) = load64 (cpu_mem (store_descriptors s)) (gpr s RSP)"
  "kstate (world_of (store_descriptors s)) = kstate (world_of s)"
  "darling_errno (world_of (store_descriptors s)) = darling_errno (world_of s)"
  by (simp_all add: store_descriptors_def)

lemma pipe_macos_success:
  fixes s :: "'k cpu"
  assumes answers: "xnu_answers X (pipe_request s) [0] a d False k"
    and apart: "disjoint_regions (gpr s RDI) 8 (gpr s RSP) 8"
  shows "\<exists>t. pipe_macos X M s = Inr t \<and> returns_to_caller s t \<and> kstate (world_of t) = k \<and> gpr t RAX = 0 \<and>
    load32 (cpu_mem t) (gpr s RDI) = ucast a \<and> load32 (cpu_mem t) (gpr s RDI + 4) = ucast d \<and>
    darling_errno (world_of t) = darling_errno (world_of s)"
proof -
  let ?f = "''_darling_pipe''"
  define v where "v = xnu_trap X (next_rip M ?f 11) (pipe_request s)"
  have v: "gpr v RAX = a" "gpr v RDX = d" "gpr v RDI = gpr s RDI" "gpr v RSP = gpr s RSP" "\<not> carry (rflags v)"
    "kstate (world_of v) = k" "darling_errno (world_of v) = darling_errno (world_of s)"
    "\<forall>r \<in> {RBX, RBP, R12, R13, R14, R15}. gpr v r = gpr s r"
    unfolding v_def by (simp_all add: trap_answered [OF answers] pipe_request_simps)
  let ?t = "store_descriptors v"
  have "pipe_macos X M s = Inr ?t"
    using v(5) by (simp add: pipe_macos_def pipe_macos_code_def store_descriptors_def v_def pipe_request_def
        code_lengths del: list.size)
  moreover have "load64 (cpu_mem ?t) (gpr s RSP) = load64 (cpu_mem v) (gpr s RSP)"
    unfolding store_descriptors_simps(4) v(3) by (rule q.ld_other_region [OF store_pair_outside apart])
  then have "returns_to_caller s ?t"
    using trap_answered(5) [OF answers, of 0 "next_rip M ?f 11"] v(4,8)
    by (simp add: returns_to_caller_def store_descriptors_simps v_def [symmetric] pipe_request_simps)
  ultimately show ?thesis
    using v by (intro exI [of _ ?t]) (simp add: store_descriptors_simps load_pair)
qed

lemma pipe_macos_failure:
  fixes s :: "'k cpu"
  assumes stack: "stack_discipline M" and aligned: "aligned_entry s"
    and answers: "xnu_answers X (pipe_request s) [] a d True k"
  shows "\<exists>t c. pipe_macos X M s = Inr t \<and> kstate (world_of t) = k \<and> gpr t RAX = 0 \<and>
    darling_errno (world_of t) = ucast a \<and> gpr t RDI = junk M ''_darling_cerror'' c RDI \<and>
    load32 (cpu_mem t) (gpr t RDI) = - 1 \<and> load32 (cpu_mem t) (gpr t RDI + 4) = - 1"
proof -
  let ?f = "''_darling_pipe''"
  define v where "v = xnu_trap X (next_rip M ?f 11) (pipe_request s)"
  have v: "gpr v RAX = a" "gpr v RSP = gpr s RSP" "carry (rflags v)" "kstate (world_of v) = k"
    unfolding v_def by (simp_all add: trap_answered [OF answers] pipe_request_simps)
  let ?b = "step (Mov RAX RDI) (step (Mov RSP RBP) (step (Push RBP) (step (Mov RAX RDI) v)))" and ?ret = "next_rip M ?f 5"
  have "(gpr s RSP - 8) AND 15 = 0"
    using aligned aligned_shift [of "- 16" "gpr s RSP + 8"] by (simp add: aligned_entry_def)
  then obtain c where c: "c_cerror M ''_darling_cerror'' darling_cerror_macos (push ?ret ?b) = Inr c" "rip c = ?ret"
    "gpr c RAX = - 1" "gpr c RDX = - 1" "gpr c RDI = junk M ''_darling_cerror'' (push ?ret ?b) RDI"
    "kstate (world_of c) = k" "darling_errno (world_of c) = ucast a"
    using called_cerror [OF stack _ cerror_macos_sets_errno, of ?b "''_darling_cerror''" ?ret] v(1,2,4) by auto
  define p where "p = step (Pop RBP) c"
  have p: "cpu_mem p = cpu_mem c" "gpr p RDI = gpr c RDI" "gpr p RAX = - 1" "gpr p RDX = - 1"
    "kstate (world_of p) = k" "darling_errno (world_of p) = ucast a"
    using c by (simp_all add: p_def)
  have low: "(ucast (- 1 :: u64) :: c_int) = - 1" by (rule bit_word_eqI) (simp add: bit_simps)
  have "pipe_macos X M s = Inr (store_descriptors p)"
    using v(3) c(1,2) by (simp add: pipe_macos_def pipe_macos_code_def store_descriptors_def v_def pipe_request_def
        macos_symbols_def p_def code_lengths del: list.size)
  moreover have "load32 (cpu_mem (store_descriptors p)) (gpr p RDI) = - 1"
    "load32 (cpu_mem (store_descriptors p)) (gpr p RDI + 4) = - 1"
    unfolding store_descriptors_simps(4) p(3,4) low by (rule load_pair)+
  ultimately show ?thesis
    using c(5) by (intro exI [of _ "store_descriptors p"] exI [of _ "push ?ret ?b"])
      (simp add: store_descriptors_simps(1,2,6,7) p(2,5,6))
qed

text \<open>
  The stub of \<open>syscall\<close> does not align the stack for the error function: on an error, a caller that keeps
  the ABI faults.
\<close>

lemma misaligned_below:
  assumes "(x + 8) AND 15 = (0 :: u64)"
  shows "x AND 15 \<noteq> 0"
proof
  assume "x AND 15 = 0"
  then have "x AND (15 AND 8) = 0" by (simp only: and.assoc [symmetric]) simp
  then have "x + 8 = x OR 8" using word_plus_and_or [of x 8] by simp
  moreover have "bit ((x OR 8) AND 15) 3" by (simp add: bit_simps)
  ultimately show False using assms by simp
qed

definition indirect_request :: "'k cpu \<Rightarrow> 'k cpu" where
  "indirect_request s = step (Mov RCX R10) (step (Movl_imm 0x2000000 RAX) s)"

lemma syscall_macos_failure:
  fixes s :: "'k cpu"
  assumes aligned: "aligned_entry s" and answers: "xnu_answers X (indirect_request s) [] a d True k"
  shows "syscall_macos X M s = Inl Stack_misaligned"
proof -
  define v where "v = xnu_trap X (next_rip M ''_darling_syscall'' 4) (indirect_request s)"
  have "gpr (indirect_request s) RSP = gpr s RSP" by (simp add: indirect_request_def)
  then have v: "gpr v RSP = gpr s RSP" "carry (rflags v)"
    unfolding v_def by (simp_all add: trap_answered [OF answers])
  have "gpr s RSP AND 15 \<noteq> 0" using aligned misaligned_below unfolding aligned_entry_def by blast
  then show ?thesis
    using v by (simp add: syscall_macos_def indirect_syscall_macos_code_def v_def indirect_request_def macos_symbols_def c_cerror_def
        c_function_def code_lengths del: list.size)
qed

text \<open>
  The macro of \<open>SYS.h\<close> without \<open>DARLING\<close>, which the notes beside the test expand: it jumps to the error
  function, which is entered with the stack of the caller and returns to it.
\<close>

definition UNIX_SYSCALL_SYSCALL_macos :: "instr list" where
  "UNIX_SYSCALL_SYSCALL_macos =
     [Op (Mov RCX R10),
      Syscall]"

definition syscall_by_macro :: "'k xnu \<Rightarrow> 'k machine \<Rightarrow> 'k cpu \<Rightarrow> fault + 'k cpu" where
  "syscall_by_macro X M = exec_macos X M (macos_symbols M) ''___darling_syscall''
     (LEAF 0 @ [Op (Movl_imm (SYSCALL_CONSTRUCT_UNIX (SYS ''syscall'')) RAX)] @ UNIX_SYSCALL_SYSCALL_macos @
      [Jnb 2, Op (Mov RAX RDI)] @ BRANCH_EXTERN ''_darling_cerror'' @ [Ret])"

lemma construct_syscall: "SYSCALL_CONSTRUCT_UNIX (SYS ''syscall'') = 0x2000000"
  by code_simp

lemma macro_aligns_cerror:
  fixes s :: "'k cpu"
  assumes stack: "stack_discipline M" and aligned: "aligned_entry s"
    and answers: "xnu_answers X (indirect_request s) [0] a d True k"
  shows "\<exists>t. syscall_by_macro X M s = Inr t \<and> returns_to_caller s t \<and> gpr t RAX = - 1 \<and>
    darling_errno (world_of t) = ucast a \<and> kstate (world_of t) = k"
proof -
  let ?f = "''_darling_cerror''"
  define v where "v = xnu_trap X (next_rip M ''___darling_syscall'' 4) (indirect_request s)"
  let ?u = "step (Mov RAX RDI) v" and ?m = "scratch M (gpr s RSP) (cpu_mem v)"
  have request: "gpr (indirect_request s) RSP = gpr s RSP" "cpu_mem (indirect_request s) = cpu_mem s"
    "\<forall>r \<in> {RBX, RBP, R12, R13, R14, R15}. gpr (indirect_request s) r = gpr s r"
    by (simp_all add: indirect_request_def)
  then have v: "gpr v RAX = a" "gpr v RSP = gpr s RSP" "carry (rflags v)" "kstate (world_of v) = k"
    "\<forall>r \<in> {RBX, RBP, R12, R13, R14, R15}. gpr v r = gpr s r"
    "load64 (cpu_mem v) (gpr s RSP) = load64 (cpu_mem s) (gpr s RSP)"
    using trap_answered(5) [OF answers, of 0] unfolding v_def by (simp_all add: trap_answered [OF answers])
  obtain msgs where body: "darling_cerror_macos (ucast a) (world_of v)
      = (- 1, (foldr say msgs (world_of v))\<lparr>darling_errno := ucast a\<rparr>)"
    using cerror_macos_sets_errno unfolding sets_errno_def by blast
  define t where "t = \<lparr>gpr = c_registers M ?f (int128_result (- 1)) ?u,
    rflags = load_flags (rflags ?u) (junk_flags M ?f ?u), rip = load64 ?m (gpr s RSP),
    world_of = (foldr say msgs (world_of v))\<lparr>darling_errno := ucast a, mem := ?m\<rparr>\<rparr>"
  have "syscall_by_macro X M s = c_cerror M ?f darling_cerror_macos ?u"
    using v(3) by (simp add: syscall_by_macro_def LEAF_0 construct_syscall UNIX_SYSCALL_SYSCALL_macos_def BRANCH_EXTERN_def
        macos_symbols_def v_def indirect_request_def code_lengths del: list.size)
  also have "\<dots> = Inr t"
    using aligned v(1,2) body by (simp add: c_cerror_def c_function_def aligned_entry_def t_def foldr_say Let_def)
  finally have run: "syscall_by_macro X M s = Inr t" .
  have "load64 ?m (gpr s RSP) = load64 (cpu_mem v) (gpr s RSP)"
    using scratch_cell [OF stack, of 0 "gpr s RSP" "cpu_mem v"] by (simp add: C_STACK_def)
  then have "returns_to_caller s t"
    using v by (simp add: returns_to_caller_def t_def c_registers_def int128_result_def caller_saved_def)
  moreover have "gpr t RAX = - 1" by (simp add: t_def c_registers_def int128_result_def minus_1_low)
  moreover have "darling_errno (world_of t) = ucast a" "kstate (world_of t) = k"
    using v(4) by (simp_all add: t_def foldr_say)
  ultimately show ?thesis using run by blast
qed

section \<open>Property\<close>

text \<open>
  C31: The tests of errors with the stubs for macOS.  When the kernel answers \<open>EBADF\<close> (9) and \<open>ENOSYS\<close> (78), the
  tests of a failing \<open>write\<close> and of a number beyond the table pass.  The stub of \<open>syscall\<close> calls the error
  function on a stack that is not aligned.  The stub of \<open>pipe\<close> returns 0 from a failed call, after it has
  stored -1 twice where a clobbered register points to.
\<close>

theorem tests_on_macos:
  fixes s :: "'k cpu"
  assumes stack: "stack_discipline M" and aligned: "aligned_entry s"
    and ebadf: "xnu_answers X (framed_request 0x2000004 (calling [1000, str, 12] (errno_cleared s))) [0, 8] 9 d1 True k1"
    and enosys: "xnu_answers X (framed_request 0x200FFFF (errno_cleared s)) [0, 8] 78 d2 True k2"
      "xnu_answers X (indirect_request (calling [0x2000004, 1, str, 13] (errno_cleared s))) [] 78 d3 True k3"
    and fails: "xnu_answers X (pipe_request s) [] a d4 True k4"
  shows "write_fail_run (write_macos X M) str s = Inr True \<and>
    out_of_bound_unix_syscall (asm_out_of_bounds_macos X M) 78 s = Inr True \<and>
    sysnum_with_class_identifier (syscall_macos X M) 78 str s = Inl Stack_misaligned \<and>
    (\<exists>t c. pipe_macos X M s = Inr t \<and> gpr t RAX = 0 \<and> darling_errno (world_of t) = ucast a \<and>
      gpr t RDI = junk M ''_darling_cerror'' c RDI \<and> load32 (cpu_mem t) (gpr t RDI) = - 1)"
proof (intro conjI)
  show "write_fail_run (write_macos X M) str s = Inr True"
    using framed_stub [OF stack _ ebadf, of "''_darling_write''"] aligned
    by (auto simp: write_fail_run_def write_macos_def write_macos_code_def verdict_def darling_get_cerror_def)
  show "out_of_bound_unix_syscall (asm_out_of_bounds_macos X M) 78 s = Inr True"
    using framed_stub [OF stack _ enosys(1), of "''_darling_asm_out_of_bounds''"] aligned
    by (auto simp: out_of_bound_unix_syscall_def asm_out_of_bounds_macos_def out_of_bounds_macos_code_def
        verdict_def darling_get_cerror_def)
  show "sysnum_with_class_identifier (syscall_macos X M) 78 str s = Inl Stack_misaligned"
    using syscall_macos_failure [OF _ enosys(2)] aligned by (simp add: sysnum_with_class_identifier_def verdict_def)
  show "\<exists>t c. pipe_macos X M s = Inr t \<and> gpr t RAX = 0 \<and> darling_errno (world_of t) = ucast a \<and>
      gpr t RDI = junk M ''_darling_cerror'' c RDI \<and> load32 (cpu_mem t) (gpr t RDI) = - 1"
    using pipe_macos_failure [OF stack aligned fails] by blast
qed

text \<open>A kernel without descriptors: \<open>write\<close> fails with \<open>EBADF\<close>, \<open>pipe\<close> with \<open>EMFILE\<close>.\<close>

definition example_xnu :: "(c_int \<times> u64 list) list xnu" where
  "example_xnu g k m =
     ((if g RAX = 0x2000004 then 9 else if g RAX = 0x200002A then 24 else 78, g RDX, True), k, m)"

theorem tests_on_macos_witness:
  "write_fail_run (write_macos example_xnu (machine_on example_host)) 0x5000 (example_cpu 0) = Inr True \<and>
   sysnum_with_class_identifier (syscall_macos example_xnu (machine_on example_host)) 78 0x5000 (example_cpu 0)
     = Inl Stack_misaligned \<and>
   (\<exists>t. pipe_macos example_xnu (machine_on example_host) (example_cpu 0) = Inr t \<and> gpr t RAX = 0)"
proof -
  have stack: "stack_discipline (machine_on example_host)"
    using good_machine_on [OF enosys_example_host] by (simp add: good_machine_def)
  have answers: "\<exists>d k. xnu_answers example_xnu s offs
      (if gpr s RAX = 0x2000004 then 9 else if gpr s RAX = 0x200002A then 24 else 78) d True k" for s offs
    by (simp add: xnu_answers_def example_xnu_def list_all_iff)
  obtain d1 k1 where 1: "xnu_answers example_xnu
      (framed_request 0x2000004 (calling [1000, 0x5000, 12] (errno_cleared (example_cpu 0)))) [0, 8] 9 d1 True k1"
    using answers [of "framed_request 0x2000004 (calling [1000, 0x5000, 12] (errno_cleared (example_cpu 0)))" "[0, 8]"]
    by (auto simp: framed_request_def)
  obtain d2 k2 where 2: "xnu_answers example_xnu (framed_request 0x200FFFF (errno_cleared (example_cpu 0))) [0, 8] 78 d2 True k2"
    using answers [of "framed_request 0x200FFFF (errno_cleared (example_cpu 0))" "[0, 8]"] by (auto simp: framed_request_def)
  obtain d3 k3 where 3: "xnu_answers example_xnu
      (indirect_request (calling [0x2000004, 1, 0x5000, 13] (errno_cleared (example_cpu 0)))) [] 78 d3 True k3"
    using answers [of "indirect_request (calling [0x2000004, 1, 0x5000, 13] (errno_cleared (example_cpu 0)))" "[]"]
    by (auto simp: indirect_request_def)
  obtain d4 k4 where 4: "xnu_answers example_xnu (pipe_request (example_cpu 0)) [] 24 d4 True k4"
    using answers [of "pipe_request (example_cpu 0)" "[]"] by (auto simp: pipe_request_def)
  show ?thesis using tests_on_macos [OF stack example_cpu_good(1) 1 2 3 4] by blast
qed

end
