(* ===== verification/Tsd_Keys.thy ===== *)
theory Tsd_Keys
  imports Linux_Generic
begin

text \<open>
  The keys of thread-specific data, \<open>src/include/pthread/tsd_private.h\<close>, and Darling's names for its own,
  \<open>include/common/tsd.h\<close>: the headers as conditional definitions, interpreted by \<open>preprocess\<close>.  The \<open>_TYPE\<close>
  macros, which name C types, and \<open>_PTHREAD_TSD_RESERVED_SLOT_COUNT\<close>, which is defined as itself, are left
  out.
\<close>

section \<open>The headers\<close>

definition tsd_slots :: "nr_define list" where
  "tsd_slots = [
    (Always, ''__TSD_RESERVED_BASE'', Number 0), (Always, ''__TSD_RESERVED_MAX'', Number 9),
    (Always, ''__TSD_THREAD_SELF'', Number 0), (Always, ''__TSD_ERRNO'', Number 1),
    (Always, ''__TSD_MIG_REPLY'', Number 2), (Always, ''__TSD_MACH_THREAD_SELF'', Number 3),
    (Always, ''__TSD_THREAD_QOS_CLASS'', Number 4), (Always, ''__TSD_RETURN_TO_KERNEL'', Number 5),
    (Always, ''__TSD_PTR_MUNGE'', Number 7), (Always, ''__TSD_MACH_SPECIAL_REPLY'', Number 8),
    (Always, ''__TSD_SEMAPHORE_CACHE'', Number 9),
    (Always, ''_PTHREAD_TSD_SLOT_PTHREAD_SELF'', Same ''__TSD_THREAD_SELF''),
    (Always, ''_PTHREAD_TSD_SLOT_ERRNO'', Same ''__TSD_ERRNO''),
    (Always, ''_PTHREAD_TSD_SLOT_MIG_REPLY'', Same ''__TSD_MIG_REPLY''),
    (Always, ''_PTHREAD_TSD_SLOT_MACH_THREAD_SELF'', Same ''__TSD_MACH_THREAD_SELF''),
    (Always, ''_PTHREAD_TSD_SLOT_PTHREAD_QOS_CLASS'', Same ''__TSD_THREAD_QOS_CLASS''),
    (Always, ''_PTHREAD_TSD_SLOT_RETURN_TO_KERNEL'', Same ''__TSD_RETURN_TO_KERNEL''),
    (Always, ''_PTHREAD_TSD_SLOT_PTR_MUNGE'', Same ''__TSD_PTR_MUNGE''),
    (Always, ''_PTHREAD_TSD_SLOT_MACH_SPECIAL_REPLY'', Same ''__TSD_MACH_SPECIAL_REPLY''),
    (Always, ''_PTHREAD_TSD_SLOT_SEMAPHORE_CACHE'', Same ''__TSD_SEMAPHORE_CACHE'')]"

definition tsd_keys_1 :: "nr_define list" where
  "tsd_keys_1 = [
    (Always, ''__PTK_LIBC_LOCALE_KEY'', Number 10), (Always, ''__PTK_LIBC_LOCALTIME_KEY'', Number 12),
    (Always, ''__PTK_LIBC_GMTIME_KEY'', Number 13),
    (Always, ''__PTK_LIBC_GDTOA_BIGINT_KEY'', Number 14),
    (Always, ''__PTK_LIBC_PARSEFLOAT_KEY'', Number 15),
    (Always, ''__PTK_LIBC_TTYNAME_KEY'', Number 16),
    (Always, ''__PTK_LIBC_DYLD_Unwind_SjLj_Key'', Number 18),
    (Always, ''__PTK_LIBDISPATCH_KEY0'', Number 20), (Always, ''__PTK_LIBDISPATCH_KEY1'', Number 21),
    (Always, ''__PTK_LIBDISPATCH_KEY2'', Number 22), (Always, ''__PTK_LIBDISPATCH_KEY3'', Number 23),
    (Always, ''__PTK_LIBDISPATCH_KEY4'', Number 24), (Always, ''__PTK_LIBDISPATCH_KEY5'', Number 25),
    (Always, ''__PTK_LIBDISPATCH_KEY6'', Number 26), (Always, ''__PTK_LIBDISPATCH_KEY7'', Number 27),
    (Always, ''__PTK_LIBDISPATCH_KEY8'', Number 28), (Always, ''__PTK_LIBDISPATCH_KEY9'', Number 29),
    (Always, ''_PTHREAD_TSD_SLOT_OPENGL'', Number 30),
    (Always, ''__PTK_FRAMEWORK_OPENGL_KEY'', Number 30),
    (Always, ''__PTK_FRAMEWORK_GRAPHICS_KEY1'', Number 31),
    (Always, ''__PTK_FRAMEWORK_GRAPHICS_KEY2'', Number 32),
    (Always, ''__PTK_FRAMEWORK_GRAPHICS_KEY3'', Number 33),
    (Always, ''__PTK_FRAMEWORK_GRAPHICS_KEY4'', Number 34),
    (Always, ''__PTK_FRAMEWORK_GRAPHICS_KEY5'', Number 35),
    (Always, ''__PTK_FRAMEWORK_GRAPHICS_KEY6'', Number 36),
    (Always, ''__PTK_FRAMEWORK_GRAPHICS_KEY7'', Number 37),
    (Always, ''__PTK_FRAMEWORK_GRAPHICS_KEY8'', Number 38),
    (Always, ''__PTK_FRAMEWORK_GRAPHICS_KEY9'', Number 39),
    (Always, ''__PTK_FRAMEWORK_OBJC_KEY0'', Number 40),
    (Always, ''__PTK_FRAMEWORK_OBJC_KEY1'', Number 41),
    (Always, ''__PTK_FRAMEWORK_OBJC_KEY2'', Number 42),
    (Always, ''__PTK_FRAMEWORK_OBJC_KEY3'', Number 43),
    (Always, ''__PTK_FRAMEWORK_OBJC_KEY4'', Number 44),
    (Always, ''__PTK_FRAMEWORK_OBJC_KEY5'', Number 45),
    (Always, ''__PTK_FRAMEWORK_OBJC_KEY6'', Number 46),
    (Always, ''__PTK_FRAMEWORK_OBJC_KEY7'', Number 47),
    (Always, ''__PTK_FRAMEWORK_OBJC_KEY8'', Number 48),
    (Always, ''__PTK_FRAMEWORK_OBJC_KEY9'', Number 49),
    (Always, ''__PTK_FRAMEWORK_COREFOUNDATION_KEY0'', Number 50),
    (Always, ''__PTK_FRAMEWORK_COREFOUNDATION_KEY1'', Number 51),
    (Always, ''__PTK_FRAMEWORK_COREFOUNDATION_KEY2'', Number 52),
    (Always, ''__PTK_FRAMEWORK_COREFOUNDATION_KEY3'', Number 53),
    (Always, ''__PTK_FRAMEWORK_COREFOUNDATION_KEY4'', Number 54),
    (Always, ''__PTK_FRAMEWORK_COREFOUNDATION_KEY5'', Number 55),
    (Always, ''__PTK_FRAMEWORK_COREFOUNDATION_KEY6'', Number 56),
    (Always, ''__PTK_FRAMEWORK_COREFOUNDATION_KEY7'', Number 57),
    (Always, ''__PTK_FRAMEWORK_COREFOUNDATION_KEY8'', Number 58),
    (Always, ''__PTK_FRAMEWORK_COREFOUNDATION_KEY9'', Number 59),
    (Always, ''__PTK_FRAMEWORK_FOUNDATION_KEY0'', Number 60),
    (Always, ''__PTK_FRAMEWORK_FOUNDATION_KEY1'', Number 61),
    (Always, ''__PTK_FRAMEWORK_FOUNDATION_KEY2'', Number 62),
    (Always, ''__PTK_FRAMEWORK_FOUNDATION_KEY3'', Number 63),
    (Always, ''__PTK_FRAMEWORK_FOUNDATION_KEY4'', Number 64),
    (Always, ''__PTK_FRAMEWORK_FOUNDATION_KEY5'', Number 65),
    (Always, ''__PTK_FRAMEWORK_FOUNDATION_KEY6'', Number 66),
    (Always, ''__PTK_FRAMEWORK_FOUNDATION_KEY7'', Number 67),
    (Always, ''__PTK_FRAMEWORK_FOUNDATION_KEY8'', Number 68),
    (Always, ''__PTK_FRAMEWORK_FOUNDATION_KEY9'', Number 69),
    (Always, ''__PTK_FRAMEWORK_QUARTZCORE_KEY0'', Number 70),
    (Always, ''__PTK_FRAMEWORK_QUARTZCORE_KEY1'', Number 71),
    (Always, ''__PTK_FRAMEWORK_QUARTZCORE_KEY2'', Number 72),
    (Always, ''__PTK_FRAMEWORK_QUARTZCORE_KEY3'', Number 73),
    (Always, ''__PTK_FRAMEWORK_QUARTZCORE_KEY4'', Number 74),
    (Always, ''__PTK_FRAMEWORK_QUARTZCORE_KEY5'', Number 75),
    (Always, ''__PTK_FRAMEWORK_QUARTZCORE_KEY6'', Number 76)]"

definition tsd_keys_2 :: "nr_define list" where
  "tsd_keys_2 = [
    (Always, ''__PTK_FRAMEWORK_QUARTZCORE_KEY7'', Number 77),
    (Always, ''__PTK_FRAMEWORK_QUARTZCORE_KEY8'', Number 78),
    (Always, ''__PTK_FRAMEWORK_QUARTZCORE_KEY9'', Number 79),
    (Always, ''__PTK_FRAMEWORK_COREDATA_KEY0'', Number 80),
    (Always, ''__PTK_FRAMEWORK_COREDATA_KEY1'', Number 81),
    (Always, ''__PTK_FRAMEWORK_COREDATA_KEY2'', Number 82),
    (Always, ''__PTK_FRAMEWORK_COREDATA_KEY3'', Number 83),
    (Always, ''__PTK_FRAMEWORK_COREDATA_KEY4'', Number 84),
    (Always, ''__PTK_FRAMEWORK_COREDATA_KEY5'', Number 85),
    (Always, ''__PTK_FRAMEWORK_COREDATA_KEY6'', Number 86),
    (Always, ''__PTK_FRAMEWORK_COREDATA_KEY7'', Number 87),
    (Always, ''__PTK_FRAMEWORK_COREDATA_KEY8'', Number 88),
    (Always, ''__PTK_FRAMEWORK_COREDATA_KEY9'', Number 89),
    (Always, ''__PTK_FRAMEWORK_JAVASCRIPTCORE_KEY0'', Number 90),
    (Always, ''__PTK_FRAMEWORK_JAVASCRIPTCORE_KEY1'', Number 91),
    (Always, ''__PTK_FRAMEWORK_JAVASCRIPTCORE_KEY2'', Number 92),
    (Always, ''__PTK_FRAMEWORK_JAVASCRIPTCORE_KEY3'', Number 93),
    (Always, ''__PTK_FRAMEWORK_JAVASCRIPTCORE_KEY4'', Number 94),
    (Always, ''__PTK_FRAMEWORK_CORETEXT_KEY0'', Number 95),
    (Always, ''__PTK_FRAMEWORK_SWIFT_KEY0'', Number 100),
    (Always, ''__PTK_FRAMEWORK_SWIFT_KEY1'', Number 101),
    (Always, ''__PTK_FRAMEWORK_SWIFT_KEY2'', Number 102),
    (Always, ''__PTK_FRAMEWORK_SWIFT_KEY3'', Number 103),
    (Always, ''__PTK_FRAMEWORK_SWIFT_KEY4'', Number 104),
    (Always, ''__PTK_FRAMEWORK_SWIFT_KEY5'', Number 105),
    (Always, ''__PTK_FRAMEWORK_SWIFT_KEY6'', Number 106),
    (Always, ''__PTK_FRAMEWORK_SWIFT_KEY7'', Number 107),
    (Always, ''__PTK_FRAMEWORK_SWIFT_KEY8'', Number 108),
    (Always, ''__PTK_FRAMEWORK_SWIFT_KEY9'', Number 109),
    (Always, ''__PTK_LIBMALLOC_KEY0'', Number 110), (Always, ''__PTK_LIBMALLOC_KEY1'', Number 111),
    (Always, ''__PTK_LIBMALLOC_KEY2'', Number 112), (Always, ''__PTK_LIBMALLOC_KEY3'', Number 113),
    (Always, ''__PTK_LIBMALLOC_KEY4'', Number 114),
    (Always, ''__PTK_LIBDISPATCH_WORKGROUP_KEY0'', Number 115),
    (Always, ''__PTK_LIBDISPATCH_WORKGROUP_KEY1'', Number 116),
    (Always, ''__PTK_LIBDISPATCH_WORKGROUP_KEY2'', Number 117),
    (Always, ''__PTK_LIBDISPATCH_WORKGROUP_KEY3'', Number 118),
    (Always, ''__PTK_LIBDISPATCH_WORKGROUP_KEY4'', Number 119),
    (Always, ''__PTK_PERF_UTILS_KEY0'', Number 190), (Always, ''__PTK_PERF_UTILS_KEY1'', Number 191),
    (Always, ''__PTK_PERF_UTILS_KEY2'', Number 192), (Always, ''__PTK_PERF_UTILS_KEY3'', Number 193),
    (Always, ''__PTK_PERF_UTILS_KEY4'', Number 194),
    (Defined ''DARLING'', ''__PTK_DARLING_KEY0'', Number 200),
    (Defined ''DARLING'', ''__PTK_DARLING_KEY1'', Number 201),
    (Defined ''DARLING'', ''__PTK_DARLING_KEY2'', Number 202),
    (Defined ''DARLING'', ''__PTK_DARLING_KEY3'', Number 203),
    (Defined ''DARLING'', ''__PTK_DARLING_KEY4'', Number 204),
    (Defined ''DARLING'', ''__PTK_DARLING_KEY5'', Number 205),
    (Defined ''DARLING'', ''__PTK_DARLING_KEY6'', Number 206),
    (Defined ''DARLING'', ''__PTK_DARLING_KEY7'', Number 207),
    (Defined ''DARLING'', ''__PTK_DARLING_KEY8'', Number 208),
    (Defined ''DARLING'', ''__PTK_DARLING_KEY9'', Number 209),
    (Always, ''__PTK_LIBC_SIM_LOCALE_KEY'', Number 210),
    (Always, ''__PTK_LIBC_SIM_TTYNAME_KEY'', Number 211),
    (Always, ''__PTK_LIBC_SIM_LOCALTIME_KEY'', Number 212),
    (Always, ''__PTK_LIBC_SIM_GMTIME_KEY'', Number 213),
    (Always, ''__PTK_LIBC_SIM_GDTOA_BIGINT_KEY'', Number 214),
    (Always, ''__PTK_LIBC_SIM_PARSEFLOAT_KEY'', Number 215)]"

definition darling_tsd :: "nr_define list" where
  "darling_tsd = [
    (Always, ''__PTK_DARLING_XTRACE_TLS'', Same ''__PTK_DARLING_KEY0''),
    (Always, ''__PTK_DARLING_PERTHREAD_WD_IS_SET'', Same ''__PTK_DARLING_KEY1''),
    (Always, ''__PTK_DARLING_PERTHREAD_WD_FD'', Same ''__PTK_DARLING_KEY2'')]"

text \<open>The macros that the build defines, \<open>CMakeLists.txt\<close>.\<close>

definition darling_build :: configuration where
  "darling_build = \<lparr>macros = [''PRIVATE'', ''DARLING''], bits_per_long = 64\<rparr>"

definition tsd_keys :: "configuration \<Rightarrow> (string \<times> nat) list" where
  "tsd_keys cfg = preprocess cfg [] (tsd_slots @ tsd_keys_1 @ tsd_keys_2 @ darling_tsd)"

lemmas tsd_defs = tsd_keys_def tsd_slots_def tsd_keys_1_def tsd_keys_2_def darling_tsd_def

section \<open>Whose key it is\<close>

definition of_darling :: "string \<Rightarrow> bool" where
  "of_darling n \<longleftrightarrow> take 13 n = ''__PTK_DARLING''"

definition well_assigned :: "string \<times> nat \<Rightarrow> bool" where
  "well_assigned nk = (case nk of (n, k) \<Rightarrow> k < 256 \<and> k \<noteq> 6 \<and> k \<noteq> 11 \<and> (200 \<le> k \<and> k \<le> 209 \<longleftrightarrow> of_darling n))"

lemma keys_well_assigned: "list_all well_assigned (tsd_keys darling_build)"
  by code_simp

lemma some_keys:
  "map (assoc (tsd_keys darling_build)) [''__PTK_DARLING_XTRACE_TLS'', ''__PTK_DARLING_PERTHREAD_WD_IS_SET'',
     ''__PTK_DARLING_PERTHREAD_WD_FD'', ''__PTK_LIBC_TTYNAME_KEY'', ''__PTK_LIBC_SIM_TTYNAME_KEY'']
   = [Some 200, Some 201, Some 202, Some 16, Some 211]"
  by code_simp

section \<open>Property\<close>

text \<open>
  Darling has the keys 200 to 209 to itself: of all names in the two headers, exactly its own have
  a key in this range; and no name has one of the slots 6 and 11 that are left to Windows and Go.
\<close>

lemma darling_keys_reserved:
  assumes "assoc (tsd_keys darling_build) n = Some k"
  shows "k < 256 \<and> k \<notin> {6, 11} \<and> (k \<in> {200..209} \<longleftrightarrow> of_darling n)"
  using keys_well_assigned assoc_member [OF assms]
  by (fastforce simp: list_all_iff well_assigned_def)

end
