(* ===== verification/Linking.thy ===== *)
theory Linking
  imports Libsyscall
begin

text \<open>
  When is code linked?  A static check of a function's instructions, and its soundness: code that passes
  neither branches to an undefined symbol nor runs past its end, so the only faults of a stub are
  those of the machine (a misaligned stack, an overwritten return address) and of the data that the
  user passes to \<open>recvfrom\<close>.
\<close>

section \<open>The check\<close>

text \<open>Every path ends in a return or in a branch to a symbol, and every symbol is one of \<open>D\<close>.\<close>

function closed_code :: "string list \<Rightarrow> instr list \<Rightarrow> bool" where
  "closed_code D [] = False"
| "closed_code D (Op i # code) = closed_code D code"
| "closed_code D (Syscall # code) = closed_code D code"
| "closed_code D (Load_got f r # code) = closed_code D code"
| "closed_code D (Mov_to_var r f # code) = closed_code D code"
| "closed_code D (Mov_from_var f r # code) = closed_code D code"
| "closed_code D (Push_var f # code) = closed_code D code"
| "closed_code D (Call f # code) = (f \<in> set D \<and> closed_code D code)"
| "closed_code D (Jmp f # code) = (f \<in> set D)"
| "closed_code D (Jnb n # code) = (closed_code D code \<and> closed_code D (drop n code))"
| "closed_code D (Ret # code) = True"
  by pat_completeness auto
termination
  by (relation "measure (\<lambda>(D, code). length code)") auto

lemma closed_code_faults:
  assumes "closed_code D code" and "exec M S name code s = Inl flt" and "set D \<subseteq> dom S"
    and "\<And>f g u flt. S f = Some g \<Longrightarrow> g u = Inl flt \<Longrightarrow> flt \<in> F" and "Wild_return \<in> F"
  shows "flt \<in> F"
  using assms
proof (induction M S name code s rule: exec.induct)
  case (8 M S name f code s)
  then obtain g where g: "S f = Some g" by auto
  then show ?case
  proof (cases "g (push (next_rip M name (length code)) s)")
    case (Inl flt')
    then show ?thesis using 8 g by auto
  next
    case (Inr s')
    then show ?thesis using 8 g by (auto split: if_splits)
  qed
next
  case (10 M S name n code s)
  then show ?case by (cases "carry (rflags s)") simp_all
qed auto

section \<open>The faults of the functions that are called\<close>

lemma sockaddr_faults:
  "sockaddr_fixup_from_linux e out p len m = Inl flt \<Longrightarrow> flt \<in> {Memcpy_range, Strcpy_overflow}"
  by (auto simp: sockaddr_fixup_from_linux_def vchroot_unexpand_def Let_def
      split: option.splits if_splits)

lemma recvfrom_faults:
  "recvfrom_service e fd buf len flags from socklen w = Inl flt \<Longrightarrow>
   flt \<in> {Null_deref, Memcpy_range, Strcpy_overflow}"
  using sockaddr_faults [where flt = flt]
  by (auto simp: recvfrom_service_def Let_def split: platform.splits prod.splits if_splits sum.splits)

lemma service_faults:
  "unix_service e nr a w = Inl flt \<Longrightarrow> flt \<in> {Null_deref, Memcpy_range, Strcpy_overflow}"
  using recvfrom_faults [where flt = flt]
  by (auto simp: unix_service_def write_service_def pipe_service_def no_service_def Let_def
      split: platform.splits prod.splits if_splits)

lemma delivered_fault: "delivered p r = Inl flt \<longleftrightarrow> r = Inl flt"
  by (cases r) (auto split: prod.splits)

lemma handler_faults:
  assumes "valid_locals loc" and "enosys_is_error e" and "darling_handle_x86_64_syscall e loc p w = Inl flt"
  shows "flt \<in> {Null_deref, Memcpy_range, Strcpy_overflow}"
proof (cases "class_of (reg (mem w) p rax_off) = SYSCALL_CLASS_UNIX")
  case True
  from handler_service [OF this assms(1,2)] assms(3) show ?thesis
    by (metis delivered_fault service_faults)
next
  case False
  with assms(3) show ?thesis by (simp add: handler_other_class)
qed

text \<open>The faults a program that is linked with \<open>libsyscall\<close> can meet.\<close>

definition data_or_stack_faults :: "fault set" where
  "data_or_stack_faults = {Stack_misaligned, Wild_return, Null_deref, Memcpy_range, Strcpy_overflow}"

lemma c_function_fault:
  "c_function M f body s = Inl flt \<Longrightarrow> flt = Stack_misaligned \<or> body s = Inl flt"
  by (auto simp: c_function_def Let_def split: if_splits sum.splits prod.splits)

lemma asmbridge_faults:
  assumes "good_machine M" and "asmbridge M s = Inl flt"
  shows "flt \<in> data_or_stack_faults"
proof (rule closed_code_faults [where D = "[''_darling_handle_x86_64_syscall'']"])
  show "closed_code [''_darling_handle_x86_64_syscall''] asmbridge_code"
    by (simp add: asmbridge_code_def save_registers_def restore_registers_def)
  show "exec M (darling_handle_symbols M) ''___darling_handle_x86_64_syscall'' asmbridge_code s = Inl flt"
    using assms(2) by (simp add: asmbridge_def)
  show "set [''_darling_handle_x86_64_syscall''] \<subseteq> dom (darling_handle_symbols M)"
    by (simp add: darling_handle_symbols_def)
  show "Wild_return \<in> data_or_stack_faults" by (simp add: data_or_stack_faults_def)
  fix f g u flt
  assume "darling_handle_symbols M f = Some g" and "g u = Inl flt"
  then have "c_handler M u = Inl flt" by (auto simp: darling_handle_symbols_def split: if_splits)
  then have "flt = Stack_misaligned \<or>
      darling_handle_x86_64_syscall (host M) (uninitialised M) (gpr u RDI) (world_of u) = Inl flt"
    unfolding c_handler_def by (drule_tac c_function_fault) (auto split: sum.splits prod.splits)
  then show "flt \<in> data_or_stack_faults"
    using handler_faults [where loc = "uninitialised M" and flt = flt] assms(1)
    by (force simp: data_or_stack_faults_def good_machine_def)
qed

lemma symbol_faults:
  assumes "good_machine M" and "libsyscall_symbols M f = Some g" and "g u = Inl flt"
  shows "flt \<in> data_or_stack_faults"
proof -
  consider "asmbridge M u = Inl flt" | h where "c_cerror M f h u = Inl flt"
    using assms(2,3) by (auto simp: libsyscall_symbols_def split: if_splits)
  then show ?thesis
  proof cases
    case 1
    then show ?thesis by (rule asmbridge_faults [OF assms(1)])
  next
    case 2
    then have "flt = Stack_misaligned"
      unfolding c_cerror_def by (drule_tac c_function_fault) (auto split: prod.splits)
    then show ?thesis by (simp add: data_or_stack_faults_def)
  qed
qed

definition libsyscall_names :: "string list" where
  "libsyscall_names = [''___darling_handle_x86_64_syscall'', ''darling_cerror'', ''darling_cerror_nocancel'']"

lemma libsyscall_names_defined: "set libsyscall_names = dom (libsyscall_symbols M)"
  by (auto simp: libsyscall_names_def libsyscall_symbols_def)

section \<open>Properties\<close>

text \<open>
  C34: The stubs are linked, \<open>recvmsg\<close> excepted, and linked code does not go wrong: whatever a function that
  passes the check computes and calls, it neither reaches an undefined symbol or the end of its code
  nor \<open>__builtin_trap\<close> or an array bound of the handler.  What is left are a misaligned or
  overwritten stack and the data of \<open>recvfrom\<close>: a null pointer, a negative length, a path that is too long.
\<close>

theorem linked_code_is_safe:
  assumes "good_machine M" and "closed_code libsyscall_names code"
    and "exec M (libsyscall_symbols M) name code s = Inl flt"
  shows "flt \<in> {Stack_misaligned, Wild_return, Null_deref, Memcpy_range, Strcpy_overflow} \<and>
    closed_code libsyscall_names write_code \<and> closed_code libsyscall_names pipe_code \<and>
    closed_code libsyscall_names syscall_code \<and> \<not> closed_code libsyscall_names recvmsg_code"
proof
  show "flt \<in> {Stack_misaligned, Wild_return, Null_deref, Memcpy_range, Strcpy_overflow}"
    using closed_code_faults [OF assms(2,3) _ symbol_faults [OF assms(1)]] libsyscall_names_defined
    by (force simp: data_or_stack_faults_def)
qed (simp add: write_code_def pipe_code_def syscall_code_def recvmsg_code_def macro_defs libsyscall_names_def)

section \<open>Witnesses\<close>

text \<open>A caller whose stack is not aligned.\<close>

theorem linked_code_is_safe_witness:
  "\<exists>flt. darling_write (machine_on example_host) ((example_cpu 0)\<lparr>gpr := (gpr (example_cpu 0))(RSP := 0x7FFF0000)\<rparr>)
       = Inl flt \<and>
     flt \<in> {Stack_misaligned, Wild_return, Null_deref, Memcpy_range, Strcpy_overflow}"
proof -
  let ?s = "(example_cpu 0)\<lparr>gpr := (gpr (example_cpu 0))(RSP := 0x7FFF0000)\<rparr>"
  have "darling_write (machine_on example_host) ?s = Inl Stack_misaligned"
    by (simp add: darling_write_def write_code_def macro_defs libsyscall_symbols_def asmbridge_def
        asmbridge_code_def exec_ops save_registers_def darling_handle_symbols_def c_handler_def c_function_def)
  moreover have "closed_code libsyscall_names write_code"
    by (simp add: write_code_def macro_defs libsyscall_names_def)
  ultimately show ?thesis
    using linked_code_is_safe [OF good_machine_on [OF enosys_example_host]] unfolding darling_write_def by blast
qed

end
