(* ===== verification/Memory32.thy ===== *)
theory Memory32
  imports Prelude
begin

text \<open>
  The memory of a 32-bit process: that of \<open>Prelude\<close>, with the 32-bit addresses zero-extended, so a 4-byte
  object must not straddle the end of the 4 GiB.
\<close>

unbundle bit_operations_syntax

definition get32 :: "memory \<Rightarrow> u32 \<Rightarrow> u32" where
  "get32 m a = load32 m (ucast a)"

definition put32 :: "memory \<Rightarrow> u32 \<Rightarrow> u32 \<Rightarrow> memory" where
  "put32 m a v = store32 m (ucast a) v"

text \<open>Cells of 4 bytes that do not overlap in the 32-bit address space.\<close>

definition apart :: "u32 \<Rightarrow> u32 \<Rightarrow> bool" where
  "apart a b \<longleftrightarrow> 4 \<le> unat (b - a) \<and> 4 \<le> unat (a - b)"

lemma zero_extended_distance:
  fixes a b :: u32
  assumes "4 \<le> unat (b - a)"
  shows "4 \<le> unat (ucast b - ucast a :: u64)"
proof -
  have less: "unat a < 2 ^ 32" "unat b < 2 ^ 32" using unsigned_less [of a] unsigned_less [of b] by simp_all
  then have "unat (ucast a :: u64) = unat a" "unat (ucast b :: u64) = unat b"
    by (simp_all add: unsigned_ucast_eq take_bit_nat_eq_self)
  then show ?thesis
    using assms less by (auto simp: unat_sub_if' word_le_nat_alt split: if_splits)
qed

lemma get32_put32_same: "get32 (put32 m a v) a = v"
  by (simp add: get32_def put32_def d.ld_st_same)

lemma get32_put32_commuted: "get32 (put32 m (i + a) v) (a + i) = v"
  by (simp add: get32_put32_same add.commute)

lemma get32_put32_apart: "apart a b \<Longrightarrow> get32 (put32 m a v) b = get32 m b"
  unfolding get32_def put32_def apart_def
  by (rule d.ld_st_disjoint) (simp add: disjoint_regions_def zero_extended_distance)

lemma apart_offsets:
  "apart (b - i) (b - j) \<longleftrightarrow> 4 \<le> unat (i - j) \<and> 4 \<le> unat (j - i)"
  "apart (b - i) b \<longleftrightarrow> 4 \<le> unat i \<and> 4 \<le> unat (- i)"
  "apart b (b - i) \<longleftrightarrow> 4 \<le> unat (- i) \<and> 4 \<le> unat i"
  "apart (b - i) (b + j) \<longleftrightarrow> 4 \<le> unat (i + j) \<and> 4 \<le> unat (- i - j)"
  "apart (b - i) (j + b) \<longleftrightarrow> 4 \<le> unat (i + j) \<and> 4 \<le> unat (- i - j)"
  "apart (i + b) (j + b) \<longleftrightarrow> 4 \<le> unat (j - i) \<and> 4 \<le> unat (i - j)"
  "apart (i + b) (b + j) \<longleftrightarrow> 4 \<le> unat (j - i) \<and> 4 \<le> unat (i - j)"
  "apart (b + i) (j + b) \<longleftrightarrow> 4 \<le> unat (j - i) \<and> 4 \<le> unat (i - j)"
  "apart b (j + b) \<longleftrightarrow> 4 \<le> unat j \<and> 4 \<le> unat (- j)"
  "apart (i + b) b \<longleftrightarrow> 4 \<le> unat (- i) \<and> 4 \<le> unat i"
  "apart (b + i) (b + j) \<longleftrightarrow> 4 \<le> unat (j - i) \<and> 4 \<le> unat (i - j)"
  "apart b (b + j) \<longleftrightarrow> 4 \<le> unat j \<and> 4 \<le> unat (- j)"
  "apart (b + i) b \<longleftrightarrow> 4 \<le> unat (- i) \<and> 4 \<le> unat i"
  by (simp_all add: apart_def algebra_simps)

lemmas cell32_simps = get32_put32_same get32_put32_commuted get32_put32_apart apart_offsets

end
