(* ===== verification/Machine_I386.thy ===== *)
theory Machine_I386
  imports Kernel_Interface Memory32
begin

text \<open>
  The part of i386 that the 32-bit branches of the assembly use.  Stack addresses wrap around at 32
  bits.  Of the flags the code reads the carry flag only.

  As in \<open>Machine\<close> the linker chooses the addresses of the code (\<open>next_eip\<close>), of symbols (\<open>symbol_at\<close>) and
  of the pointers that position-independent code goes through (\<open>pointer_at\<close>).
\<close>

unbundle bit_operations_syntax

section \<open>The state\<close>

datatype reg32 = EAX | ECX | EDX | EBX | ESP | EBP | ESI | EDI

record 'k cpu32 =
  gpr32 :: "reg32 \<Rightarrow> u32"
  carry32 :: bool
  eip :: u32
  world32 :: "'k world"

abbreviation mem32 :: "'k cpu32 \<Rightarrow> memory" where
  "mem32 s \<equiv> mem (world32 s)"

definition set_reg32 :: "reg32 \<Rightarrow> u32 \<Rightarrow> 'k cpu32 \<Rightarrow> 'k cpu32" where
  "set_reg32 r v s = s\<lparr>gpr32 := (gpr32 s)(r := v)\<rparr>"

definition set_mem32 :: "memory \<Rightarrow> 'k cpu32 \<Rightarrow> 'k cpu32" where
  "set_mem32 m s = s\<lparr>world32 := (world32 s)\<lparr>mem := m\<rparr>\<rparr>"

definition push32 :: "u32 \<Rightarrow> 'k cpu32 \<Rightarrow> 'k cpu32" where
  "push32 v s = set_reg32 ESP (gpr32 s ESP - 4) (set_mem32 (put32 (mem32 s) (gpr32 s ESP - 4) v) s)"

section \<open>Instructions\<close>

datatype operation32 =
    Pushl reg32
  | Popl reg32
  | Movl reg32 reg32
  | Movl_const u32 reg32
  | Movl_from u32 reg32 reg32     \<comment> \<open>\<open>movl disp(base), dst\<close>\<close>
  | Movl_to reg32 u32 reg32       \<comment> \<open>\<open>movl src, disp(base)\<close>\<close>
  | Subl u32 reg32
  | Xorl reg32                    \<comment> \<open>\<open>xorl r, r\<close>\<close>

datatype instr32 =
    Op32 operation32
  | Int80                         \<comment> \<open>\<open>int $0x80\<close>, the system call of Linux\<close>
  | Call32 string
  | Call_here                     \<comment> \<open>\<open>call 1f; 1:\<close>\<close>
  | Load_pointer string reg32     \<comment> \<open>\<open>movl L##var##__non_lazy_ptr-1b(%edx), r\<close>, one instruction after \<open>1:\<close>\<close>
  | Push_symbol string            \<comment> \<open>\<open>push var\<close>\<close>
  | Mov_to_symbol reg32 string    \<comment> \<open>\<open>mov r, var\<close>\<close>
  | Mov_address string reg32      \<comment> \<open>\<open>mov $var, r\<close>\<close>
  | Jmp32 string
  | Jmp_to reg32                  \<comment> \<open>\<open>jmp *r\<close>\<close>
  | Call_to reg32                 \<comment> \<open>\<open>call *r\<close>\<close>
  | Jnb32 nat
  | Ret32

fun step32 :: "operation32 \<Rightarrow> 'k cpu32 \<Rightarrow> 'k cpu32" where
  "step32 (Pushl r) s = push32 (gpr32 s r) s"
| "step32 (Popl r) s =
     (let v = get32 (mem32 s) (gpr32 s ESP) in set_reg32 r v (set_reg32 ESP (gpr32 s ESP + 4) s))"
| "step32 (Movl src dst) s = set_reg32 dst (gpr32 s src) s"
| "step32 (Movl_const i r) s = set_reg32 r i s"
| "step32 (Movl_from d b r) s = set_reg32 r (get32 (mem32 s) (gpr32 s b + d)) s"
| "step32 (Movl_to r d b) s = set_mem32 (put32 (mem32 s) (gpr32 s b + d) (gpr32 s r)) s"
| "step32 (Subl i r) s = (set_reg32 r (gpr32 s r - i) s)\<lparr>carry32 := gpr32 s r < i\<rparr>"
| "step32 (Xorl r) s = (set_reg32 r 0 s)\<lparr>carry32 := False\<rparr>"

section \<open>Running code\<close>

record 'k machine32 =
  host32 :: "'k env"
  next_eip :: "string \<Rightarrow> nat \<Rightarrow> u32"       \<comment> \<open>address after an instruction of a symbol\<close>
  symbol_at :: "string \<Rightarrow> u32"
  pointer_at :: "string \<Rightarrow> u32"            \<comment> \<open>\<open>L##var##__non_lazy_ptr\<close>\<close>
  symbol_of :: "u32 \<Rightarrow> string option"      \<comment> \<open>the function at an address\<close>

type_synonym 'k symbols32 = "string \<Rightarrow> ('k cpu32 \<Rightarrow> fault + 'k cpu32) option"

definition return32 :: "'k cpu32 \<Rightarrow> 'k cpu32" where
  "return32 s = (set_reg32 ESP (gpr32 s ESP + 4) s)\<lparr>eip := get32 (mem32 s) (gpr32 s ESP)\<rparr>"

text \<open>The kernel takes the number in \<open>eax\<close> and changes no other register.\<close>

definition do_int80 :: "'k machine32 \<Rightarrow> 'k cpu32 \<Rightarrow> 'k cpu32" where
  "do_int80 M s =
     (case kernel (host32 M) (gpr32 s EAX)
             (map (\<lambda>r. ucast (gpr32 s r)) [EBX, ECX, EDX, ESI, EDI, EBP])
             (kstate (world32 s)) (mem32 s) of
        (r, k, m) \<Rightarrow>
          (set_reg32 EAX (ucast r) s)\<lparr>world32 := (world32 s)\<lparr>kstate := k, mem := m\<rparr>\<rparr>)"

definition call32 :: "'k symbols32 \<Rightarrow> string \<Rightarrow> 'k cpu32 \<Rightarrow> fault + 'k cpu32" where
  "call32 S f s = (case S f of None \<Rightarrow> Inl (Unresolved_symbol f) | Some g \<Rightarrow> g s)"

function exec32 ::
  "'k machine32 \<Rightarrow> 'k symbols32 \<Rightarrow> string \<Rightarrow> instr32 list \<Rightarrow> 'k cpu32 \<Rightarrow> fault + 'k cpu32" where
  "exec32 M S name [] s = Inl Fell_off"
| "exec32 M S name (Op32 i # code) s = exec32 M S name code (step32 i s)"
| "exec32 M S name (Int80 # code) s = exec32 M S name code (do_int80 M s)"
| "exec32 M S name (Call32 f # code) s =
     (case call32 S f (push32 (next_eip M name (length code)) s) of
        Inl flt \<Rightarrow> Inl flt
      | Inr s' \<Rightarrow>
          if eip s' = next_eip M name (length code) then exec32 M S name code s' else Inl Wild_return)"
| "exec32 M S name (Call_here # code) s =
     exec32 M S name code (push32 (next_eip M name (length code)) s)"
| "exec32 M S name (Load_pointer f r # code) s =
     exec32 M S name code
       (set_reg32 r
         (get32 (mem32 s) (pointer_at M f - next_eip M name (length code + 2) + gpr32 s EDX)) s)"
| "exec32 M S name (Push_symbol f # code) s =
     exec32 M S name code (push32 (get32 (mem32 s) (symbol_at M f)) s)"
| "exec32 M S name (Mov_to_symbol r f # code) s =
     exec32 M S name code (set_mem32 (put32 (mem32 s) (symbol_at M f) (gpr32 s r)) s)"
| "exec32 M S name (Mov_address f r # code) s =
     exec32 M S name code (set_reg32 r (symbol_at M f) s)"
| "exec32 M S name (Jmp32 f # code) s = call32 S f s"
| "exec32 M S name (Jmp_to r # code) s =
     (case symbol_of M (gpr32 s r) of None \<Rightarrow> Inl Wild_jump | Some f \<Rightarrow> call32 S f s)"
| "exec32 M S name (Call_to r # code) s =
     (case symbol_of M (gpr32 s r) of
        None \<Rightarrow> Inl Wild_jump
      | Some f \<Rightarrow>
          (case call32 S f (push32 (next_eip M name (length code)) s) of
             Inl flt \<Rightarrow> Inl flt
           | Inr s' \<Rightarrow>
               if eip s' = next_eip M name (length code) then exec32 M S name code s'
               else Inl Wild_return))"
| "exec32 M S name (Jnb32 n # code) s =
     exec32 M S name (if carry32 s then code else drop n code) s"
| "exec32 M S name (Ret32 # code) s = Inr (return32 s)"
  by pat_completeness auto
termination
  by (relation "measure (\<lambda>(M, S, name, code, s). length code)") auto

section \<open>Symbolic execution\<close>

lemma reg32_simps [simp]:
  "gpr32 (set_reg32 r v s) q = (if q = r then v else gpr32 s q)"
  "carry32 (set_reg32 r v s) = carry32 s" "eip (set_reg32 r v s) = eip s"
  "world32 (set_reg32 r v s) = world32 s"
  by (simp_all add: set_reg32_def)

lemma set_mem32_simps [simp]:
  "gpr32 (set_mem32 m s) = gpr32 s" "carry32 (set_mem32 m s) = carry32 s" "eip (set_mem32 m s) = eip s"
  "world32 (set_mem32 m s) = (world32 s)\<lparr>mem := m\<rparr>"
  by (simp_all add: set_mem32_def)

lemma push32_simps [simp]:
  "gpr32 (push32 v s) q = (if q = ESP then gpr32 s ESP - 4 else gpr32 s q)"
  "carry32 (push32 v s) = carry32 s" "eip (push32 v s) = eip s"
  "mem32 (push32 v s) = put32 (mem32 s) (gpr32 s ESP - 4) v"
  "kstate (world32 (push32 v s)) = kstate (world32 s)"
  "darling_errno (world32 (push32 v s)) = darling_errno (world32 s)"
  by (simp_all add: push32_def)

lemma return32_simps [simp]:
  "gpr32 (return32 s) q = (if q = ESP then gpr32 s ESP + 4 else gpr32 s q)"
  "carry32 (return32 s) = carry32 s" "eip (return32 s) = get32 (mem32 s) (gpr32 s ESP)"
  "world32 (return32 s) = world32 s"
  by (simp_all add: return32_def)

lemma exec32_ops: "exec32 M S n (map Op32 ops @ code) s = exec32 M S n code (fold step32 ops s)"
  by (induction ops arbitrary: s) simp_all

lemma cpu32_eqI:
  "gpr32 s = gpr32 t \<Longrightarrow> carry32 s = carry32 t \<Longrightarrow> eip s = eip t \<Longrightarrow> world32 s = world32 t \<Longrightarrow>
   s = (t :: 'k cpu32)"
  by simp

end
