(* ===== verification/Stubs_I386.thy ===== *)
theory Stubs_I386
  imports Libsyscall Machine_I386
begin

text \<open>
  The i386 branches of the assembly: the macros of \<open>asm_help.h\<close>, \<open>syscall_sw.h\<close> and \<open>SYS.h\<close>, the stubs
  of \<open>bsdsyscalls/\<close>, and \<open>linux_syscall\<close> of \<open>src/linux_premigration/linux-syscall.S\<close>.

  \<open>dyn\<close> says whether \<open>__DYNAMIC__\<close> is defined (position-independent code).  \<open>DARLING\<close> is defined for every
  file, so the trap is a call of \<open>__darling_bsd_syscall\<close>, which the repository does not contain: it is a
  symbol that the theorems quantify over.
\<close>

unbundle bit_operations_syntax

section \<open>\<open>asm_help.h\<close>\<close>

definition PICIFY :: "string \<Rightarrow> instr32 list" where
  "PICIFY var = [Call_here, Op32 (Popl EDX), Load_pointer var EDX]"

definition CALL_EXTERN_AGAIN_32 :: "bool \<Rightarrow> string \<Rightarrow> instr32 list" where
  "CALL_EXTERN_AGAIN_32 dyn f = (if dyn then PICIFY f @ [Call_to EDX] else [Call32 f])"

definition CALL_EXTERN_32 :: "bool \<Rightarrow> string \<Rightarrow> instr32 list" where
  "CALL_EXTERN_32 dyn f = CALL_EXTERN_AGAIN_32 dyn f"

definition BRANCH_EXTERN_32 :: "bool \<Rightarrow> string \<Rightarrow> instr32 list" where
  "BRANCH_EXTERN_32 dyn f = (if dyn then PICIFY f @ [Jmp_to EDX] else [Jmp32 f])"

definition PUSH_EXTERN_32 :: "bool \<Rightarrow> string \<Rightarrow> instr32 list" where
  "PUSH_EXTERN_32 dyn var =
     (if dyn then PICIFY var @ [Op32 (Movl_from 0 EDX EDX), Op32 (Pushl EDX)] else [Push_symbol var])"

definition REG_TO_EXTERN_32 :: "bool \<Rightarrow> reg32 \<Rightarrow> string \<Rightarrow> instr32 list" where
  "REG_TO_EXTERN_32 dyn r var =
     (if dyn then PICIFY var @ [Op32 (Movl_to r 0 EDX)] else [Mov_to_symbol r var])"

definition EXTERN_TO_REG_32 :: "bool \<Rightarrow> string \<Rightarrow> reg32 \<Rightarrow> instr32 list" where
  "EXTERN_TO_REG_32 dyn var r =
     (if dyn then [Call_here, Op32 (Popl EDX), Load_pointer var r] else [Mov_address var r])"

definition LEAF_FUNCTION_PROLOGUE_32 :: "nat \<Rightarrow> operation32 list" where
  "LEAF_FUNCTION_PROLOGUE_32 localvarsize =
     (let framesize = ROUND_TO_STACK localvarsize in
      if framesize \<noteq> 0 then [Pushl EBP, Movl ESP EBP, Subl (of_nat framesize) ESP] else [])"

definition NESTED_FUNCTION_PROLOGUE_32 :: "nat \<Rightarrow> operation32 list" where
  "NESTED_FUNCTION_PROLOGUE_32 localvarsize =
     (let framesize = ROUND_TO_STACK localvarsize in
      (if framesize \<noteq> 0 then [Pushl EBP, Movl ESP EBP, Subl (of_nat framesize) ESP] else []) @
      [Pushl EDI, Pushl ESI, Pushl EBX])"

definition FUNCTION_EPILOGUE_32 :: "bool \<Rightarrow> nat \<Rightarrow> instr32 list" where
  "FUNCTION_EPILOGUE_32 nested framesize =
     (if nested then [Op32 (Popl EBX), Op32 (Popl ESI), Op32 (Popl EDI)] else []) @
     (if framesize \<noteq> 0 then [Op32 (Movl EBP ESP), Op32 (Popl EBP)] else []) @ [Ret32]"

definition LEAF_32 :: "nat \<Rightarrow> instr32 list" where
  "LEAF_32 localvarsize = map Op32 (LEAF_FUNCTION_PROLOGUE_32 localvarsize)"

definition NESTED_32 :: "nat \<Rightarrow> instr32 list" where
  "NESTED_32 localvarsize = map Op32 (NESTED_FUNCTION_PROLOGUE_32 localvarsize)"

definition END_32 :: "bool \<Rightarrow> nat \<Rightarrow> instr32 list" where
  "END_32 nested localvarsize = FUNCTION_EPILOGUE_32 nested (ROUND_TO_STACK localvarsize)"

section \<open>\<open>syscall_sw.h\<close>\<close>

definition UNIX_SYSCALL_TRAP_32 :: "instr32 list" where
  "UNIX_SYSCALL_TRAP_32 = [Call32 ''__darling_bsd_syscall'']"

definition MACHDEP_SYSCALL_TRAP_32 :: "instr32 list" where
  "MACHDEP_SYSCALL_TRAP_32 = [Call32 ''__darling_machdep_syscall'']"

definition kernel_trap_32 :: "u32 \<Rightarrow> instr32 list" where
  "kernel_trap_32 trap_number =
     LEAF_32 0 @ [Op32 (Movl_const trap_number EAX), Call32 ''__darling_mach_syscall''] @ END_32 False 0"

definition I386_SYSCALL_ARG_BYTES_SHIFT :: nat where "I386_SYSCALL_ARG_BYTES_SHIFT = 16"

definition I386_SYSCALL_ARG_DWORDS_SHIFT :: nat where
  "I386_SYSCALL_ARG_DWORDS_SHIFT = I386_SYSCALL_ARG_BYTES_SHIFT + 2"

definition I386_SYSCALL_ARG_BYTES_NUM :: u32 where "I386_SYSCALL_ARG_BYTES_NUM = 64"

definition I386_SYSCALL_ARG_DWORDS_MASK :: u32 where
  "I386_SYSCALL_ARG_DWORDS_MASK = drop_bit 2 I386_SYSCALL_ARG_BYTES_NUM - 1"

definition I386_SYSCALL_ARG_BYTES_MASK :: u32 where
  "I386_SYSCALL_ARG_BYTES_MASK =
     push_bit I386_SYSCALL_ARG_BYTES_SHIFT ((I386_SYSCALL_ARG_BYTES_NUM - 1) AND NOT 3)"

definition I386_SYSCALL_NUMBER_MASK :: u32 where "I386_SYSCALL_NUMBER_MASK = 0xFFFF"

section \<open>\<open>SYS.h\<close>\<close>

definition UNIX_SYSCALL_SYSENTER :: "instr32 list" where
  "UNIX_SYSCALL_SYSENTER = [Call32 ''__darling_bsd_syscall'']"

text \<open>\<open>jnb 2f; BRANCH_EXTERN (target); 2:\<close>\<close>

definition branch_on_error :: "bool \<Rightarrow> string \<Rightarrow> instr32 list" where
  "branch_on_error dyn target =
     Jnb32 (length (BRANCH_EXTERN_32 dyn target)) # BRANCH_EXTERN_32 dyn target"

definition UNIX_SYSCALL_32 :: "bool \<Rightarrow> string \<Rightarrow> instr32 list" where
  "UNIX_SYSCALL_32 dyn name =
     LEAF_32 0 @ [Op32 (Movl_const (SYS name) EAX)] @ UNIX_SYSCALL_SYSENTER @
     branch_on_error dyn ''darling_tramp_cerror''"

definition UNIX_SYSCALL_INT :: "bool \<Rightarrow> string \<Rightarrow> instr32 list" where
  "UNIX_SYSCALL_INT dyn name =
     LEAF_32 0 @ [Op32 (Movl_const (SYS name) EAX)] @ UNIX_SYSCALL_TRAP_32 @
     branch_on_error dyn ''darling_tramp_cerror''"

text \<open>
  The number in \<open>eax\<close>: with \<open>__SYSCALL_32BIT_ARG_BYTES\<close> defined, and small, the size of the arguments is
  in the upper half.
\<close>

definition sysenter_number :: "nat option \<Rightarrow> string \<Rightarrow> u32" where
  "sysenter_number arg_bytes name =
     (case arg_bytes of
        None \<Rightarrow> SYS name
      | Some n \<Rightarrow>
          if 4 \<le> n \<and> n \<le> 20 then SYS name OR push_bit I386_SYSCALL_ARG_BYTES_SHIFT (of_nat n)
          else SYS name)"

definition UNIX_SYSCALL_NONAME_32 :: "bool \<Rightarrow> nat option \<Rightarrow> string \<Rightarrow> string \<Rightarrow> instr32 list" where
  "UNIX_SYSCALL_NONAME_32 dyn arg_bytes name cerror =
     [Op32 (Movl_const (sysenter_number arg_bytes name) EAX)] @ UNIX_SYSCALL_SYSENTER @
     branch_on_error dyn (''darling_tramp_'' @ cerror)"

definition UNIX_SYSCALL_INT_NONAME :: "bool \<Rightarrow> string \<Rightarrow> instr32 list" where
  "UNIX_SYSCALL_INT_NONAME dyn name =
     [Op32 (Movl_const (SYS name) EAX)] @ UNIX_SYSCALL_TRAP_32 @
     branch_on_error dyn ''tramp_cerror_nocancel''"

definition PSEUDO_32 :: "bool \<Rightarrow> nat option \<Rightarrow> string \<Rightarrow> string \<Rightarrow> instr32 list" where
  "PSEUDO_32 dyn arg_bytes name cerror = LEAF_32 0 @ UNIX_SYSCALL_NONAME_32 dyn arg_bytes name cerror"

definition PSEUDO_INT :: "bool \<Rightarrow> string \<Rightarrow> instr32 list" where
  "PSEUDO_INT dyn name = LEAF_32 0 @ UNIX_SYSCALL_INT_NONAME dyn name"

definition SYSCALL2_32 :: "bool \<Rightarrow> nat option \<Rightarrow> string \<Rightarrow> string \<Rightarrow> instr32 list" where
  "SYSCALL2_32 dyn arg_bytes name cerror = PSEUDO_32 dyn arg_bytes name cerror @ [Ret32]"

definition SYSCALL_32 :: "bool \<Rightarrow> nat option \<Rightarrow> string \<Rightarrow> instr32 list" where
  "SYSCALL_32 dyn arg_bytes name = PSEUDO_32 dyn arg_bytes name ''cerror'' @ [Ret32]"

definition SYSCALL_INT :: "bool \<Rightarrow> string \<Rightarrow> instr32 list" where
  "SYSCALL_INT dyn name = PSEUDO_INT dyn name @ [Ret32]"

section \<open>The stubs\<close>

definition write_code_32 :: "bool \<Rightarrow> instr32 list" where
  "write_code_32 dyn = SYSCALL2_32 dyn (Some 12) ''write'' ''darling_cerror''"

definition recvmsg_code_32 :: "bool \<Rightarrow> instr32 list" where
  "recvmsg_code_32 dyn = SYSCALL2_32 dyn (Some 12) ''recvmsg'' ''cerror''"

definition pipe_code_32 :: "bool \<Rightarrow> instr32 list" where
  "pipe_code_32 dyn = PSEUDO_INT dyn ''pipe'' @
     [Op32 (Movl_from 4 ESP ECX), Op32 (Movl_to EAX 0 ECX), Op32 (Movl_to EDX 4 ECX),
      Op32 (Xorl EAX), Ret32]"

text \<open>
  \<open>DARLING\<close> is defined, so the word that \<open>syscall\<close> puts back after the trap is \<open>edx\<close>, read from the stack;
  the comment in the code says that with \<open>ecx\<close>, which the trap need not keep, the program would crash.
\<close>

definition syscall_code_32 :: "bool \<Rightarrow> instr32 list" where
  "syscall_code_32 dyn = LEAF_32 0 @
     [Op32 (Popl ECX), Op32 (Popl EAX), Op32 (Pushl ECX)] @ UNIX_SYSCALL_TRAP_32 @
     [Op32 (Movl_from 0 ESP EDX), Op32 (Pushl EDX)] @
     branch_on_error dyn ''tramp_cerror'' @ END_32 False 0"

section \<open>\<open>linux-syscall.S\<close>\<close>

definition linux_syscall_code_32 :: "instr32 list" where
  "linux_syscall_code_32 =
     map Op32
       [Pushl EBX, Pushl ESI, Pushl EDI, Pushl EBP,
        Movl_from 20 ESP EBX, Movl_from 24 ESP ECX, Movl_from 28 ESP EDX, Movl_from 32 ESP ESI,
        Movl_from 36 ESP EDI, Movl_from 40 ESP EBP, Movl_from 44 ESP EAX] @
     [Int80] @
     map Op32 [Popl EBP, Popl EDI, Popl ESI, Popl EBX] @ [Ret32]"

definition asm_linux_syscall_32 :: "'k machine32 \<Rightarrow> 'k cpu32 \<Rightarrow> fault + 'k cpu32" where
  "asm_linux_syscall_32 M = exec32 M Map.empty ''linux_syscall'' linux_syscall_code_32"

section \<open>\<open>linux_syscall\<close>\<close>

text \<open>The memory after the four pushes.\<close>

definition pushed_registers :: "'k cpu32 \<Rightarrow> memory" where
  "pushed_registers s =
     put32 (put32 (put32 (put32 (mem32 s) (gpr32 s ESP - 4) (gpr32 s EBX)) (gpr32 s ESP - 8) (gpr32 s ESI))
       (gpr32 s ESP - 12) (gpr32 s EDI)) (gpr32 s ESP - 16) (gpr32 s EBP)"

text \<open>Argument \<open>k\<close> of a C function at its entry.\<close>

definition c_argument :: "'k cpu32 \<Rightarrow> nat \<Rightarrow> u32" where
  "c_argument s k = get32 (mem32 s) (gpr32 s ESP + 4 + 4 * of_nat k)"

lemma pushed_registers_cells:
  "get32 (pushed_registers s) (gpr32 s ESP) = get32 (mem32 s) (gpr32 s ESP)"
  "get32 (pushed_registers s) (gpr32 s ESP - 4) = gpr32 s EBX"
  "get32 (pushed_registers s) (gpr32 s ESP - 8) = gpr32 s ESI"
  "get32 (pushed_registers s) (gpr32 s ESP - 12) = gpr32 s EDI"
  "get32 (pushed_registers s) (gpr32 s ESP - 16) = gpr32 s EBP"
  by (simp_all add: pushed_registers_def cell32_simps)

lemma pushed_registers_argument:
  assumes "k < 7"
  shows "get32 (pushed_registers s) (gpr32 s ESP + (4 + 4 * of_nat k)) = c_argument s k"
proof -
  have "k \<in> {0, 1, 2, 3, 4, 5, 6}" using assms by auto
  then show ?thesis
    by (auto simp: pushed_registers_def c_argument_def cell32_simps add.assoc)
qed

lemma linux_syscall_32_run:
  assumes call: "linux_syscall (host32 M) (ucast (c_argument s 0)) (ucast (c_argument s 1))
      (ucast (c_argument s 2)) (ucast (c_argument s 3)) (ucast (c_argument s 4)) (ucast (c_argument s 5))
      (c_argument s 6) ((world32 s)\<lparr>mem := pushed_registers s\<rparr>) = (r, w)"
    and kept: "\<And>off. off \<in> {0, 4, 8, 12, 16} \<Longrightarrow>
      get32 (mem w) (gpr32 s ESP - off) = get32 (pushed_registers s) (gpr32 s ESP - off)"
  shows "\<exists>t. asm_linux_syscall_32 M s = Inr t \<and> gpr32 t EAX = ucast r \<and> world32 t = w \<and>
    gpr32 t ESP = gpr32 s ESP + 4 \<and> eip t = get32 (mem32 s) (gpr32 s ESP) \<and>
    map (gpr32 t) [EBX, ESI, EDI, EBP] = map (gpr32 s) [EBX, ESI, EDI, EBP]"
proof -
  let ?save = "[Pushl EBX, Pushl ESI, Pushl EDI, Pushl EBP]"
    and ?load = "[Movl_from 20 ESP EBX, Movl_from 24 ESP ECX, Movl_from 28 ESP EDX, Movl_from 32 ESP ESI,
        Movl_from 36 ESP EDI, Movl_from 40 ESP EBP, Movl_from 44 ESP EAX]"
    and ?restore = "[Popl EBP, Popl EDI, Popl ESI, Popl EBX]"
  define a where "a = fold step32 (?save @ ?load) s"
  have a_world: "world32 a = (world32 s)\<lparr>mem := pushed_registers s\<rparr>"
    by (simp add: a_def push32_def pushed_registers_def)
  have a_regs: "gpr32 a ESP = gpr32 s ESP - 16" "gpr32 a EBX = c_argument s 0" "gpr32 a ECX = c_argument s 1"
    "gpr32 a EDX = c_argument s 2" "gpr32 a ESI = c_argument s 3" "gpr32 a EDI = c_argument s 4"
    "gpr32 a EBP = c_argument s 5" "gpr32 a EAX = c_argument s 6"
    using pushed_registers_argument [of 0 s] pushed_registers_argument [of 1 s]
      pushed_registers_argument [of 2 s] pushed_registers_argument [of 3 s] pushed_registers_argument [of 4 s]
      pushed_registers_argument [of 5 s] pushed_registers_argument [of 6 s]
    by (simp_all add: a_def pushed_registers_def [symmetric] add.commute)
  define b where "b = do_int80 M a"
  have b: "gpr32 b EAX = ucast r" "gpr32 b ESP = gpr32 s ESP - 16" "world32 b = w"
    using call
    by (auto simp: b_def do_int80_def linux_syscall_def a_world a_regs split: prod.splits)
  let ?t = "return32 (fold step32 ?restore b)"
  have cells: "get32 (mem w) (gpr32 s ESP - 16) = gpr32 s EBP" "get32 (mem w) (gpr32 s ESP - 12) = gpr32 s EDI"
    "get32 (mem w) (gpr32 s ESP - 8) = gpr32 s ESI" "get32 (mem w) (gpr32 s ESP - 4) = gpr32 s EBX"
    "get32 (mem w) (gpr32 s ESP) = get32 (mem32 s) (gpr32 s ESP)"
    using kept [of 0] kept [of 4] kept [of 8] kept [of 12] kept [of 16]
    by (simp_all add: pushed_registers_cells)
  have "asm_linux_syscall_32 M s = exec32 M Map.empty ''linux_syscall''
      (map Op32 (?save @ ?load) @ Int80 # map Op32 ?restore @ [Ret32]) s"
    by (simp add: asm_linux_syscall_32_def linux_syscall_code_32_def)
  also have "\<dots> = Inr ?t"
    by (simp only: exec32_ops exec32.simps a_def [symmetric] b_def [symmetric])
  finally have "asm_linux_syscall_32 M s = Inr ?t" .
  moreover have "gpr32 ?t EAX = ucast r \<and> world32 ?t = w \<and> gpr32 ?t ESP = gpr32 s ESP + 4 \<and>
      eip ?t = get32 (mem32 s) (gpr32 s ESP) \<and>
      map (gpr32 ?t) [EBX, ESI, EDI, EBP] = map (gpr32 s) [EBX, ESI, EDI, EBP]"
    by (simp add: b cells Let_def)
  ultimately show ?thesis by blast
qed

section \<open>\<open>syscall\<close>\<close>

text \<open>
  What the stubs rely on when they call the trap, with \<open>u\<close> at its entry and \<open>v\<close> after its return: it
  returns to its caller, keeps the callee-saved registers, and does not write to the two words above its
  return address.  It may change \<open>ecx\<close> and \<open>edx\<close>, as every function may.
\<close>

definition trap_returns :: "'k cpu32 \<Rightarrow> 'k cpu32 \<Rightarrow> bool" where
  "trap_returns u v \<longleftrightarrow>
     eip v = get32 (mem32 u) (gpr32 u ESP) \<and> gpr32 v ESP = gpr32 u ESP + 4 \<and>
     (\<forall>r \<in> {EBX, ESI, EDI, EBP}. gpr32 v r = gpr32 u r) \<and>
     (\<forall>off \<in> {4, 8}. get32 (mem32 v) (gpr32 u ESP + off) = get32 (mem32 u) (gpr32 u ESP + off))"

lemma trap_returnsD:
  assumes "trap_returns u v"
  shows "eip v = get32 (mem32 u) (gpr32 u ESP)" "gpr32 v ESP = gpr32 u ESP + 4"
    and "r \<in> {EBX, ESI, EDI, EBP} \<Longrightarrow> gpr32 v r = gpr32 u r"
    and "get32 (mem32 v) (gpr32 u ESP + 4) = get32 (mem32 u) (gpr32 u ESP + 4)"
    and "get32 (mem32 v) (gpr32 u ESP + 8) = get32 (mem32 u) (gpr32 u ESP + 8)"
  using assms unfolding trap_returns_def by auto

text \<open>The trap's view of an indirect call: the number in \<open>eax\<close>, the stack of the direct stub.\<close>

definition indirect_entry :: "u32 \<Rightarrow> 'k cpu32 \<Rightarrow> 'k cpu32" where
  "indirect_entry ret s = push32 ret (step32 (Pushl ECX) (step32 (Popl EAX) (step32 (Popl ECX) s)))"

lemma indirect_entry_simps:
  "gpr32 (indirect_entry ret s) ESP = gpr32 s ESP" "gpr32 (indirect_entry ret s) EAX = c_argument s 0"
  "r \<in> {EBX, ESI, EDI, EBP} \<Longrightarrow> gpr32 (indirect_entry ret s) r = gpr32 s r"
  "get32 (mem32 (indirect_entry ret s)) (gpr32 s ESP) = ret"
  "get32 (mem32 (indirect_entry ret s)) (gpr32 s ESP + 4) = get32 (mem32 s) (gpr32 s ESP)"
  by (auto simp: indirect_entry_def c_argument_def cell32_simps)

lemma indirect_entry_argument:
  assumes "k < 8"
  shows "c_argument (indirect_entry ret s) (k + 1) = c_argument s (k + 1)"
proof -
  have "k \<in> {0, 1, 2, 3, 4, 5, 6, 7}" using assms by auto
  then show ?thesis
    by (auto simp: indirect_entry_def c_argument_def cell32_simps add.assoc)
qed

lemma exec32_branch_on_error:
  "exec32 M S n (branch_on_error dyn f @ code) s =
     (if carry32 s then exec32 M S n (BRANCH_EXTERN_32 dyn f @ code) s else exec32 M S n code s)"
  by (simp add: branch_on_error_def)

lemma LEAF_32_0: "LEAF_32 0 = []"
  by (simp add: LEAF_32_def LEAF_FUNCTION_PROLOGUE_32_def ROUND_TO_STACK_def STACK_INCR_def)

lemma END_32_leaf: "END_32 False 0 = [Ret32]"
  by (simp add: END_32_def FUNCTION_EPILOGUE_32_def ROUND_TO_STACK_def STACK_INCR_def)

text \<open>The rest of the stub after the trap.\<close>

definition after_trap :: "bool \<Rightarrow> instr32 list" where
  "after_trap dyn =
     [Op32 (Movl_from 0 ESP EDX), Op32 (Pushl EDX)] @
     branch_on_error dyn ''tramp_cerror'' @ END_32 False 0"

lemma syscall_32_run:
  fixes s :: "'k cpu32" and name M dyn
  defines "u \<equiv> indirect_entry (next_eip M name (length (after_trap dyn))) s"
  assumes "S ''__darling_bsd_syscall'' = Some trap" and "trap u = Inr v" and returns: "trap_returns u v"
    and "\<not> carry32 v"
  shows "\<exists>t. exec32 M S name (syscall_code_32 dyn) s = Inr t \<and> gpr32 t EAX = gpr32 v EAX \<and>
    gpr32 t ESP = gpr32 s ESP + 4 \<and>
    eip t = get32 (mem32 s) (gpr32 s ESP) \<and>
    map (gpr32 t) [EBX, ESI, EDI, EBP] = map (gpr32 s) [EBX, ESI, EDI, EBP] \<and>
    kstate (world32 t) = kstate (world32 v)"
proof -
  let ?l = "next_eip M name (length (after_trap dyn))"
  let ?w = "step32 (Pushl EDX) (step32 (Movl_from 0 ESP EDX) v)"
  have u: "u = push32 ?l (fold step32 [Popl ECX, Popl EAX, Pushl ECX] s)"
    by (simp add: u_def indirect_entry_def)
  note v = trap_returnsD [OF returns]
  have sp: "gpr32 u ESP = gpr32 s ESP" by (simp add: u_def indirect_entry_simps)
  have "eip v = ?l" using v(1) by (simp add: sp) (simp add: u_def indirect_entry_simps)
  moreover have "syscall_code_32 dyn = map Op32 [Popl ECX, Popl EAX, Pushl ECX] @
      Call32 ''__darling_bsd_syscall'' # after_trap dyn"
    by (simp add: syscall_code_32_def LEAF_32_0 UNIX_SYSCALL_TRAP_32_def after_trap_def)
  ultimately have "exec32 M S name (syscall_code_32 dyn) s = exec32 M S name (after_trap dyn) v"
    using assms(2,3) by (simp only: exec32_ops exec32.simps call32_def option.case u sum.case refl if_True)
  also have "\<dots> = Inr (return32 ?w)"
    using \<open>\<not> carry32 v\<close> by (simp add: after_trap_def exec32_branch_on_error END_32_leaf)
  finally have "exec32 M S name (syscall_code_32 dyn) s = Inr (return32 ?w)" .
  moreover have "get32 (mem32 v) (gpr32 s ESP + 4) = get32 (mem32 s) (gpr32 s ESP)"
    using v(4) by (simp add: sp) (simp add: u_def indirect_entry_simps)
  moreover have "gpr32 v r = gpr32 s r" if "r \<in> {EBX, ESI, EDI, EBP}" for r
    using v(3) [OF that] indirect_entry_simps(3) [OF that] by (simp add: u_def)
  ultimately show ?thesis
    using v(2) by (auto simp: sp cell32_simps)
qed

section \<open>\<open>pipe\<close>\<close>

definition direct_entry :: "u32 \<Rightarrow> u32 \<Rightarrow> 'k cpu32 \<Rightarrow> 'k cpu32" where
  "direct_entry nr ret s = push32 ret (step32 (Movl_const nr EAX) s)"

lemma direct_entry_simps:
  "gpr32 (direct_entry nr ret s) ESP = gpr32 s ESP - 4" "gpr32 (direct_entry nr ret s) EAX = nr"
  "r \<in> {EBX, ESI, EDI, EBP} \<Longrightarrow> gpr32 (direct_entry nr ret s) r = gpr32 s r"
  "get32 (mem32 (direct_entry nr ret s)) (gpr32 s ESP - 4) = ret"
  "get32 (mem32 (direct_entry nr ret s)) (gpr32 s ESP) = get32 (mem32 s) (gpr32 s ESP)"
  "get32 (mem32 (direct_entry nr ret s)) (gpr32 s ESP + 4) = c_argument s 0"
  by (auto simp: direct_entry_def c_argument_def cell32_simps)

lemma direct_trap_returns:
  assumes "trap_returns (direct_entry nr ret s) v"
  shows "eip v = ret" "gpr32 v ESP = gpr32 s ESP"
    and "r \<in> {EBX, ESI, EDI, EBP} \<Longrightarrow> gpr32 v r = gpr32 s r"
    and "get32 (mem32 v) (gpr32 s ESP) = get32 (mem32 s) (gpr32 s ESP)"
    and "get32 (mem32 v) (gpr32 s ESP + 4) = c_argument s 0"
proof -
  note v = trap_returnsD [OF assms, unfolded direct_entry_simps(1)]
  show "eip v = ret" "gpr32 v ESP = gpr32 s ESP"
    using v(1,2) by (simp_all add: direct_entry_simps)
  show "gpr32 v r = gpr32 s r" if "r \<in> {EBX, ESI, EDI, EBP}"
    using v(3) [OF that] direct_entry_simps(3) [OF that] by simp
  show "get32 (mem32 v) (gpr32 s ESP) = get32 (mem32 s) (gpr32 s ESP)"
    "get32 (mem32 v) (gpr32 s ESP + 4) = c_argument s 0"
    using v(4,5) direct_entry_simps(5,6) [of nr ret s] by (simp_all add: add.commute)
qed

text \<open>The common part of the stubs: a success goes on after the label.\<close>

lemma unix_trap_32:
  assumes "S ''__darling_bsd_syscall'' = Some trap"
    and "trap (direct_entry nr (next_eip M name (length (branch_on_error dyn f @ code))) s) = Inr v"
    and "trap_returns (direct_entry nr (next_eip M name (length (branch_on_error dyn f @ code))) s) v"
    and "\<not> carry32 v"
  shows "exec32 M S name (Op32 (Movl_const nr EAX) # Call32 ''__darling_bsd_syscall'' # branch_on_error dyn f @ code) s
    = exec32 M S name code v"
proof -
  have "eip v = next_eip M name (length (branch_on_error dyn f @ code))"
    by (rule direct_trap_returns(1) [OF assms(3)])
  then have "exec32 M S name (Op32 (Movl_const nr EAX) # Call32 ''__darling_bsd_syscall'' # branch_on_error dyn f @ code) s
      = exec32 M S name (branch_on_error dyn f @ code) v"
    using assms(1,2) by (simp only: exec32.simps call32_def option.case direct_entry_def sum.case refl if_True)
  then show ?thesis using assms(4) by (simp add: exec32_branch_on_error)
qed

text \<open>The code of \<open>pipe\<close> after the label.\<close>

definition store_pair_code :: "instr32 list" where
  "store_pair_code =
     [Op32 (Movl_from 4 ESP ECX), Op32 (Movl_to EAX 0 ECX), Op32 (Movl_to EDX 4 ECX),
      Op32 (Xorl EAX), Ret32]"

lemma pipe_32_run:
  fixes s :: "'k cpu32" and name M dyn
  defines "u \<equiv> direct_entry 42
      (next_eip M name (length (branch_on_error dyn ''tramp_cerror_nocancel'' @ store_pair_code))) s"
    and "p \<equiv> c_argument s 0"
  assumes trap: "S ''__darling_bsd_syscall'' = Some trap" "trap u = Inr v" "trap_returns u v" "\<not> carry32 v"
    and buffer: "apart p (gpr32 s ESP)" "apart (p + 4) (gpr32 s ESP)"
  shows "\<exists>t. exec32 M S name (pipe_code_32 dyn) s = Inr t \<and> gpr32 t EAX = 0 \<and>
    get32 (mem32 t) p = gpr32 v EAX \<and> get32 (mem32 t) (p + 4) = gpr32 v EDX \<and>
    gpr32 t ESP = gpr32 s ESP + 4 \<and> eip t = get32 (mem32 s) (gpr32 s ESP) \<and>
    map (gpr32 t) [EBX, ESI, EDI, EBP] = map (gpr32 s) [EBX, ESI, EDI, EBP]"
proof -
  note v = direct_trap_returns [OF trap(3) [unfolded u_def]]
  let ?ops = "[Movl_from 4 ESP ECX, Movl_to EAX 0 ECX, Movl_to EDX 4 ECX, Xorl EAX]"
  let ?t = "return32 (fold step32 ?ops v)"
  have "pipe_code_32 dyn = Op32 (Movl_const 42 EAX) # Call32 ''__darling_bsd_syscall'' #
      branch_on_error dyn ''tramp_cerror_nocancel'' @ store_pair_code"
    by (simp add: pipe_code_32_def PSEUDO_INT_def LEAF_32_0 UNIX_SYSCALL_INT_NONAME_def UNIX_SYSCALL_TRAP_32_def
        store_pair_code_def SYS_used)
  then have "exec32 M S name (pipe_code_32 dyn) s = exec32 M S name store_pair_code v"
    using unix_trap_32 [where S = S, OF trap(1) trap(2-4) [unfolded u_def]] by simp
  also have "\<dots> = exec32 M S name (map Op32 ?ops @ [Ret32]) v" by (simp add: store_pair_code_def)
  also have "\<dots> = Inr ?t" by (simp only: exec32_ops exec32.simps)
  finally have "exec32 M S name (pipe_code_32 dyn) s = Inr ?t" .
  moreover have "mem32 ?t = put32 (put32 (mem32 v) p (gpr32 v EAX)) (p + 4) (gpr32 v EDX)"
    using v(2,5) by (simp add: p_def)
  moreover have "gpr32 ?t ESP = gpr32 s ESP + 4" "gpr32 ?t EAX = 0"
    using v(2) by simp_all
  moreover have "eip ?t = get32 (put32 (put32 (mem32 v) p (gpr32 v EAX)) (p + 4) (gpr32 v EDX)) (gpr32 s ESP)"
    using v(2,5) by (simp add: p_def)
  then have "eip ?t = get32 (mem32 s) (gpr32 s ESP)"
    using buffer v(4) by (simp add: get32_put32_apart)
  moreover have "map (gpr32 ?t) [EBX, ESI, EDI, EBP] = map (gpr32 s) [EBX, ESI, EDI, EBP]"
    using v(3) by simp
  ultimately show ?thesis by (intro exI [of _ ?t]) (simp add: cell32_simps)
qed

section \<open>Position-independent code\<close>

text \<open>What the macros with \<open>__DYNAMIC__\<close> change on the way: \<open>edx\<close>, and the word below the stack pointer.\<close>

definition pic_state :: "u32 \<Rightarrow> u32 \<Rightarrow> 'k cpu32 \<Rightarrow> 'k cpu32" where
  "pic_state label v s = set_reg32 EDX v (set_mem32 (put32 (mem32 s) (gpr32 s ESP - 4) label) s)"

lemma pic_state_simps [simp]:
  "gpr32 (pic_state l v s) r = (if r = EDX then v else gpr32 s r)" "carry32 (pic_state l v s) = carry32 s"
  "eip (pic_state l v s) = eip s" "mem32 (pic_state l v s) = put32 (mem32 s) (gpr32 s ESP - 4) l"
  "set_reg32 EDX v' (pic_state l v s) = pic_state l v' s"
  by (simp_all add: pic_state_def set_reg32_def)

text \<open>The linker's promise on a symbol: its pointer holds its address, and there it is.\<close>

definition linked :: "'k machine32 \<Rightarrow> memory \<Rightarrow> string \<Rightarrow> bool" where
  "linked M m f \<longleftrightarrow> get32 m (pointer_at M f) = symbol_at M f \<and> symbol_of M (symbol_at M f) = Some f"

lemma call_here_run:
  "exec32 M S n (Call_here # Op32 (Popl EDX) # code) s =
     exec32 M S n code (pic_state (next_eip M n (length code + 1)) (next_eip M n (length code + 1)) s)"
proof -
  let ?l = "next_eip M n (length code + 1)"
  have "step32 (Popl EDX) (push32 ?l s) = pic_state ?l ?l s"
  proof (rule cpu32_eqI)
    show "gpr32 (step32 (Popl EDX) (push32 ?l s)) = gpr32 (pic_state ?l ?l s)"
      by (rule ext) (simp add: cell32_simps)
  qed (simp_all add: pic_state_def push32_def)
  then show ?thesis by simp
qed

lemma PICIFY_run:
  assumes "linked M (mem32 s) f" and "apart (gpr32 s ESP - 4) (pointer_at M f)"
  shows "exec32 M S n (PICIFY f @ code) s =
    exec32 M S n code (pic_state (next_eip M n (length code + 2)) (symbol_at M f) s)"
  unfolding PICIFY_def append_Cons append_Nil call_here_run
  using assms by (simp add: get32_put32_apart linked_def)

text \<open>A macro has the same effect with and without \<open>__DYNAMIC__\<close>, but for that.\<close>

definition position_independent :: "'k machine32 \<Rightarrow> 'k cpu32 \<Rightarrow> (bool \<Rightarrow> instr32 list) \<Rightarrow> bool" where
  "position_independent M s macro \<longleftrightarrow>
     (\<forall>S n code. \<exists>l v. exec32 M S n (macro True @ code) s = exec32 M S n (macro False @ code) (pic_state l v s))"

lemma position_independentI:
  "(\<And>S n code. exec32 M S n (macro True @ code) s
      = exec32 M S n (macro False @ code) (pic_state (l n code) (v n code) s)) \<Longrightarrow>
   position_independent M s macro"
  unfolding position_independent_def by blast

lemma macros_position_independent:
  assumes f: "linked M (mem32 s) f" "apart (gpr32 s ESP - 4) (pointer_at M f)"
  shows "position_independent M s (\<lambda>dyn. BRANCH_EXTERN_32 dyn f)"
    and "position_independent M s (\<lambda>dyn. CALL_EXTERN_32 dyn f)"
    and "r \<noteq> EDX \<Longrightarrow> position_independent M s (\<lambda>dyn. REG_TO_EXTERN_32 dyn r f)"
    and "position_independent M s (\<lambda>dyn. EXTERN_TO_REG_32 dyn f r)"
    and "apart (gpr32 s ESP - 4) (symbol_at M f) \<Longrightarrow> position_independent M s (\<lambda>dyn. PUSH_EXTERN_32 dyn f)"
proof -
  note run = PICIFY_run [OF f]
  have sym: "symbol_of M (symbol_at M f) = Some f" using f by (simp add: linked_def)
  show "position_independent M s (\<lambda>dyn. BRANCH_EXTERN_32 dyn f)"
    by (rule position_independentI [where v = "\<lambda>n code. symbol_at M f"])
      (simp add: BRANCH_EXTERN_32_def run sym)
  show "position_independent M s (\<lambda>dyn. CALL_EXTERN_32 dyn f)"
    by (rule position_independentI [where v = "\<lambda>n code. symbol_at M f"])
      (simp add: CALL_EXTERN_32_def CALL_EXTERN_AGAIN_32_def run sym)
  show "position_independent M s (\<lambda>dyn. REG_TO_EXTERN_32 dyn r f)" if "r \<noteq> EDX"
    by (rule position_independentI [where v = "\<lambda>n code. symbol_at M f"])
      (use that in \<open>simp add: REG_TO_EXTERN_32_def run\<close>)
  show "position_independent M s (\<lambda>dyn. EXTERN_TO_REG_32 dyn f r)"
  proof (rule position_independentI)
    fix S n and code :: "instr32 list"
    let ?l = "next_eip M n (length code + 2)"
    have "get32 (put32 (mem32 s) (gpr32 s ESP - 4) ?l) (pointer_at M f) = symbol_at M f"
      using f by (simp add: get32_put32_apart linked_def)
    then show "exec32 M S n (EXTERN_TO_REG_32 True f r @ code) s =
        exec32 M S n (EXTERN_TO_REG_32 False f r @ code) (pic_state ?l ?l s)"
      unfolding EXTERN_TO_REG_32_def if_True append_Cons append_Nil call_here_run by simp
  qed
  show "position_independent M s (\<lambda>dyn. PUSH_EXTERN_32 dyn f)" if "apart (gpr32 s ESP - 4) (symbol_at M f)"
  proof (rule position_independentI)
    fix S n and code :: "instr32 list"
    let ?l = "next_eip M n (Suc (Suc (Suc (Suc (length code)))))" and ?v = "get32 (mem32 s) (symbol_at M f)"
    show "exec32 M S n (PUSH_EXTERN_32 True f @ code) s =
        exec32 M S n (PUSH_EXTERN_32 False f @ code) (pic_state ?l ?v s)"
      using that by (simp add: PUSH_EXTERN_32_def run get32_put32_apart)
  qed
qed

section \<open>The number in \<open>eax\<close>\<close>

lemma sysenter_number_fields:
  assumes w: "take_bit 16 w = (w :: u32)"
  shows "(w OR push_bit 16 c) AND 0xFFFF = w" and "drop_bit 16 (w OR push_bit 16 c) = take_bit 16 c"
proof -
  have low: "bit w i \<Longrightarrow> i < 16" for i
    using arg_cong [OF w, of "\<lambda>v. bit v i"] by (simp add: bit_take_bit_iff)
  have "(w OR push_bit 16 c) AND mask 16 = w"
    using low by (auto intro!: bit_word_eqI simp: bit_simps)
  then show "(w OR push_bit 16 c) AND 0xFFFF = w" by (simp add: mask_eq_exp_minus_1)
  show "drop_bit 16 (w OR push_bit 16 c) = take_bit 16 c"
    by (rule bit_word_eqI) (auto simp: bit_simps dest: low)
qed

lemma sysenter_number_decoded:
  assumes name: "assoc darwin_sysnum name = Some k" and n: "4 \<le> n" "n \<le> 20"
  shows "sysenter_number (Some n) name AND I386_SYSCALL_NUMBER_MASK = SYS name"
    and "drop_bit I386_SYSCALL_ARG_BYTES_SHIFT (sysenter_number (Some n) name) = of_nat n"
    and "drop_bit I386_SYSCALL_ARG_DWORDS_SHIFT (sysenter_number (Some n) name) AND I386_SYSCALL_ARG_DWORDS_MASK
       = of_nat (n div 4)"
proof -
  have number: "sysenter_number (Some n) name = SYS name OR push_bit 16 (of_nat n)"
    using n by (simp add: sysenter_number_def I386_SYSCALL_ARG_BYTES_SHIFT_def)
  note fields = sysenter_number_fields [OF SYS_defined [OF name], of "of_nat n"]
  show "sysenter_number (Some n) name AND I386_SYSCALL_NUMBER_MASK = SYS name"
    unfolding number I386_SYSCALL_NUMBER_MASK_def by (rule fields)
  have high: "drop_bit 16 (sysenter_number (Some n) name) = of_nat n"
    unfolding number fields(2) using n by (simp add: take_bit_of_nat take_bit_nat_eq_self)
  then show "drop_bit I386_SYSCALL_ARG_BYTES_SHIFT (sysenter_number (Some n) name) = of_nat n"
    by (simp add: I386_SYSCALL_ARG_BYTES_SHIFT_def)
  have "drop_bit 18 (sysenter_number (Some n) name) = drop_bit 2 (drop_bit 16 (sysenter_number (Some n) name))"
    by (simp only: drop_bit_drop_bit) simp
  also have "\<dots> = drop_bit 2 (of_nat n)" by (simp only: high)
  also have "\<dots> = of_nat (n div 4)"
    using n by (simp add: drop_bit_eq_div word_unat_eq_iff unat_div unsigned_of_nat take_bit_nat_eq_self)
  finally have "drop_bit I386_SYSCALL_ARG_DWORDS_SHIFT (sysenter_number (Some n) name) = of_nat (n div 4)"
    by (simp add: I386_SYSCALL_ARG_BYTES_SHIFT_def I386_SYSCALL_ARG_DWORDS_SHIFT_def)
  moreover have "n div 4 \<in> {1, 2, 3, 4, 5}" using n by auto
  then have "of_nat (n div 4) AND I386_SYSCALL_ARG_DWORDS_MASK = (of_nat (n div 4) :: u32)"
    by (auto simp: I386_SYSCALL_ARG_DWORDS_MASK_def I386_SYSCALL_ARG_BYTES_NUM_def)
  ultimately show "drop_bit I386_SYSCALL_ARG_DWORDS_SHIFT (sysenter_number (Some n) name) AND I386_SYSCALL_ARG_DWORDS_MASK
       = of_nat (n div 4)"
    by simp
qed

section \<open>Properties\<close>

text \<open>
  C35: The i386 assembly of \<open>linux_syscall\<close> implements its C prototype: the seven stack arguments reach the
  kernel in the registers of \<open>int $0x80\<close>, the result, state and memory of the kernel come back, and the
  function returns to its caller with the callee-saved registers intact, provided the kernel does not
  write to the 20 bytes of its frame.
\<close>

theorem linux_syscall_i386:
  assumes "linux_syscall (host32 M) (ucast (c_argument s 0)) (ucast (c_argument s 1))
      (ucast (c_argument s 2)) (ucast (c_argument s 3)) (ucast (c_argument s 4)) (ucast (c_argument s 5))
      (c_argument s 6) ((world32 s)\<lparr>mem := pushed_registers s\<rparr>) = (r, w)"
    and "\<And>off. off \<in> {0, 4, 8, 12, 16} \<Longrightarrow>
      get32 (mem w) (gpr32 s ESP - off) = get32 (pushed_registers s) (gpr32 s ESP - off)"
  shows "\<exists>t. asm_linux_syscall_32 M s = Inr t \<and> gpr32 t EAX = ucast r \<and> world32 t = w \<and>
    gpr32 t ESP = gpr32 s ESP + 4 \<and> eip t = get32 (mem32 s) (gpr32 s ESP) \<and>
    map (gpr32 t) [EBX, ESI, EDI, EBP] = map (gpr32 s) [EBX, ESI, EDI, EBP]"
  using assms by (rule linux_syscall_32_run)

text \<open>
  C36: The i386 stub of \<open>syscall\<close> takes the number off the stack before the trap, so that the trap finds the
  other arguments where a direct stub would leave them, and puts a word back after it.  From a request
  that succeeds it returns to its caller with the stack balanced, the trap's result in \<open>eax\<close> and the
  callee-saved registers intact, whatever the trap leaves in \<open>ecx\<close> and \<open>edx\<close>.
\<close>

theorem syscall_stub_i386:
  fixes s :: "'k cpu32" and name M dyn
  defines "u \<equiv> indirect_entry (next_eip M name (length (after_trap dyn))) s"
  assumes "S ''__darling_bsd_syscall'' = Some trap" and "trap u = Inr v" and "trap_returns u v"
    and "\<not> carry32 v" and "k < 8"
  shows "gpr32 u EAX = c_argument s 0 \<and> c_argument u (k + 1) = c_argument s (k + 1) \<and>
    (\<exists>t. exec32 M S name (syscall_code_32 dyn) s = Inr t \<and> gpr32 t EAX = gpr32 v EAX \<and>
      gpr32 t ESP = gpr32 s ESP + 4 \<and> eip t = get32 (mem32 s) (gpr32 s ESP) \<and>
      map (gpr32 t) [EBX, ESI, EDI, EBP] = map (gpr32 s) [EBX, ESI, EDI, EBP] \<and>
      kstate (world32 t) = kstate (world32 v))"
  using syscall_32_run [where S = S and trap = trap and M = M and name = name and
      dyn = dyn and s = s and v = v, OF assms(2) assms(3-5) [unfolded u_def]]
    indirect_entry_simps(2) indirect_entry_argument [OF assms(6)]
  unfolding u_def by blast

text \<open>
  C37: The macros of \<open>asm_help.h\<close> that reach symbols mean the same with and without position-independent
  code, on i386: branching, calling, storing a register, loading an address and pushing a variable
  differ only in \<open>edx\<close> and in the word below the stack pointer.
\<close>

theorem asm_help_position_independent:
  assumes "linked M (mem32 s) f" and "apart (gpr32 s ESP - 4) (pointer_at M f)"
    and "apart (gpr32 s ESP - 4) (symbol_at M f)" and "r \<noteq> EDX"
  shows "position_independent M s (\<lambda>dyn. BRANCH_EXTERN_32 dyn f) \<and>
    position_independent M s (\<lambda>dyn. CALL_EXTERN_32 dyn f) \<and>
    position_independent M s (\<lambda>dyn. REG_TO_EXTERN_32 dyn r f) \<and>
    position_independent M s (\<lambda>dyn. EXTERN_TO_REG_32 dyn f r) \<and>
    position_independent M s (\<lambda>dyn. PUSH_EXTERN_32 dyn f)"
  using macros_position_independent [OF assms(1,2)] assms(3,4) by blast

text \<open>
  C33: The number that an i386 stub puts into \<open>eax\<close>, with the size of its arguments, decodes to both: the
  masks and shifts of \<open>syscall_sw.h\<close> give back the number of the call, for every call of \<open>syscall.h\<close>, and
  the size in bytes and in words.
\<close>

theorem sysenter_number_round_trip:
  assumes "assoc darwin_sysnum name = Some k" and "4 \<le> n" "n \<le> 20"
  defines "eax \<equiv> sysenter_number (Some n) name"
  shows "eax AND I386_SYSCALL_NUMBER_MASK = of_nat k \<and>
    drop_bit I386_SYSCALL_ARG_BYTES_SHIFT eax = of_nat n \<and>
    drop_bit I386_SYSCALL_ARG_DWORDS_SHIFT eax AND I386_SYSCALL_ARG_DWORDS_MASK = of_nat (n div 4)"
  using sysenter_number_decoded [OF assms(1-3)] assms(1) by (simp add: eax_def SYS_def)

section \<open>Witnesses\<close>

text \<open>
  A process that called \<open>linux_syscall (1, 0x5000, 4, 0, 0, 0, 1)\<close>; read as a call of \<open>syscall\<close> it has the
  number 1.  The variable \<open>''var''\<close> is at \<open>0x5000\<close>, its pointer at \<open>0x4000\<close>.
\<close>

definition example_cpu32 :: "(c_int \<times> u64 list) list cpu32" where
  "example_cpu32 =
     \<lparr>gpr32 = (\<lambda>_. 7)(ESP := 0x8000), carry32 = True, eip = 0,
      world32 = example_world\<lparr>mem := put32 (put32 (put32 (put32 (put32 (put32 (\<lambda>_. 0) 0x8000 0x1234) 0x8004 1)
        0x8008 0x5000) 0x800C 4) 0x801C 1) 0x4000 0x5000\<rparr>\<rparr>"

definition example_machine32 :: "(c_int \<times> u64 list) list machine32" where
  "example_machine32 =
     \<lparr>host32 = example_host, next_eip = (\<lambda>f n. 0x1000 + of_nat n), symbol_at = (\<lambda>f. 0x5000),
      pointer_at = (\<lambda>f. 0x4000), symbol_of = (\<lambda>a. if a = 0x5000 then Some ''var'' else None)\<rparr>"

text \<open>A trap that succeeds with 5 and 6 and uses \<open>ecx\<close>.\<close>

definition example_trap :: "'k cpu32 \<Rightarrow> fault + 'k cpu32" where
  "example_trap u =
     Inr ((set_reg32 ECX 0xBAD (set_reg32 EDX 6 (set_reg32 EAX 5 (return32 u))))\<lparr>carry32 := False\<rparr>)"

lemma example_trap_returns:
  "example_trap u = Inr v \<Longrightarrow> trap_returns u v \<and> \<not> carry32 v \<and> gpr32 v EAX = 5 \<and> gpr32 v ECX = 0xBAD"
  by (auto simp: example_trap_def trap_returns_def)

lemma example_cpu32_simps:
  "gpr32 example_cpu32 ESP = 0x8000" "gpr32 example_cpu32 EBX = 7" "gpr32 example_cpu32 ESI = 7"
  "gpr32 example_cpu32 EDI = 7" "gpr32 example_cpu32 EBP = 7" "kstate (world32 example_cpu32) = []"
  "get32 (mem32 example_cpu32) 0x8000 = 0x1234" "get32 (mem32 example_cpu32) 0x4000 = 0x5000"
  "map (c_argument example_cpu32) [0, 1, 2, 6] = [1, 0x5000, 4, 1]"
  by (simp_all add: example_cpu32_def example_world_def c_argument_def get32_put32_same get32_put32_apart apart_def)

theorem linux_syscall_i386_witness:
  "\<exists>t. asm_linux_syscall_32 example_machine32 example_cpu32 = Inr t \<and> gpr32 t EAX = 4 \<and> eip t = 0x1234 \<and>
     gpr32 t EBX = 7"
proof -
  let ?w = "(world32 example_cpu32)\<lparr>mem := pushed_registers example_cpu32\<rparr>"
  have "\<exists>w. linux_syscall (host32 example_machine32) (ucast (c_argument example_cpu32 0))
      (ucast (c_argument example_cpu32 1)) (ucast (c_argument example_cpu32 2))
      (ucast (c_argument example_cpu32 3)) (ucast (c_argument example_cpu32 4))
      (ucast (c_argument example_cpu32 5)) (c_argument example_cpu32 6) ?w = (4, w) \<and> mem w = mem ?w"
    using example_cpu32_simps(9)
    by (simp add: linux_syscall_def example_machine32_def example_host_def example_kernel_def)
  then obtain w where call: "linux_syscall (host32 example_machine32) (ucast (c_argument example_cpu32 0))
      (ucast (c_argument example_cpu32 1)) (ucast (c_argument example_cpu32 2))
      (ucast (c_argument example_cpu32 3)) (ucast (c_argument example_cpu32 4))
      (ucast (c_argument example_cpu32 5)) (c_argument example_cpu32 6) ?w = (4, w)" and "mem w = mem ?w"
    by blast
  from linux_syscall_i386 [OF call] this(2) show ?thesis
    by (auto simp: example_cpu32_simps)
qed

theorem syscall_stub_i386_witness:
  "\<exists>t. exec32 example_machine32 [''__darling_bsd_syscall'' \<mapsto> example_trap] ''___syscall''
     (syscall_code_32 False) example_cpu32 = Inr t \<and> gpr32 t EAX = 5 \<and> eip t = 0x1234 \<and> gpr32 t ESP = 0x8004"
proof -
  let ?u = "indirect_entry (next_eip example_machine32 ''___syscall'' (length (after_trap False))) example_cpu32"
  obtain v where v: "example_trap ?u = Inr v" by (simp add: example_trap_def)
  from syscall_stub_i386 [where S = "[''__darling_bsd_syscall'' \<mapsto> example_trap]" and trap = example_trap and
      M = example_machine32 and name = "''___syscall''" and dyn = False and
      s = example_cpu32 and v = v and k = 0] v example_trap_returns [OF v]
  show ?thesis by (auto simp: example_cpu32_simps)
qed

theorem asm_help_position_independent_witness:
  "position_independent example_machine32 example_cpu32 (\<lambda>dyn. BRANCH_EXTERN_32 dyn ''var'') \<and>
   position_independent example_machine32 example_cpu32 (\<lambda>dyn. PUSH_EXTERN_32 dyn ''var'')"
  using asm_help_position_independent [of example_machine32 example_cpu32 "''var''" EAX]
  by (simp add: linked_def example_machine32_def example_cpu32_simps apart_def)

theorem sysenter_number_round_trip_witness:
  "sysenter_number (Some 12) ''write'' AND I386_SYSCALL_NUMBER_MASK = 4 \<and>
   drop_bit I386_SYSCALL_ARG_DWORDS_SHIFT (sysenter_number (Some 12) ''write'') AND I386_SYSCALL_ARG_DWORDS_MASK = 3"
proof -
  have "assoc darwin_sysnum ''write'' = Some 4" by (rule darwin_sysnum_used)
  from sysenter_number_round_trip [OF this, of 12] show ?thesis by simp
qed

end
