(* ===== verification/Machine_Arm.thy ===== *)
theory Machine_Arm
  imports Kernel_Interface Memory32
begin

text \<open>
  The part of 32-bit ARM that the ARM branch of \<open>SYS.h\<close> uses: the registers, the carry flag, multiple
  loads and stores, the words that the assembler puts between the instructions, and \<open>swi\<close>, whose effect
  is a parameter (there is no bridge for ARM: the stubs trap into the kernel of the host).

  Addresses of code, symbols and pointers are the linker's, as in \<open>Machine_I386\<close>.
\<close>

unbundle bit_operations_syntax

section \<open>The state\<close>

datatype arm_reg =
    r0 | r1 | r2 | r3 | r4 | r5 | r6 | r7 | r8 | r9 | r10 | r11 | r12 | sp | lr

text \<open>\<open>ip\<close> is another name of \<open>r12\<close>.\<close>

abbreviation ip :: arm_reg where "ip \<equiv> r12"

record 'k arm =
  greg :: "arm_reg \<Rightarrow> u32"
  arm_carry :: bool
  pc :: u32
  arm_world :: "'k world"

abbreviation arm_mem :: "'k arm \<Rightarrow> memory" where
  "arm_mem s \<equiv> mem (arm_world s)"

definition set_greg :: "arm_reg \<Rightarrow> u32 \<Rightarrow> 'k arm \<Rightarrow> 'k arm" where
  "set_greg r v s = s\<lparr>greg := (greg s)(r := v)\<rparr>"

definition set_arm_mem :: "memory \<Rightarrow> 'k arm \<Rightarrow> 'k arm" where
  "set_arm_mem m s = s\<lparr>arm_world := (arm_world s)\<lparr>mem := m\<rparr>\<rparr>"

section \<open>Instructions\<close>

text \<open>Registers of a list are in ascending order, the first at the lowest address.\<close>

datatype arm_operation =
    Mov_reg arm_reg arm_reg
  | Mov_imm arm_reg u32
  | Orr_imm arm_reg arm_reg u32
  | Ldr arm_reg arm_reg u32            \<comment> \<open>\<open>ldr rd, [rn, #off]\<close>\<close>
  | Str arm_reg arm_reg u32            \<comment> \<open>\<open>str rd, [rn, #off]\<close>\<close>
  | Stmfd "arm_reg list"               \<comment> \<open>\<open>stmfd sp!, { regs }\<close>\<close>
  | Ldmfd "arm_reg list"               \<comment> \<open>\<open>ldmfd sp!, { regs }\<close>\<close>
  | Ldmia arm_reg "arm_reg list"       \<comment> \<open>\<open>ldmia rn, { regs }\<close>\<close>

datatype arm_instr =
    Arm arm_operation
  | Swi                                \<comment> \<open>\<open>swi #SWI_SYSCALL\<close>\<close>
  | Ldr_offset string arm_reg          \<comment> \<open>\<open>ldr reg, 4f\<close>: the word \<open>6f - (3b + 8)\<close>, \<open>6:\<close> the pointer to the symbol\<close>
  | Ldr_relative arm_reg               \<comment> \<open>\<open>3: ldr reg, [pc, reg]\<close>\<close>
  | Ldr_symbol string arm_reg          \<comment> \<open>\<open>ldr reg, 3f\<close>: the word \<open>.long var\<close>\<close>
  | B_over                             \<comment> \<open>\<open>b\<close> over the words between the instructions\<close>
  | B_symbol string
  | Bl_symbol string
  | Bx_reg arm_reg                     \<comment> \<open>\<open>bx\<close> to a symbol\<close>
  | Blx_reg arm_reg
  | Bcc nat
  | Bx_lr
  | Bxcc_lr

fun store_words :: "memory \<Rightarrow> u32 \<Rightarrow> u32 list \<Rightarrow> memory" where
  "store_words m a [] = m"
| "store_words m a (v # vs) = store_words (put32 m a v) (a + 4) vs"

fun load_words :: "memory \<Rightarrow> u32 \<Rightarrow> arm_reg list \<Rightarrow> 'k arm \<Rightarrow> 'k arm" where
  "load_words m a [] s = s"
| "load_words m a (r # rs) s = load_words m (a + 4) rs (set_greg r (get32 m a) s)"

definition words_size :: "arm_reg list \<Rightarrow> u32" where
  "words_size rs = of_nat (4 * length rs)"

fun arm_step :: "arm_operation \<Rightarrow> 'k arm \<Rightarrow> 'k arm" where
  "arm_step (Mov_reg rd rs) s = set_greg rd (greg s rs) s"
| "arm_step (Mov_imm rd v) s = set_greg rd v s"
| "arm_step (Orr_imm rd rn v) s = set_greg rd (greg s rn OR v) s"
| "arm_step (Ldr rd rn off) s = set_greg rd (get32 (arm_mem s) (greg s rn + off)) s"
| "arm_step (Str rd rn off) s = set_arm_mem (put32 (arm_mem s) (greg s rn + off) (greg s rd)) s"
| "arm_step (Stmfd rs) s =
     (let a = greg s sp - words_size rs
      in set_greg sp a (set_arm_mem (store_words (arm_mem s) a (map (greg s) rs)) s))"
| "arm_step (Ldmfd rs) s =
     load_words (arm_mem s) (greg s sp) rs (set_greg sp (greg s sp + words_size rs) s)"
| "arm_step (Ldmia rn rs) s = load_words (arm_mem s) (greg s rn) rs s"

section \<open>Running code\<close>

text \<open>The address of an instruction is given by the symbol and the number of instructions after it.\<close>

record 'k arm_machine =
  swi :: "'k arm \<Rightarrow> 'k arm"
  code_at :: "string \<Rightarrow> nat \<Rightarrow> u32"
  arm_symbol_at :: "string \<Rightarrow> u32"
  arm_pointer_at :: "string \<Rightarrow> u32"
  arm_symbol_of :: "u32 \<Rightarrow> string option"

type_synonym 'k arm_symbols = "string \<Rightarrow> ('k arm \<Rightarrow> fault + 'k arm) option"

definition arm_call :: "'k arm_symbols \<Rightarrow> string \<Rightarrow> 'k arm \<Rightarrow> fault + 'k arm" where
  "arm_call S f s = (case S f of None \<Rightarrow> Inl (Unresolved_symbol f) | Some g \<Rightarrow> g s)"

definition arm_call_at :: "'k arm_machine \<Rightarrow> 'k arm_symbols \<Rightarrow> u32 \<Rightarrow> 'k arm \<Rightarrow> fault + 'k arm" where
  "arm_call_at M S a s =
     (case arm_symbol_of M a of None \<Rightarrow> Inl Wild_jump | Some f \<Rightarrow> arm_call S f s)"

definition arm_return :: "'k arm \<Rightarrow> 'k arm" where
  "arm_return s = s\<lparr>pc := greg s lr\<rparr>"

text \<open>A callee that was called with \<open>bl\<close> or \<open>blx\<close> has to come back.\<close>

definition comes_back :: "u32 \<Rightarrow> ('k arm \<Rightarrow> fault + 'k arm) \<Rightarrow> fault + 'k arm \<Rightarrow> fault + 'k arm" where
  "comes_back a go_on r =
     (case r of Inl flt \<Rightarrow> Inl flt | Inr s \<Rightarrow> if pc s = a then go_on s else Inl Wild_return)"

text \<open>In \<open>ldr reg, [pc, reg]\<close> the \<open>pc\<close> is 8 bytes ahead of the instruction.\<close>

function exec_arm ::
  "'k arm_machine \<Rightarrow> 'k arm_symbols \<Rightarrow> string \<Rightarrow> arm_instr list \<Rightarrow> 'k arm \<Rightarrow> fault + 'k arm" where
  "exec_arm M S name [] s = Inl Fell_off"
| "exec_arm M S name (Arm i # code) s = exec_arm M S name code (arm_step i s)"
| "exec_arm M S name (Swi # code) s = exec_arm M S name code (swi M s)"
| "exec_arm M S name (Ldr_offset f r # code) s =
     exec_arm M S name code (set_greg r (arm_pointer_at M f - (code_at M name (length code) + 8)) s)"
| "exec_arm M S name (Ldr_relative r # code) s =
     exec_arm M S name code
       (set_greg r (get32 (arm_mem s) (code_at M name (length (Ldr_relative r # code)) + 8 + greg s r)) s)"
| "exec_arm M S name (Ldr_symbol f r # code) s =
     exec_arm M S name code (set_greg r (arm_symbol_at M f) s)"
| "exec_arm M S name (B_over # code) s = exec_arm M S name code s"
| "exec_arm M S name (B_symbol f # code) s = arm_call S f s"
| "exec_arm M S name (Bl_symbol f # code) s =
     comes_back (code_at M name (length code)) (exec_arm M S name code)
       (arm_call S f (set_greg lr (code_at M name (length code)) s))"
| "exec_arm M S name (Bx_reg r # code) s = arm_call_at M S (greg s r) s"
| "exec_arm M S name (Blx_reg r # code) s =
     comes_back (code_at M name (length code)) (exec_arm M S name code)
       (arm_call_at M S (greg s r) (set_greg lr (code_at M name (length code)) s))"
| "exec_arm M S name (Bcc n # code) s =
     exec_arm M S name (if arm_carry s then code else drop n code) s"
| "exec_arm M S name (Bx_lr # code) s = Inr (arm_return s)"
| "exec_arm M S name (Bxcc_lr # code) s =
     (if arm_carry s then exec_arm M S name code s else Inr (arm_return s))"
  by pat_completeness auto
termination
  by (relation "measure (\<lambda>(M, S, name, code, s). length code)") auto

section \<open>Immediates\<close>

text \<open>
  An immediate of ARM is an 8-bit value rotated right by an even amount.  The assembler rejects others.
\<close>

definition rotated_byte :: "nat \<Rightarrow> u32" where
  "rotated_byte k = push_bit (32 - 2 * k) 0xFF OR drop_bit (2 * k) 0xFF"

definition is_immediate :: "u32 \<Rightarrow> bool" where
  "is_immediate v \<longleftrightarrow> list_ex (\<lambda>k. v AND NOT (rotated_byte k) = 0) [0..<16]"

section \<open>Symbolic execution\<close>

lemma greg_simps [simp]:
  "greg (set_greg r v s) q = (if q = r then v else greg s q)"
  "arm_carry (set_greg r v s) = arm_carry s" "pc (set_greg r v s) = pc s"
  "arm_world (set_greg r v s) = arm_world s"
  by (simp_all add: set_greg_def)

lemma set_greg_twice [simp]: "set_greg r v (set_greg r u s) = set_greg r v s"
  by (simp add: set_greg_def)

lemma set_arm_mem_simps [simp]:
  "greg (set_arm_mem m s) = greg s" "arm_carry (set_arm_mem m s) = arm_carry s" "pc (set_arm_mem m s) = pc s"
  "arm_world (set_arm_mem m s) = (arm_world s)\<lparr>mem := m\<rparr>"
  by (simp_all add: set_arm_mem_def)

lemma exec_arm_ops: "exec_arm M S n (map Arm ops @ code) s = exec_arm M S n code (fold arm_step ops s)"
  by (induction ops arbitrary: s) simp_all

lemma load_words_simps [simp]:
  "arm_carry (load_words m a rs s) = arm_carry s" "pc (load_words m a rs s) = pc s"
  "arm_world (load_words m a rs s) = arm_world s"
  by (induction rs arbitrary: a s) simp_all

lemma load_words_other: "r \<notin> set rs \<Longrightarrow> greg (load_words m a rs s) r = greg s r"
  by (induction rs arbitrary: a s) simp_all

lemma rotated_bytes: "rotated_byte 0 = 0xFF" "rotated_byte 12 = 0xFF00" "rotated_byte 15 = 0x3FC"
  by (simp_all add: rotated_byte_def)

lemma is_immediateI: "v AND NOT (rotated_byte k) = 0 \<Longrightarrow> k < 16 \<Longrightarrow> is_immediate v"
  by (auto simp: is_immediate_def list_ex_iff)

end
