(* ===== verification/Stubs_Arm.thy ===== *)
theory Stubs_Arm
  imports Sysnums Machine_Arm
begin

text \<open>
  The ARM branch of \<open>SYS.h\<close> and of the stubs.  \<open>dyn\<close> says whether \<open>__DYNAMIC__\<close> is defined, \<open>v7k\<close> whether
  \<open>__BIGGEST_ALIGNMENT__\<close> is greater than 4, and \<open>arg_bytes\<close> is \<open>__SYSCALL_32BIT_ARG_BYTES\<close>, if defined.  A
  macro that does not exist for the number of arguments, or that the preprocessor rejects, is the value
  \<open>None\<close>.
\<close>

unbundle bit_operations_syntax

section \<open>The macros\<close>

definition MI_GET_ADDRESS :: "bool \<Rightarrow> arm_reg \<Rightarrow> string \<Rightarrow> arm_instr list" where
  "MI_GET_ADDRESS dyn reg var =
     (if dyn then [Ldr_offset var reg, Ldr_relative reg, B_over] else [Ldr_symbol var reg, B_over])"

definition MI_BRANCH_EXTERNAL :: "bool \<Rightarrow> string \<Rightarrow> arm_instr list" where
  "MI_BRANCH_EXTERNAL dyn var = (if dyn then MI_GET_ADDRESS dyn ip var @ [Bx_reg ip] else [B_symbol var])"

definition MI_CALL_EXTERNAL :: "bool \<Rightarrow> string \<Rightarrow> arm_instr list" where
  "MI_CALL_EXTERNAL dyn var = (if dyn then MI_GET_ADDRESS dyn ip var @ [Blx_reg ip] else [Bl_symbol var])"

definition load_number :: "u32 \<Rightarrow> arm_operation list" where
  "load_number num =
     (if num AND 0xFF = num then [Mov_imm r12 num]
      else if num AND 0x3FC = num then [Mov_imm r12 num]
      else [Mov_imm r12 (num AND 0xFFFFFF00), Orr_imm r12 r12 (num AND 0xFF)])"

definition DO_SYSCALL :: "u32 \<Rightarrow> arm_instr list" where
  "DO_SYSCALL num = map Arm (load_number num) @ [Swi]"

text \<open>The stubs with a name of their own return with \<open>bxcc lr\<close>.\<close>

definition SYSCALL_0to4 :: "bool \<Rightarrow> string \<Rightarrow> string \<Rightarrow> arm_instr list" where
  "SYSCALL_0to4 dyn name cerror =
     DO_SYSCALL (SYS name) @ [Bxcc_lr] @ MI_BRANCH_EXTERNAL dyn (''_'' @ cerror)"

definition SYSCALL_5 :: "bool \<Rightarrow> string \<Rightarrow> string \<Rightarrow> arm_instr list" where
  "SYSCALL_5 dyn name cerror =
     [Arm (Mov_reg ip sp), Arm (Stmfd [r4, r5]), Arm (Ldr r4 ip 0)] @ DO_SYSCALL (SYS name) @
     [Arm (Ldmfd [r4, r5]), Bxcc_lr] @ MI_BRANCH_EXTERNAL dyn (''_'' @ cerror)"

definition SYSCALL_6to12 ::
  "bool \<Rightarrow> string \<Rightarrow> arm_reg list \<Rightarrow> arm_reg list \<Rightarrow> string \<Rightarrow> arm_instr list" where
  "SYSCALL_6to12 dyn name save_regs arg_regs cerror =
     [Arm (Mov_reg ip sp), Arm (Stmfd save_regs), Arm (Ldmia ip arg_regs)] @ DO_SYSCALL (SYS name) @
     [Arm (Ldmfd save_regs), Bxcc_lr] @ MI_BRANCH_EXTERNAL dyn (''_'' @ cerror)"

text \<open>\<open>bcc 1f; MI_BRANCH_EXTERNAL (_##cerror); 1:\<close>\<close>

definition branch_on_carry :: "bool \<Rightarrow> string \<Rightarrow> arm_instr list" where
  "branch_on_carry dyn cerror =
     Bcc (length (MI_BRANCH_EXTERNAL dyn (''_'' @ cerror))) # MI_BRANCH_EXTERNAL dyn (''_'' @ cerror)"

definition SYSCALL_NONAME_0to4 :: "bool \<Rightarrow> string \<Rightarrow> string \<Rightarrow> arm_instr list" where
  "SYSCALL_NONAME_0to4 dyn name cerror = DO_SYSCALL (SYS name) @ branch_on_carry dyn cerror"

definition SYSCALL_NONAME_5 :: "bool \<Rightarrow> string \<Rightarrow> string \<Rightarrow> arm_instr list" where
  "SYSCALL_NONAME_5 dyn name cerror =
     [Arm (Mov_reg ip sp), Arm (Stmfd [r4, r5]), Arm (Ldr r4 ip 0)] @ DO_SYSCALL (SYS name) @
     [Arm (Ldmfd [r4, r5])] @ branch_on_carry dyn cerror"

definition SYSCALL_NONAME_6to12 ::
  "bool \<Rightarrow> string \<Rightarrow> arm_reg list \<Rightarrow> arm_reg list \<Rightarrow> string \<Rightarrow> arm_instr list" where
  "SYSCALL_NONAME_6to12 dyn name save_regs arg_regs cerror =
     [Arm (Mov_reg ip sp), Arm (Stmfd save_regs), Arm (Ldmia ip arg_regs)] @ DO_SYSCALL (SYS name) @
     [Arm (Ldmfd save_regs)] @ branch_on_carry dyn cerror"

text \<open>The macro for a number of arguments, \<open>SYSCALL_NONAME_##nargs\<close>.\<close>

definition SYSCALL_NONAME_nargs :: "bool \<Rightarrow> bool \<Rightarrow> nat \<Rightarrow> string \<Rightarrow> string \<Rightarrow> arm_instr list option" where
  "SYSCALL_NONAME_nargs v7k dyn nargs name cerror =
     (if nargs \<le> 3 then Some (SYSCALL_NONAME_0to4 dyn name cerror)
      else if v7k then
        if nargs = 4 then Some (SYSCALL_NONAME_6to12 dyn name [r4, r5] [r4, r5] cerror)
        else if nargs = 5 then Some (SYSCALL_NONAME_6to12 dyn name [r4, r5] [r4, r5] cerror)
        else if nargs \<in> {6, 7, 8, 12} then
          Some (SYSCALL_NONAME_6to12 dyn name [r4, r5, r6, r8] [r4, r5, r6, r8] cerror)
        else None
      else
        if nargs = 4 then Some (SYSCALL_NONAME_0to4 dyn name cerror)
        else if nargs = 5 then Some (SYSCALL_NONAME_5 dyn name cerror)
        else if nargs = 6 then Some (SYSCALL_NONAME_6to12 dyn name [r4, r5] [r4, r5] cerror)
        else if nargs \<in> {7, 8, 12} then
          Some (SYSCALL_NONAME_6to12 dyn name [r4, r5, r6, r8] [r4, r5, r6] cerror)
        else None)"

definition SYSCALL_NONAME ::
  "bool \<Rightarrow> nat option \<Rightarrow> bool \<Rightarrow> string \<Rightarrow> nat \<Rightarrow> string \<Rightarrow> arm_instr list option" where
  "SYSCALL_NONAME v7k arg_bytes dyn name nargs cerror =
     (case arg_bytes of
        None \<Rightarrow> SYSCALL_NONAME_nargs v7k dyn nargs name cerror
      | Some n \<Rightarrow>
          if n < 20 then Some (SYSCALL_NONAME_0to4 dyn name cerror)
          else if n = 20 then SYSCALL_NONAME_nargs v7k dyn 5 name cerror
          else if n = 24 then SYSCALL_NONAME_nargs v7k dyn 6 name cerror
          else if n = 28 then SYSCALL_NONAME_nargs v7k dyn 7 name cerror
          else if n = 32 then SYSCALL_NONAME_nargs v7k dyn 8 name cerror
          else if n = 36 then SYSCALL_NONAME_nargs v7k dyn 8 name cerror
          else if n = 40 then SYSCALL_NONAME_nargs v7k dyn 8 name cerror
          else if n = 44 then SYSCALL_NONAME_nargs v7k dyn 8 name cerror
          else if n = 48 then SYSCALL_NONAME_nargs v7k dyn 12 name cerror
          else None)"

text \<open>
  The macro \<open>SYSCALL_##nargs\<close>.  But for \<open>SYSCALL_5\<close>, which ARMv7k redefines, they have one parameter and are
  given two arguments, so the preprocessor rejects them.
\<close>

definition SYSCALL_nargs :: "bool \<Rightarrow> bool \<Rightarrow> nat \<Rightarrow> string \<Rightarrow> string \<Rightarrow> arm_instr list option" where
  "SYSCALL_nargs v7k dyn nargs name cerror =
     (if nargs = 5 \<and> \<not> v7k then Some (SYSCALL_5 dyn name cerror) else None)"

definition SYSCALL_named ::
  "bool \<Rightarrow> nat option \<Rightarrow> bool \<Rightarrow> string \<Rightarrow> nat \<Rightarrow> string \<Rightarrow> arm_instr list option" where
  "SYSCALL_named v7k arg_bytes dyn name nargs cerror =
     (case arg_bytes of
        None \<Rightarrow> SYSCALL_nargs v7k dyn nargs name cerror
      | Some n \<Rightarrow>
          if n < 20 then Some (SYSCALL_0to4 dyn name cerror)
          else if n = 20 then SYSCALL_nargs v7k dyn 5 name cerror
          else if n = 24 then SYSCALL_nargs v7k dyn 6 name cerror
          else if n = 28 then SYSCALL_nargs v7k dyn 7 name cerror
          else if n = 32 then SYSCALL_nargs v7k dyn 8 name cerror
          else if n = 36 then SYSCALL_nargs v7k dyn 8 name cerror
          else if n = 40 then SYSCALL_nargs v7k dyn 8 name cerror
          else if n = 44 then SYSCALL_nargs v7k dyn 8 name cerror
          else if n = 48 then SYSCALL_nargs v7k dyn 12 name cerror
          else None)"

definition PSEUDO_arm ::
  "bool \<Rightarrow> nat option \<Rightarrow> bool \<Rightarrow> string \<Rightarrow> nat \<Rightarrow> string \<Rightarrow> arm_instr list option" where
  "PSEUDO_arm v7k arg_bytes dyn name nargs cerror = SYSCALL_NONAME v7k arg_bytes dyn name nargs cerror"

definition SYSCALL2_arm ::
  "bool \<Rightarrow> nat option \<Rightarrow> bool \<Rightarrow> string \<Rightarrow> nat \<Rightarrow> string \<Rightarrow> arm_instr list option" where
  "SYSCALL2_arm v7k arg_bytes dyn name nargs cerror =
     map_option (\<lambda>code. code @ [Bx_lr]) (PSEUDO_arm v7k arg_bytes dyn name nargs cerror)"

definition SYSCALL_arm :: "bool \<Rightarrow> nat option \<Rightarrow> bool \<Rightarrow> string \<Rightarrow> nat \<Rightarrow> arm_instr list option" where
  "SYSCALL_arm v7k arg_bytes dyn name nargs =
     map_option (\<lambda>code. code @ [Bx_lr]) (PSEUDO_arm v7k arg_bytes dyn name nargs ''cerror'')"

section \<open>The stubs\<close>

definition write_code_arm :: "bool \<Rightarrow> bool \<Rightarrow> arm_instr list option" where
  "write_code_arm v7k dyn = SYSCALL2_arm v7k (Some 12) dyn ''write'' 3 ''darling_cerror''"

definition syscall_code_arm :: "bool \<Rightarrow> bool \<Rightarrow> arm_instr list option" where
  "syscall_code_arm v7k dyn = SYSCALL_arm v7k None dyn ''syscall'' 7"

definition pipe_code_arm :: "bool \<Rightarrow> bool \<Rightarrow> arm_instr list option" where
  "pipe_code_arm v7k dyn =
     map_option (\<lambda>code. [Arm (Mov_reg r3 r0)] @ code @
       [Arm (Str r0 r3 0), Arm (Str r1 r3 4), Arm (Mov_imm r0 0), Bx_lr])
       (SYSCALL_NONAME v7k None dyn ''pipe'' 0 ''cerror_nocancel'')"

section \<open>The number of the call\<close>

lemma is_immediate_masked: "is_immediate (v AND 0xFF)" "is_immediate (v AND 0xFF00)" "is_immediate (v AND 0x3FC)"
  by (rule is_immediateI [where k = 0], simp_all add: rotated_bytes and.assoc)
    (rule is_immediateI [where k = 12], simp_all add: rotated_bytes and.assoc,
     rule is_immediateI [where k = 15], simp_all add: rotated_bytes and.assoc)

fun immediates :: "arm_operation list \<Rightarrow> u32 list" where
  "immediates [] = []"
| "immediates (Mov_imm r v # ops) = v # immediates ops"
| "immediates (Orr_imm r q v # ops) = v # immediates ops"
| "immediates (_ # ops) = immediates ops"

lemma load_number_assembles:
  assumes "take_bit 16 num = num" and "v \<in> set (immediates (load_number num))"
  shows "is_immediate v"
proof -
  have "num = num AND 0xFFFF" using assms(1) by (simp add: take_bit_eq_mask mask_eq_exp_minus_1)
  then have "num AND 0xFFFFFF00 = (num AND 0xFFFF) AND 0xFFFFFF00" by simp
  then have "num AND 0xFFFFFF00 = num AND 0xFF00" by (simp add: and.assoc)
  then show ?thesis
    using assms(2) is_immediate_masked [of num] by (auto simp: load_number_def split: if_splits)
qed

lemma number_loaded: "fold arm_step (load_number num) s = set_greg r12 num s"
proof -
  have "(num AND 0xFFFFFF00) OR (num AND 0xFF) = num AND (0xFFFFFF00 OR 0xFF)"
    by (simp only: bit.conj_disj_distrib)
  also have "(0xFFFFFF00 OR 0xFF :: u32) = - 1" by simp
  also have "num AND - 1 = num" by simp
  finally show ?thesis by (simp add: load_number_def)
qed

lemma exec_DO_SYSCALL:
  "exec_arm M S n (DO_SYSCALL num @ code) s = exec_arm M S n code (swi M (set_greg r12 num s))"
  by (simp add: DO_SYSCALL_def exec_arm_ops number_loaded)

section \<open>Branches to symbols\<close>

definition arm_linked :: "'k arm_machine \<Rightarrow> memory \<Rightarrow> string \<Rightarrow> bool" where
  "arm_linked M m f \<longleftrightarrow>
     get32 m (arm_pointer_at M f) = arm_symbol_at M f \<and> arm_symbol_of M (arm_symbol_at M f) = Some f"

definition address_in :: "bool \<Rightarrow> arm_reg \<Rightarrow> 'k arm_machine \<Rightarrow> string \<Rightarrow> 'k arm \<Rightarrow> 'k arm" where
  "address_in dyn r M f s = (if dyn then set_greg r (arm_symbol_at M f) s else s)"

lemma exec_MI_GET_ADDRESS:
  assumes "dyn \<Longrightarrow> arm_linked M (arm_mem s) f"
  shows "exec_arm M S n (MI_GET_ADDRESS dyn r f @ code) s = exec_arm M S n code (set_greg r (arm_symbol_at M f) s)"
  using assms by (simp add: MI_GET_ADDRESS_def arm_linked_def)

lemma exec_MI_BRANCH_EXTERNAL:
  assumes "dyn \<Longrightarrow> arm_linked M (arm_mem s) f"
  shows "exec_arm M S n (MI_BRANCH_EXTERNAL dyn f @ code) s = arm_call S f (address_in dyn ip M f s)"
proof (cases dyn)
  case True
  then show ?thesis
    using exec_MI_GET_ADDRESS [where dyn = dyn and r = ip and code = "Bx_reg ip # code" and M = M and s = s and f = f]
      assms
    by (simp add: MI_BRANCH_EXTERNAL_def arm_call_at_def arm_linked_def address_in_def)
qed (simp add: MI_BRANCH_EXTERNAL_def address_in_def)

text \<open>A position-independent call and a direct one differ in \<open>ip\<close> only.\<close>

lemma exec_MI_CALL_EXTERNAL:
  assumes "dyn \<Longrightarrow> arm_linked M (arm_mem s) f"
  shows "exec_arm M S n (MI_CALL_EXTERNAL dyn f @ code) s =
    comes_back (code_at M n (length code)) (exec_arm M S n code)
      (arm_call S f (set_greg lr (code_at M n (length code)) (address_in dyn ip M f s)))"
proof (cases dyn)
  case True
  then show ?thesis
    using exec_MI_GET_ADDRESS [where dyn = dyn and r = ip and code = "Blx_reg ip # code" and M = M and s = s and f = f]
      assms
    by (simp add: MI_CALL_EXTERNAL_def arm_call_at_def arm_linked_def address_in_def)
qed (simp add: MI_CALL_EXTERNAL_def address_in_def)

section \<open>The frame of a stub\<close>

text \<open>The number of arguments that selects the macro, and the registers it saves and loads.\<close>

definition selecting :: "nat option \<Rightarrow> nat \<Rightarrow> nat" where
  "selecting arg_bytes nargs =
     (case arg_bytes of
        None \<Rightarrow> nargs
      | Some n \<Rightarrow> if n < 20 then 0 else if n < 32 then n div 4 else if n < 48 then 8 else 12)"

definition frame_regs :: "bool \<Rightarrow> nat \<Rightarrow> arm_reg list \<times> arm_reg list" where
  "frame_regs v7k n =
     (if n \<le> 3 \<or> (n = 4 \<and> \<not> v7k) then ([], [])
      else if n = 5 \<and> \<not> v7k then ([r4, r5], [r4])
      else if n \<le> 5 \<or> (n = 6 \<and> \<not> v7k) then ([r4, r5], [r4, r5])
      else ([r4, r5, r6, r8], if v7k then [r4, r5, r6, r8] else [r4, r5, r6]))"

definition at_swi :: "arm_reg list \<times> arm_reg list \<Rightarrow> u32 \<Rightarrow> 'k arm \<Rightarrow> 'k arm" where
  "at_swi fr num s = set_greg r12 num
     (case fr of (saves, loaded) \<Rightarrow>
        if saves = [] then s else fold arm_step [Mov_reg ip sp, Stmfd saves, Ldmia ip loaded] s)"

definition after_swi :: "arm_reg list \<times> arm_reg list \<Rightarrow> 'k arm \<Rightarrow> 'k arm" where
  "after_swi fr v = (case fr of (saves, loaded) \<Rightarrow> if saves = [] then v else arm_step (Ldmfd saves) v)"

lemma after_swi_simps [simp]:
  "arm_carry (after_swi fr v) = arm_carry v" "arm_world (after_swi fr v) = arm_world v"
  by (simp_all add: after_swi_def split: prod.split)

lemma exec_branch_on_carry:
  "exec_arm M S f (branch_on_carry dyn cerror @ code) s =
     (if arm_carry s then exec_arm M S f (MI_BRANCH_EXTERNAL dyn (''_'' @ cerror) @ code) s
      else exec_arm M S f code s)"
  by (simp add: branch_on_carry_def)

lemma SYSCALL_NONAME_selects:
  assumes "SYSCALL_NONAME v7k arg_bytes dyn name nargs cerror = Some code"
  shows "SYSCALL_NONAME_nargs v7k dyn (selecting arg_bytes nargs) name cerror = Some code"
proof (cases arg_bytes)
  case None
  then show ?thesis using assms by (simp add: SYSCALL_NONAME_def selecting_def)
next
  case (Some n)
  have "SYSCALL_NONAME_nargs v7k dyn 0 name cerror = Some (SYSCALL_NONAME_0to4 dyn name cerror)"
    by (simp add: SYSCALL_NONAME_nargs_def)
  moreover have "n < 20 \<or> n \<in> {20, 24, 28, 32, 36, 40, 44, 48}"
    using assms Some by (simp add: SYSCALL_NONAME_def split: if_splits)
  ultimately show ?thesis using assms Some by (auto simp: SYSCALL_NONAME_def selecting_def)
qed

lemma exec_framed_code:
  "exec_arm M S f ((SYSCALL_NONAME_0to4 dyn name cerror) @ rest) s =
    exec_arm M S f (branch_on_carry dyn cerror @ rest) (after_swi ([], []) (swi M (at_swi ([], []) (SYS name) s)))"
  "exec_arm M S f ((SYSCALL_NONAME_5 dyn name cerror) @ rest) s =
    exec_arm M S f (branch_on_carry dyn cerror @ rest)
      (after_swi ([r4, r5], [r4]) (swi M (at_swi ([r4, r5], [r4]) (SYS name) s)))"
  "saves \<noteq> [] \<Longrightarrow> exec_arm M S f ((SYSCALL_NONAME_6to12 dyn name saves loaded cerror) @ rest) s =
    exec_arm M S f (branch_on_carry dyn cerror @ rest)
      (after_swi (saves, loaded) (swi M (at_swi (saves, loaded) (SYS name) s)))"
  by (simp_all add: SYSCALL_NONAME_0to4_def SYSCALL_NONAME_5_def SYSCALL_NONAME_6to12_def exec_DO_SYSCALL
      at_swi_def after_swi_def)

lemma exec_framed:
  assumes "SYSCALL_NONAME v7k arg_bytes dyn name nargs cerror = Some code"
  defines "fr \<equiv> frame_regs v7k (selecting arg_bytes nargs)"
  shows "exec_arm M S f (code @ rest) s =
    exec_arm M S f (branch_on_carry dyn cerror @ rest) (after_swi fr (swi M (at_swi fr (SYS name) s)))"
  using SYSCALL_NONAME_selects [OF assms(1)]
  by (auto simp: fr_def SYSCALL_NONAME_nargs_def frame_regs_def exec_framed_code split: if_splits)

section \<open>Arguments\<close>

text \<open>Word \<open>k\<close> of the arguments of a C function, at its entry.\<close>

definition c_word :: "'k arm \<Rightarrow> nat \<Rightarrow> u32" where
  "c_word s k =
     (if k < 4 then greg s ([r0, r1, r2, r3] ! k) else get32 (arm_mem s) (greg s sp + 4 * of_nat (k - 4)))"

text \<open>
  Where the kernel finds word \<open>k\<close>: the words that no register holds are where they would be on a stack
  that held all of them, on ARMv7k "starting 32 bytes from sp", as the comment in the code has it.
\<close>

definition kernel_regs :: "bool \<Rightarrow> arm_reg list" where
  "kernel_regs v7k = (if v7k then [r0, r1, r2, r3, r4, r5, r6, r8] else [r0, r1, r2, r3, r4, r5, r6])"

definition kernel_word :: "bool \<Rightarrow> 'k arm \<Rightarrow> nat \<Rightarrow> u32" where
  "kernel_word v7k u k =
     (if k < length (kernel_regs v7k) then greg u (kernel_regs v7k ! k)
      else get32 (arm_mem u) (greg u sp + 4 * of_nat k))"

text \<open>How many words the macro hands over.\<close>

definition handed_words :: "bool \<Rightarrow> nat \<Rightarrow> nat" where
  "handed_words v7k n =
     (if n \<le> 3 \<or> (n = 4 \<and> \<not> v7k) then 4 else if n = 5 \<and> \<not> v7k then 5
      else if n \<le> 5 \<or> (n = 6 \<and> \<not> v7k) then 6 else 12)"

text \<open>The frame in memory: what was saved, and the arguments above it.\<close>

lemma stored_words:
  "get32 (store_words m (a - 8) [v0, v1]) (a - 8) = v0" "get32 (store_words m (a - 8) [v0, v1]) (a - 4) = v1"
  "get32 (store_words m (a - 16) [v0, v1, v2, v3]) (a - 16) = v0"
  "get32 (store_words m (a - 16) [v0, v1, v2, v3]) (a - 12) = v1"
  "get32 (store_words m (a - 16) [v0, v1, v2, v3]) (a - 8) = v2"
  "get32 (store_words m (a - 16) [v0, v1, v2, v3]) (a - 4) = v3"
  by (simp_all add: cell32_simps)

lemma words_above:
  assumes "j < 8"
  shows "get32 (store_words m (a - 8) [v0, v1]) (a + 4 * of_nat j) = get32 m (a + 4 * of_nat j)"
    and "get32 (store_words m (a - 16) [v0, v1, v2, v3]) (a + 4 * of_nat j) = get32 m (a + 4 * of_nat j)"
proof -
  have "j \<in> {0, 1, 2, 3, 4, 5, 6, 7}" using assms by auto
  then show "get32 (store_words m (a - 8) [v0, v1]) (a + 4 * of_nat j) = get32 m (a + 4 * of_nat j)"
    and "get32 (store_words m (a - 16) [v0, v1, v2, v3]) (a + 4 * of_nat j) = get32 m (a + 4 * of_nat j)"
    by (auto simp: cell32_simps)
qed

lemma at_swi_other:
  "arm_world (at_swi ([], []) num s) = arm_world s"
  "saves \<noteq> [] \<Longrightarrow> ip \<notin> set saves \<Longrightarrow> arm_mem (at_swi (saves, loaded) num s) =
     store_words (arm_mem s) (greg s sp - words_size saves) (map (greg s) saves)"
  "saves \<noteq> [] \<Longrightarrow> sp \<notin> set loaded \<Longrightarrow>
     greg (at_swi (saves, loaded) num s) sp = greg s sp - words_size saves"
  "r \<notin> set loaded \<Longrightarrow> r \<noteq> ip \<Longrightarrow> r \<noteq> sp \<Longrightarrow> greg (at_swi (saves, loaded) num s) r = greg s r"
  by (auto simp: at_swi_def Let_def load_words_other simp del: store_words.simps cong: map_cong
      intro!: arg_cong [of _ _ "store_words _ _"] split: if_splits)

lemma words_sizes: "words_size [r4, r5] = 8" "words_size [r4, r5, r6, r8] = 16"
  by (simp_all add: words_size_def)

lemma loaded_regs:
  fixes s :: "'k arm"
  defines "word \<equiv> \<lambda>j. get32 (arm_mem s) (greg s sp + 4 * of_nat j)"
  shows "greg (at_swi ([r4, r5], [r4]) num s) r4 = word 0"
    and "greg (at_swi ([r4, r5], [r4, r5]) num s) r4 = word 0" "greg (at_swi ([r4, r5], [r4, r5]) num s) r5 = word 1"
    and "loaded \<in> {[], [r8]} \<Longrightarrow> greg (at_swi ([r4, r5, r6, r8], [r4, r5, r6] @ loaded) num s) r4 = word 0"
    "loaded \<in> {[], [r8]} \<Longrightarrow> greg (at_swi ([r4, r5, r6, r8], [r4, r5, r6] @ loaded) num s) r5 = word 1"
    "loaded \<in> {[], [r8]} \<Longrightarrow> greg (at_swi ([r4, r5, r6, r8], [r4, r5, r6] @ loaded) num s) r6 = word 2"
    "greg (at_swi ([r4, r5, r6, r8], [r4, r5, r6, r8]) num s) r8 = word 3"
  using words_above [of 0 "arm_mem s" "greg s sp"] words_above [of 1 "arm_mem s" "greg s sp"]
    words_above [of 2 "arm_mem s" "greg s sp"] words_above [of 3 "arm_mem s" "greg s sp"]
  by (auto simp: at_swi_def word_def Let_def words_sizes add.commute [of 8] add.commute [of 12]
      simp del: store_words.simps)

lemma kernel_word_on_stack:
  assumes "length (kernel_regs v7k) \<le> k" and "k < 12" and "sp \<notin> set loaded"
  shows "kernel_word v7k (at_swi ([r4, r5, r6, r8], loaded) num s) k = c_word s k"
proof -
  let ?m = "store_words (arm_mem s) (greg s sp - 16) [greg s r4, greg s r5, greg s r6, greg s r8]"
  have k: "4 < k" using assms(1) by (simp add: kernel_regs_def split: if_splits)
  then have at: "greg s sp - 16 + 4 * of_nat k = greg s sp + 4 * of_nat (k - 4)"
    by (simp add: of_nat_diff algebra_simps)
  have "kernel_word v7k (at_swi ([r4, r5, r6, r8], loaded) num s) k = get32 ?m (greg s sp - 16 + 4 * of_nat k)"
    using assms by (simp add: kernel_word_def at_swi_other words_sizes del: store_words.simps)
  also have "\<dots> = get32 (arm_mem s) (greg s sp + 4 * of_nat (k - 4))"
    unfolding at by (rule words_above(2)) (use assms(2) in simp)
  finally show ?thesis using k by (simp add: c_word_def)
qed

lemma kernel_word_in_argument_reg:
  assumes "k < 4" and "set (snd fr) \<subseteq> {r4, r5, r6, r8}"
  shows "kernel_word v7k (at_swi fr num s) k = c_word s k"
proof -
  obtain saves loaded where fr: "fr = (saves, loaded)" by (cases fr)
  have kept: "greg (at_swi fr num s) r = greg s r" if "r \<in> {r0, r1, r2, r3}" for r
    unfolding fr by (rule at_swi_other(4)) (use that assms(2) fr in auto)
  have "k < length (kernel_regs v7k)" "kernel_regs v7k ! k = [r0, r1, r2, r3] ! k"
    "[r0, r1, r2, r3] ! k \<in> set [r0, r1, r2, r3]"
    using assms(1) by (simp_all only: nth_mem list.size) (auto simp: kernel_regs_def less_Suc_eq numeral_eq_Suc)
  then show ?thesis using kept assms(1) by (simp add: kernel_word_def c_word_def)
qed

lemma kernel_word_loaded:
  "kernel_word v7k (at_swi ([r4, r5], [r4]) num s) 4 = c_word s 4"
  "k \<in> {4, 5} \<Longrightarrow> kernel_word v7k (at_swi ([r4, r5], [r4, r5]) num s) k = c_word s k"
  "k \<in> {4, 5, 6} \<Longrightarrow> kernel_word v7k (at_swi ([r4, r5, r6, r8], [r4, r5, r6]) num s) k = c_word s k"
  "k \<in> {4, 5, 6} \<Longrightarrow> kernel_word v7k (at_swi ([r4, r5, r6, r8], [r4, r5, r6, r8]) num s) k = c_word s k"
  "kernel_word True (at_swi ([r4, r5, r6, r8], [r4, r5, r6, r8]) num s) 7 = c_word s 7"
  using loaded_regs(4-6) [of "[]" num s] loaded_regs(4-6) [of "[r8]" num s] loaded_regs(1-3,7) [of num s]
  by (auto simp: kernel_word_def kernel_regs_def c_word_def)

lemma words_handed_over:
  assumes "k < handed_words v7k n"
  shows "kernel_word v7k (at_swi (frame_regs v7k n) num s) k = c_word s k"
proof (cases "k < 4")
  case True
  then show ?thesis by (rule kernel_word_in_argument_reg) (simp add: frame_regs_def)
next
  case False
  then consider "n = 5" "\<not> v7k" "k = 4" | "frame_regs v7k n = ([r4, r5], [r4, r5])" "k \<in> {4, 5}"
    | "frame_regs v7k n = ([r4, r5, r6, r8], [r4, r5, r6])" "\<not> v7k"
    | "frame_regs v7k n = ([r4, r5, r6, r8], [r4, r5, r6, r8])" "v7k"
    using assms by (fastforce simp: handed_words_def frame_regs_def split: if_splits)
  then show ?thesis
  proof cases
    case 1
    then show ?thesis using kernel_word_loaded(1) by (simp add: frame_regs_def)
  next
    case 2
    then show ?thesis using kernel_word_loaded(2) by simp
  next
    case 3
    have "k < 12" using assms by (simp add: handed_words_def split: if_splits)
    then show ?thesis
      using 3 False kernel_word_loaded(3) [of k v7k num s] kernel_word_on_stack [of v7k k "[r4, r5, r6]" num s]
      by (cases "k \<in> {4, 5, 6}") (auto simp: kernel_regs_def)
  next
    case 4
    have "k < 12" using assms by (simp add: handed_words_def split: if_splits)
    then show ?thesis
      using 4 False kernel_word_loaded(4) [of k v7k num s] kernel_word_loaded(5) [of num s]
        kernel_word_on_stack [of v7k k "[r4, r5, r6, r8]" num s]
      by (cases "k \<in> {4, 5, 6, 7}") (auto simp: kernel_regs_def)
  qed
qed

section \<open>Return\<close>

text \<open>
  What the stubs rely on when they trap, with \<open>u\<close> at \<open>swi\<close> and \<open>v\<close> after it: the kernel keeps the registers
  but \<open>r0\<close>, \<open>r1\<close> and \<open>ip\<close>, and the four words at the stack pointer, where the stub saved registers.
\<close>

definition swi_keeps :: "'k arm \<Rightarrow> 'k arm \<Rightarrow> bool" where
  "swi_keeps u v \<longleftrightarrow>
     (\<forall>r. r \<notin> {r0, r1, ip} \<longrightarrow> greg v r = greg u r) \<and>
     (\<forall>off \<in> {0, 4, 8, 12}. get32 (arm_mem v) (greg u sp + off) = get32 (arm_mem u) (greg u sp + off))"

lemma swi_keepsD:
  assumes "swi_keeps u v"
  shows "r \<notin> {r0, r1, ip} \<Longrightarrow> greg v r = greg u r" and "greg v sp = greg u sp"
    and "get32 (arm_mem v) (greg u sp) = get32 (arm_mem u) (greg u sp)"
    "get32 (arm_mem v) (greg u sp + 4) = get32 (arm_mem u) (greg u sp + 4)"
    "get32 (arm_mem v) (greg u sp + 8) = get32 (arm_mem u) (greg u sp + 8)"
    "get32 (arm_mem v) (greg u sp + 12) = get32 (arm_mem u) (greg u sp + 12)"
  using assms unfolding swi_keeps_def by auto

lemma after_swi_regs:
  "greg (after_swi ([r4, r5], l) v) sp = greg v sp + 8"
  "greg (after_swi ([r4, r5], l) v) r4 = get32 (arm_mem v) (greg v sp)"
  "greg (after_swi ([r4, r5], l) v) r5 = get32 (arm_mem v) (greg v sp + 4)"
  "greg (after_swi ([r4, r5, r6, r8], l) v) sp = greg v sp + 16"
  "greg (after_swi ([r4, r5, r6, r8], l) v) r4 = get32 (arm_mem v) (greg v sp)"
  "greg (after_swi ([r4, r5, r6, r8], l) v) r5 = get32 (arm_mem v) (greg v sp + 4)"
  "greg (after_swi ([r4, r5, r6, r8], l) v) r6 = get32 (arm_mem v) (greg v sp + 8)"
  "greg (after_swi ([r4, r5, r6, r8], l) v) r8 = get32 (arm_mem v) (greg v sp + 12)"
  by (simp_all add: after_swi_def words_sizes add.commute)

lemma after_swi_other: "r \<notin> set saves \<Longrightarrow> r \<noteq> sp \<Longrightarrow> greg (after_swi (saves, l) v) r = greg v r"
  by (simp add: after_swi_def load_words_other)

lemma two_restored:
  assumes keeps: "swi_keeps (at_swi ([r4, r5], l) num s) v" and l: "set l \<subseteq> {r4, r5}" and "r \<notin> {r0, r1, ip}"
  shows "greg (after_swi ([r4, r5], l) v) r = greg s r"
proof -
  let ?u = "at_swi ([r4, r5], l) num s"
  have l': "sp \<notin> set l" using l by auto
  have "greg ?u sp = greg s sp - 8" and mem: "arm_mem ?u = store_words (arm_mem s) (greg s sp - 8) [greg s r4, greg s r5]"
    using l' by (simp_all add: at_swi_other words_sizes del: store_words.simps)
  then consider "r = sp" | "r = r4" | "r = r5" | "r \<notin> {r4, r5, sp}" by blast
  then show ?thesis
  proof cases
    case 4
    then have "greg ?u r = greg s r" using assms(3) l by (intro at_swi_other(4)) auto
    then show ?thesis using 4 assms(3) swi_keepsD(1) [OF keeps] by (simp add: after_swi_other)
  qed (use swi_keepsD [OF keeps] \<open>greg ?u sp = greg s sp - 8\<close> stored_words(1,2) [of "arm_mem s" "greg s sp"] in
      \<open>simp_all add: after_swi_regs mem del: store_words.simps\<close>)
qed

lemma four_restored:
  assumes keeps: "swi_keeps (at_swi ([r4, r5, r6, r8], l) num s) v" and l: "set l \<subseteq> {r4, r5, r6, r8}"
    and "r \<notin> {r0, r1, ip}"
  shows "greg (after_swi ([r4, r5, r6, r8], l) v) r = greg s r"
proof -
  let ?u = "at_swi ([r4, r5, r6, r8], l) num s"
  have l': "sp \<notin> set l" using l by auto
  have at: "greg ?u sp = greg s sp - 16" and mem: "arm_mem ?u =
      store_words (arm_mem s) (greg s sp - 16) [greg s r4, greg s r5, greg s r6, greg s r8]"
    using l' by (simp_all add: at_swi_other words_sizes del: store_words.simps)
  consider "r = sp" | "r = r4" | "r = r5" | "r = r6" | "r = r8" | "r \<notin> {r4, r5, r6, r8, sp}" by blast
  then show ?thesis
  proof cases
    case 6
    then have "greg ?u r = greg s r" using assms(3) l by (intro at_swi_other(4)) auto
    then show ?thesis using 6 assms(3) swi_keepsD(1) [OF keeps] by (simp add: after_swi_other)
  qed (use swi_keepsD [OF keeps] at stored_words(3-6) [of "arm_mem s" "greg s sp"] in
      \<open>simp_all add: after_swi_regs mem del: store_words.simps\<close>)
qed

lemma frame_regs_cases:
  "frame_regs v7k n \<in> {([], []), ([r4, r5], [r4]), ([r4, r5], [r4, r5]), ([r4, r5, r6, r8], [r4, r5, r6]),
     ([r4, r5, r6, r8], [r4, r5, r6, r8])}"
  by (simp add: frame_regs_def)

lemma registers_restored:
  assumes "swi_keeps (at_swi (frame_regs v7k n) num s) v" and "r \<notin> {r0, r1, ip}"
  shows "greg (after_swi (frame_regs v7k n) v) r = greg s r"
proof -
  consider "frame_regs v7k n = ([], [])" | l where "frame_regs v7k n = ([r4, r5], l)" "set l \<subseteq> {r4, r5}"
    | l where "frame_regs v7k n = ([r4, r5, r6, r8], l)" "set l \<subseteq> {r4, r5, r6, r8}"
    using frame_regs_cases [of v7k n] by auto
  then show ?thesis
  proof cases
    case 1
    then show ?thesis
      using swi_keepsD(1) [OF assms] assms(2) by (auto simp: after_swi_def at_swi_def)
  next
    case 2
    then show ?thesis using two_restored assms by metis
  next
    case 3
    then show ?thesis using four_restored assms by metis
  qed
qed

lemma results_kept: "r \<in> {r0, r1} \<Longrightarrow> greg (after_swi (frame_regs v7k n) v) r = greg v r"
  using frame_regs_cases [of v7k n] by (auto simp: after_swi_other)

section \<open>The stubs as a whole\<close>

lemma stub_arm_run:
  fixes s :: "'k arm" and M :: "'k arm_machine"
  assumes code: "SYSCALL_NONAME v7k arg_bytes dyn name nargs cerror = Some code"
  defines "fr \<equiv> frame_regs v7k (selecting arg_bytes nargs)"
  defines "v \<equiv> swi M (at_swi fr (SYS name) s)"
  assumes keeps: "swi_keeps (at_swi fr (SYS name) s) v"
    and linked: "dyn \<Longrightarrow> arm_linked M (arm_mem v) (''_'' @ cerror)"
  shows "\<exists>t. exec_arm M S f (code @ rest) s =
      (if arm_carry v then arm_call S (''_'' @ cerror) (address_in dyn ip M (''_'' @ cerror) t)
       else exec_arm M S f rest t) \<and>
    arm_world t = arm_world v \<and> arm_carry t = arm_carry v \<and> (\<forall>r \<in> {r0, r1}. greg t r = greg v r) \<and>
    (\<forall>r. r \<notin> {r0, r1, ip} \<longrightarrow> greg t r = greg s r)"
proof (intro exI conjI)
  let ?t = "after_swi fr v"
  show "exec_arm M S f (code @ rest) s =
      (if arm_carry v then arm_call S (''_'' @ cerror) (address_in dyn ip M (''_'' @ cerror) ?t)
       else exec_arm M S f rest ?t)"
    using exec_MI_BRANCH_EXTERNAL [where dyn = dyn and s = ?t and f = "''_'' @ cerror" and M = M] linked
    by (simp add: exec_framed [OF code] fr_def [symmetric] v_def [symmetric] exec_branch_on_carry)
  show "arm_world ?t = arm_world v" "arm_carry ?t = arm_carry v" by simp_all
  show "\<forall>r \<in> {r0, r1}. greg ?t r = greg v r" unfolding fr_def using results_kept by blast
  show "\<forall>r. r \<notin> {r0, r1, ip} \<longrightarrow> greg ?t r = greg s r"
    using registers_restored keeps unfolding fr_def by blast
qed

text \<open>The stubs that \<open>SYSCALL_0to4\<close>, \<open>SYSCALL_5\<close> and \<open>SYSCALL_6to12\<close> make are those without a name, followed by a return.\<close>

lemma named_stub:
  "exec_arm M S f (SYSCALL_0to4 dyn name cerror) s =
    exec_arm M S f (SYSCALL_NONAME_0to4 dyn name cerror @ [Bx_lr]) s"
  "exec_arm M S f (SYSCALL_5 dyn name cerror) s = exec_arm M S f (SYSCALL_NONAME_5 dyn name cerror @ [Bx_lr]) s"
  "exec_arm M S f (SYSCALL_6to12 dyn name saves loaded cerror) s =
    exec_arm M S f (SYSCALL_NONAME_6to12 dyn name saves loaded cerror @ [Bx_lr]) s"
proof -
  have tail: "exec_arm M S f (MI_BRANCH_EXTERNAL dyn g @ code) t = exec_arm M S f (MI_BRANCH_EXTERNAL dyn g) t"
    for g t code
    by (simp add: MI_BRANCH_EXTERNAL_def MI_GET_ADDRESS_def)
  show "exec_arm M S f (SYSCALL_0to4 dyn name cerror) s =
      exec_arm M S f (SYSCALL_NONAME_0to4 dyn name cerror @ [Bx_lr]) s"
    "exec_arm M S f (SYSCALL_5 dyn name cerror) s = exec_arm M S f (SYSCALL_NONAME_5 dyn name cerror @ [Bx_lr]) s"
    "exec_arm M S f (SYSCALL_6to12 dyn name saves loaded cerror) s =
      exec_arm M S f (SYSCALL_NONAME_6to12 dyn name saves loaded cerror @ [Bx_lr]) s"
    by (simp_all add: SYSCALL_0to4_def SYSCALL_NONAME_0to4_def SYSCALL_5_def SYSCALL_NONAME_5_def
        SYSCALL_6to12_def SYSCALL_NONAME_6to12_def exec_DO_SYSCALL exec_branch_on_carry tail)
qed

lemma selected_named_stub:
  assumes "SYSCALL_named v7k arg_bytes dyn name nargs cerror = Some code"
  shows "\<exists>code'. SYSCALL_NONAME v7k arg_bytes dyn name nargs cerror = Some code' \<and>
    exec_arm M S f code s = exec_arm M S f (code' @ [Bx_lr]) s"
proof -
  consider n where "arg_bytes = Some n" "n < 20" "code = SYSCALL_0to4 dyn name cerror"
    | "\<not> v7k" "arg_bytes = None \<and> nargs = 5 \<or> arg_bytes = Some 20" "code = SYSCALL_5 dyn name cerror"
    using assms by (auto simp: SYSCALL_named_def SYSCALL_nargs_def split: option.splits if_splits)
  then show ?thesis
  proof cases
    case 1
    then show ?thesis by (simp add: SYSCALL_NONAME_def named_stub)
  next
    case 2
    then show ?thesis by (auto simp: SYSCALL_NONAME_def SYSCALL_NONAME_nargs_def named_stub)
  qed
qed

text \<open>
  \<open>pipe\<close> keeps the address of the array in \<open>r3\<close> over the trap.  The kernel has the descriptors in \<open>r0\<close> and
  \<open>r1\<close>.
\<close>

lemma pipe_arm_run:
  fixes s :: "'k arm" and M :: "'k arm_machine"
  assumes code: "pipe_code_arm v7k dyn = Some code"
  defines "u \<equiv> set_greg r12 (SYS ''pipe'') (set_greg r3 (greg s r0) s)"
  assumes keeps: "swi_keeps u (swi M u)" and ok: "\<not> arm_carry (swi M u)"
  shows "\<exists>t. exec_arm M S f code s = Inr t \<and> greg t r0 = 0 \<and> pc t = greg s lr \<and>
    get32 (arm_mem t) (greg s r0) = greg (swi M u) r0 \<and> get32 (arm_mem t) (greg s r0 + 4) = greg (swi M u) r1 \<and>
    (\<forall>r. r \<notin> {r0, r1, r3, ip} \<longrightarrow> greg t r = greg s r)"
proof -
  let ?v = "swi M u"
  let ?t = "arm_return (arm_step (Mov_imm r0 0) (arm_step (Str r1 r3 4) (arm_step (Str r0 r3 0) ?v)))"
  have code: "code = [Arm (Mov_reg r3 r0)] @ SYSCALL_NONAME_0to4 dyn ''pipe'' ''cerror_nocancel'' @
      [Arm (Str r0 r3 0), Arm (Str r1 r3 4), Arm (Mov_imm r0 0), Bx_lr]"
    using code by (simp add: pipe_code_arm_def SYSCALL_NONAME_def SYSCALL_NONAME_nargs_def)
  have "exec_arm M S f code s = Inr ?t"
    using ok
    by (simp add: code SYSCALL_NONAME_0to4_def exec_DO_SYSCALL u_def [symmetric] exec_branch_on_carry)
  moreover have "greg ?v r3 = greg s r0"
    using swi_keepsD(1) [OF keeps, of r3] by (simp add: u_def)
  moreover have "greg ?v r = greg s r" if "r \<notin> {r0, r1, r3, ip}" for r
    using swi_keepsD(1) [OF keeps, of r] that by (simp add: u_def)
  ultimately show ?thesis by (auto simp: arm_return_def cell32_simps)
qed

section \<open>Properties\<close>

text \<open>
  C38: An ARM stub hands the arguments over and returns.  For every number of argument words that the macros
  provide for, on both ABIs, the kernel finds each word where it looks for it: in \<open>r0\<close> to \<open>r6\<close> (\<open>r8\<close> too on
  ARMv7k) or on the stack.  After the trap the saved registers and the stack pointer are as they were, and
  the stub goes on, or branches to the error function, with the results in \<open>r0\<close> and \<open>r1\<close>.
\<close>

theorem stub_arm:
  fixes s :: "'k arm" and M :: "'k arm_machine"
  assumes code: "SYSCALL_NONAME v7k arg_bytes dyn name nargs cerror = Some code"
    and words: "arg_bytes = Some (4 * w) \<and> w \<le> 12 \<or> arg_bytes = None \<and> nargs = w \<and> \<not> v7k" and "k < w"
  defines "u \<equiv> at_swi (frame_regs v7k (selecting arg_bytes nargs)) (SYS name) s"
  assumes keeps: "swi_keeps u (swi M u)"
    and linked: "dyn \<Longrightarrow> arm_linked M (arm_mem (swi M u)) (''_'' @ cerror)"
  shows "greg u r12 = SYS name \<and> kernel_word v7k u k = c_word s k \<and>
    (\<exists>t. exec_arm M S f (code @ rest) s =
        (if arm_carry (swi M u)
         then arm_call S (''_'' @ cerror) (address_in dyn ip M (''_'' @ cerror) t)
         else exec_arm M S f rest t) \<and>
      map (greg t) [r0, r1] = map (greg (swi M u)) [r0, r1] \<and> arm_world t = arm_world (swi M u) \<and>
      map (greg t) [r2, r3, r4, r5, r6, r7, r8, r9, r10, r11, sp, lr] =
        map (greg s) [r2, r3, r4, r5, r6, r7, r8, r9, r10, r11, sp, lr])"
proof (intro conjI)
  show "greg u r12 = SYS name" by (simp add: u_def at_swi_def)
  have "SYSCALL_NONAME_nargs v7k dyn (selecting arg_bytes nargs) name cerror = Some code"
    by (rule SYSCALL_NONAME_selects [OF code])
  then have "k < handed_words v7k (selecting arg_bytes nargs)"
    using words \<open>k < w\<close>
    by (auto simp: handed_words_def selecting_def SYSCALL_NONAME_nargs_def split: if_splits)
  then show "kernel_word v7k u k = c_word s k" unfolding u_def by (rule words_handed_over)
next
  show "\<exists>t. exec_arm M S f (code @ rest) s =
        (if arm_carry (swi M u)
         then arm_call S (''_'' @ cerror) (address_in dyn ip M (''_'' @ cerror) t)
         else exec_arm M S f rest t) \<and>
      map (greg t) [r0, r1] = map (greg (swi M u)) [r0, r1] \<and> arm_world t = arm_world (swi M u) \<and>
      map (greg t) [r2, r3, r4, r5, r6, r7, r8, r9, r10, r11, sp, lr] =
        map (greg s) [r2, r3, r4, r5, r6, r7, r8, r9, r10, r11, sp, lr]"
    using stub_arm_run [OF code keeps [unfolded u_def] linked [unfolded u_def], of S f rest]
    unfolding u_def by fastforce
qed

text \<open>
  C39: \<open>DO_SYSCALL\<close> loads every number of \<open>syscall.h\<close> into \<open>r12\<close>, in one instruction or two, and every
  immediate it gives the assembler is one that ARM can encode.
\<close>

theorem DO_SYSCALL_number:
  assumes "assoc darwin_sysnum name = Some k"
  shows "exec_arm M S f (DO_SYSCALL (SYS name) @ code) s = exec_arm M S f code (swi M (set_greg r12 (of_nat k) s)) \<and>
    list_all is_immediate (immediates (load_number (SYS name)))"
proof
  have "SYS name = of_nat k" using assms by (simp add: SYS_def)
  then show "exec_arm M S f (DO_SYSCALL (SYS name) @ code) s = exec_arm M S f code (swi M (set_greg r12 (of_nat k) s))"
    by (simp add: exec_DO_SYSCALL)
  show "list_all is_immediate (immediates (load_number (SYS name)))"
    using load_number_assembles [OF SYS_defined [OF assms]] by (simp add: list_all_iff)
qed

section \<open>Witnesses\<close>

definition example_arm :: "(c_int \<times> u64 list) list arm" where
  "example_arm =
     \<lparr>greg = (\<lambda>_. 7)(sp := 0x8000, lr := 0x1234), arm_carry = True, pc = 0,
      arm_world = example_world\<lparr>mem := put32 (\<lambda>_. 0) 0x8004 9\<rparr>\<rparr>"

definition example_arm_machine :: "(c_int \<times> u64 list) list arm_machine" where
  "example_arm_machine =
     \<lparr>swi = (\<lambda>u. (set_greg r0 5 u)\<lparr>arm_carry := False\<rparr>), code_at = (\<lambda>f n. 0x1000 - 4 * of_nat n),
      arm_symbol_at = (\<lambda>f. 0x5000), arm_pointer_at = (\<lambda>f. 0x4000), arm_symbol_of = (\<lambda>a. None)\<rparr>"

text \<open>A call with six words, the last one 9, on the stack.\<close>

theorem stub_arm_witness:
  "\<exists>code t. SYSCALL_NONAME False (Some 24) False ''recvfrom'' 6 ''cerror'' = Some code \<and>
     kernel_word False (at_swi (frame_regs False 6) 29 example_arm) 5 = 9 \<and>
     exec_arm example_arm_machine Map.empty ''_recvfrom'' (code @ [Bx_lr]) example_arm = Inr t \<and>
     greg t r0 = 5 \<and> greg t r4 = 7 \<and> pc t = 0x1234"
proof -
  obtain code where code: "SYSCALL_NONAME False (Some 24) False ''recvfrom'' 6 ''cerror'' = Some code"
    by (simp add: SYSCALL_NONAME_def SYSCALL_NONAME_nargs_def)
  have num: "SYS ''recvfrom'' = 29" by (simp add: SYS_def darwin_sysnum_used)
  have sel: "selecting (Some 24) 6 = 6" by (simp add: selecting_def)
  have keeps: "swi_keeps u (swi example_arm_machine u)" and ok: "\<not> arm_carry (swi example_arm_machine u)"
    "greg (swi example_arm_machine u) r0 = 5" for u
    by (simp_all add: swi_keeps_def example_arm_machine_def)
  have word: "c_word example_arm 5 = 9" "greg example_arm r4 = 7" "greg example_arm lr = 0x1234"
    by (simp_all add: c_word_def example_arm_def get32_put32_same)
  from stub_arm [where M = example_arm_machine and s = example_arm and S = Map.empty and f = "''_recvfrom''" and
      rest = "[Bx_lr]" and w = 6 and k = 5, OF code _ _ keeps]
  show ?thesis
    using code ok word by (auto simp: num sel arm_return_def)
qed

theorem DO_SYSCALL_number_witness:
  "exec_arm example_arm_machine Map.empty ''_pipe'' (DO_SYSCALL (SYS ''pipe'') @ [Bx_lr]) example_arm =
     exec_arm example_arm_machine Map.empty ''_pipe'' [Bx_lr] (swi example_arm_machine (set_greg r12 42 example_arm))"
  using DO_SYSCALL_number [OF darwin_sysnum_used(5), of example_arm_machine Map.empty "''_pipe''" "[Bx_lr]" example_arm] by simp

end
