(* ===== verification/Stubs_Arm64.thy ===== *)
theory Stubs_Arm64
  imports Sysnums Kernel_Interface
begin

text \<open>
  The ARM64 branch of \<open>SYS.h\<close> and of the stubs, on the part of ARM64 that they use.

  The macros \<open>ARM64_STACK_PROLOG\<close>, \<open>PUSH_FRAME\<close>, \<open>POP_FRAME\<close> and \<open>ARM64_STACK_EPILOG\<close> are of a header that is
  not in the repository, \<open>mach/arm64/asm.h\<close>: they are lists of instructions that the machine is given.
  \<open>ilp32\<close> says that \<open>__LP64__\<close> is not defined.
\<close>

unbundle bit_operations_syntax

section \<open>The machine\<close>

datatype a64_reg = X nat | SP

record 'k arm64 =
  xreg :: "a64_reg \<Rightarrow> u64"
  a64_carry :: bool
  a64_pc :: u64
  a64_world :: "'k world"

abbreviation a64_mem :: "'k arm64 \<Rightarrow> memory" where
  "a64_mem s \<equiv> mem (a64_world s)"

definition set_xreg :: "a64_reg \<Rightarrow> u64 \<Rightarrow> 'k arm64 \<Rightarrow> 'k arm64" where
  "set_xreg r v s = s\<lparr>xreg := (xreg s)(r := v)\<rparr>"

definition set_a64_mem :: "memory \<Rightarrow> 'k arm64 \<Rightarrow> 'k arm64" where
  "set_a64_mem m s = s\<lparr>a64_world := (a64_world s)\<lparr>mem := m\<rparr>\<rparr>"

datatype a64_operation =
    Mov_x a64_reg a64_reg
  | Mov_x_imm a64_reg u64
  | Ldr_x a64_reg a64_reg u64
  | Ldp_x a64_reg a64_reg a64_reg u64  \<comment> \<open>\<open>ldp xa, xb, [xn, #off]\<close>\<close>
  | Stp_w a64_reg a64_reg a64_reg      \<comment> \<open>\<open>stp wa, wb, [xn]\<close>\<close>
  | Push_pair a64_reg a64_reg          \<comment> \<open>\<open>stp xa, xb, [sp, #-16]!\<close>\<close>
  | Pop_pair a64_reg a64_reg           \<comment> \<open>\<open>ldp xa, xb, [sp], #16\<close>\<close>
  | Uxtw a64_reg
  | Sxtw a64_reg

datatype a64_instr =
    A64 a64_operation
  | Svc                                \<comment> \<open>\<open>svc #SWI_SYSCALL\<close>\<close>
  | Adrp a64_reg string                \<comment> \<open>\<open>adrp reg, var@page\<close>\<close>
  | Add_pageoff a64_reg string         \<comment> \<open>\<open>add reg, reg, var@pageoff\<close>\<close>
  | B_cc nat
  | Bl string
  | Ret_x30

fun a64_step :: "a64_operation \<Rightarrow> 'k arm64 \<Rightarrow> 'k arm64" where
  "a64_step (Mov_x rd rs) s = set_xreg rd (xreg s rs) s"
| "a64_step (Mov_x_imm rd v) s = set_xreg rd v s"
| "a64_step (Ldr_x rd rn off) s = set_xreg rd (load64 (a64_mem s) (xreg s rn + off)) s"
| "a64_step (Ldp_x ra rb rn off) s =
     set_xreg rb (load64 (a64_mem s) (xreg s rn + off + 8))
       (set_xreg ra (load64 (a64_mem s) (xreg s rn + off)) s)"
| "a64_step (Stp_w ra rb rn) s =
     set_a64_mem (store32 (store32 (a64_mem s) (xreg s rn) (ucast (xreg s ra)))
       (xreg s rn + 4) (ucast (xreg s rb))) s"
| "a64_step (Push_pair ra rb) s =
     set_xreg SP (xreg s SP - 16) (set_a64_mem (store64 (store64 (a64_mem s) (xreg s SP - 16) (xreg s ra))
       (xreg s SP - 8) (xreg s rb)) s)"
| "a64_step (Pop_pair ra rb) s =
     set_xreg SP (xreg s SP + 16) (set_xreg rb (load64 (a64_mem s) (xreg s SP + 8))
       (set_xreg ra (load64 (a64_mem s) (xreg s SP)) s))"
| "a64_step (Uxtw r) s = set_xreg r (ucast (ucast (xreg s r) :: u32)) s"
| "a64_step (Sxtw r) s = set_xreg r (scast (ucast (xreg s r) :: u32)) s"

record 'k a64_machine =
  svc :: "'k arm64 \<Rightarrow> 'k arm64"
  a64_code_at :: "string \<Rightarrow> nat \<Rightarrow> u64"
  a64_symbol_at :: "string \<Rightarrow> u64"
  ARM64_STACK_PROLOG :: "a64_instr list"
  PUSH_FRAME :: "a64_instr list"
  POP_FRAME :: "a64_instr list"
  ARM64_STACK_EPILOG :: "a64_instr list"

type_synonym 'k a64_symbols = "string \<Rightarrow> ('k arm64 \<Rightarrow> fault + 'k arm64) option"

definition a64_return :: "'k arm64 \<Rightarrow> 'k arm64" where
  "a64_return s = s\<lparr>a64_pc := xreg s (X 30)\<rparr>"

text \<open>A page of \<open>adrp\<close> is 4096 bytes; \<open>bl\<close> leaves the address of the next instruction in \<open>x30\<close>.\<close>

function exec_a64 ::
  "'k a64_machine \<Rightarrow> 'k a64_symbols \<Rightarrow> string \<Rightarrow> a64_instr list \<Rightarrow> 'k arm64 \<Rightarrow> fault + 'k arm64" where
  "exec_a64 M S name [] s = Inl Fell_off"
| "exec_a64 M S name (A64 i # code) s = exec_a64 M S name code (a64_step i s)"
| "exec_a64 M S name (Svc # code) s = exec_a64 M S name code (svc M s)"
| "exec_a64 M S name (Adrp r f # code) s =
     exec_a64 M S name code (set_xreg r (a64_symbol_at M f AND NOT 0xFFF) s)"
| "exec_a64 M S name (Add_pageoff r f # code) s =
     exec_a64 M S name code (set_xreg r (xreg s r + (a64_symbol_at M f AND 0xFFF)) s)"
| "exec_a64 M S name (B_cc n # code) s =
     exec_a64 M S name (if a64_carry s then code else drop n code) s"
| "exec_a64 M S name (Bl f # code) s =
     (case S f of
        None \<Rightarrow> Inl (Unresolved_symbol f)
      | Some g \<Rightarrow>
          (case g (set_xreg (X 30) (a64_code_at M name (length code)) s) of
             Inl flt \<Rightarrow> Inl flt
           | Inr s' \<Rightarrow>
               if a64_pc s' = a64_code_at M name (length code) then exec_a64 M S name code s'
               else Inl Wild_return))"
| "exec_a64 M S name (Ret_x30 # code) s = Inr (a64_return s)"
  by pat_completeness auto
termination
  by (relation "measure (\<lambda>(M, S, name, code, s). length code)") auto

lemma xreg_simps [simp]:
  "xreg (set_xreg r v s) q = (if q = r then v else xreg s q)"
  "a64_carry (set_xreg r v s) = a64_carry s" "a64_pc (set_xreg r v s) = a64_pc s"
  "a64_world (set_xreg r v s) = a64_world s"
  by (simp_all add: set_xreg_def)

lemma set_a64_mem_simps [simp]:
  "xreg (set_a64_mem m s) = xreg s" "a64_carry (set_a64_mem m s) = a64_carry s"
  "a64_pc (set_a64_mem m s) = a64_pc s" "a64_world (set_a64_mem m s) = (a64_world s)\<lparr>mem := m\<rparr>"
  by (simp_all add: set_a64_mem_def)

lemma a64_return_simps [simp]:
  "xreg (a64_return s) = xreg s" "a64_pc (a64_return s) = xreg s (X 30)" "a64_world (a64_return s) = a64_world s"
  by (simp_all add: a64_return_def)

section \<open>The macros\<close>

definition ZERO_EXTEND :: "bool \<Rightarrow> nat \<Rightarrow> a64_instr list" where
  "ZERO_EXTEND ilp32 argnum = (if ilp32 then [A64 (Uxtw (X argnum))] else [])"

definition SIGN_EXTEND :: "bool \<Rightarrow> nat \<Rightarrow> a64_instr list" where
  "SIGN_EXTEND ilp32 argnum = (if ilp32 then [A64 (Sxtw (X argnum))] else [])"

text \<open>The call of the error function, in a frame of its own.\<close>

definition call_in_frame :: "'k a64_machine \<Rightarrow> string \<Rightarrow> a64_instr list" where
  "call_in_frame M f =
     ARM64_STACK_PROLOG M @ PUSH_FRAME M @ [Bl f] @ POP_FRAME M @ ARM64_STACK_EPILOG M"

definition DO_SYSCALL_64 :: "'k a64_machine \<Rightarrow> u32 \<Rightarrow> string \<Rightarrow> a64_instr list" where
  "DO_SYSCALL_64 M num cerror =
     [A64 (Mov_x_imm (X 16) (ucast num)), Svc, B_cc (length (call_in_frame M (''_'' @ cerror)))] @
     call_in_frame M (''_'' @ cerror)"

definition MI_GET_ADDRESS_64 :: "a64_reg \<Rightarrow> string \<Rightarrow> a64_instr list" where
  "MI_GET_ADDRESS_64 reg var = [Adrp reg var, Add_pageoff reg var]"

definition MI_CALL_EXTERNAL_64 :: "string \<Rightarrow> a64_instr list" where
  "MI_CALL_EXTERNAL_64 name = [Bl name]"

definition SYSCALL_NONAME_64 :: "'k a64_machine \<Rightarrow> string \<Rightarrow> string \<Rightarrow> a64_instr list" where
  "SYSCALL_NONAME_64 M name cerror = DO_SYSCALL_64 M (SYS name) cerror"

definition PSEUDO_64 :: "'k a64_machine \<Rightarrow> string \<Rightarrow> string \<Rightarrow> a64_instr list" where
  "PSEUDO_64 M name cerror = SYSCALL_NONAME_64 M name cerror"

definition SYSCALL_64 :: "'k a64_machine \<Rightarrow> string \<Rightarrow> a64_instr list" where
  "SYSCALL_64 M name = PSEUDO_64 M name ''cerror'' @ [Ret_x30]"

definition SYSCALL2_64 :: "'k a64_machine \<Rightarrow> string \<Rightarrow> string \<Rightarrow> a64_instr list" where
  "SYSCALL2_64 M name cerror = PSEUDO_64 M name cerror @ [Ret_x30]"

section \<open>The stubs\<close>

definition write_code_64 :: "'k a64_machine \<Rightarrow> bool \<Rightarrow> a64_instr list" where
  "write_code_64 M ilp32 = ZERO_EXTEND ilp32 2 @ SYSCALL_NONAME_64 M ''write'' ''darling_cerror'' @ [Ret_x30]"

definition recvmsg_code_64 :: "'k a64_machine \<Rightarrow> a64_instr list" where
  "recvmsg_code_64 M = SYSCALL_NONAME_64 M ''recvmsg'' ''cerror'' @ [Ret_x30]"

definition pipe_code_64 :: "'k a64_machine \<Rightarrow> a64_instr list" where
  "pipe_code_64 M = [A64 (Mov_x (X 9) (X 0))] @ SYSCALL_NONAME_64 M ''pipe'' ''cerror_nocancel'' @
     [A64 (Stp_w (X 0) (X 1) (X 9)), A64 (Mov_x_imm (X 0) 0), Ret_x30]"

definition syscall_code_64 :: "'k a64_machine \<Rightarrow> a64_instr list" where
  "syscall_code_64 M =
     [A64 (Ldp_x (X 1) (X 2) SP 0), A64 (Ldp_x (X 3) (X 4) SP 16), A64 (Ldp_x (X 5) (X 6) SP 32),
      A64 (Ldr_x (X 7) SP 48)] @ DO_SYSCALL_64 M (SYS ''syscall'') ''cerror'' @ [Ret_x30]"

section \<open>Running them\<close>

lemma exec_DO_SYSCALL_64:
  "exec_a64 M S f (DO_SYSCALL_64 M num cerror @ code) s =
     (let v = svc M (set_xreg (X 16) (ucast num) s) in
      exec_a64 M S f (if a64_carry v then call_in_frame M (''_'' @ cerror) @ code else code) v)"
  by (simp add: DO_SYSCALL_64_def Let_def)

lemma exec_MI_GET_ADDRESS_64:
  "exec_a64 M S f (MI_GET_ADDRESS_64 r var @ code) s = exec_a64 M S f code (set_xreg r (a64_symbol_at M var) s)"
proof -
  have "(a AND NOT 0xFFF) + (a AND 0xFFF) = (a :: u64)" for a
  proof -
    have "(a AND NOT 0xFFF) + (a AND 0xFFF) = (a AND NOT 0xFFF) OR (a AND 0xFFF)"
      by (rule disjunctive_add) (auto simp: bit_simps)
    also have "\<dots> = a AND (NOT 0xFFF OR 0xFFF)" by (simp only: bit.conj_disj_distrib)
    finally show ?thesis by simp
  qed
  then show ?thesis by (simp add: MI_GET_ADDRESS_64_def set_xreg_def)
qed

text \<open>
  What the stubs rely on at the trap: the kernel keeps \<open>x9\<close>, where \<open>pipe\<close> has put the address of the
  array, the return address and the stack pointer.
\<close>

definition svc_keeps :: "'k arm64 \<Rightarrow> 'k arm64 \<Rightarrow> bool" where
  "svc_keeps u v \<longleftrightarrow> (\<forall>r \<in> {X 9, X 30, SP}. xreg v r = xreg u r)"

text \<open>The state of \<open>syscall\<close> at the trap: seven words of the stack are in \<open>x1\<close> to \<open>x7\<close>.\<close>

definition syscall_at_svc :: "'k arm64 \<Rightarrow> 'k arm64" where
  "syscall_at_svc s = set_xreg (X 16) 0 (fold a64_step
     [Ldp_x (X 1) (X 2) SP 0, Ldp_x (X 3) (X 4) SP 16, Ldp_x (X 5) (X 6) SP 32, Ldr_x (X 7) SP 48] s)"

lemma syscall_at_svc_word:
  assumes "i < 7"
  shows "xreg (syscall_at_svc s) (X (i + 1)) = load64 (a64_mem s) (xreg s SP + 8 * of_nat i)"
proof -
  have "i \<in> {0, 1, 2, 3, 4, 5, 6}" using assms by auto
  then show ?thesis by (auto simp: syscall_at_svc_def add.assoc)
qed

lemma syscall_at_svc_other:
  "xreg (syscall_at_svc s) (X 0) = xreg s (X 0)" "xreg (syscall_at_svc s) (X 16) = 0"
  "xreg (syscall_at_svc s) (X 30) = xreg s (X 30)" "xreg (syscall_at_svc s) SP = xreg s SP"
  "a64_world (syscall_at_svc s) = a64_world s"
  by (simp_all add: syscall_at_svc_def)

lemma syscall_64_run:
  fixes s :: "'k arm64" and M :: "'k a64_machine"
  defines "v \<equiv> svc M (syscall_at_svc s)"
  shows "exec_a64 M S f (syscall_code_64 M) s =
    (if a64_carry v then exec_a64 M S f (call_in_frame M ''_cerror'' @ [Ret_x30]) v else Inr (a64_return v))"
  by (simp add: syscall_code_64_def exec_DO_SYSCALL_64 SYS_used v_def syscall_at_svc_def Let_def)

lemma pipe_64_run:
  fixes s :: "'k arm64" and M :: "'k a64_machine"
  defines "v \<equiv> svc M (set_xreg (X 16) 42 (set_xreg (X 9) (xreg s (X 0)) s))"
  assumes "svc_keeps (set_xreg (X 16) 42 (set_xreg (X 9) (xreg s (X 0)) s)) v" and "\<not> a64_carry v"
  shows "\<exists>t. exec_a64 M S f (pipe_code_64 M) s = Inr t \<and> xreg t (X 0) = 0 \<and> a64_pc t = xreg s (X 30) \<and>
    xreg t SP = xreg s SP \<and> load32 (a64_mem t) (xreg s (X 0)) = ucast (xreg v (X 0)) \<and>
    load32 (a64_mem t) (xreg s (X 0) + 4) = ucast (xreg v (X 1))"
proof -
  have "exec_a64 M S f (pipe_code_64 M) s =
      Inr (a64_return (set_xreg (X 0) 0 (a64_step (Stp_w (X 0) (X 1) (X 9)) v)))"
    using assms(3) by (simp add: pipe_code_64_def SYSCALL_NONAME_64_def exec_DO_SYSCALL_64 SYS_used v_def Let_def)
  then show ?thesis using assms(2) by (simp add: svc_keeps_def load_pair)
qed

section \<open>Properties\<close>

text \<open>
  C40: The ARM64 stub of \<open>syscall\<close> traps with the number in \<open>x0\<close>, as the caller put it there, and the seven
  words that the caller put on the stack in \<open>x1\<close> to \<open>x7\<close>.  When the trap succeeds it returns to its caller
  with what the kernel left; when it fails it calls \<open>_cerror\<close> in a frame of its own.
\<close>

theorem syscall_stub_arm64:
  fixes s :: "'k arm64" and M :: "'k a64_machine"
  defines "u \<equiv> syscall_at_svc s"
  assumes "i < 7" and "svc_keeps u (svc M u)"
  shows "xreg u (X 16) = ucast (SYS ''syscall'') \<and> xreg u (X 0) = xreg s (X 0) \<and>
    xreg u (X (i + 1)) = load64 (a64_mem s) (xreg s SP + 8 * of_nat i) \<and> a64_world u = a64_world s \<and>
    (if a64_carry (svc M u)
     then exec_a64 M S f (syscall_code_64 M) s =
       exec_a64 M S f (call_in_frame M ''_cerror'' @ [Ret_x30]) (svc M u)
     else \<exists>t. exec_a64 M S f (syscall_code_64 M) s = Inr t \<and> a64_pc t = xreg s (X 30) \<and>
       xreg t SP = xreg s SP \<and> xreg t (X 0) = xreg (svc M u) (X 0) \<and> a64_world t = a64_world (svc M u))"
  using assms(2,3) syscall_at_svc_word [OF assms(2), of s]
  by (simp add: u_def syscall_64_run syscall_at_svc_other SYS_used svc_keeps_def)

section \<open>Witnesses\<close>

definition example_arm64 :: "(c_int \<times> u64 list) list arm64" where
  "example_arm64 =
     \<lparr>xreg = (\<lambda>_. 7)(X 0 := 4, X 30 := 0x1234, SP := 0x8000), a64_carry = True, a64_pc = 0,
      a64_world = example_world\<lparr>mem := store64 (\<lambda>_. 0) 0x8008 0x5000\<rparr>\<rparr>"

definition example_arm64_machine :: "(c_int \<times> u64 list) list a64_machine" where
  "example_arm64_machine =
     \<lparr>svc = (\<lambda>u. (set_xreg (X 0) 5 u)\<lparr>a64_carry := False\<rparr>), a64_code_at = (\<lambda>f n. 0x1000 - 4 * of_nat n),
      a64_symbol_at = (\<lambda>f. 0x5000), ARM64_STACK_PROLOG = [], PUSH_FRAME = [A64 (Push_pair (X 29) (X 30))],
      POP_FRAME = [A64 (Pop_pair (X 29) (X 30))], ARM64_STACK_EPILOG = [Ret_x30]\<rparr>"

text \<open>\<open>syscall (4, \<dots>)\<close> with \<open>0x5000\<close> as its second word on the stack.\<close>

theorem syscall_stub_arm64_witness:
  "xreg (syscall_at_svc example_arm64) (X 2) = 0x5000 \<and>
   (\<exists>t. exec_a64 example_arm64_machine Map.empty ''___syscall'' (syscall_code_64 example_arm64_machine) example_arm64
       = Inr t \<and> xreg t (X 0) = 5 \<and> a64_pc t = 0x1234)"
proof -
  let ?u = "syscall_at_svc example_arm64"
  have "svc_keeps ?u (svc example_arm64_machine ?u)" "\<not> a64_carry (svc example_arm64_machine ?u)"
    "xreg (svc example_arm64_machine ?u) (X 0) = 5"
    by (simp_all add: svc_keeps_def example_arm64_machine_def)
  moreover have "load64 (a64_mem example_arm64) (xreg example_arm64 SP + 8 * of_nat 1) = 0x5000"
    "xreg example_arm64 (X 30) = 0x1234"
    by (simp_all add: example_arm64_def q.ld_st_same)
  ultimately show ?thesis
    using syscall_stub_arm64 [of 1 example_arm64 example_arm64_machine Map.empty "''___syscall''"]
    by (auto simp: numeral_2_eq_2)
qed

end
