(* ===== verification/Object_Files.thy ===== *)
theory Object_Files
  imports Libsyscall Stubs_I386 Stubs_Arm Stubs_Arm64
begin

text \<open>
  The stubs as the assembler sees them: files of instructions and directives, and the symbols of the object
  files.  The directives are those of the declaration macros of \<open>asm_help.h\<close> and of the alternate names at
  the end of each stub.  A symbol stands for the instructions after its label; \<open>.set\<close> makes a symbol stand
  for what another one does.

  On macOS the name of a C function has an underscore in front, on Linux it has not; \<open>apple\<close> says that
  \<open>__APPLE__\<close> is defined.
\<close>

section \<open>Files\<close>

datatype symbol_value = Symbol string | Number int

datatype 'i item =
    Instr 'i
  | Label string
  | Globl string
  | Set_symbol string symbol_value
  | Align_code
  | Section string
  | Common string nat
  | Local_common string nat
  | Reference string

fun instructions :: "'i item list \<Rightarrow> 'i list" where
  "instructions [] = []"
| "instructions (Instr i # items) = i # instructions items"
| "instructions (_ # items) = instructions items"

fun after_label :: "string \<Rightarrow> 'i item list \<Rightarrow> 'i item list option" where
  "after_label f [] = None"
| "after_label f (Label g # items) = (if f = g then Some items else after_label f items)"
| "after_label f (_ # items) = after_label f items"

fun symbol_set :: "string \<Rightarrow> 'i item list \<Rightarrow> symbol_value option" where
  "symbol_set f [] = None"
| "symbol_set f (Set_symbol g v # items) = (if f = g then Some v else symbol_set f items)"
| "symbol_set f (_ # items) = symbol_set f items"

fun globals :: "'i item list \<Rightarrow> string list" where
  "globals [] = []"
| "globals (Globl f # items) = f # globals items"
| "globals (_ # items) = globals items"

definition symbol_code :: "'i item list \<Rightarrow> string \<Rightarrow> 'i list option" where
  "symbol_code items f =
     map_option instructions
       (case symbol_set f items of
          None \<Rightarrow> after_label f items
        | Some (Symbol g) \<Rightarrow> after_label g items
        | Some (Number n) \<Rightarrow> None)"

text \<open>The functions that a file exports, and the global names it declares without defining them.\<close>

definition exported :: "'i item list \<Rightarrow> string list" where
  "exported items = filter (\<lambda>f. symbol_code items f \<noteq> None) (globals items)"

definition undefined_globals :: "'i item list \<Rightarrow> string list" where
  "undefined_globals items = filter (\<lambda>f. symbol_code items f = None) (globals items)"

section \<open>The declaration macros of \<open>asm_help.h\<close>\<close>

definition ALIGN :: "'i item list" where "ALIGN = [Align_code]"
definition TEXT :: "'i item list" where "TEXT = [Section ''text'']"
definition DATA :: "'i item list" where "DATA = [Section ''data'']"

definition LABEL :: "string \<Rightarrow> 'i item list" where
  "LABEL name = [Globl name, Label name]"

text \<open>A procedure: its declaration and the code of its prologue, which \<open>LEAF\<close> and \<open>NESTED\<close> give.\<close>

definition declare_LEAF :: "string \<Rightarrow> 'i list \<Rightarrow> 'i item list" where
  "declare_LEAF name prologue = [Globl name] @ ALIGN @ [Label name] @ map Instr prologue"

definition X_LEAF :: "string \<Rightarrow> symbol_value \<Rightarrow> 'i item list" where
  "X_LEAF name v = [Globl name, Set_symbol name v]"

definition P_LEAF :: "string \<Rightarrow> 'i list \<Rightarrow> 'i item list" where
  "P_LEAF name prologue = ALIGN @ [Label name] @ map Instr prologue"

definition declare_NESTED :: "string \<Rightarrow> 'i list \<Rightarrow> 'i item list" where
  "declare_NESTED name prologue = [Globl name] @ ALIGN @ [Label name] @ map Instr prologue"

definition X_NESTED :: "string \<Rightarrow> symbol_value \<Rightarrow> 'i item list" where
  "X_NESTED name v = [Globl name, Set_symbol name v]"

definition P_NESTED :: "string \<Rightarrow> 'i list \<Rightarrow> 'i item list" where
  "P_NESTED name prologue = ALIGN @ [Label name] @ map Instr prologue"

definition IMPORT :: "string \<Rightarrow> 'i item list" where "IMPORT name = [Reference name]"
definition ABS :: "string \<Rightarrow> symbol_value \<Rightarrow> 'i item list" where "ABS name v = [Globl name, Set_symbol name v]"
definition P_ABS :: "string \<Rightarrow> symbol_value \<Rightarrow> 'i item list" where "P_ABS name v = [Set_symbol name v]"
definition EXPORT :: "string \<Rightarrow> 'i item list" where "EXPORT name = [Globl name, Label name]"
definition BSS :: "string \<Rightarrow> nat \<Rightarrow> 'i item list" where "BSS name size_bytes = [Common name size_bytes]"
definition P_BSS :: "string \<Rightarrow> nat \<Rightarrow> 'i item list" where "P_BSS name size_bytes = [Local_common name size_bytes]"

lemmas declaration_defs = ALIGN_def TEXT_def DATA_def LABEL_def declare_LEAF_def X_LEAF_def P_LEAF_def
  declare_NESTED_def X_NESTED_def P_NESTED_def ABS_def P_ABS_def EXPORT_def

text \<open>The pair of lines at the end of the stubs: \<open>.globl name; .set name, target\<close>.\<close>

definition alternate_name :: "string \<Rightarrow> string \<Rightarrow> 'i item list" where
  "alternate_name name target = [Globl name, Set_symbol name (Symbol target)]"

section \<open>Reading files\<close>

lemma instructions_append [simp]: "instructions (xs @ ys) = instructions xs @ instructions ys"
  by (induction xs rule: instructions.induct) simp_all

lemma instructions_Instr [simp]: "instructions (map Instr code) = code"
  by (induction code) simp_all

lemma code_is_no_declaration [simp]:
  "after_label f (map Instr code @ items) = after_label f items"
  "symbol_set f (map Instr code @ items) = symbol_set f items" "globals (map Instr code @ items) = globals items"
  "after_label f (map Instr code) = None" "symbol_set f (map Instr code) = None" "globals (map Instr code) = []"
  by (induction code) simp_all

text \<open>
  What the macros are for: a leaf, a nested function and a label export their names for the code that
  follows, a private one defines its name without exporting it, and an alternate name stands for the same
  code as the first.
\<close>

lemma declared_code:
  "symbol_code (declare_LEAF f prologue @ map Instr code) f = Some (prologue @ code)"
  "symbol_code (declare_NESTED f prologue @ map Instr code) f = Some (prologue @ code)"
  "symbol_code (P_LEAF f prologue @ map Instr code) f = Some (prologue @ code)"
  "symbol_code (LABEL f @ map Instr code) f = Some code"
  "exported (declare_LEAF f prologue @ map Instr code) = [f]"
  "exported (P_LEAF f prologue @ map Instr code) = []" "exported (LABEL f @ map Instr code) = [f]"
  by (simp_all add: symbol_code_def exported_def declaration_defs)

lemma alternate_code:
  assumes "f \<noteq> g"
  shows "symbol_code (declare_LEAF f prologue @ map Instr code @ X_LEAF g (Symbol f)) g = Some (prologue @ code)"
    and "exported (declare_LEAF f prologue @ map Instr code @ X_LEAF g (Symbol f)) = [f, g]"
  using assms by (simp_all add: symbol_code_def exported_def declaration_defs)

section \<open>The files of x86-64\<close>

definition c_name :: "bool \<Rightarrow> string \<Rightarrow> string" where
  "c_name apple f = (if apple then ''_'' @ f else f)"

text \<open>The error function is declared without the underscore on macOS too, and called with it.\<close>

definition UNIX_SYSCALL_NONAME_file :: "bool \<Rightarrow> string \<Rightarrow> string \<Rightarrow> instr item list" where
  "UNIX_SYSCALL_NONAME_file apple name cerror =
     [Globl cerror] @ map Instr (UNIX_SYSCALL_NONAME name (c_name apple cerror))"

definition UNIX_SYSCALL_file :: "bool \<Rightarrow> string \<Rightarrow> instr item list" where
  "UNIX_SYSCALL_file apple name =
     [Globl ''darling_cerror''] @ declare_LEAF (''_'' @ name) (LEAF 0) @
     map Instr
       ([Op (Movl_imm (SYSCALL_CONSTRUCT_UNIX (SYS name)) RAX)] @ UNIX_SYSCALL_SYSCALL @
        [Jnb 2, Op (Mov RAX RDI)] @ BRANCH_EXTERN (if apple then ''_darling_cerror'' else ''darling_cerror''))"

lemma UNIX_SYSCALL_symbol: "symbol_code (UNIX_SYSCALL_file False name) (''_'' @ name) = Some (UNIX_SYSCALL name)"
  by (simp add: symbol_code_def UNIX_SYSCALL_file_def UNIX_SYSCALL_def declaration_defs)

definition PSEUDO_file :: "bool \<Rightarrow> string \<Rightarrow> string \<Rightarrow> string \<Rightarrow> instr item list" where
  "PSEUDO_file apple pseudo name cerror =
     declare_LEAF pseudo (LEAF 0) @ UNIX_SYSCALL_NONAME_file apple name cerror"

definition pipe_names :: "bool \<Rightarrow> 'i item list" where
  "pipe_names apple = alternate_name (if apple then ''_darling_pipe'' else ''darling_pipe'') ''___darling_pipe''"

definition syscall_names :: "bool \<Rightarrow> 'i item list" where
  "syscall_names apple =
     alternate_name (if apple then ''_darling_syscall'' else ''darling_syscall'') ''___darling_syscall''"

definition recvmsg_names :: "'i item list" where
  "recvmsg_names = alternate_name ''_darling_recvmsg'' ''___darling_recvmsg''"

definition write_file :: "bool \<Rightarrow> instr item list" where
  "write_file apple =
     PSEUDO_file apple (if apple then ''_darling_write'' else ''darling_write'') ''write'' ''darling_cerror'' @
     map Instr [Ret]"

definition pipe_file :: "bool \<Rightarrow> instr item list" where
  "pipe_file apple =
     PSEUDO_file apple ''___darling_pipe'' ''pipe'' ''darling_cerror_nocancel'' @
     map Instr [Op (Movl_store RAX 0 RDI), Op (Movl_store RDX 4 RDI), Op (Xorl_self RAX), Ret] @
     pipe_names apple"

definition syscall_file :: "bool \<Rightarrow> instr item list" where
  "syscall_file apple =
     PSEUDO_file apple ''___darling_syscall'' ''syscall'' ''darling_cerror'' @ map Instr [Ret] @
     syscall_names apple"

definition recvmsg_file :: "bool \<Rightarrow> instr item list" where
  "recvmsg_file apple =
     PSEUDO_file apple ''___darling_recvmsg'' ''recvmsg'' ''cerror'' @ map Instr [Ret] @
     recvmsg_names"

lemmas file_defs = pipe_names_def syscall_names_def recvmsg_names_def write_file_def pipe_file_def syscall_file_def recvmsg_file_def PSEUDO_file_def
  UNIX_SYSCALL_NONAME_file_def declaration_defs alternate_name_def c_name_def

section \<open>The files of i386\<close>

definition write_names_32 :: "'i item list" where
  "write_names_32 = alternate_name ''_darling_write$UNIX2003'' ''___darling_write''"

definition recvmsg_names_32 :: "'i item list" where
  "recvmsg_names_32 = alternate_name ''_recvmsg$UNIX2003'' ''___recvmsg''"

definition pipe_names_32 :: "'i item list" where
  "pipe_names_32 = alternate_name ''_pipe'' ''___pipe''"

definition syscall_names_32 :: "'i item list" where
  "syscall_names_32 = alternate_name ''_syscall'' ''___syscall''"

lemmas names_32_defs = write_names_32_def recvmsg_names_32_def pipe_names_32_def syscall_names_32_def

definition write_file_32 :: "bool \<Rightarrow> instr32 item list" where
  "write_file_32 dyn =
     declare_LEAF ''___darling_write'' (LEAF_32 0) @
     map Instr (UNIX_SYSCALL_NONAME_32 dyn (Some 12) ''write'' ''darling_cerror'' @ [Ret32]) @
     write_names_32"

definition recvmsg_file_32 :: "bool \<Rightarrow> instr32 item list" where
  "recvmsg_file_32 dyn =
     declare_LEAF ''___darling_recvmsg'' (LEAF_32 0) @
     map Instr (UNIX_SYSCALL_NONAME_32 dyn (Some 12) ''recvmsg'' ''cerror'' @ [Ret32]) @
     recvmsg_names_32"

definition pipe_file_32 :: "bool \<Rightarrow> instr32 item list" where
  "pipe_file_32 dyn =
     declare_LEAF ''___pipe'' (LEAF_32 0) @ [Globl ''tramp_cerror_nocancel''] @
     map Instr (UNIX_SYSCALL_INT_NONAME dyn ''pipe'' @
       [Op32 (Movl_from 4 ESP ECX), Op32 (Movl_to EAX 0 ECX), Op32 (Movl_to EDX 4 ECX), Op32 (Xorl EAX), Ret32]) @
     pipe_names_32"

text \<open>The code of \<open>syscall\<close> begins with the prologue of its \<open>LEAF\<close>.\<close>

definition syscall_file_32 :: "bool \<Rightarrow> instr32 item list" where
  "syscall_file_32 dyn =
     declare_LEAF ''___syscall'' [] @ map Instr (syscall_code_32 dyn) @ syscall_names_32"

section \<open>The files of ARM and ARM64\<close>

definition MI_ENTRY_POINT :: "string \<Rightarrow> 'i item list" where
  "MI_ENTRY_POINT name = TEXT @ ALIGN @ [Globl name, Label name]"

definition PSEUDO_arm_file :: "string \<Rightarrow> arm_instr list \<Rightarrow> arm_instr item list" where
  "PSEUDO_arm_file pseudo code = [Globl pseudo] @ TEXT @ ALIGN @ [Label pseudo] @ map Instr code"

definition write_file_arm :: "bool \<Rightarrow> bool \<Rightarrow> arm_instr item list option" where
  "write_file_arm v7k dyn = map_option (PSEUDO_arm_file ''___darling_write'') (write_code_arm v7k dyn)"

definition pipe_file_arm :: "bool \<Rightarrow> bool \<Rightarrow> arm_instr item list option" where
  "pipe_file_arm v7k dyn =
     map_option (\<lambda>code. MI_ENTRY_POINT ''___pipe'' @ map Instr code) (pipe_code_arm v7k dyn)"

definition syscall_file_arm :: "bool \<Rightarrow> bool \<Rightarrow> arm_instr item list option" where
  "syscall_file_arm v7k dyn = map_option (PSEUDO_arm_file ''___syscall'') (syscall_code_arm v7k dyn)"

text \<open>\<open>___recvmsg.S\<close> has no code for 32-bit ARM.\<close>

definition recvmsg_file_arm :: "arm_instr item list" where
  "recvmsg_file_arm = []"

definition recvmsg_names_64 :: "'i item list" where
  "recvmsg_names_64 = alternate_name ''_recvmsg'' ''___recvmsg''"

definition pipe_names_64 :: "'i item list" where
  "pipe_names_64 = alternate_name ''_pipe'' ''___pipe''"

definition syscall_names_64 :: "'i item list" where
  "syscall_names_64 = alternate_name ''_syscall'' ''___syscall''"

definition write_file_64 :: "'k a64_machine \<Rightarrow> bool \<Rightarrow> a64_instr item list" where
  "write_file_64 M ilp32 = MI_ENTRY_POINT ''_darling_write'' @ map Instr (write_code_64 M ilp32)"

definition recvmsg_file_64 :: "'k a64_machine \<Rightarrow> a64_instr item list" where
  "recvmsg_file_64 M =
     MI_ENTRY_POINT ''___recvmsg'' @ map Instr (recvmsg_code_64 M) @ recvmsg_names_64"

definition pipe_file_64 :: "'k a64_machine \<Rightarrow> a64_instr item list" where
  "pipe_file_64 M = MI_ENTRY_POINT ''___pipe'' @ map Instr (pipe_code_64 M) @ pipe_names_64"

definition syscall_file_64 :: "'k a64_machine \<Rightarrow> a64_instr item list" where
  "syscall_file_64 M =
     MI_ENTRY_POINT ''___syscall'' @ map Instr (syscall_code_64 M) @ syscall_names_64"

section \<open>Their symbols\<close>

lemma symbols_x86_64:
  "exported (write_file apple) = [c_name apple ''darling_write'']"
  "exported (pipe_file apple) = [''___darling_pipe'', c_name apple ''darling_pipe'']"
  "exported (syscall_file apple) = [''___darling_syscall'', c_name apple ''darling_syscall'']"
  "exported (recvmsg_file apple) = [''___darling_recvmsg'', ''_darling_recvmsg'']"
  by (simp_all add: exported_def symbol_code_def file_defs)

lemma symbols_i386:
  "exported (write_file_32 dyn) = [''___darling_write'', ''_darling_write$UNIX2003'']"
  "exported (pipe_file_32 dyn) = [''___pipe'', ''_pipe'']" "exported (syscall_file_32 dyn) = [''___syscall'', ''_syscall'']"
  "exported (recvmsg_file_32 dyn) = [''___darling_recvmsg'']"
  "undefined_globals (recvmsg_file_32 dyn) = [''_recvmsg$UNIX2003'']"
  by (simp_all add: exported_def undefined_globals_def symbol_code_def write_file_32_def pipe_file_32_def
      syscall_file_32_def recvmsg_file_32_def names_32_defs declaration_defs alternate_name_def)

lemma symbols_arm:
  "write_file_arm v7k dyn = Some file \<Longrightarrow> exported file = [''___darling_write'']"
  "pipe_file_arm v7k dyn = Some file \<Longrightarrow> exported file = [''___pipe'']"
  "syscall_file_arm v7k dyn = Some file \<Longrightarrow> exported file = [''___syscall'']"
  "exported recvmsg_file_arm = []"
  by (auto simp: exported_def symbol_code_def write_file_arm_def pipe_file_arm_def syscall_file_arm_def
      recvmsg_file_arm_def PSEUDO_arm_file_def MI_ENTRY_POINT_def declaration_defs)

lemma symbols_arm64:
  "exported (write_file_64 M ilp32) = [''_darling_write'']" "exported (pipe_file_64 M) = [''___pipe'', ''_pipe'']"
  "exported (syscall_file_64 M) = [''___syscall'', ''_syscall'']"
  "exported (recvmsg_file_64 M) = [''___recvmsg'', ''_recvmsg'']"
  by (simp_all add: exported_def symbol_code_def write_file_64_def pipe_file_64_def syscall_file_64_def
      recvmsg_file_64_def recvmsg_names_64_def pipe_names_64_def syscall_names_64_def MI_ENTRY_POINT_def declaration_defs alternate_name_def)

section \<open>Names and code\<close>

text \<open>
  The object files give the C names to the code.  On Linux and macOS \<open>darling_write\<close>, \<open>darling_pipe\<close> and
  \<open>darling_syscall\<close> are exported under the name that C gives them, and on Linux they stand for the code whose
  runs the other theorems describe.  \<open>darling_recvmsg\<close> is exported under its macOS name only, whatever the
  system; and on i386 its alternate name is set to a symbol that the file does not define.
\<close>

lemma stub_symbols:
  "symbol_code (write_file False) ''darling_write'' = Some write_code \<and>
   symbol_code (pipe_file False) ''darling_pipe'' = Some pipe_code \<and>
   symbol_code (syscall_file False) ''darling_syscall'' = Some syscall_code \<and>
   symbol_code (recvmsg_file False) ''_darling_recvmsg'' = Some recvmsg_code \<and>
   c_name apple ''darling_write'' \<in> set (exported (write_file apple)) \<and>
   c_name apple ''darling_pipe'' \<in> set (exported (pipe_file apple)) \<and>
   c_name apple ''darling_syscall'' \<in> set (exported (syscall_file apple)) \<and>
   (c_name apple ''darling_recvmsg'' \<in> set (exported (recvmsg_file apple)) \<longleftrightarrow> apple) \<and>
   undefined_globals (recvmsg_file_32 dyn) = [''_recvmsg$UNIX2003'']"
proof (intro conjI)
  show "symbol_code (write_file False) ''darling_write'' = Some write_code"
    "symbol_code (pipe_file False) ''darling_pipe'' = Some pipe_code"
    "symbol_code (syscall_file False) ''darling_syscall'' = Some syscall_code"
    "symbol_code (recvmsg_file False) ''_darling_recvmsg'' = Some recvmsg_code"
    by (simp_all add: symbol_code_def file_defs write_code_def pipe_code_def syscall_code_def recvmsg_code_def
        SYSCALL2_def SYSCALL_def PSEUDO_def)
qed (simp_all add: symbols_x86_64 symbols_i386(5), simp add: c_name_def)

end
