(* ===== verification/Headers.thy ===== *)
theory Headers
  imports Prelude
begin

text \<open>
  Headers that define macros without a value under conditions: \<open>src/include/sys/appleapiopts.h\<close>, as a
  function of the macros that are defined where it is included; and the header that
  \<open>src/include/mach/machine/syscall_sw.h\<close> chooses.
\<close>

section \<open>\<open>appleapiopts.h\<close>\<close>

definition ifndef :: "string \<Rightarrow> (string list \<Rightarrow> string list) \<Rightarrow> string list \<Rightarrow> string list" where
  "ifndef name body defined = (if name \<in> set defined then defined else body defined)"

definition define_macro :: "string \<Rightarrow> string list \<Rightarrow> string list" where
  "define_macro name defined = name # defined"

definition appleapiopts :: "string list \<Rightarrow> string list" where
  "appleapiopts =
     ifndef ''__SYS_APPLEAPIOPTS_H__''
       (ifndef ''__APPLE_API_STRICT_CONFORMANCE''
          (ifndef ''__APPLE_API_OBSOLETE'' (define_macro ''__APPLE_API_OBSOLETE'') \<circ>
           ifndef ''__APPLE_API_PRIVATE'' (define_macro ''__APPLE_API_PRIVATE'') \<circ>
           ifndef ''__APPLE_API_UNSTABLE'' (define_macro ''__APPLE_API_UNSTABLE'') \<circ>
           ifndef ''__APPLE_API_EVOLVING'' (define_macro ''__APPLE_API_EVOLVING'')) \<circ>
        ifndef ''__APPLE_API_STABLE'' (define_macro ''__APPLE_API_STABLE'') \<circ>
        ifndef ''__APPLE_API_STANDARD'' (define_macro ''__APPLE_API_STANDARD'') \<circ>
        define_macro ''__SYS_APPLEAPIOPTS_H__'')"

lemma set_ifndef_define [simp]: "set (ifndef n (define_macro n) ds) = insert n (set ds)"
  by (auto simp: ifndef_def define_macro_def)

lemma set_define_macro [simp]: "set (define_macro n ds) = insert n (set ds)"
  by (simp add: define_macro_def)

text \<open>
  A header of this shape, for any names: it is skipped where its guard \<open>g\<close> is defined; \<open>c\<close> leaves out the last
  four macros.
\<close>

lemma guarded_defines:
  assumes "g \<notin> set ds" and "c \<noteq> g" and "c \<noteq> a" and "c \<noteq> b"
  shows "set (ifndef g (ifndef c (ifndef w (define_macro w) \<circ> ifndef x (define_macro x) \<circ>
             ifndef y (define_macro y) \<circ> ifndef z (define_macro z)) \<circ>
           ifndef a (define_macro a) \<circ> ifndef b (define_macro b) \<circ> define_macro g) ds) =
         (if c \<in> set ds then {a, b, g} else {w, x, y, z, a, b, g}) \<union> set ds"
  using assms by (simp add: ifndef_def [of g] ifndef_def [of c])

text \<open>What \<open>appleapiopts.h\<close> defines: all six, or the first two where only the standard ones are wanted.\<close>

lemma appleapiopts_defines:
  assumes "''__SYS_APPLEAPIOPTS_H__'' \<notin> set ds"
  shows "set (appleapiopts ds) =
    (if ''__APPLE_API_STRICT_CONFORMANCE'' \<in> set ds
     then {''__APPLE_API_STABLE'', ''__APPLE_API_STANDARD'', ''__SYS_APPLEAPIOPTS_H__''}
     else {''__APPLE_API_OBSOLETE'', ''__APPLE_API_PRIVATE'', ''__APPLE_API_UNSTABLE'', ''__APPLE_API_EVOLVING'',
           ''__APPLE_API_STABLE'', ''__APPLE_API_STANDARD'', ''__SYS_APPLEAPIOPTS_H__''}) \<union> set ds"
  unfolding appleapiopts_def by (rule guarded_defines [OF assms]) simp_all

lemma guard_defined: "g \<in> set ds \<Longrightarrow> ifndef g body ds = ds"
  by (simp add: ifndef_def)

text \<open>A second inclusion changes nothing.\<close>

lemma appleapiopts_once: "appleapiopts (appleapiopts ds) = appleapiopts ds"
proof (cases "''__SYS_APPLEAPIOPTS_H__'' \<in> set ds")
  case True
  then have "appleapiopts ds = ds" unfolding appleapiopts_def by (rule guard_defined)
  then show ?thesis by simp
next
  case False
  have "''__SYS_APPLEAPIOPTS_H__'' \<in> set (appleapiopts ds)"
    unfolding appleapiopts_defines [OF False] by (simp split: if_split)
  then show ?thesis by (simp add: guard_defined appleapiopts_def)
qed

section \<open>\<open>mach/machine/syscall_sw.h\<close>\<close>

text \<open>
  The header that is included, if any; \<open>Inl\<close> is the error of an architecture that is not supported. The header is
  for the kernel's own sources (\<open>PRIVATE\<close>), and once in a file.
\<close>

definition machine_syscall_sw :: "string list \<Rightarrow> string + string option" where
  "machine_syscall_sw defined =
     (if ''PRIVATE'' \<notin> set defined \<or> ''_MACH_MACHINE_SYSCALL_SW_H_'' \<in> set defined then Inr None
      else if ''__i386__'' \<in> set defined \<or> ''__x86_64__'' \<in> set defined then Inr (Some ''mach/i386/syscall_sw.h'')
      else if ''__arm__'' \<in> set defined \<or> ''__arm64__'' \<in> set defined then Inr (Some ''mach/arm/syscall_sw.h'')
      else Inl ''architecture not supported'')"

end
