(* ===== verification/Spec2Isabelle.thy ===== *)
theory Spec2Isabelle
  imports Session Socket_Test Macos_Tests Tsd_Keys Linking Object_Files Headers
begin

text \<open>
  A model of the system call layer of Darling (the rework that runs without a kernel extension): a
  macOS program calls a stub of \<open>libsyscall\<close>; the stub does not trap into the kernel but calls an
  assembly bridge, which hands the saved registers to a C handler; the handler decodes the number,
  collects the arguments and dispatches to an emulated BSD system call; that one calls the host (the
  Linux kernel, or the libc of macOS), converting numbers and structures; and the result travels the
  same way back, into \<open>rax\<close>, \<open>rdx\<close>, the carry flag and \<open>errno\<close>.  Paths are relative to
  \<open>src/libsystem_kernel/\<close>, those of the emulation to \<open>src/libsystem_kernel/emulation/\<close>.

  Theories, in the order of the calls from the bottom up:

  \<^item> \<open>Prelude\<close>: C integers as machine words, byte-addressed memory with little-endian cells (locale
    \<open>cell_memory\<close>, interpreted for 4 and 8 bytes), C strings, the faults.
  \<^item> \<open>Errno\<close>: \<open>src/conversion/errno.c\<close>, \<open>include/conversion/duct_errno.h\<close>.
  \<^item> \<open>Network_Conversion\<close>: \<open>src/conversion/network/duct.c\<close>, address families and message flags.
  \<^item> \<open>Sysnums\<close>: the BSD numbers (\<open>include/sys/syscall.h\<close>) and the Linux numbers of i386 and
    x86-64 (\<open>include/linux_premigration/linux-syscalls/\<close>); \<open>Linux_Generic\<close>: those of ARM64, with the
    conditions of the preprocessor and their interpretation.
  \<^item> \<open>Kernel_Interface\<close>: the structures of \<open>include/xnu_syscall/\<close>, the state of the world, the host, and
    the way down to it (\<open>common/base.h\<close>, \<open>common/base.c\<close>).
  \<^item> \<open>Vchroot\<close>: the stubs of the translation of paths (\<open>src/linux_premigration/vchroot_userspace.c\<close>), and the
    constants of \<open>common_at.h\<close>.
  \<^item> \<open>Sockaddr\<close>: \<open>src/xnu_syscall/bsd/helper/network/duct.c\<close>.
  \<^item> \<open>Syscalls\<close>: \<open>write\<close>, \<open>pipe\<close>, \<open>recvfrom\<close>, \<open>syscall\<close> (\<open>src/xnu_syscall/bsd/impl/\<close>), and the interface
    \<open>system_call\<close> that each keeps.
  \<^item> \<open>Dispatch\<close>: \<open>src/xnu_syscall/syscall.c\<close> and its tables; the interface \<open>args_constructor\<close>.
  \<^item> \<open>Cbridge\<close>: \<open>src/xnu_syscall/syscall_cbridge.c\<close>, on the registers saved in memory.
  \<^item> \<open>Machine\<close>, \<open>Asmbridge\<close>: x86-64, and \<open>syscall_asmbridge.S\<close> and \<open>linux-syscall.S\<close> as lists of
    instructions.
  \<^item> \<open>Asm_Help\<close>: the macros of \<open>asm_help.h\<close> and \<open>reg_help.h\<close> for x86-64.
  \<^item> \<open>Requests\<close>: the specification \<open>unix_service\<close> of a request, and that the handler implements it.
  \<^item> \<open>Trap\<close>: the bridge as its caller sees it; the interface \<open>syscall_trap\<close> that it provides.
  \<^item> \<open>Libsyscall\<close>: the stubs, the macros of \<open>SYS.h\<close>, \<open>custom/errno.c\<close>, and the calls end to end.
  \<^item> \<open>Indirect_Calls\<close>: \<open>recvfrom\<close> through \<open>syscall\<close>, with an argument on the stack, and that every call
    returns or meets one of three faults; \<open>Self_Tests\<close>: the assembly tests of \<open>src/test/\<close> and the C
    programs with one call; \<open>Run_Tests\<close>: those that go on with the C library, and \<open>Socket_Test\<close> the two threads of the
    test of \<open>recvfrom\<close>; \<open>Macos_Tests\<close>: the stubs that
    the tests have on macOS, with \<open>syscall\<close> instructions.
  \<^item> \<open>Linking\<close>: a static check of linked code, and its soundness: which faults a stub can meet.
  \<^item> \<open>Machine_I386\<close>, \<open>Stubs_I386\<close>: the i386 machine, and the i386 branches of the helper macros, of \<open>SYS.h\<close>,
    of the stubs and of \<open>linux-syscall.S\<close>; \<open>Memory32\<close>: the memory of 32-bit processes.
  \<^item> \<open>Machine_Arm\<close>, \<open>Stubs_Arm\<close>, \<open>Stubs_Arm64\<close>: the ARM and ARM64 branches of \<open>SYS.h\<close> and of the stubs,
    down to the trap.
  \<^item> \<open>Object_Files\<close>: the stubs as files with directives, the macros that declare symbols, and which symbol of
    which file stands for which code, on every architecture.
  \<^item> \<open>Headers\<close>: \<open>appleapiopts.h\<close> as a function of the macros that are defined.
  \<^item> \<open>Tsd_Keys\<close>: the keys of thread-specific data (\<open>src/include/pthread/tsd_private.h\<close>).
  \<^item> \<open>Session\<close>: the life of a process as a labelled transition system over the entry points of the emulation, and
    what it finds in \<open>errno\<close>.

  State.  A \<open>world\<close> holds the state of the host's kernel (a type parameter), the memory of the
  process, what was printed, and \<open>darling_errno\<close> of the one thread that is modelled.  A \<open>cpu\<close> adds the
  registers and flags.  An operation that can fail for good returns \<open>fault + \<dots>\<close>: \<open>__builtin_trap\<close>, a
  null pointer, an array index out of bounds, a misaligned stack, a return to elsewhere, an undefined
  symbol.  Errors of the emulated calls are error numbers, as in the code.

  Parameters (the record \<open>env\<close>, and \<open>machine\<close> for the assembly): the Linux kernel, the libc of macOS,
  the numbers of the host's \<open><errno.h>\<close> and \<open><sys/socket.h>\<close>, addresses that the linker and compiler
  choose, the contents of uninitialised variables and of registers and stack that a C function may
  clobber.  Hypotheses on them are explicit: \<open>enosys_is_error\<close> (the host's \<open>ENOSYS\<close> is none of 0, -1,
  -2), \<open>stack_discipline\<close> (C functions write only below the stack pointer), \<open>kernel_writes\<close>,
  \<open>kernel_pipes\<close> and \<open>kernel_receives\<close> (what the kernel answers to the one call that a theorem is about, asked with
  the arguments the code hands over, and what it writes to memory), \<open>kernel_spares\<close> (the call at hand does not
  write to the frames of the stub and the bridge), \<open>new_pipe\<close> (the ends of a pipe the kernel has just made work).  The example host and machine
  meet them all.  The tests take the C library and the kernel of macOS as further parameters.

  What the lemmas show.  Safety: no request reaches \<open>__builtin_trap\<close>, leaves an array or depends on an
  uninitialised variable.  Refinement: the handler computes \<open>unix_service\<close>; the bridge delivers its
  answer and restores every other register; the stub of \<open>pipe\<close> gives it its C meaning, and that of
  \<open>write\<close> does so but for the count, cut to an \<open>int\<close>, and the sign of the errors.
  Equivalence: an indirect call is the direct one.  Round trips and bounds: numbers, flags, families,
  addresses, error numbers, tables.  Errors: unimplemented numbers, errors of the kernel, and where
  they go wrong (the findings).  Types: code that passes the check of \<open>Linking\<close> meets no fault but those
  of the stack and of the data of \<open>recvfrom\<close>.  Other architectures: the arguments arrive at the trap, and
  the stub returns with the registers and the stack of its caller.

  Bounds: the C functions' frames are given \<open>C_STACK\<close> (64 KiB) below the bridge; nothing depends on
  the value but the size of the stack region that a call may overwrite.  Loops are structural or have
  a measure; there is no fuel.

  Not modelled: the bridge that an i386 stub calls (\<open>__darling_bsd_syscall\<close>) and the traps of ARM and
  ARM64, which are not in the repository and which the theorems quantify over;
  the creation of threads in \<open>src/test/\<close>; \<open>_start\<close> of \<open>common/base.c\<close>; threads (\<open>darling_errno\<close> is thread-local and the rest has no shared
  state); the text of \<open>printf\<close> beyond its kind and number.
\<close>

end
